(* ===== verification/Prelude.thy ===== *)
theory Prelude
  imports Main
begin

text \<open>
  Shared vocabulary of the development: the JavaScript string operations the source uses,
  decimal numerals, and the generic facts about lists and searches that the component
  theories build on.

  A JavaScript string is modelled as a list of characters with codes 0 to 255.  Every
  identifier, amount, address, token and message of the source is ASCII, so length, index
  and comparison agree with the code on the inputs it accepts; case conversion is the ASCII
  one.  The collection \<open>row_simps\<close> gathers the equations about row lists, \<open>str_simps\<close> the
  ones about strings.
\<close>

named_theorems str_simps "equations on strings and numerals"
named_theorems row_simps "equations on lists of table rows"

text \<open>What decides equations between string literals, for tables with many names.\<close>

lemmas literal_eq = list.inject list.distinct char.inject simp_thms if_True if_False

section \<open>Characters\<close>

definition code_of :: "char \<Rightarrow> nat" where
  "code_of c = of_char c"

definition is_digit :: "char \<Rightarrow> bool" where
  "is_digit c \<longleftrightarrow> 48 \<le> code_of c \<and> code_of c \<le> 57"

definition is_upper :: "char \<Rightarrow> bool" where
  "is_upper c \<longleftrightarrow> 65 \<le> code_of c \<and> code_of c \<le> 90"

definition is_lower :: "char \<Rightarrow> bool" where
  "is_lower c \<longleftrightarrow> 97 \<le> code_of c \<and> code_of c \<le> 122"

definition is_hex :: "char \<Rightarrow> bool" where
  "is_hex c \<longleftrightarrow> is_digit c \<or> (65 \<le> code_of c \<and> code_of c \<le> 70) \<or> (97 \<le> code_of c \<and> code_of c \<le> 102)"

text \<open>White space as \<open>String.prototype.trim\<close> removes it, within the modelled character range.\<close>

definition is_space :: "char \<Rightarrow> bool" where
  "is_space c \<longleftrightarrow> (9 \<le> code_of c \<and> code_of c \<le> 13) \<or> code_of c = 32 \<or> code_of c = 160"

definition digit_val :: "char \<Rightarrow> nat" where
  "digit_val c = code_of c - 48"

definition digit_char :: "nat \<Rightarrow> char" where
  "digit_char n = char_of (48 + n)"

definition lower_char :: "char \<Rightarrow> char" where
  "lower_char c = (if is_upper c then char_of (code_of c + 32) else c)"

definition upper_char :: "char \<Rightarrow> char" where
  "upper_char c = (if is_lower c then char_of (code_of c - 32) else c)"

lemma code_of_lt: "code_of c < 256"
  by (simp add: code_of_def)

lemma code_of_char_of [str_simps]: "n < 256 \<Longrightarrow> code_of (char_of n) = n"
  by (simp add: code_of_def)

lemma code_of_inject: "code_of c = code_of d \<longleftrightarrow> c = d"
  by (simp add: code_of_def)

lemma code_of_digit_char [str_simps]: "n < 10 \<Longrightarrow> code_of (digit_char n) = 48 + n"
  by (simp add: digit_char_def code_of_char_of)

lemma is_digit_digit_char [simp]: "n < 10 \<Longrightarrow> is_digit (digit_char n)"
  by (simp add: is_digit_def code_of_digit_char)

lemma digit_val_digit_char [simp]: "n < 10 \<Longrightarrow> digit_val (digit_char n) = n"
  by (simp add: digit_val_def code_of_digit_char)

lemma digit_char_digit_val [simp]: "is_digit c \<Longrightarrow> digit_char (digit_val c) = c"
  by (simp add: digit_char_def digit_val_def is_digit_def code_of_def)

lemma digit_val_lt: "is_digit c \<Longrightarrow> digit_val c < 10"
  by (auto simp: is_digit_def digit_val_def)

lemma dot_not_digit [simp]: "\<not> is_digit (CHR ''.'')"
  by (simp add: is_digit_def code_of_def)

lemma zero_is_digit [simp]: "is_digit (CHR ''0'')" "digit_val (CHR ''0'') = 0"
  by (simp_all add: is_digit_def digit_val_def code_of_def)

lemma lower_char_idem [simp]: "lower_char (lower_char c) = lower_char c"
proof (cases "is_upper c")
  case True
  then have "code_of (lower_char c) = code_of c + 32"
    by (auto simp: lower_char_def is_upper_def intro: code_of_char_of)
  with True have "\<not> is_upper (lower_char c)" by (simp add: is_upper_def)
  then show ?thesis by (simp add: lower_char_def)
next
  case False
  then show ?thesis by (simp add: lower_char_def)
qed

section \<open>Strings\<close>

definition toLowerCase :: "string \<Rightarrow> string" where
  "toLowerCase s = map lower_char s"

definition toUpperCase :: "string \<Rightarrow> string" where
  "toUpperCase s = map upper_char s"

definition js_trim :: "string \<Rightarrow> string" where
  "js_trim s = rev (dropWhile is_space (rev (dropWhile is_space s)))"

definition startsWith :: "string \<Rightarrow> string \<Rightarrow> bool" where
  "startsWith s p \<longleftrightarrow> take (length p) s = p"

text \<open>\<open>s.js_includes(p)\<close>.\<close>

fun js_includes :: "string \<Rightarrow> string \<Rightarrow> bool" where
  "js_includes [] p = (p = [])"
| "js_includes (c # cs) p = (startsWith (c # cs) p \<or> js_includes cs p)"

text \<open>\<open>s.split(c)\<close> for a one-character separator.\<close>

fun js_split :: "char \<Rightarrow> string \<Rightarrow> string list" where
  "js_split c [] = [[]]"
| "js_split c (x # xs) =
     (if x = c then [] # js_split c xs
      else case js_split c xs of [] \<Rightarrow> [[x]] | p # ps \<Rightarrow> (x # p) # ps)"

text \<open>\<open>parts.join(sep)\<close>.\<close>

fun js_join :: "string \<Rightarrow> string list \<Rightarrow> string" where
  "js_join sep [] = []"
| "js_join sep [x] = x"
| "js_join sep (x # y # ys) = x @ sep @ js_join sep (y # ys)"

text \<open>JavaScript truthiness of an optional string: absent and empty are both falsy.\<close>

fun truthy :: "string option \<Rightarrow> bool" where
  "truthy None = False"
| "truthy (Some s) = (s \<noteq> [])"

text \<open>The nullish operator \<open>a ?? b\<close>.\<close>

fun nullish :: "'a option \<Rightarrow> 'a \<Rightarrow> 'a" where
  "nullish None b = b"
| "nullish (Some a) b = a"

lemma startsWith_iff: "startsWith s p \<longleftrightarrow> (\<exists>rest. s = p @ rest)"
  by (metis append_eq_conv_conj append_take_drop_id startsWith_def)

lemma toLowerCase_idem [simp]: "toLowerCase (toLowerCase s) = toLowerCase s"
  by (simp add: toLowerCase_def)

lemma js_split_ne [simp]: "js_split c s \<noteq> []"
  by (induction s) (auto split: list.splits)

lemma js_split_no_sep: "c \<notin> set s \<Longrightarrow> js_split c s = [s]"
  by (induction s) auto

lemma js_split_append: "c \<notin> set w \<Longrightarrow> js_split c (w @ c # f) = w # js_split c f"
  by (induction w) auto

lemma js_split_Cons_ex: "\<exists>p ps. js_split c s = p # ps"
  by (meson js_split_ne neq_Nil_conv)

lemma js_split_one: "js_split c s = [w] \<longleftrightarrow> s = w \<and> c \<notin> set w"
proof (induction s arbitrary: w)
  case Nil
  then show ?case by auto
next
  case (Cons x xs)
  obtain p ps where p: "js_split c xs = p # ps" using js_split_Cons_ex by blast
  show ?case
  proof (cases "x = c")
    case True
    then show ?thesis using p by auto
  next
    case False
    have "ps = [] \<and> xs = p \<and> c \<notin> set xs \<or> ps \<noteq> [] \<and> c \<in> set xs"
      using p Cons.IH [of p] Cons.IH [of xs] by auto
    with False p show ?thesis by auto
  qed
qed

lemma js_split_two: "js_split c s = [w, f] \<longleftrightarrow> s = w @ c # f \<and> c \<notin> set w \<and> c \<notin> set f"
proof (induction s arbitrary: w)
  case Nil
  then show ?case by auto
next
  case (Cons x xs)
  show ?case
  proof (cases "x = c")
    case True
    then show ?thesis by (cases w) (auto simp: js_split_one)
  next
    case False
    obtain p ps where p: "js_split c xs = p # ps" using js_split_Cons_ex by blast
    show ?thesis
    proof (cases w)
      case Nil
      with False p show ?thesis by auto
    next
      case (Cons y ys)
      have "js_split c (x # xs) = [w, f] \<longleftrightarrow> x = y \<and> js_split c xs = [ys, f]"
        using False p Cons by auto
      then show ?thesis using Cons.IH [of ys] False Cons by auto
    qed
  qed
qed

section \<open>Decimal numerals\<close>

definition digits_val :: "string \<Rightarrow> nat" where
  "digits_val s = foldl (\<lambda>n c. 10 * n + digit_val c) 0 s"

definition all_digits :: "string \<Rightarrow> bool" where
  "all_digits s \<longleftrightarrow> (\<forall>c \<in> set s. is_digit c)"

fun show_nat :: "nat \<Rightarrow> string" where
  "show_nat n = (if n < 10 then [digit_char n] else show_nat (n div 10) @ [digit_char (n mod 10)])"

declare show_nat.simps [simp del]

definition show_int :: "int \<Rightarrow> string" where
  "show_int i = (if i < 0 then CHR ''-'' # show_nat (nat (- i)) else show_nat (nat i))"

lemma all_digits_code [code]: "all_digits s = list_all is_digit s"
  by (simp add: all_digits_def list_all_iff)

lemma all_digits_simps [simp]:
  "all_digits []" "all_digits (c # s) \<longleftrightarrow> is_digit c \<and> all_digits s"
  "all_digits (s @ t) \<longleftrightarrow> all_digits s \<and> all_digits t"
  by (auto simp: all_digits_def)

lemma digits_val_Nil [simp]: "digits_val [] = 0"
  by (simp add: digits_val_def)

lemma digits_val_snoc [simp]: "digits_val (s @ [c]) = 10 * digits_val s + digit_val c"
  by (simp add: digits_val_def)

lemma digits_val_append: "digits_val (s @ t) = digits_val s * 10 ^ length t + digits_val t"
proof (induction t rule: rev_induct)
  case Nil
  then show ?case by simp
next
  case (snoc c t)
  have "digits_val (s @ t @ [c]) = 10 * digits_val (s @ t) + digit_val c"
    using digits_val_snoc [of "s @ t" c] by simp
  with snoc show ?case by (simp add: algebra_simps)
qed

lemma digits_val_Cons: "digits_val (c # s) = digit_val c * 10 ^ length s + digits_val s"
  using digits_val_append [of "[c]" s] by (simp add: digits_val_def)

lemma digits_val_zeros [simp]: "digits_val (replicate n (CHR ''0'')) = 0"
  by (induction n) (simp_all add: digits_val_Cons)

lemma digits_val_lt: "all_digits s \<Longrightarrow> digits_val s < 10 ^ length s"
proof (induction s rule: rev_induct)
  case Nil
  then show ?case by simp
next
  case (snoc c s)
  then have "digits_val s < 10 ^ length s" and "digit_val c < 10"
    by (simp_all add: digit_val_lt)
  then show ?case by simp
qed

lemma show_nat_digits [simp]: "all_digits (show_nat n)"
proof (induction n rule: show_nat.induct)
  case (1 n)
  then show ?case by (subst show_nat.simps) simp
qed

lemma show_nat_ne [simp]: "show_nat n \<noteq> []"
  by (subst show_nat.simps) simp

lemma digits_val_show_nat [simp]: "digits_val (show_nat n) = n"
proof (induction n rule: show_nat.induct)
  case (1 n)
  show ?case
  proof (cases "n < 10")
    case True
    then show ?thesis by (subst show_nat.simps) (simp add: digits_val_def)
  next
    case False
    with 1 show ?thesis by (subst show_nat.simps) simp
  qed
qed

lemma show_nat_inject [simp]: "show_nat m = show_nat n \<longleftrightarrow> m = n"
  by (metis digits_val_show_nat)

lemma no_sep_in_digits: "all_digits s \<Longrightarrow> CHR ''.'' \<notin> set s"
  by (auto simp: all_digits_def)

text \<open>A positive value needs a nonzero digit, and a nonzero digit makes the value positive.\<close>

lemma digit_val_eq_0: "is_digit c \<Longrightarrow> digit_val c = 0 \<longleftrightarrow> c = CHR ''0''"
proof
  assume "is_digit c" and "digit_val c = 0"
  then have "code_of c = code_of (CHR ''0'')" by (simp add: is_digit_def digit_val_def code_of_def)
  then show "c = CHR ''0''" by (simp add: code_of_inject)
qed simp

lemma digits_val_pos_iff: "all_digits s \<Longrightarrow> 0 < digits_val s \<longleftrightarrow> (\<exists>c \<in> set s. c \<noteq> CHR ''0'')"
proof (induction s)
  case Nil
  then show ?case by simp
next
  case (Cons c s)
  then show ?case by (auto simp: digits_val_Cons digit_val_eq_0 [symmetric])
qed

lemma length_show_nat: "n < 10 ^ k \<Longrightarrow> 0 < k \<Longrightarrow> length (show_nat n) \<le> k"
proof (induction n arbitrary: k rule: show_nat.induct)
  case (1 n)
  show ?case
  proof (cases "n < 10")
    case True
    then show ?thesis using 1 by (subst show_nat.simps) simp
  next
    case False
    obtain j where j: "k = Suc j" using 1 by (cases k) auto
    have "n div 10 < 10 ^ j" using 1(2) j by (simp add: less_mult_imp_div_less)
    moreover have "0 < j" using False calculation by (cases j) auto
    ultimately have "length (show_nat (n div 10)) \<le> j" using 1(1) False by blast
    then show ?thesis using False j by (subst show_nat.simps) simp
  qed
qed

text \<open>\<open>s.replace(/c+$/, "")\<close> for a single character.\<close>

definition strip_trailing :: "char \<Rightarrow> string \<Rightarrow> string" where
  "strip_trailing c s = rev (dropWhile (\<lambda>x. x = c) (rev s))"

lemma strip_trailing_append:
  "s = strip_trailing c s @ replicate (length s - length (strip_trailing c s)) c"
proof (induction s rule: rev_induct)
  case Nil
  then show ?case by (simp add: strip_trailing_def)
next
  case (snoc x s)
  show ?case
  proof (cases "x = c")
    case True
    have e: "strip_trailing c (s @ [x]) = strip_trailing c s" using True by (simp add: strip_trailing_def)
    have le: "length (strip_trailing c s) \<le> length s"
      by (metis length_append le_add1 snoc)
    have "s @ [x] = strip_trailing c s @ replicate (length s - length (strip_trailing c s)) c @ [c]"
      using snoc True by simp
    also have "replicate (length s - length (strip_trailing c s)) c @ [c]
        = replicate (length (s @ [x]) - length (strip_trailing c s)) c"
      using le by (simp add: Suc_diff_le replicate_append_same)
    finally show ?thesis using e by simp
  next
    case False
    then show ?thesis by (simp add: strip_trailing_def)
  qed
qed

lemma strip_trailing_last: "strip_trailing c s = [] \<or> last (strip_trailing c s) \<noteq> c"
proof -
  have "dropWhile (\<lambda>x. x = c) (rev s) = [] \<or> hd (dropWhile (\<lambda>x. x = c) (rev s)) \<noteq> c"
    using hd_dropWhile by blast
  then show ?thesis by (auto simp: strip_trailing_def last_rev)
qed

lemma strip_trailing_length: "length (strip_trailing c s) \<le> length s"
  by (metis strip_trailing_append length_append le_add1)

lemma strip_trailing_set: "set (strip_trailing c s) \<subseteq> set s"
  by (metis strip_trailing_append Un_upper1 set_append)

lemma strip_trailing_id: "last s \<noteq> c \<Longrightarrow> strip_trailing c s = s"
  by (cases s rule: rev_cases) (simp_all add: strip_trailing_def)

section \<open>Optional values and lists\<close>

lemma find_Some_iff_set: "List.find P xs = Some x \<Longrightarrow> P x \<and> x \<in> set xs"
  by (induction xs) (auto split: if_splits)

lemma find_None_iff_set [row_simps]: "List.find P xs = None \<longleftrightarrow> (\<forall>x \<in> set xs. \<not> P x)"
  by (induction xs) auto

lemma find_append: "List.find P (xs @ ys) = (case List.find P xs of None \<Rightarrow> List.find P ys | Some x \<Rightarrow> Some x)"
  by (induction xs) auto

text \<open>A JavaScript result that may have thrown: the rest runs on the value only.\<close>

fun then_do :: "'e + 'a \<Rightarrow> ('a \<Rightarrow> 'e + 'b) \<Rightarrow> 'e + 'b" where
  "then_do (Inl e) f = Inl e"
| "then_do (Inr x) f = f x"

lemma then_do_Inr_iff [simp]: "then_do r f = Inr y \<longleftrightarrow> (\<exists>x. r = Inr x \<and> f x = Inr y)"
  by (cases r) auto

lemma then_do_Inl_iff: "then_do r f = Inl e \<longleftrightarrow> r = Inl e \<or> (\<exists>x. r = Inr x \<and> f x = Inl e)"
  by (cases r) auto

end
