(* ===== verification/ApiErrors.thy ===== *)
theory ApiErrors
  imports Prelude
begin

text \<open>
  The values the services throw and the two places that turn them into a reply:
  \<open>handleError\<close> (\<^verbatim>\<open>src/src/utils/apiResponse.ts\<close>), called by every controller, and the
  Fastify fallback \<open>errorHandler\<close> (\<^verbatim>\<open>src/src/middleware/error.middleware.ts\<close>).  A thrown value is
  a constructor of \<open>thrown\<close>; the controllers and the middleware depend on which class it is,
  so the classes are kept apart.
\<close>

datatype thrown =
    HttpError nat string
    \<comment> \<open>\<open>class HttpError\<close>: a message deliberately written for the user\<close>
  | StatusError nat string
    \<comment> \<open>\<open>Object.assign(new Error(message), { statusCode })\<close>\<close>
  | PlainError string
    \<comment> \<open>\<open>new Error(message)\<close>, or a library error without a status\<close>
  | PrismaError string string
    \<comment> \<open>a Prisma error: its code and its message\<close>
  | RampProviderError string string string "nat option"
    \<comment> \<open>provider, code, message and the provider's HTTP status\<close>
  | ZodError "(string list \<times> string) list"
    \<comment> \<open>the issues: path and message\<close>
  | NotAnError
    \<comment> \<open>a thrown value that is not an \<open>Error\<close>\<close>

definition UNIQUE_VIOLATION_CODE :: string where
  "UNIQUE_VIOLATION_CODE = ''P2002''"

fun isUniqueConstraintViolation :: "thrown \<Rightarrow> bool" where
  "isUniqueConstraintViolation (PrismaError code _) = (code = UNIQUE_VIOLATION_CODE)"
| "isUniqueConstraintViolation _ = False"

abbreviation unique_violation :: thrown where
  "unique_violation \<equiv> PrismaError UNIQUE_VIOLATION_CODE ''Unique constraint failed''"

abbreviation record_not_found :: thrown where
  "record_not_found \<equiv> PrismaError ''P2025'' ''Record not found''"

fun is_HttpError :: "thrown \<Rightarrow> bool" where
  "is_HttpError (HttpError _ _) = True"
| "is_HttpError _ = False"

text \<open>The \<open>statusCode\<close> property of the value, where it has one.\<close>

fun status_of :: "thrown \<Rightarrow> nat option" where
  "status_of (HttpError c _) = Some c"
| "status_of (StatusError c _) = Some c"
| "status_of (RampProviderError _ _ _ c) = c"
| "status_of _ = None"

text \<open>
  \<open>err.message\<close>.  A \<open>ZodError\<close>'s own message is its issue list as JSON; no path of the model
  reads it, since \<open>handleError\<close> answers a \<open>ZodError\<close> from its first issue.
\<close>

fun message_of :: "thrown \<Rightarrow> string" where
  "message_of (HttpError _ m) = m"
| "message_of (StatusError _ m) = m"
| "message_of (PlainError m) = m"
| "message_of (PrismaError _ m) = m"
| "message_of (RampProviderError _ _ m _) = m"
| "message_of (ZodError is) = (case is of [] \<Rightarrow> [] | (_, m) # _ \<Rightarrow> m)"
| "message_of NotAnError = ''Something went wrong''"

definition GENERIC_MESSAGE :: string where
  "GENERIC_MESSAGE = ''Something went wrong. Please try again.''"

text \<open>The status and the \<open>message\<close> of the envelope \<open>{ success: false, message }\<close>.\<close>

fun handleError :: "thrown \<Rightarrow> nat \<times> string" where
  "handleError (ZodError issues) =
     (400, case issues of
             [] \<Rightarrow> ''Invalid input''
           | (path, m) # _ \<Rightarrow>
               (let p = js_join ''.'' path in (if p = [] then ''input'' else p) @ '': '' @ m))"
| "handleError err =
     (let statusCode = nullish (status_of err) 500
      in if statusCode \<ge> 500
         then (if is_HttpError err then (statusCode, message_of err)
               else (statusCode, GENERIC_MESSAGE))
         else (statusCode, message_of err))"

text \<open>The fallback for errors that escape a controller (framework errors, pre-handlers).\<close>

definition errorHandler :: "thrown \<Rightarrow> nat \<times> string" where
  "errorHandler err =
     (let statusCode = nullish (status_of err) 500
      in (statusCode,
          if statusCode \<ge> 500
          then (if is_HttpError err then message_of err else GENERIC_MESSAGE)
          else (if message_of err = [] then ''Request failed'' else message_of err)))"

lemma handleError_status: "\<not> (\<exists>is. err = ZodError is) \<Longrightarrow> fst (handleError err) = nullish (status_of err) 500"
  by (cases err) (auto simp: Let_def)

lemma handleError_low:
  "status_of err = Some c \<Longrightarrow> c < 500 \<Longrightarrow> handleError err = (c, message_of err)"
  by (cases err) (auto simp: Let_def)

end
