(* ===== verification/Schema.thy ===== *)
theory Schema
  imports ApiErrors
begin

text \<open>
  The persistent state: one record per model of \<^verbatim>\<open>prisma/schema.prisma\<close> that the services read or
  write, the Redis code store, the two BullMQ queues and the channel of published events, as the
  fields of one record \<open>world\<close>.  A table is the list of its rows in insertion order; a Prisma
  call is a function on that list, and a unique column is enforced by \<open>create\<close>, which
  answers \<open>P2002\<close> exactly when a stored row has the same (non-null) key.  The
  \<open>updatedAt\<close> columns are not modelled: no code reads them.

  Timestamps are milliseconds since the epoch, as \<open>Date.getTime()\<close> gives them.
\<close>

section \<open>Enumerations\<close>

datatype chain = TON | BSC | ETH | SOL | BASE | POLYGON | TRON | BTC

datatype tx_status = TxPENDING | TxPROCESSING | TxCOMPLETED | TxFAILED

datatype intent_status = READY | USED

datatype payreq_status = PrOPEN | PrFULFILLED | PrEXPIRED | PrCANCELLED

datatype ramp_type = DEPOSIT | WITHDRAWAL

datatype ramp_status = PENDING | PROCESSING | COMPLETED | FAILED

fun chain_name :: "chain \<Rightarrow> string" where
  "chain_name TON = ''TON''"
| "chain_name BSC = ''BSC''"
| "chain_name ETH = ''ETH''"
| "chain_name SOL = ''SOL''"
| "chain_name BASE = ''BASE''"
| "chain_name POLYGON = ''POLYGON''"
| "chain_name TRON = ''TRON''"
| "chain_name BTC = ''BTC''"

lemma chain_name_inject [simp]: "chain_name a = chain_name b \<longleftrightarrow> a = b"
  by (cases a; cases b) simp_all

fun tx_status_name :: "tx_status \<Rightarrow> string" where
  "tx_status_name TxPENDING = ''PENDING''"
| "tx_status_name TxPROCESSING = ''PROCESSING''"
| "tx_status_name TxCOMPLETED = ''COMPLETED''"
| "tx_status_name TxFAILED = ''FAILED''"

section \<open>Rows\<close>

record user_row =
  u_id :: string
  u_email :: string
  u_phone :: "string option"
  u_passwordHash :: string
  u_pinHash :: "string option"
  u_name :: "string option"
  u_photoUrl :: "string option"
  u_emailVerified :: bool
  u_phoneVerified :: bool
  u_biometricEnabled :: bool
  u_twoFactorEnabled :: bool
  u_pinFailedAttempts :: int
  u_pinLockedUntil :: "int option"
  u_defaultCurrency :: string
  u_defaultLanguage :: string
  u_defaultNetwork :: "chain option"
  u_createdAt :: int

record account_row =
  a_id :: string
  a_accountId :: string
  a_userId :: string
  a_createdAt :: int

record wallet_row =
  w_id :: string
  w_userId :: string
  w_chain :: chain
  w_address :: string
  w_createdAt :: int

text \<open>A \<open>Decimal\<close> column is held as the text its \<open>toString()\<close> prints.\<close>

record tx_row =
  t_id :: string
  t_senderId :: string
  t_recipientAccountId :: "string option"
  t_recipientAddress :: "string option"
  t_asset :: string
  t_amount :: string
  t_network :: chain
  t_feeAmount :: "string option"
  t_status :: tx_status
  t_txHash :: "string option"
  t_idempotencyKey :: "string option"
  t_createdAt :: int

record intent_row =
  i_id :: string
  i_userId :: string
  i_chain :: chain
  i_asset :: string
  i_amount :: string
  i_recipient :: string
  i_fee :: "string option"
  i_status :: intent_status
  i_expiresAt :: int
  i_usedAt :: "int option"
  i_transactionId :: "string option"
  i_createdAt :: int

record contact_row =
  c_id :: string
  c_ownerId :: string
  c_accountId :: "string option"
  c_name :: string
  c_address :: "string option"
  c_chain :: "chain option"
  c_createdAt :: int

record receipt_row =
  rc_id :: string
  rc_transactionId :: string
  rc_createdAt :: int

record payreq_row =
  p_id :: string
  p_userId :: string
  p_asset :: string
  p_amount :: "string option"
  p_note :: "string option"
  p_status :: payreq_status
  p_expiresAt :: "int option"
  p_createdAt :: int
  p_fulfilledTransactionId :: "string option"
  p_fulfilledAt :: "int option"

record ramp_row =
  r_id :: string
  r_userId :: string
  r_type :: ramp_type
  r_amountNgn :: string
  r_provider :: string
  r_reference :: string
  r_status :: ramp_status
  r_providerReference :: "string option"
  r_providerCustomerId :: "string option"
  r_paymentInstructions :: "(string \<times> string) list option"
  r_failureReason :: "string option"
  r_providerAmountNgn :: "string option"
  r_providerStatusRaw :: "string option"
  r_lastSyncedAt :: "int option"
  r_createdAt :: int

record webhook_row =
  h_id :: string
  h_provider :: string
  h_eventId :: string
  h_eventType :: string
  h_reference :: "string option"
  h_signatureValid :: bool
  h_status :: "string option"
  h_payload :: string
  h_receivedAt :: int
  h_processedAt :: "int option"

record session_row =
  s_id :: string
  s_userId :: string
  s_token :: string
  s_userAgent :: "string option"
  s_ipAddress :: "string option"
  s_expiresAt :: int
  s_createdAt :: int

section \<open>Queues, Redis and events\<close>

text \<open>The \<open>data\<close> of a job of the transactions queue, with the delay it was added with.\<close>

record tx_job =
  tj_transactionId :: string
  tj_signedTx :: "string option"
  tj_txHash :: "string option"
  tj_checkOnly :: bool
  tj_delay :: int

record ramp_job =
  rj_rampTransactionId :: "string option"
  rj_reference :: "string option"
  rj_delay :: int
  rj_attempts :: nat

text \<open>
  A value of the code store: the JSON record \<open>{ h, e, a }\<close>, or text that does not parse
  (\<open>Garbage\<close>), or a JSON value without a numeric \<open>e\<close> and a string \<open>h\<close> (\<open>Misshapen\<close>).
  A Redis entry also has the time at which Redis drops it.
\<close>

datatype stored_record = StoredRecord (sr_h: string) (sr_e: int) (sr_a: int) | Misshapen | Garbage

type_synonym redis_entry = "stored_record \<times> int"

record user_event =
  ev_userId :: string
  ev_event :: string
  ev_payload :: "(string \<times> string option) list"

section \<open>The world\<close>

record world =
  users :: "user_row list"
  accountIds :: "account_row list"
  wallets :: "wallet_row list"
  transactions :: "tx_row list"
  intents :: "intent_row list"
  contacts :: "contact_row list"
  receipts :: "receipt_row list"
  payRequests :: "payreq_row list"
  rampTxs :: "ramp_row list"
  webhookEvents :: "webhook_row list"
  sessions :: "session_row list"
  otpStore :: "string \<Rightarrow> redis_entry option"
  outbox :: "(string \<times> string \<times> string) list"
  txQueue :: "tx_job list"
  rampQueue :: "ramp_job list"
  published :: "user_event list"
  auditLog :: "(string \<times> string \<times> string) list"

text \<open>
  A service operation runs on the world and either throws or returns; either way it leaves a
  world behind, because the writes made before a throw stay.
\<close>

type_synonym 'a op = "world \<Rightarrow> (thrown + 'a) \<times> world"

definition empty_world :: world where
  "empty_world = \<lparr>users = [], accountIds = [], wallets = [], transactions = [], intents = [],
     contacts = [], receipts = [], payRequests = [], rampTxs = [], webhookEvents = [], sessions = [],
     otpStore = (\<lambda>_. None), outbox = [], txQueue = [], rampQueue = [], published = [], auditLog = []\<rparr>"

text \<open>A user row with the column defaults of the schema.\<close>

definition new_user :: "string \<Rightarrow> string \<Rightarrow> string option \<Rightarrow> string \<Rightarrow> int \<Rightarrow> user_row" where
  "new_user userId email phone passwordHash now =
     \<lparr>u_id = userId, u_email = email, u_phone = phone, u_passwordHash = passwordHash, u_pinHash = None,
      u_name = None, u_photoUrl = None, u_emailVerified = False, u_phoneVerified = False,
      u_biometricEnabled = False, u_twoFactorEnabled = False, u_pinFailedAttempts = 0,
      u_pinLockedUntil = None, u_defaultCurrency = ''NGN'', u_defaultLanguage = ''en'',
      u_defaultNetwork = None, u_createdAt = now\<rparr>"

section \<open>Prisma calls on a table\<close>

definition find_row :: "('r \<Rightarrow> bool) \<Rightarrow> 'r list \<Rightarrow> 'r option" where
  "find_row P rows = List.find P rows"

definition count_rows :: "('r \<Rightarrow> bool) \<Rightarrow> 'r list \<Rightarrow> nat" where
  "count_rows P rows = length (filter P rows)"

text \<open>\<open>updateMany({ where, data })\<close>: the new rows; its \<open>count\<close> is \<open>count_rows\<close>.\<close>

definition update_rows :: "('r \<Rightarrow> bool) \<Rightarrow> ('r \<Rightarrow> 'r) \<Rightarrow> 'r list \<Rightarrow> 'r list" where
  "update_rows P f rows = map (\<lambda>r. if P r then f r else r) rows"

text \<open>\<open>update({ where: unique, data })\<close>: throws \<open>P2025\<close> when there is no such row.\<close>

definition update_row :: "('r \<Rightarrow> bool) \<Rightarrow> ('r \<Rightarrow> 'r) \<Rightarrow> 'r list \<Rightarrow> thrown + 'r list" where
  "update_row P f rows =
     (if find_row P rows = None then Inl record_not_found else Inr (update_rows P f rows))"

definition delete_rows :: "('r \<Rightarrow> bool) \<Rightarrow> 'r list \<Rightarrow> 'r list" where
  "delete_rows P rows = filter (\<lambda>r. \<not> P r) rows"

text \<open>
  \<open>create({ data })\<close> on a table with one unique key: rows whose key is \<open>None\<close> (SQL \<open>NULL\<close>)
  never conflict.
\<close>

definition create_row :: "('r \<Rightarrow> 'k option) \<Rightarrow> 'r \<Rightarrow> 'r list \<Rightarrow> thrown + 'r list" where
  "create_row key r rows =
     (if key r \<noteq> None \<and> (\<exists>s \<in> set rows. key s = key r) then Inl unique_violation
      else Inr (rows @ [r]))"

text \<open>The unique index: no two rows share a non-null key.\<close>

definition unique_on :: "('r \<Rightarrow> 'k option) \<Rightarrow> 'r list \<Rightarrow> bool" where
  "unique_on key rows = distinct (List.map_filter key rows)"

lemma find_row_Nil [simp]: "find_row P [] = None"
  by (simp add: find_row_def)

lemma find_row_Cons [simp]: "find_row P (r # rows) = (if P r then Some r else find_row P rows)"
  by (simp add: find_row_def)

lemma find_row_append: "find_row P (xs @ ys) = (case find_row P xs of None \<Rightarrow> find_row P ys | Some r \<Rightarrow> Some r)"
  unfolding find_row_def by (rule find_append)

lemma find_row_None: "find_row P rows = None \<longleftrightarrow> (\<forall>r \<in> set rows. \<not> P r)"
  by (simp add: find_row_def find_None_iff_set)

lemma find_row_Some: "find_row P rows = Some r \<Longrightarrow> P r \<and> r \<in> set rows"
  by (simp add: find_row_def find_Some_iff_set)

lemma find_row_cong: "(\<And>r. r \<in> set rows \<Longrightarrow> P r = Q r) \<Longrightarrow> find_row P rows = find_row Q rows"
  by (induction rows) auto

lemma find_row_update_rows:
  assumes "\<And>r. P (f r) = P r"
  shows "find_row P (update_rows Q f rows) = map_option (\<lambda>r. if Q r then f r else r) (find_row P rows)"
  using assms by (induction rows) (auto simp: update_rows_def)

lemma update_rows_simps [simp]:
  "update_rows P f [] = []"
  "update_rows P f (r # rows) = (if P r then f r else r) # update_rows P f rows"
  "length (update_rows P f rows) = length rows"
  by (simp_all add: update_rows_def)

lemma update_rows_append: "update_rows P f (xs @ ys) = update_rows P f xs @ update_rows P f ys"
  by (simp add: update_rows_def)

lemma update_rows_id: "(\<And>r. r \<in> set rows \<Longrightarrow> P r \<Longrightarrow> f r = r) \<Longrightarrow> update_rows P f rows = rows"
  by (induction rows) auto

lemma update_rows_none: "(\<And>r. r \<in> set rows \<Longrightarrow> \<not> P r) \<Longrightarrow> update_rows P f rows = rows"
  by (induction rows) auto

lemma map_update_rows: "(\<And>r. g (f r) = g r) \<Longrightarrow> map g (update_rows P f rows) = map g rows"
  by (induction rows) auto

lemma map_filter_update_rows:
  "(\<And>r. key (f r) = key r) \<Longrightarrow> List.map_filter key (update_rows P f rows) = List.map_filter key rows"
  by (induction rows) (simp_all add: map_filter_simps split: option.split)

lemma in_update_rows: "r \<in> set (update_rows P f rows) \<longleftrightarrow> (\<exists>s \<in> set rows. r = (if P s then f s else s))"
  by (auto simp: update_rows_def)

lemma filter_update_rows:
  assumes "\<And>r. Q (f r) = Q r" "\<forall>r \<in> set rows. P r \<longrightarrow> \<not> Q r"
  shows "filter Q (update_rows P f rows) = filter Q rows"
  using assms by (induction rows) auto

lemma count_rows_simps [simp]:
  "count_rows P [] = 0"
  "count_rows P (r # rows) = (if P r then Suc (count_rows P rows) else count_rows P rows)"
  "count_rows P (xs @ ys) = count_rows P xs + count_rows P ys"
  by (simp_all add: count_rows_def)

lemma count_rows_0: "count_rows P rows = 0 \<longleftrightarrow> (\<forall>r \<in> set rows. \<not> P r)"
  by (auto simp: count_rows_def filter_empty_conv)

lemma in_delete_rows [simp]: "r \<in> set (delete_rows P rows) \<longleftrightarrow> r \<in> set rows \<and> \<not> P r"
  by (auto simp: delete_rows_def)

lemma find_row_delete: "(\<And>r. Q r \<Longrightarrow> \<not> P r) \<Longrightarrow> find_row Q (delete_rows P rows) = find_row Q rows"
  by (induction rows) (auto simp: delete_rows_def)

lemma unique_on_append1:
  "unique_on key (rows @ [r]) \<longleftrightarrow>
     unique_on key rows \<and> (key r = None \<or> (\<forall>s \<in> set rows. key s \<noteq> key r))"
proof (cases "key r")
  case None
  then show ?thesis by (simp add: unique_on_def map_filter_def)
next
  case (Some k)
  have "k \<in> set (List.map_filter key rows) \<longleftrightarrow> (\<exists>s \<in> set rows. key s = Some k)"
    by (induction rows) (auto simp: map_filter_simps split: option.splits)
  with Some show ?thesis
    by (auto simp: unique_on_def map_filter_def)
qed

lemma unique_on_Nil [simp]: "unique_on key []"
  by (simp add: unique_on_def map_filter_simps)

lemma unique_on_Cons:
  "unique_on key (r # rows) \<longleftrightarrow> (key r = None \<or> (\<forall>s \<in> set rows. key s \<noteq> key r)) \<and> unique_on key rows"
  by (cases "key r") (auto simp: unique_on_def map_filter_simps image_iff map_filter_def)

lemma unique_on_update_rows:
  "(\<And>r. key (f r) = key r) \<Longrightarrow> unique_on key (update_rows P f rows) = unique_on key rows"
  by (simp add: unique_on_def map_filter_update_rows)

lemma unique_on_delete_rows: "unique_on key rows \<Longrightarrow> unique_on key (delete_rows P rows)"
  by (induction rows) (auto simp: unique_on_Cons delete_rows_def)

lemma unique_on_eq:
  "unique_on key rows \<Longrightarrow> r \<in> set rows \<Longrightarrow> s \<in> set rows \<Longrightarrow> key r = Some k \<Longrightarrow> key s = Some k \<Longrightarrow> r = s"
  by (induction rows) (auto simp: unique_on_Cons)

text \<open>With a unique index, looking a key up finds the row that has it.\<close>

lemma find_row_unique:
  "unique_on key rows \<Longrightarrow> r \<in> set rows \<Longrightarrow> key r = Some k \<Longrightarrow>
   find_row (\<lambda>s. key s = Some k) rows = Some r"
  by (induction rows) (auto simp: unique_on_Cons)

lemma count_rows_unique:
  assumes "unique_on key rows"
  shows "count_rows (\<lambda>s. key s = Some k) rows \<le> 1"
  using assms
proof (induction rows)
  case (Cons r rows)
  then show ?case
    by (cases "key r = Some k") (auto simp: unique_on_Cons count_rows_def filter_empty_conv)
qed simp

text \<open>How many rows a keyed \<open>updateMany\<close> touches: at most one, the row its key finds.\<close>

lemma count_keyed:
  assumes "unique_on key rows"
  shows "count_rows (\<lambda>s. key s = Some k \<and> Q s) rows =
         (case find_row (\<lambda>s. key s = Some k) rows of None \<Rightarrow> 0 | Some s \<Rightarrow> if Q s then 1 else 0)"
  using assms
proof (induction rows)
  case (Cons r rows)
  show ?case
  proof (cases "key r = Some k")
    case True
    then have "\<forall>s \<in> set rows. key s \<noteq> Some k" using Cons.prems by (auto simp: unique_on_Cons)
    then have "count_rows (\<lambda>s. key s = Some k \<and> Q s) rows = 0" by (simp add: count_rows_0)
    then show ?thesis using True by simp
  next
    case False
    then show ?thesis using Cons by (simp add: unique_on_Cons)
  qed
qed simp

lemma create_row_Inr: "create_row key r rows = Inr rows' \<Longrightarrow> rows' = rows @ [r]"
  by (auto simp: create_row_def split: if_splits)

lemma create_row_Inl:
  "create_row key r rows = Inl e \<longleftrightarrow> e = unique_violation \<and> key r \<noteq> None \<and> (\<exists>s \<in> set rows. key s = key r)"
  by (auto simp: create_row_def)

lemma create_row_unique: "unique_on key rows \<Longrightarrow> create_row key r rows = Inr rows' \<Longrightarrow> unique_on key rows'"
  by (auto simp: create_row_def unique_on_append1 split: if_splits)

lemma update_row_Inr:
  "update_row P f rows = Inr rows' \<longleftrightarrow> (\<exists>r \<in> set rows. P r) \<and> rows' = update_rows P f rows"
  by (auto simp: update_row_def find_row_None)

lemmas table_simps = find_row_append find_row_None update_rows_append in_update_rows count_rows_0
  create_row_Inl update_row_Inr

declare find_row_None [row_simps] find_row_append [row_simps]

section \<open>The contract of a uniquely keyed table\<close>

text \<open>
  What the services rely on when a column is \<open>@unique\<close>: \<open>create\<close> either answers the conflict
  or adds exactly the row, a conflict means that some row owns the key, and the index stays
  unique.  The lemmas are the consequences used at the call sites.
\<close>

locale keyed_table =
  fixes key :: "'r \<Rightarrow> 'k option"
    and create :: "'r \<Rightarrow> 'r list \<Rightarrow> thrown + 'r list"
    and lookup :: "'k \<Rightarrow> 'r list \<Rightarrow> 'r option"
  assumes create_ok: "create r rows = Inr rows' \<Longrightarrow> rows' = rows @ [r]"
    and create_conflict: "create r rows = Inl e \<longleftrightarrow> e = unique_violation \<and> (\<exists>k. key r = Some k \<and> lookup k rows \<noteq> None)"
    and lookup_spec: "unique_on key rows \<Longrightarrow> lookup k rows = Some r \<longleftrightarrow> r \<in> set rows \<and> key r = Some k"
    and lookup_None: "lookup k rows = None \<longleftrightarrow> (\<forall>r \<in> set rows. key r \<noteq> Some k)"
begin

lemma create_eq:
  "create r rows = (if \<exists>k. key r = Some k \<and> lookup k rows \<noteq> None then Inl unique_violation else Inr (rows @ [r]))"
proof (cases "create r rows")
  case (Inl e)
  with create_conflict [of r rows e] show ?thesis by simp
next
  case (Inr rows')
  then have "\<not> (\<exists>k. key r = Some k \<and> lookup k rows \<noteq> None)"
    using create_conflict [of r rows unique_violation] by auto
  with Inr create_ok [OF Inr] show ?thesis by simp
qed

lemma create_keeps_unique: "unique_on key rows \<Longrightarrow> create r rows = Inr rows' \<Longrightarrow> unique_on key rows'"
  by (cases "key r") (auto simp: create_eq unique_on_append1 lookup_None split: if_splits)

lemma lookup_created:
  assumes "unique_on key rows" "create r rows = Inr rows'" "key r = Some k"
  shows "lookup k rows' = Some r"
  using create_keeps_unique [OF assms(1,2)] create_ok [OF assms(2)] assms(3) by (simp add: lookup_spec)

lemma create_again: "create r rows = Inr rows' \<Longrightarrow> key r = Some k \<Longrightarrow> key s = Some k \<Longrightarrow> create s rows' = Inl unique_violation"
  using create_ok [of r rows rows'] by (simp add: create_eq lookup_None)

lemma create_free: "key r = Some k \<Longrightarrow> lookup k rows = None \<Longrightarrow> create r rows = Inr (rows @ [r])"
  by (simp add: create_eq)

lemma create_other:
  assumes "create r rows = Inr rows'" "key r \<noteq> Some k" "unique_on key rows"
  shows "lookup k rows' = lookup k rows"
proof (rule option.expand)
  have u: "unique_on key rows'" using create_keeps_unique assms(1,3) by blast
  have r': "rows' = rows @ [r]" using create_ok assms(1) by blast
  show "(lookup k rows' = None) = (lookup k rows = None)"
    using assms(2) by (simp add: lookup_None r')
  assume "lookup k rows' \<noteq> None" and "lookup k rows \<noteq> None"
  then obtain s where s: "lookup k rows = Some s" by blast
  then have "lookup k rows' = Some s" using assms(3) u by (simp add: lookup_spec r')
  with s show "the (lookup k rows') = the (lookup k rows)" by simp
qed

end

lemma keyed_table_create_row:
  "keyed_table key (create_row key) (\<lambda>k. find_row (\<lambda>r. key r = Some k))"
proof
  fix r :: 'a and rows rows' e k
  show "create_row key r rows = Inr rows' \<Longrightarrow> rows' = rows @ [r]" by (rule create_row_Inr)
  show "create_row key r rows = Inl e \<longleftrightarrow>
      e = unique_violation \<and> (\<exists>k. key r = Some k \<and> find_row (\<lambda>r. key r = Some k) rows \<noteq> None)"
    by (cases "key r") (auto simp: create_row_Inl find_row_None)
  show "unique_on key rows \<Longrightarrow>
      find_row (\<lambda>r. key r = Some k) rows = Some r \<longleftrightarrow> r \<in> set rows \<and> key r = Some k"
    using find_row_unique find_row_Some by fastforce
  show "find_row (\<lambda>r. key r = Some k) rows = None \<longleftrightarrow> (\<forall>r \<in> set rows. key r \<noteq> Some k)"
    by (simp add: find_row_None)
qed

interpretation tx_keys: keyed_table t_idempotencyKey "create_row t_idempotencyKey"
    "\<lambda>k. find_row (\<lambda>r. t_idempotencyKey r = Some k)"
  by (rule keyed_table_create_row)

end
