(* ===== verification/PinLockout.thy ===== *)
theory PinLockout
  imports Schema
begin

text \<open>
  The PIN lockout of \<^verbatim>\<open>src/src/services/auth/pinLockout.service.ts\<close>: the read and the
  compare-and-swap of \<open>recordFailure\<close> as two operations (other requests may run between them),
  its retry loop over an arbitrary environment, and \<open>assertPinAuthorized\<close>.  \<open>now\<close> stands for
  \<open>Date.now()\<close>; \<open>compare\<close> stands for \<open>bcrypt.compare\<close>.  The two security events are appended to
  \<open>auditLog\<close> with the gate and the user.
\<close>

section \<open>Users\<close>

definition find_user :: "string \<Rightarrow> world \<Rightarrow> user_row option" where
  "find_user userId w = find_row (\<lambda>u. u_id u = userId) (users w)"

text \<open>\<open>prisma.user.updateMany({ where: { id, ...Q }, data: f })\<close>: the count and the new state.\<close>

definition update_users :: "string \<Rightarrow> (user_row \<Rightarrow> bool) \<Rightarrow> (user_row \<Rightarrow> user_row) \<Rightarrow> world \<Rightarrow> nat \<times> world" where
  "update_users userId Q f w =
     (count_rows (\<lambda>u. u_id u = userId \<and> Q u) (users w),
      w\<lparr>users := update_rows (\<lambda>u. u_id u = userId \<and> Q u) f (users w)\<rparr>)"

definition user_key :: "user_row \<Rightarrow> string option" where
  "user_key u = Some (u_id u)"

definition users_ok :: "world \<Rightarrow> bool" where
  "users_ok w = unique_on user_key (users w)"

lemma find_user_id: "find_user userId w = Some u \<Longrightarrow> u_id u = userId"
  by (auto simp: find_user_def dest: find_row_Some)

lemma find_user_update:
  assumes "\<And>u. u_id (f u) = u_id u"
  shows "find_user v (snd (update_users userId Q f w)) =
         map_option (\<lambda>u. if v = userId \<and> Q u then f u else u) (find_user v w)"
proof -
  have "find_user v (snd (update_users userId Q f w)) =
      map_option (\<lambda>u. if u_id u = userId \<and> Q u then f u else u) (find_user v w)"
    unfolding find_user_def update_users_def using assms by (simp add: find_row_update_rows)
  then show ?thesis using find_user_id [of v w] by (cases "find_user v w") auto
qed

lemma update_users_count:
  assumes "users_ok w"
  shows "fst (update_users userId Q f w) = (case find_user userId w of None \<Rightarrow> 0 | Some u \<Rightarrow> if Q u then 1 else 0)"
  using count_keyed [of user_key "users w" userId Q] assms
  by (simp add: users_ok_def update_users_def find_user_def user_key_def)

lemma update_users_ok:
  assumes "\<And>u. u_id (f u) = u_id u"
  shows "users_ok (snd (update_users userId Q f w)) = users_ok w"
  unfolding users_ok_def update_users_def
  using unique_on_update_rows [of user_key f] assms by (simp add: user_key_def)

text \<open>Only the users and the security log change in this component.\<close>

definition pin_frame :: "world \<Rightarrow> world \<Rightarrow> bool" where
  "pin_frame w w' \<longleftrightarrow> w' = w\<lparr>users := users w', auditLog := auditLog w'\<rparr>"

lemma pin_frame_update_users [simp]: "pin_frame w (snd (update_users userId Q f w))"
  by (simp add: pin_frame_def update_users_def)

lemma update_users_auditLog [simp]: "auditLog (snd (update_users userId Q f w)) = auditLog w"
  by (simp add: update_users_def)

section \<open>The service\<close>

definition PIN_MAX_ATTEMPTS :: int where "PIN_MAX_ATTEMPTS = 5"

definition PIN_LOCKOUT_MS :: int where "PIN_LOCKOUT_MS = 15 * 60 * 1000"

definition LOCKED_MESSAGE :: string where
  "LOCKED_MESSAGE = ''Too many incorrect PIN attempts. Try again in 15 minutes.''"

definition INCORRECT_MESSAGE :: string where
  "INCORRECT_MESSAGE = ''Incorrect PIN. Try again.''"

definition lockedMessage :: string where
  "lockedMessage = LOCKED_MESSAGE"

definition lockUntil :: "int \<Rightarrow> int" where
  "lockUntil now = now + PIN_LOCKOUT_MS"

definition logLockoutArmed :: "string \<Rightarrow> string \<Rightarrow> world \<Rightarrow> world" where
  "logLockoutArmed gate userId w = w\<lparr>auditLog := auditLog w @ [(''pin_lockout_armed'', gate, userId)]\<rparr>"

definition logAttemptDuringLockout :: "string \<Rightarrow> string \<Rightarrow> world \<Rightarrow> world" where
  "logAttemptDuringLockout userId gate w =
     w\<lparr>auditLog := auditLog w @ [(''pin_attempt_during_lockout'', gate, userId)]\<rparr>"

text \<open>\<open>getLockState\<close>: the end of the running lockout, \<open>None\<close> when unlocked.\<close>

definition getLockState :: "int \<Rightarrow> string \<Rightarrow> world \<Rightarrow> int option" where
  "getLockState now userId w =
     (case find_user userId w of
        None \<Rightarrow> None
      | Some user \<Rightarrow>
          (case u_pinLockedUntil user of
             None \<Rightarrow> None
           | Some until \<Rightarrow> if until \<le> now then None else Some until))"

text \<open>
  One turn of \<open>recordFailure\<close>.  The read answers the caller's view of the counter \<open>(raw, expired)\<close>,
  or the threshold when a lockout is in force, or throws when the account is gone.
\<close>

datatype failure_view = Locked | View (view_raw: int) (view_expired: bool)

definition readFailure :: "int \<Rightarrow> string \<Rightarrow> world \<Rightarrow> thrown + failure_view" where
  "readFailure now userId w =
     (case find_user userId w of
        None \<Rightarrow> Inl (HttpError 404 ''Account not found'')
      | Some user \<Rightarrow>
          (let raw = u_pinFailedAttempts user;
               expired = (case u_pinLockedUntil user of None \<Rightarrow> False | Some until \<Rightarrow> until \<le> now)
           in if \<not> expired \<and> u_pinLockedUntil user \<noteq> None then Inr Locked
              else Inr (View raw expired)))"

text \<open>The compare-and-swap on the raw counter: the attempts recorded when it lands.\<close>

definition casFailure :: "int \<Rightarrow> string \<Rightarrow> string \<Rightarrow> int \<Rightarrow> bool \<Rightarrow> world \<Rightarrow> int option \<times> world" where
  "casFailure now gate userId raw expired w =
     (let current = (if expired then 0 else raw);
          nxt = current + 1;
          isLockingAttempt = nxt \<ge> PIN_MAX_ATTEMPTS;
          (count, w') = update_users userId (\<lambda>u. u_pinFailedAttempts u = raw)
            (\<lambda>u. u\<lparr>u_pinFailedAttempts := (if isLockingAttempt then 0 else nxt),
                   u_pinLockedUntil := (if isLockingAttempt then Some (lockUntil now)
                                        else if expired then None else u_pinLockedUntil u)\<rparr>) w
      in if count = 1
         then (Some nxt, if isLockingAttempt then logLockoutArmed gate userId w' else w')
         else (None, w'))"

text \<open>
  The loop.  \<open>clock n\<close> is the time of the \<open>n\<close>-th turn and \<open>other n\<close> is what other requests do to
  the world between its read and its write.
\<close>

partial_function (option) recordFailureLoop ::
  "(nat \<Rightarrow> int) \<Rightarrow> (nat \<Rightarrow> world \<Rightarrow> world) \<Rightarrow> string \<Rightarrow> string \<Rightarrow> nat \<Rightarrow> world \<Rightarrow> ((thrown + int) \<times> world) option" where
  "recordFailureLoop clock other userId gate n w =
     (case readFailure (clock n) userId w of
        Inl e \<Rightarrow> Some (Inl e, other n w)
      | Inr Locked \<Rightarrow> Some (Inr PIN_MAX_ATTEMPTS, other n w)
      | Inr (View raw expired) \<Rightarrow>
          (case casFailure (clock n) gate userId raw expired (other n w) of
             (Some attempts, w') \<Rightarrow> Some (Inr attempts, w')
           | (None, w') \<Rightarrow> recordFailureLoop clock other userId gate (Suc n) w'))"

text \<open>The same turn with nobody in between: one turn is enough.\<close>

definition recordFailure :: "int \<Rightarrow> string \<Rightarrow> string \<Rightarrow> int op" where
  "recordFailure now userId gate w =
     (case readFailure now userId w of
        Inl e \<Rightarrow> (Inl e, w)
      | Inr Locked \<Rightarrow> (Inr PIN_MAX_ATTEMPTS, w)
      | Inr (View raw expired) \<Rightarrow>
          (case casFailure now gate userId raw expired w of
             (Some attempts, w') \<Rightarrow> (Inr attempts, w')
           | (None, w') \<Rightarrow> (Inr 0, w')))"

definition resetPin :: "string \<Rightarrow> world \<Rightarrow> world" where
  "resetPin userId w =
     snd (update_users userId (\<lambda>_. True) (\<lambda>u. u\<lparr>u_pinFailedAttempts := 0, u_pinLockedUntil := None\<rparr>) w)"

text \<open>\<open>Math.max(1, Math.ceil(ms / 60000))\<close>.\<close>

definition lock_minutes :: "int \<Rightarrow> int" where
  "lock_minutes ms = max 1 ((ms + 59999) div 60000)"

definition lock_message :: "int \<Rightarrow> string" where
  "lock_message minutes =
     ''Too many incorrect PIN attempts. Try again in '' @ show_int minutes @ '' minute'' @
     (if minutes = 1 then [] else ''s'') @ ''.''"

definition assertPinAuthorized :: "(string \<Rightarrow> string \<Rightarrow> bool) \<Rightarrow> int \<Rightarrow> string \<Rightarrow> string \<Rightarrow> string \<Rightarrow> unit op" where
  "assertPinAuthorized compare now userId pin gate w =
     (case getLockState now userId w of
        Some until \<Rightarrow>
          (Inl (HttpError 423 (lock_message (lock_minutes (until - now)))),
           logAttemptDuringLockout userId gate w)
      | None \<Rightarrow>
          (case find_user userId w of
             None \<Rightarrow> (Inl (HttpError 409 ''No PIN set for this account''), w)
           | Some user \<Rightarrow>
               if \<not> truthy (u_pinHash user)
               then (Inl (HttpError 409 ''No PIN set for this account''), w)
               else if \<not> compare pin (the (u_pinHash user))
               then (case recordFailure now userId gate w of
                       (Inl e, w') \<Rightarrow> (Inl e, w')
                     | (Inr attempts, w') \<Rightarrow>
                         if attempts \<ge> PIN_MAX_ATTEMPTS
                         then (Inl (HttpError 423 LOCKED_MESSAGE), w')
                         else (Inl (HttpError 401 INCORRECT_MESSAGE), w'))
               else (Inr (), resetPin userId w)))"


section \<open>What the lockout promises\<close>

text \<open>The contract, without rows: a counter of consecutive failures, or a lock with an end.\<close>

datatype pin_state = Open int | Shut int

datatype pin_outcome = Granted | Refused | LockedOut

fun pin_spec :: "int \<Rightarrow> bool \<Rightarrow> pin_state \<Rightarrow> pin_outcome \<times> pin_state" where
  "pin_spec now ok (Open k) =
     (if ok then (Granted, Open 0)
      else if k + 1 \<ge> PIN_MAX_ATTEMPTS then (LockedOut, Shut (now + PIN_LOCKOUT_MS))
      else (Refused, Open (k + 1)))"
| "pin_spec now ok (Shut t) =
     (if now < t then (LockedOut, Shut t)
      else if ok then (Granted, Open 0) else (Refused, Open 1))"

definition pin_abs :: "user_row \<Rightarrow> pin_state" where
  "pin_abs u = (case u_pinLockedUntil u of None \<Rightarrow> Open (u_pinFailedAttempts u) | Some t \<Rightarrow> Shut t)"

definition pin_inv :: "user_row \<Rightarrow> bool" where
  "pin_inv u \<longleftrightarrow> 0 \<le> u_pinFailedAttempts u \<and> u_pinFailedAttempts u < PIN_MAX_ATTEMPTS \<and>
     (u_pinLockedUntil u \<noteq> None \<longrightarrow> u_pinFailedAttempts u = 0)"

fun outcome_of :: "thrown + unit \<Rightarrow> pin_outcome option" where
  "outcome_of (Inr _) = Some Granted"
| "outcome_of (Inl (HttpError c _)) = (if c = 401 then Some Refused else if c = 423 then Some LockedOut else None)"
| "outcome_of _ = None"

lemma getLockState_eq:
  "find_user userId w = Some u \<Longrightarrow>
   getLockState now userId w = (case pin_abs u of Open _ \<Rightarrow> None | Shut t \<Rightarrow> if now < t then Some t else None)"
  by (auto simp: getLockState_def pin_abs_def split: option.splits)

lemma casFailure_hit:
  fixes expired :: bool and raw :: int
  assumes "users_ok w" "find_user userId w = Some u" "u_pinFailedAttempts u = raw"
  defines "nxt \<equiv> (if expired then 0 else raw) + 1"
  shows "\<exists>w'. casFailure now gate userId raw expired w = (Some nxt, w') \<and> users_ok w' \<and>
    find_user userId w' = Some (u\<lparr>u_pinFailedAttempts := (if nxt \<ge> PIN_MAX_ATTEMPTS then 0 else nxt),
      u_pinLockedUntil := (if nxt \<ge> PIN_MAX_ATTEMPTS then Some (lockUntil now)
                           else if expired then None else u_pinLockedUntil u)\<rparr>) \<and>
    (\<forall>v. v \<noteq> userId \<longrightarrow> find_user v w' = find_user v w) \<and>
    auditLog w' = auditLog w @ (if nxt \<ge> PIN_MAX_ATTEMPTS then [(''pin_lockout_armed'', gate, userId)] else [])"
proof -
  let ?f = "\<lambda>u. u\<lparr>u_pinFailedAttempts := (if nxt \<ge> PIN_MAX_ATTEMPTS then 0 else nxt),
      u_pinLockedUntil := (if nxt \<ge> PIN_MAX_ATTEMPTS then Some (lockUntil now)
                           else if expired then None else u_pinLockedUntil u)\<rparr>"
  let ?r = "update_users userId (\<lambda>u. u_pinFailedAttempts u = raw) ?f w"
  have c: "fst ?r = 1" using assms by (simp add: update_users_count)
  have k: "users_ok (snd ?r)" using assms(1) by (simp add: update_users_ok)
  have f: "find_user v (snd ?r) = map_option (\<lambda>u. if v = userId \<and> u_pinFailedAttempts u = raw then ?f u else u) (find_user v w)" for v
    by (rule find_user_update) simp
  let ?w = "if nxt \<ge> PIN_MAX_ATTEMPTS then logLockoutArmed gate userId (snd ?r) else snd ?r"
  have "casFailure now gate userId raw expired w = (Some nxt, ?w)"
    unfolding casFailure_def Let_def case_prod_beta nxt_def [symmetric] using c by simp
  moreover have "users ?w = users (snd ?r)" by (simp add: logLockoutArmed_def)
  then have "users_ok ?w" "\<And>v. find_user v ?w = find_user v (snd ?r)"
    using k by (simp_all add: users_ok_def find_user_def)
  moreover have "auditLog ?w = auditLog w @ (if nxt \<ge> PIN_MAX_ATTEMPTS then [(''pin_lockout_armed'', gate, userId)] else [])"
    by (simp add: logLockoutArmed_def)
  moreover have "map_option (\<lambda>u. if v = userId \<and> u_pinFailedAttempts u = raw then ?f u else u) (find_user v w) = find_user v w"
    if "v \<noteq> userId" for v
    using that by (cases "find_user v w") simp_all
  ultimately show ?thesis using f assms(2,3) by simp
qed

lemma log_users [simp]:
  "users_ok (logLockoutArmed gate userId w) = users_ok w"
  "find_user v (logLockoutArmed gate userId w) = find_user v w"
  by (simp_all add: logLockoutArmed_def users_ok_def find_user_def)

lemma casFailure_keeps:
  "users_ok (snd (casFailure now gate userId raw expired w)) = users_ok w"
  "find_user v (snd (casFailure now gate userId raw expired w)) = None \<longleftrightarrow> find_user v w = None"
  unfolding casFailure_def Let_def case_prod_beta by (simp_all add: update_users_ok find_user_update)

lemma casFailure_miss:
  assumes "users_ok w" "find_user userId w = Some u" "u_pinFailedAttempts u \<noteq> raw"
  shows "fst (casFailure now gate userId raw expired w) = None"
  using assms by (simp add: casFailure_def Let_def case_prod_beta update_users_count)

lemma resetPin_user:
  "find_user userId w = Some u \<Longrightarrow>
   find_user userId (resetPin userId w) = Some (u\<lparr>u_pinFailedAttempts := 0, u_pinLockedUntil := None\<rparr>)"
  by (simp add: resetPin_def find_user_update)

lemma resetPin_other: "v \<noteq> userId \<Longrightarrow> find_user v (resetPin userId w) = find_user v w"
  by (cases "find_user v w") (simp_all add: resetPin_def find_user_update)

lemma resetPin_ok [simp]: "users_ok (resetPin userId w) = users_ok w"
  by (simp add: resetPin_def update_users_ok)

lemma pin_frame_assert: "pin_frame w (snd (assertPinAuthorized compare now userId pin gate w))"
proof -
  have "pin_frame w (snd (casFailure now gate userId raw expired w))" for raw expired
    by (simp add: casFailure_def Let_def case_prod_beta logLockoutArmed_def pin_frame_def update_users_def)
  then have "pin_frame w (snd (recordFailure now userId gate w))"
    by (auto simp: recordFailure_def pin_frame_def split: sum.splits failure_view.splits prod.splits option.splits)
       (metis snd_conv)+
  moreover have "pin_frame w (resetPin userId w)" by (simp add: resetPin_def)
  moreover have "pin_frame w w" "pin_frame w (logAttemptDuringLockout userId gate w)"
    by (simp_all add: pin_frame_def logAttemptDuringLockout_def)
  ultimately show ?thesis
    by (auto simp: assertPinAuthorized_def split: option.splits sum.splits prod.splits)
qed

lemma pin_frame_simps:
  assumes "pin_frame w w'"
  shows "transactions w' = transactions w" "intents w' = intents w" "wallets w' = wallets w"
    "accountIds w' = accountIds w" "txQueue w' = txQueue w" "receipts w' = receipts w"
    "sessions w' = sessions w" "contacts w' = contacts w" "payRequests w' = payRequests w"
    "published w' = published w"
  by (subst assms [unfolded pin_frame_def], simp)+

text \<open>\<open>recordFailure\<close> without interference, in terms of the row.\<close>

lemma recordFailure_row:
  fixes u :: user_row
  assumes "users_ok w" "find_user userId w = Some u" "pin_inv u"
    and "case pin_abs u of Open _ \<Rightarrow> True | Shut t \<Rightarrow> t \<le> now"
  defines "nxt \<equiv> (case pin_abs u of Open k \<Rightarrow> k | Shut _ \<Rightarrow> 0) + 1"
  shows "\<exists>w' u'. recordFailure now userId gate w = (Inr nxt, w') \<and> users_ok w' \<and>
    find_user userId w' = Some u' \<and> pin_inv u' \<and> u_pinHash u' = u_pinHash u \<and>
    pin_abs u' = (if nxt \<ge> PIN_MAX_ATTEMPTS then Shut (lockUntil now) else Open nxt) \<and>
    (\<forall>v. v \<noteq> userId \<longrightarrow> find_user v w' = find_user v w) \<and>
    auditLog w' = auditLog w @ (if nxt \<ge> PIN_MAX_ATTEMPTS then [(''pin_lockout_armed'', gate, userId)] else [])"
proof -
  define expired where "expired = (u_pinLockedUntil u \<noteq> None)"
  have r: "readFailure now userId w = Inr (View (u_pinFailedAttempts u) expired)"
    using assms by (auto simp: readFailure_def pin_abs_def expired_def Let_def split: option.splits)
  have n: "nxt = (if expired then 0 else u_pinFailedAttempts u) + 1"
    by (auto simp: nxt_def expired_def pin_abs_def split: option.splits)
  from casFailure_hit [OF assms(1,2) refl, of now gate expired, folded n]
  obtain w' where w': "casFailure now gate userId (u_pinFailedAttempts u) expired w = (Some nxt, w')"
    "users_ok w'" "find_user userId w' = Some (u\<lparr>u_pinFailedAttempts := (if nxt \<ge> PIN_MAX_ATTEMPTS then 0 else nxt),
      u_pinLockedUntil := (if nxt \<ge> PIN_MAX_ATTEMPTS then Some (lockUntil now)
                           else if expired then None else u_pinLockedUntil u)\<rparr>)"
    "\<forall>v. v \<noteq> userId \<longrightarrow> find_user v w' = find_user v w"
    "auditLog w' = auditLog w @ (if nxt \<ge> PIN_MAX_ATTEMPTS then [(''pin_lockout_armed'', gate, userId)] else [])"
    by blast
  show ?thesis
    using w' r n assms(3)
    by (auto simp: recordFailure_def pin_abs_def pin_inv_def expired_def PIN_MAX_ATTEMPTS_def)
qed

lemma assertPinAuthorized_refines:
  assumes "users_ok w" "find_user userId w = Some u" "pin_inv u" "u_pinHash u = Some h" "h \<noteq> []"
  shows "\<exists>r w' u'. assertPinAuthorized compare now userId pin gate w = (r, w') \<and>
    users_ok w' \<and> find_user userId w' = Some u' \<and> pin_inv u' \<and> u_pinHash u' = Some h \<and>
    (outcome_of r, pin_abs u') = (let (out, st) = pin_spec now (compare pin h) (pin_abs u) in (Some out, st)) \<and>
    (\<forall>v. v \<noteq> userId \<longrightarrow> find_user v w' = find_user v w)"
proof (cases "case pin_abs u of Open _ \<Rightarrow> True | Shut t \<Rightarrow> t \<le> now")
  case False
  then obtain t where t: "pin_abs u = Shut t" "now < t" by (auto split: pin_state.splits)
  then have l: "getLockState now userId w = Some t" by (simp add: getLockState_eq [OF assms(2)])
  then show ?thesis using assms t
    by (simp add: assertPinAuthorized_def logAttemptDuringLockout_def users_ok_def find_user_def Let_def)
next
  case True
  then have l: "getLockState now userId w = None"
    by (auto simp: getLockState_eq [OF assms(2)] split: pin_state.splits)
  show ?thesis
  proof (cases "compare pin h")
    case True
    then have "pin_spec now True (pin_abs u) = (Granted, Open 0)"
      using \<open>case pin_abs u of Open _ \<Rightarrow> True | Shut t \<Rightarrow> t \<le> now\<close> by (cases "pin_abs u") auto
    then show ?thesis using True assms l
      by (simp add: assertPinAuthorized_def resetPin_user resetPin_other pin_abs_def pin_inv_def PIN_MAX_ATTEMPTS_def)
  next
    case wrong: False
    define nxt where "nxt = (case pin_abs u of Open k \<Rightarrow> k | Shut _ \<Rightarrow> 0) + 1"
    from recordFailure_row [OF assms(1-3) True, of gate, folded nxt_def]
    obtain w' u' where f: "recordFailure now userId gate w = (Inr nxt, w')" "users_ok w'"
      "find_user userId w' = Some u'" "pin_inv u'" "u_pinHash u' = u_pinHash u"
      "pin_abs u' = (if nxt \<ge> PIN_MAX_ATTEMPTS then Shut (lockUntil now) else Open nxt)"
      "\<forall>v. v \<noteq> userId \<longrightarrow> find_user v w' = find_user v w"
      by blast
    have "pin_spec now False (pin_abs u) =
        (if nxt \<ge> PIN_MAX_ATTEMPTS then (LockedOut, Shut (lockUntil now)) else (Refused, Open nxt))"
      using True by (cases "pin_abs u") (auto simp: nxt_def lockUntil_def PIN_MAX_ATTEMPTS_def)
    then show ?thesis using assms l wrong f
      by (simp add: assertPinAuthorized_def)
  qed
qed

lemma assertPinAuthorized_ok:
  assumes "users_ok w"
  shows "users_ok (snd (assertPinAuthorized compare now userId pin gate w))"
proof -
  have "users_ok (snd (recordFailure now userId gate w))"
    using assms casFailure_keeps(1) [of now gate userId _ _ w]
    by (auto simp: recordFailure_def split: sum.splits failure_view.splits prod.splits option.splits)
       (metis snd_conv)+
  moreover have "users_ok (logAttemptDuringLockout userId gate w)"
    using assms by (simp add: logAttemptDuringLockout_def users_ok_def)
  ultimately show ?thesis using assms
    by (auto simp: assertPinAuthorized_def split: option.splits sum.splits prod.splits)
qed

text \<open>A run of PIN attempts by one user, oldest first: when each was made and the PIN given.\<close>

fun pinAttempts :: "(string \<Rightarrow> string \<Rightarrow> bool) \<Rightarrow> string \<Rightarrow> string \<Rightarrow> (int \<times> string) list \<Rightarrow> world \<Rightarrow> (thrown + unit) list \<times> world" where
  "pinAttempts compare userId gate [] w = ([], w)"
| "pinAttempts compare userId gate ((now, pin) # rest) w =
     (let (r, w1) = assertPinAuthorized compare now userId pin gate w;
          (rs, w2) = pinAttempts compare userId gate rest w1
      in (r # rs, w2))"

fun pin_spec_run :: "(int \<times> bool) list \<Rightarrow> pin_state \<Rightarrow> pin_outcome list \<times> pin_state" where
  "pin_spec_run [] st = ([], st)"
| "pin_spec_run ((now, ok) # rest) st =
     (let (out, st1) = pin_spec now ok st; (outs, st2) = pin_spec_run rest st1 in (out # outs, st2))"

lemma pinAttempts_refines:
  assumes "users_ok w" "find_user userId w = Some u" "pin_inv u" "u_pinHash u = Some h" "h \<noteq> []"
  shows "\<exists>u'. find_user userId (snd (pinAttempts compare userId gate as w)) = Some u' \<and> pin_inv u' \<and>
    (map outcome_of (fst (pinAttempts compare userId gate as w)), pin_abs u') =
    (let (outs, st) = pin_spec_run (map (\<lambda>(now, pin). (now, compare pin h)) as) (pin_abs u) in (map Some outs, st))"
  using assms
proof (induction as arbitrary: w u)
  case Nil
  then show ?case by simp
next
  case (Cons a as)
  obtain now pin where a: "a = (now, pin)" by (cases a)
  obtain r w1 u1 where 1: "assertPinAuthorized compare now userId pin gate w = (r, w1)"
    "users_ok w1" "find_user userId w1 = Some u1" "pin_inv u1" "u_pinHash u1 = Some h"
    "(outcome_of r, pin_abs u1) = (let (out, st) = pin_spec now (compare pin h) (pin_abs u) in (Some out, st))"
    using assertPinAuthorized_refines [OF Cons.prems] by blast
  from Cons.IH [OF 1(2-5) Cons.prems(5)] 1(1,6) a show ?case
    by (auto simp: Let_def case_prod_beta)
qed

lemma pinAttempts_ok: "users_ok w \<Longrightarrow> users_ok (snd (pinAttempts compare userId gate as w))"
proof (induction as arbitrary: w)
  case (Cons a as)
  obtain now pin where a: "a = (now, pin)" by (cases a)
  then show ?case using Cons.IH [OF assertPinAuthorized_ok [OF Cons.prems]]
    by (simp add: Let_def case_prod_beta)
qed simp

text \<open>No one guesses through a lock: once shut, nothing before its end is granted or counted.\<close>

lemma pin_spec_shut: "(\<forall>(now, ok) \<in> set as. now < t) \<Longrightarrow> pin_spec_run as (Shut t) = (replicate (length as) LockedOut, Shut t)"
  by (induction as) auto

lemma recordFailureLoop_alone:
  assumes "users_ok w" "find_user userId w = Some u" "other n = (\<lambda>w. w)"
  shows "recordFailureLoop clock other userId gate n w = Some (recordFailure (clock n) userId gate w)"
proof (cases "readFailure (clock n) userId w")
  case (Inl e)
  then show ?thesis using assms by (simp add: recordFailureLoop.simps recordFailure_def)
next
  case (Inr v)
  show ?thesis
  proof (cases v)
    case Locked
    then show ?thesis using Inr assms by (simp add: recordFailureLoop.simps recordFailure_def)
  next
    case (View raw expired)
    then have "u_pinFailedAttempts u = raw"
      using Inr assms by (auto simp: readFailure_def Let_def split: if_splits)
    from casFailure_hit [OF assms(1,2) this, of "clock n" gate expired]
    obtain k w' where "casFailure (clock n) gate userId raw expired w = (Some k, w')" by blast
    then show ?thesis using View Inr
      by (subst recordFailureLoop.simps) (simp add: recordFailure_def assms)
  qed
qed

text \<open>The loop ends as soon as one of its turns is not interfered with.\<close>

lemma recordFailureLoop_ends:
  assumes "\<And>w k. users_ok w \<Longrightarrow> users_ok (other k w)"
    and "\<And>w k. find_user userId w \<noteq> None \<Longrightarrow> find_user userId (other k w) \<noteq> None"
    and "other (n + m) = (\<lambda>w. w)" "users_ok w" "find_user userId w \<noteq> None"
  shows "\<exists>r. recordFailureLoop clock other userId gate n w = Some r"
  using assms(3-5)
proof (induction m arbitrary: n w)
  case 0
  then obtain u where "find_user userId w = Some u" by blast
  then show ?case using recordFailureLoop_alone 0 by auto
next
  case (Suc m)
  show ?case
  proof (cases "readFailure (clock n) userId w")
    case (Inl e)
    then show ?thesis by (simp add: recordFailureLoop.simps)
  next
    case (Inr v)
    show ?thesis
    proof (cases v)
      case Locked
      then show ?thesis using Inr by (simp add: recordFailureLoop.simps)
    next
      case (View raw expired)
      obtain a w' where c: "casFailure (clock n) gate userId raw expired (other n w) = (a, w')"
        by (metis surj_pair)
      show ?thesis
      proof (cases a)
        case (Some k)
        then show ?thesis using Inr View c by (simp add: recordFailureLoop.simps)
      next
        case None
        have o: "users_ok (other n w)" "find_user userId (other n w) \<noteq> None" using Suc assms by auto
        have "users_ok w'" "find_user userId w' \<noteq> None"
          using o c by (metis casFailure_keeps(1) snd_conv, metis casFailure_keeps(2) snd_conv)
        then have "\<exists>r. recordFailureLoop clock other userId gate (Suc n) w' = Some r"
          using Suc.IH [of "Suc n" w'] Suc.prems(1) by simp
        then show ?thesis using Inr View c None by (subst recordFailureLoop.simps) simp
      qed
    qed
  qed
qed

section \<open>Properties\<close>


definition demo_compare :: "string \<Rightarrow> string \<Rightarrow> bool" where
  "demo_compare pin h = (h = ''h'' @ pin)"

definition demo_world :: world where
  "demo_world = empty_world\<lparr>users :=
     [new_user ''u1'' ''a@x'' None ''pw'' 0, (new_user ''u2'' ''b@x'' None ''pw'' 0)\<lparr>u_pinHash := Some ''h123456''\<rparr>]\<rparr>"

lemmas demo_simps = demo_compare_def demo_world_def empty_world_def new_user_def users_ok_def user_key_def
  unique_on_def map_filter_def find_user_def pin_inv_def pin_abs_def PIN_MAX_ATTEMPTS_def PIN_LOCKOUT_MS_def


text \<open>C20: five wrong PINs in a row, whenever they are made, answer 401 four times and then 423, and
  from then until fifteen minutes after the fifth every further attempt is answered 423, the right
  PIN included, while the lock stays exactly where it was.\<close>

theorem five_wrong_pins_lock:
  assumes "users_ok w" "find_user userId w = Some u" "pin_abs u = Open 0" "u_pinHash u = Some h" "h \<noteq> []"
    and "\<forall>p \<in> {p1, p2, p3, p4, p5}. \<not> compare p h"
    and "\<forall>(now, pin) \<in> set later. now < t5 + PIN_LOCKOUT_MS"
  shows "map outcome_of (fst (pinAttempts compare userId gate
           ([(t1, p1), (t2, p2), (t3, p3), (t4, p4), (t5, p5)] @ later) w)) =
         replicate 4 (Some Refused) @ Some LockedOut # replicate (length later) (Some LockedOut) \<and>
         (\<exists>u'. find_user userId (snd (pinAttempts compare userId gate
           ([(t1, p1), (t2, p2), (t3, p3), (t4, p4), (t5, p5)] @ later) w)) = Some u' \<and>
           pin_abs u' = Shut (t5 + PIN_LOCKOUT_MS))"
proof -
  have i: "pin_inv u" using assms(3) by (auto simp: pin_abs_def pin_inv_def PIN_MAX_ATTEMPTS_def split: option.splits)
  have "\<forall>(now, ok) \<in> set (map (\<lambda>(now, pin). (now, compare pin h)) later). now < t5 + PIN_LOCKOUT_MS"
    using assms(7) by auto
  note shut = pin_spec_shut [OF this]
  show ?thesis
    using pinAttempts_refines [OF assms(1,2) i assms(4,5), of compare gate
        "[(t1, p1), (t2, p2), (t3, p3), (t4, p4), (t5, p5)] @ later"] assms(3,6)
    by (auto simp: shut PIN_MAX_ATTEMPTS_def Let_def eval_nat_numeral)
qed

lemma five_wrong_pins_lock_witness:
  "map outcome_of (fst (pinAttempts demo_compare ''u2'' ''login''
     ([(1, ''000000''), (2, ''000001''), (3, ''000002''), (4, ''000003''), (5, ''000004'')] @ [(800000, ''123456'')])
     demo_world)) = replicate 4 (Some Refused) @ [Some LockedOut, Some LockedOut]"
proof -
  have "\<exists>u. users_ok demo_world \<and> find_user ''u2'' demo_world = Some u \<and> pin_abs u = Open 0 \<and>
      u_pinHash u = Some ''h123456''"
    by (simp add: demo_simps)
  then obtain u where u: "users_ok demo_world" "find_user ''u2'' demo_world = Some u" "pin_abs u = Open 0"
    "u_pinHash u = Some ''h123456''" by blast
  show ?thesis
    using five_wrong_pins_lock [OF u, of "''000000''" "''000001''" "''000002''" "''000003''" "''000004''" demo_compare
        "[(800000, ''123456'')]" 5 "''login''" 1 2 3 4]
    by (simp add: demo_compare_def PIN_LOCKOUT_MS_def)
qed

text \<open>C19: the retry loop of \<open>recordFailure\<close> returns: whatever other requests do to the world between
  its read and its write, it ends at the latest with the first turn nobody interferes with.\<close>

theorem recordFailure_returns:
  assumes "\<And>w k. users_ok w \<Longrightarrow> users_ok (other k w)"
    and "\<And>w k. find_user userId w \<noteq> None \<Longrightarrow> find_user userId (other k w) \<noteq> None"
    and "other m = (\<lambda>w. w)" "users_ok w" "find_user userId w \<noteq> None"
  shows "\<exists>r. recordFailureLoop clock other userId gate 0 w = Some r"
  using recordFailureLoop_ends [of other userId 0 m w clock gate] assms by simp

lemma recordFailure_returns_witness:
  "\<exists>r. recordFailureLoop int (\<lambda>n w. if n = 0 then snd (update_users ''u2'' (\<lambda>_. True) (\<lambda>u. u\<lparr>u_pinFailedAttempts := 3\<rparr>) w) else w)
     ''u2'' ''transfer'' 0 demo_world = Some r"
proof (rule recordFailure_returns [where m = 1])
  show "users_ok demo_world" "find_user ''u2'' demo_world \<noteq> None" by (simp_all add: demo_simps)
qed (auto simp: update_users_ok find_user_update)

text \<open>C34: a compare-and-swap that read the counter while an old lockout had expired can undo a new one.
  A request reads the expired row; five other wrong attempts complete and shut the gate; the first
  request's write still matches the counter (arming sets it back to zero) and clears the lock, so the
  account is open again with one recorded failure.\<close>

theorem stale_failure_clears_lock:
  assumes "users_ok w" "find_user userId w = Some u" "pin_inv u" "pin_abs u = Shut e" "e \<le> ts" "ts \<le> ta"
    and "u_pinHash u = Some h" "h \<noteq> []" "\<forall>p \<in> {pa, pb, pc, pd, pe}. \<not> compare p h"
    and w5: "w5 = snd (pinAttempts compare userId gate [(ta, pa), (tb, pb), (tc, pc), (td, pd), (te, pe)] w)"
  shows "readFailure ts userId w = Inr (View 0 True) \<and>
         (\<exists>u5. find_user userId w5 = Some u5 \<and> pin_abs u5 = Shut (te + PIN_LOCKOUT_MS)) \<and>
         (\<exists>w6 u6. casFailure tf gate userId 0 True w5 = (Some 1, w6) \<and>
            find_user userId w6 = Some u6 \<and> pin_abs u6 = Open 1)"
proof -
  have r: "readFailure ts userId w = Inr (View 0 True)"
    using assms(2-5) by (auto simp: readFailure_def pin_abs_def pin_inv_def Let_def split: option.splits)
  from pinAttempts_refines [OF assms(1-3,7,8), of compare gate "[(ta, pa), (tb, pb), (tc, pc), (td, pd), (te, pe)]", folded w5]
  obtain u5 where u5: "find_user userId w5 = Some u5" "pin_inv u5" "pin_abs u5 = Shut (te + PIN_LOCKOUT_MS)"
    using assms(4-6,9) by (auto simp: PIN_MAX_ATTEMPTS_def Let_def)
  have ok: "users_ok w5" unfolding w5 by (rule pinAttempts_ok) (rule assms(1))
  have "u_pinFailedAttempts u5 = 0" using u5(2,3) by (auto simp: pin_inv_def pin_abs_def split: option.splits)
  from casFailure_hit [OF ok u5(1) this, of tf gate True] r u5 show ?thesis
    by (auto simp: PIN_MAX_ATTEMPTS_def pin_abs_def)
qed

lemma stale_failure_clears_lock_witness:
  "\<exists>w6 u6. casFailure 30 ''transfer'' ''u2'' 0 True
      (snd (pinAttempts demo_compare ''u2'' ''transfer''
        [(21, ''000000''), (22, ''000000''), (23, ''000000''), (24, ''000000''), (25, ''000000'')]
        (demo_world\<lparr>users := [(new_user ''u2'' ''b@x'' None ''pw'' 0)\<lparr>u_pinHash := Some ''h123456'', u_pinLockedUntil := Some 10\<rparr>]\<rparr>)))
      = (Some 1, w6) \<and> find_user ''u2'' w6 = Some u6 \<and> pin_abs u6 = Open 1"
proof -
  let ?w = "demo_world\<lparr>users := [(new_user ''u2'' ''b@x'' None ''pw'' 0)\<lparr>u_pinHash := Some ''h123456'', u_pinLockedUntil := Some 10\<rparr>]\<rparr>"
  have "\<exists>u. users_ok ?w \<and> find_user ''u2'' ?w = Some u \<and> pin_inv u \<and> pin_abs u = Shut 10 \<and>
      u_pinHash u = Some ''h123456''"
    by (simp add: demo_simps)
  then obtain u where u: "users_ok ?w" "find_user ''u2'' ?w = Some u" "pin_inv u" "pin_abs u = Shut 10"
    "u_pinHash u = Some ''h123456''" by blast
  show ?thesis
    using stale_failure_clears_lock [OF u(1-4) _ _ u(5), where ts = 20 and ta = 21 and tb = 22
        and tc = 23 and td = 24 and te = 25 and tf = 30 and gate = "''transfer''" and compare = demo_compare
        and pa = "''000000''" and pb = "''000000''" and pc = "''000000''" and pd = "''000000''"
        and pe = "''000000''", OF _ _ _ _ refl]
    by (simp add: demo_compare_def)
qed

end
