(* ===== verification/PinRace.thy ===== *)
theory PinRace
  imports PinLockout
begin

text \<open>
  Concurrent wrong PINs for one user.  Every request runs the read and the compare-and-swap of
  \<open>recordFailure\<close> as separate steps, in any order with those of other requests, with correct PINs and
  with the clock.  \<open>views\<close> holds what the requests between their read and their write have seen;
  \<open>counted\<close> and \<open>armed\<close> count the failures that landed and the lockouts they armed.
\<close>

record pin_race =
  clk :: int
  db :: world
  views :: "(int \<times> bool) list"
  counted :: int
  armed :: int

inductive pin_step :: "string \<Rightarrow> string \<Rightarrow> pin_race \<Rightarrow> pin_race \<Rightarrow> bool" for userId gate where
  tick: "clk s \<le> t \<Longrightarrow> pin_step userId gate s (s\<lparr>clk := t\<rparr>)"
| read: "readFailure (clk s) userId (db s) = Inr (View raw expired) \<Longrightarrow>
    pin_step userId gate s (s\<lparr>views := (raw, expired) # views s\<rparr>)"
| hit: "(raw, expired) \<in> set (views s) \<Longrightarrow>
    casFailure (clk s) gate userId raw expired (db s) = (Some k, w') \<Longrightarrow>
    pin_step userId gate s (s\<lparr>db := w', views := remove1 (raw, expired) (views s),
      counted := counted s + 1, armed := armed s + (if k \<ge> PIN_MAX_ATTEMPTS then 1 else 0)\<rparr>)"
| miss: "(raw, expired) \<in> set (views s) \<Longrightarrow>
    casFailure (clk s) gate userId raw expired (db s) = (None, w') \<Longrightarrow>
    pin_step userId gate s (s\<lparr>db := w', views := remove1 (raw, expired) (views s)\<rparr>)"
| granted: "pin_step userId gate s (s\<lparr>db := resetPin userId (db s)\<rparr>)"

inductive_cases pin_stepE: "pin_step userId gate s s'"

definition armed_events :: "string \<Rightarrow> world \<Rightarrow> nat" where
  "armed_events userId w = length (filter (\<lambda>(e, g, u). e = ''pin_lockout_armed'' \<and> u = userId) (auditLog w))"

text \<open>The invariant of the race: every armed lockout is paid for by five counted failures.\<close>

definition race_inv :: "string \<Rightarrow> nat \<Rightarrow> pin_race \<Rightarrow> bool" where
  "race_inv userId n0 s \<longleftrightarrow> users_ok (db s) \<and>
     (\<exists>u. find_user userId (db s) = Some u \<and>
        0 \<le> u_pinFailedAttempts u \<and> u_pinFailedAttempts u < PIN_MAX_ATTEMPTS \<and>
        PIN_MAX_ATTEMPTS * armed s + u_pinFailedAttempts u \<le> counted s) \<and>
     (\<forall>(raw, expired) \<in> set (views s). 0 \<le> raw \<and> raw < PIN_MAX_ATTEMPTS) \<and>
     int (armed_events userId (db s)) = int n0 + armed s"

lemma readFailure_view:
  "readFailure now userId w = Inr (View raw expired) \<Longrightarrow>
   \<exists>u. find_user userId w = Some u \<and> u_pinFailedAttempts u = raw"
  by (auto simp: readFailure_def Let_def split: option.splits if_splits)

lemma casFailure_Some:
  assumes "users_ok w" "find_user userId w = Some u" "casFailure now gate userId raw expired w = (Some k, w')"
  shows "u_pinFailedAttempts u = raw \<and> k = (if expired then 0 else raw) + 1"
proof -
  have r: "u_pinFailedAttempts u = raw"
    using casFailure_miss [OF assms(1,2), of raw now gate expired] assms(3) by auto
  with casFailure_hit [OF assms(1,2) r, of now gate expired] assms(3) show ?thesis by auto
qed

lemma casFailure_None:
  assumes "users_ok w" "casFailure now gate userId raw expired w = (None, w')"
    and "find_user userId w = Some u"
  shows "users_ok w' \<and> find_user userId w' = Some u \<and> auditLog w' = auditLog w"
proof -
  have n: "u_pinFailedAttempts u \<noteq> raw"
    using casFailure_hit [OF assms(1,3), of raw now gate expired] assms(2) by force
  have "casFailure now gate userId raw expired w = (None, snd (update_users userId (\<lambda>u. u_pinFailedAttempts u = raw)
        (\<lambda>u. u\<lparr>u_pinFailedAttempts := (if (if expired then 0 else raw) + 1 \<ge> PIN_MAX_ATTEMPTS then 0 else (if expired then 0 else raw) + 1),
               u_pinLockedUntil := (if (if expired then 0 else raw) + 1 \<ge> PIN_MAX_ATTEMPTS then Some (lockUntil now)
                                    else if expired then None else u_pinLockedUntil u)\<rparr>) w))"
    unfolding casFailure_def Let_def case_prod_beta using assms n by (simp add: update_users_count)
  then show ?thesis using assms n by (simp add: update_users_ok find_user_update)
qed

lemma race_inv_step:
  assumes "pin_step userId gate s s'" "race_inv userId n0 s"
  shows "race_inv userId n0 s'"
  using assms(1)
proof (cases rule: pin_step.cases)
  case (tick t)
  then show ?thesis using assms(2) by (simp add: race_inv_def)
next
  case (read raw expired)
  then show ?thesis using assms(2) readFailure_view [OF read(2)] by (auto simp: race_inv_def)
next
  case (hit raw expired k w')
  obtain u where u: "users_ok (db s)" "find_user userId (db s) = Some u"
    "0 \<le> u_pinFailedAttempts u" "u_pinFailedAttempts u < PIN_MAX_ATTEMPTS"
    "PIN_MAX_ATTEMPTS * armed s + u_pinFailedAttempts u \<le> counted s"
    "int (armed_events userId (db s)) = int n0 + armed s"
    using assms(2) by (auto simp: race_inv_def)
  have k: "u_pinFailedAttempts u = raw" "k = (if expired then 0 else raw) + 1"
    using casFailure_Some [OF u(1,2) hit(3)] by auto
  from casFailure_hit [OF u(1,2) k(1), of "clk s" gate expired] hit(3) k(2)
  have w: "users_ok w'" "find_user userId w' = Some (u\<lparr>u_pinFailedAttempts := (if k \<ge> PIN_MAX_ATTEMPTS then 0 else k),
      u_pinLockedUntil := (if k \<ge> PIN_MAX_ATTEMPTS then Some (lockUntil (clk s))
                           else if expired then None else u_pinLockedUntil u)\<rparr>)"
    "auditLog w' = auditLog (db s) @ (if k \<ge> PIN_MAX_ATTEMPTS then [(''pin_lockout_armed'', gate, userId)] else [])"
    by auto
  have "armed_events userId w' = armed_events userId (db s) + (if k \<ge> PIN_MAX_ATTEMPTS then 1 else 0)"
    using w(3) by (simp add: armed_events_def)
  moreover have "\<forall>(raw, expired) \<in> set (remove1 (raw, expired) (views s)). 0 \<le> raw \<and> raw < PIN_MAX_ATTEMPTS"
    using assms(2) by (auto simp: race_inv_def dest: notin_set_remove1 [THEN contrapos_pp])
  ultimately show ?thesis using hit(1) w(1,2) u k
    by (auto simp: race_inv_def PIN_MAX_ATTEMPTS_def split: if_splits)
next
  case (miss raw expired w')
  obtain u where u: "users_ok (db s)" "find_user userId (db s) = Some u" using assms(2) by (auto simp: race_inv_def)
  have "\<forall>(raw, expired) \<in> set (remove1 (raw, expired) (views s)). 0 \<le> raw \<and> raw < PIN_MAX_ATTEMPTS"
    using assms(2) by (auto simp: race_inv_def dest: notin_set_remove1 [THEN contrapos_pp])
  then show ?thesis
    using assms(2) miss(1) casFailure_None [OF u(1) miss(3) u(2)] u
    by (simp add: race_inv_def armed_events_def)
next
  case granted
  then show ?thesis using assms(2)
    by (auto simp: race_inv_def resetPin_user armed_events_def resetPin_def PIN_MAX_ATTEMPTS_def update_users_ok find_user_update)
qed

lemma race_inv_reachable:
  "(pin_step userId gate)\<^sup>*\<^sup>* s s' \<Longrightarrow> race_inv userId n0 s \<Longrightarrow> race_inv userId n0 s'"
  by (induction rule: rtranclp_induct) (auto dest: race_inv_step)

section \<open>Properties\<close>



end
