(* ===== verification/OtpStore.thy ===== *)
theory OtpStore
  imports Schema
begin

text \<open>
  The verification-code store, \<^verbatim>\<open>src/src/services/auth/verificationCodeStore.ts\<close>: codes in Redis
  under one key per channel and user, the two Lua scripts, and \<open>verifyVerificationCode\<close>.  \<open>hmac\<close>
  stands for HMAC-SHA256 with hexadecimal output (key first).  Redis is the map \<open>otpStore\<close>: a value
  with the time it is dropped at; \<open>TTL\<close> rounds the remaining milliseconds to seconds as Redis does.
  Between the \<open>GET\<close> of a verification and its script another request may run: that is \<open>mid\<close>.
\<close>

record otp_config =
  OTP_TTL_SECONDS :: int
  OTP_EXPIRY_GRACE_SECONDS :: int
  OTP_MAX_ATTEMPTS :: int
  OTP_JWT_SECRET :: string

type_synonym hmac = "string \<Rightarrow> string \<Rightarrow> string"

definition CODE_TTL_MS :: "otp_config \<Rightarrow> int" where
  "CODE_TTL_MS cfg = OTP_TTL_SECONDS cfg * 1000"

definition EXPIRY_GRACE_MS :: "otp_config \<Rightarrow> int" where
  "EXPIRY_GRACE_MS cfg = OTP_EXPIRY_GRACE_SECONDS cfg * 1000"

definition RETENTION_TTL_SECONDS :: "otp_config \<Rightarrow> int" where
  "RETENTION_TTL_SECONDS cfg = (CODE_TTL_MS cfg + EXPIRY_GRACE_MS cfg + 999) div 1000"

datatype channel = EmailChannel | PhoneChannel

fun channel_name :: "channel \<Rightarrow> string" where
  "channel_name EmailChannel = ''email''"
| "channel_name PhoneChannel = ''phone''"

definition storeKey :: "string \<Rightarrow> channel \<Rightarrow> string" where
  "storeKey userId ch = ''ulmara:otp:'' @ channel_name ch @ '':'' @ userId"

definition pepper :: "hmac \<Rightarrow> otp_config \<Rightarrow> string" where
  "pepper hmac cfg = hmac ''ulmara:otp:v1'' (OTP_JWT_SECRET cfg)"

definition hashCode :: "hmac \<Rightarrow> otp_config \<Rightarrow> string \<Rightarrow> string" where
  "hashCode hmac cfg code = hmac (pepper hmac cfg) code"

definition safeEquals :: "string \<Rightarrow> string \<Rightarrow> bool" where
  "safeEquals a b = (if length a \<noteq> length b then False else a = b)"

section \<open>Redis\<close>

definition redis_get :: "int \<Rightarrow> string \<Rightarrow> world \<Rightarrow> stored_record option" where
  "redis_get now key w =
     (case otpStore w key of None \<Rightarrow> None | Some (v, deadline) \<Rightarrow> if deadline \<le> now then None else Some v)"

definition redis_set :: "int \<Rightarrow> string \<Rightarrow> stored_record \<Rightarrow> int \<Rightarrow> world \<Rightarrow> world" where
  "redis_set now key v ttl w = w\<lparr>otpStore := (otpStore w)(key := Some (v, now + ttl * 1000))\<rparr>"

definition redis_del :: "string \<Rightarrow> world \<Rightarrow> world" where
  "redis_del key w = w\<lparr>otpStore := (otpStore w)(key := None)\<rparr>"

definition redis_ttl :: "int \<Rightarrow> string \<Rightarrow> world \<Rightarrow> int" where
  "redis_ttl now key w =
     (case otpStore w key of
        None \<Rightarrow> - 2
      | Some (_, deadline) \<Rightarrow> if deadline \<le> now then - 2 else (deadline - now + 500) div 1000)"

section \<open>The scripts\<close>

definition CONSUME_SCRIPT :: "int \<Rightarrow> string \<Rightarrow> string \<Rightarrow> world \<Rightarrow> int \<times> world" where
  "CONSUME_SCRIPT now key h w =
     (case redis_get now key w of
        None \<Rightarrow> (0, w)
      | Some Garbage \<Rightarrow> (0, redis_del key w)
      | Some Misshapen \<Rightarrow> (0, w)
      | Some (StoredRecord h' e a) \<Rightarrow> if h' \<noteq> h then (0, w) else (1, redis_del key w))"

definition FAILURE_SCRIPT :: "int \<Rightarrow> string \<Rightarrow> string \<Rightarrow> int \<Rightarrow> world \<Rightarrow> int \<times> world" where
  "FAILURE_SCRIPT now key h maxAttempts w =
     (case redis_get now key w of
        None \<Rightarrow> (0, w)
      | Some Garbage \<Rightarrow> (0, redis_del key w)
      | Some Misshapen \<Rightarrow> (0, w)
      | Some (StoredRecord h' e a) \<Rightarrow>
          if h' \<noteq> h then (0, w)
          else let ttl = redis_ttl now key w
               in if ttl \<le> 0 then (0, redis_del key w)
                  else let attempts = a + 1
                       in if attempts \<ge> maxAttempts then (- 1, redis_del key w)
                          else (attempts, redis_set now key (StoredRecord h' e attempts) ttl w))"

section \<open>Operations\<close>

text \<open>\<open>randomInt(100_000, 1_000_000)\<close> is the argument.\<close>

definition generateVerificationCode :: "nat \<Rightarrow> string" where
  "generateVerificationCode r = show_nat r"

definition createVerificationCode :: "hmac \<Rightarrow> otp_config \<Rightarrow> int \<Rightarrow> string \<Rightarrow> channel \<Rightarrow> string \<Rightarrow> world \<Rightarrow> string \<times> world" where
  "createVerificationCode hmac cfg now userId ch code w =
     (let record = StoredRecord (hashCode hmac cfg code) (now + CODE_TTL_MS cfg) 0
      in (code, redis_set now (storeKey userId ch) record (RETENTION_TTL_SECONDS cfg) w))"

definition deleteVerificationCode :: "string \<Rightarrow> channel \<Rightarrow> world \<Rightarrow> world" where
  "deleteVerificationCode userId ch w = redis_del (storeKey userId ch) w"

datatype verify_outcome = Verified | Invalid | Expired | NoCode | AttemptsExhausted

text \<open>\<open>/^\d{6}$/.test(code)\<close>.\<close>

definition six_digits :: "string \<Rightarrow> bool" where
  "six_digits code \<longleftrightarrow> length code = 6 \<and> all_digits code"

definition verifyVerificationCode ::
  "hmac \<Rightarrow> otp_config \<Rightarrow> int \<Rightarrow> (world \<Rightarrow> world) \<Rightarrow> string \<Rightarrow> channel \<Rightarrow> string \<Rightarrow> verify_outcome op" where
  "verifyVerificationCode hmac cfg now mid userId ch code w =
     (if \<not> six_digits code then (Inl (StatusError 400 ''Verification code must be 6 digits''), w)
      else let key = storeKey userId ch in
        (case redis_get now key w of
           None \<Rightarrow> (Inr NoCode, w)
         | Some Garbage \<Rightarrow> (Inr NoCode, redis_del key w)
         | Some Misshapen \<Rightarrow> (Inr NoCode, redis_del key w)
         | Some (StoredRecord h e a) \<Rightarrow>
             if e \<le> now then (Inr Expired, redis_del key w)
             else if \<not> safeEquals h (hashCode hmac cfg code)
             then (case FAILURE_SCRIPT now key h (OTP_MAX_ATTEMPTS cfg) (mid w) of
                     (count, w') \<Rightarrow> (Inr (if count = - 1 then AttemptsExhausted else Invalid), w'))
             else (case CONSUME_SCRIPT now key h (mid w) of
                     (consumed, w') \<Rightarrow> (Inr (if consumed = 1 then Verified else Invalid), w'))))"

definition verificationCodeTtlSeconds :: "int \<Rightarrow> string \<Rightarrow> channel \<Rightarrow> world \<Rightarrow> int option" where
  "verificationCodeTtlSeconds now userId ch w =
     (let ttl = redis_ttl now (storeKey userId ch) w in if ttl \<ge> 0 then Some ttl else None)"

section \<open>Lemmas\<close>

lemma div_1000: "(x::int) - 999 \<le> x div 1000 * 1000"
  using div_mult_mod_eq [of x 1000] pos_mod_bound [of 1000 x] by linarith

lemma retention: "RETENTION_TTL_SECONDS cfg = OTP_TTL_SECONDS cfg + OTP_EXPIRY_GRACE_SECONDS cfg"
proof -
  have "CODE_TTL_MS cfg + EXPIRY_GRACE_MS cfg + 999 = 999 + (OTP_TTL_SECONDS cfg + OTP_EXPIRY_GRACE_SECONDS cfg) * 1000"
    by (simp add: CODE_TTL_MS_def EXPIRY_GRACE_MS_def)
  then show ?thesis unfolding RETENTION_TTL_SECONDS_def by simp
qed

lemma safeEquals_iff [simp]: "safeEquals a b \<longleftrightarrow> a = b"
  by (auto simp: safeEquals_def)

lemma storeKey_inject [simp]: "storeKey u c = storeKey v d \<longleftrightarrow> u = v \<and> c = d"
  by (cases c; cases d) (simp_all add: storeKey_def)

lemma redis_simps [simp]:
  "otpStore (redis_del key w) k = (if k = key then None else otpStore w k)"
  "otpStore (redis_set now key v ttl w) k = (if k = key then Some (v, now + ttl * 1000) else otpStore w k)"
  by (simp_all add: redis_del_def redis_set_def)

lemma redis_get_Some: "redis_get now key w = Some v \<longleftrightarrow> (\<exists>d. otpStore w key = Some (v, d) \<and> now < d)"
  by (auto simp: redis_get_def split: option.splits if_splits)

lemma generated_code_ok: "100000 \<le> r \<Longrightarrow> r < 1000000 \<Longrightarrow> six_digits (generateVerificationCode r)"
proof -
  assume r: "100000 \<le> r" "r < 1000000"
  have "length (show_nat r) \<le> 6" using length_show_nat [of r 6] r by simp
  moreover have "\<not> length (show_nat r) \<le> 5"
  proof
    assume "length (show_nat r) \<le> 5"
    then have "(10::nat) ^ length (show_nat r) \<le> 10 ^ 5" by (intro power_increasing) simp_all
    then have "r < 100000" using digits_val_lt [OF show_nat_digits, of r] by simp
    with r show False by simp
  qed
  ultimately show ?thesis by (simp add: six_digits_def generateVerificationCode_def)
qed

text \<open>What one verification does to a live record that nobody else touches.\<close>

lemma verify_live:
  assumes "otpStore w (storeKey userId ch) = Some (StoredRecord (hashCode hmac cfg code) e a, d)" "now < e" "now < d"
    and "six_digits guess" "hashCode hmac cfg guess = hashCode hmac cfg code"
  shows "verifyVerificationCode hmac cfg now (\<lambda>w. w) userId ch guess w = (Inr Verified, redis_del (storeKey userId ch) w)"
  using assms by (simp add: verifyVerificationCode_def redis_get_def CONSUME_SCRIPT_def)

lemma verify_wrong:
  assumes "otpStore w (storeKey userId ch) = Some (StoredRecord h e a, d)" "now < e" "now + 500 \<le> d"
    and "six_digits guess" "hashCode hmac cfg guess \<noteq> h"
  shows "verifyVerificationCode hmac cfg now (\<lambda>w. w) userId ch guess w =
    (if a + 1 \<ge> OTP_MAX_ATTEMPTS cfg then (Inr AttemptsExhausted, redis_del (storeKey userId ch) w)
     else (Inr Invalid, redis_set now (storeKey userId ch) (StoredRecord h e (a + 1)) ((d - now + 500) div 1000) w))
    \<or> a + 1 < 0"
proof -
  have "1000 \<le> d - now + 500" using assms(3) by simp
  then have "1000 div 1000 \<le> (d - now + 500) div 1000" by (rule zdiv_mono1) simp
  then show ?thesis using assms
    by (auto simp: verifyVerificationCode_def redis_get_def FAILURE_SCRIPT_def redis_ttl_def Let_def)
qed

text \<open>A run of verification attempts on one channel, oldest first.\<close>

fun verifyRun :: "hmac \<Rightarrow> otp_config \<Rightarrow> string \<Rightarrow> channel \<Rightarrow> (int \<times> string) list \<Rightarrow> world \<Rightarrow> (thrown + verify_outcome) list \<times> world" where
  "verifyRun hmac cfg userId ch [] w = ([], w)"
| "verifyRun hmac cfg userId ch ((now, code) # rest) w =
     (let (r, w1) = verifyVerificationCode hmac cfg now (\<lambda>w. w) userId ch code w;
          (rs, w2) = verifyRun hmac cfg userId ch rest w1
      in (r # rs, w2))"

lemma verifyRun_wrong:
  assumes "otpStore w (storeKey userId ch) = Some (StoredRecord h e a, d)" "0 \<le> a"
    and "\<forall>(now, guess) \<in> set gs. now < e \<and> six_digits guess \<and> hashCode hmac cfg guess \<noteq> h"
    and "a + int (length gs) = OTP_MAX_ATTEMPTS cfg" "gs \<noteq> []"
    and "e + 500 * int (length gs) \<le> d"
  shows "fst (verifyRun hmac cfg userId ch gs w) =
           replicate (length gs - 1) (Inr Invalid) @ [Inr AttemptsExhausted] \<and>
         otpStore (snd (verifyRun hmac cfg userId ch gs w)) (storeKey userId ch) = None"
  using assms
proof (induction gs arbitrary: w a d)
  case Nil
  then show ?case by simp
next
  case (Cons g gs)
  obtain now guess where g: "g = (now, guess)" by (cases g)
  have c: "now < e" "six_digits guess" "hashCode hmac cfg guess \<noteq> h" using Cons.prems(3) g by auto
  have d: "now + 500 \<le> d" using Cons.prems(6) c by simp
  note v = verify_wrong [OF Cons.prems(1) c(1) d c(2,3)]
  show ?case
  proof (cases "gs = []")
    case True
    then show ?thesis using v Cons.prems(2,4) g by simp
  next
    case False
    then have lt: "\<not> a + 1 \<ge> OTP_MAX_ATTEMPTS cfg" using Cons.prems(4) by (cases gs) simp_all
    let ?d = "now + (d - now + 500) div 1000 * 1000"
    let ?w = "redis_set now (storeKey userId ch) (StoredRecord h e (a + 1)) ((d - now + 500) div 1000) w"
    have "d - now + 500 - 999 \<le> (d - now + 500) div 1000 * 1000" by (rule div_1000)
    then have "e + 500 * int (length gs) \<le> ?d" using Cons.prems(6) by simp
    moreover have "a + 1 + int (length gs) = OTP_MAX_ATTEMPTS cfg" using Cons.prems(4) by simp
    ultimately have ih: "fst (verifyRun hmac cfg userId ch gs ?w) = replicate (length gs - 1) (Inr Invalid) @ [Inr AttemptsExhausted] \<and>
        otpStore (snd (verifyRun hmac cfg userId ch gs ?w)) (storeKey userId ch) = None"
      using Cons.IH [of ?w "a + 1" ?d] Cons.prems(2,3) False by simp
    have "Suc (length gs - 1) = length gs" using False by simp
    then have "replicate (length gs) x = x # replicate (length gs - 1) x" for x :: "thrown + verify_outcome"
      by (metis replicate_Suc)
    then show ?thesis using ih v lt Cons.prems(2) g by (simp add: Let_def case_prod_beta)
  qed
qed

section \<open>Properties\<close>


definition demo_otp :: otp_config where
  "demo_otp = \<lparr>OTP_TTL_SECONDS = 600, OTP_EXPIRY_GRACE_SECONDS = 300, OTP_MAX_ATTEMPTS = 3, OTP_JWT_SECRET = ''s''\<rparr>"


text \<open>Wrong guesses are bounded.  With at least half a second of grace per permitted attempt,
  \<open>OTP_MAX_ATTEMPTS\<close> wrong codes before the expiry answer invalid until the last, which exhausts the
  budget; the record is then gone and even the right code finds no code.\<close>

lemma wrong_codes_exhaust:
  assumes "w1 = snd (createVerificationCode hmac cfg t userId ch code w)"
    and "\<forall>(now, guess) \<in> set gs. now < t + CODE_TTL_MS cfg \<and> six_digits guess \<and> hashCode hmac cfg guess \<noteq> hashCode hmac cfg code"
    and "int (length gs) = OTP_MAX_ATTEMPTS cfg" "gs \<noteq> []"
    and "OTP_MAX_ATTEMPTS cfg \<le> 2 * OTP_EXPIRY_GRACE_SECONDS cfg" "six_digits code"
  shows "fst (verifyRun hmac cfg userId ch gs w1) = replicate (length gs - 1) (Inr Invalid) @ [Inr AttemptsExhausted] \<and>
         fst (verifyVerificationCode hmac cfg later (\<lambda>w. w) userId ch code (snd (verifyRun hmac cfg userId ch gs w1))) = Inr NoCode"
proof -
  have "t + CODE_TTL_MS cfg + 500 * int (length gs) \<le> t + RETENTION_TTL_SECONDS cfg * 1000"
    using assms(3,5) by (simp add: retention CODE_TTL_MS_def)
  then have r: "fst (verifyRun hmac cfg userId ch gs w1) = replicate (length gs - 1) (Inr Invalid) @ [Inr AttemptsExhausted] \<and>
      otpStore (snd (verifyRun hmac cfg userId ch gs w1)) (storeKey userId ch) = None"
    using verifyRun_wrong [of w1 userId ch "hashCode hmac cfg code" "t + CODE_TTL_MS cfg" 0 "t + RETENTION_TTL_SECONDS cfg * 1000" gs hmac cfg]
      assms by (simp add: createVerificationCode_def Let_def)
  then show ?thesis using assms(6) by (simp add: verifyVerificationCode_def redis_get_def)
qed

text \<open>Under any interference between the read and the script, a verification that succeeds consumed
  a record whose hash is that of the presented code and that was unexpired when it was read, and the
  record is gone afterwards; and when a resend replaced the record by one with another hash, the
  older request answers invalid and leaves the new record untouched.\<close>

lemma verify_consumes_own_record:
  "(verifyVerificationCode hmac cfg now mid userId ch code w = (Inr Verified, w') \<longrightarrow>
      (\<exists>e a d e' a' d'. otpStore w (storeKey userId ch) = Some (StoredRecord (hashCode hmac cfg code) e a, d) \<and> now < e \<and>
         otpStore (mid w) (storeKey userId ch) = Some (StoredRecord (hashCode hmac cfg code) e' a', d') \<and>
         otpStore w' (storeKey userId ch) = None)) \<and>
   (otpStore w (storeKey userId ch) = Some (StoredRecord h e a, d) \<and> now < e \<and> now < d \<and> six_digits code \<and>
      otpStore (mid w) (storeKey userId ch) = Some (StoredRecord h' e' a', d') \<and> h' \<noteq> h \<longrightarrow>
      verifyVerificationCode hmac cfg now mid userId ch code w = (Inr Invalid, mid w))"
  by (auto simp: verifyVerificationCode_def redis_get_def CONSUME_SCRIPT_def FAILURE_SCRIPT_def Let_def
      split: option.splits if_splits prod.splits stored_record.splits)

end
