(* ===== verification/Jwt.thy ===== *)
theory Jwt
  imports Schema
begin

text \<open>
  Session tokens with key rotation (\<^verbatim>\<open>src/src/config/jwt.ts\<close>) and the two gates that admit a request:
  \<open>requireAuth\<close> (\<^verbatim>\<open>src/src/middleware/auth.middleware.ts\<close>) for REST and \<open>authenticateSocketToken\<close>
  (\<^verbatim>\<open>src/src/websocket/socket.handler.ts\<close>) for sockets.  \<open>jwt_verify\<close> stands for \<open>jwt.verify\<close> of the
  jsonwebtoken package at the current time, \<open>jwt_sign\<close> for \<open>jwt.sign\<close>, and \<open>parse_date\<close> for
  \<open>new Date(text).getTime()\<close> (\<open>None\<close> for an invalid date).
\<close>

text \<open>
  What \<open>jwt.verify\<close> answers: it throws a \<open>TokenExpiredError\<close> or another error, or returns a string
  payload or a claims object, whose \<open>sub\<close> may be missing or not a string (\<open>None\<close>).
\<close>

datatype jwt_result = TokenExpired | TokenError | StringPayload | Claims "string option"

type_synonym jwt_verify = "string \<Rightarrow> string \<Rightarrow> jwt_result"

record jwt_env =
  JWT_SECRET :: string
  JWT_PREVIOUS_SECRET :: "string option"
  JWT_PREVIOUS_SECRET_RETIRE_AT :: "string option"
  JWT_EXPIRES_IN :: string

datatype verify_failure = Malformed | ExpiredToken

datatype verify_result = VerifyOk string | VerifyFailed verify_failure

definition previousSecretActive :: "(string \<Rightarrow> int option) \<Rightarrow> jwt_env \<Rightarrow> int \<Rightarrow> bool" where
  "previousSecretActive parse_date env now =
     (if \<not> truthy (JWT_PREVIOUS_SECRET env) then False
      else if \<not> truthy (JWT_PREVIOUS_SECRET_RETIRE_AT env) then False
      else (case parse_date (the (JWT_PREVIOUS_SECRET_RETIRE_AT env)) of
              None \<Rightarrow> False
            | Some retireAt \<Rightarrow> retireAt > now))"

record rotation_state =
  currentKeyConfigured :: bool
  previousKeyConfigured :: bool
  previousKeyActive :: bool
  previousKeyRetiresAt :: "string option"
  millisecondsUntilPreviousKeyRetires :: "int option"

definition jwtRotationState :: "(string \<Rightarrow> int option) \<Rightarrow> jwt_env \<Rightarrow> int \<Rightarrow> rotation_state" where
  "jwtRotationState parse_date env now =
     (let active = previousSecretActive parse_date env now
      in \<lparr>currentKeyConfigured = (JWT_SECRET env \<noteq> []),
          previousKeyConfigured = truthy (JWT_PREVIOUS_SECRET env),
          previousKeyActive = active,
          previousKeyRetiresAt = JWT_PREVIOUS_SECRET_RETIRE_AT env,
          millisecondsUntilPreviousKeyRetires =
            (if active \<and> truthy (JWT_PREVIOUS_SECRET_RETIRE_AT env)
             then map_option (\<lambda>t. t - now) (parse_date (the (JWT_PREVIOUS_SECRET_RETIRE_AT env)))
             else None)\<rparr>)"

definition signSessionToken :: "(string \<Rightarrow> string \<Rightarrow> string \<Rightarrow> string \<Rightarrow> string) \<Rightarrow> jwt_env \<Rightarrow> string \<Rightarrow> string \<Rightarrow> string" where
  "signSessionToken jwt_sign env jti userId = jwt_sign userId jti (JWT_SECRET env) (JWT_EXPIRES_IN env)"

text \<open>The check of the payload that both keys' successes end in.\<close>

fun check_payload :: "jwt_result \<Rightarrow> verify_result" where
  "check_payload (Claims (Some sub)) = (if length sub = 0 then VerifyFailed Malformed else VerifyOk sub)"
| "check_payload _ = VerifyFailed Malformed"

definition verifySessionToken :: "jwt_verify \<Rightarrow> (string \<Rightarrow> int option) \<Rightarrow> jwt_env \<Rightarrow> int \<Rightarrow> string \<Rightarrow> verify_result" where
  "verifySessionToken jwt_verify parse_date env now token =
     (case jwt_verify token (JWT_SECRET env) of
        TokenExpired \<Rightarrow> VerifyFailed ExpiredToken
      | TokenError \<Rightarrow>
          if previousSecretActive parse_date env now
          then (case jwt_verify token (the (JWT_PREVIOUS_SECRET env)) of
                  TokenExpired \<Rightarrow> VerifyFailed ExpiredToken
                | TokenError \<Rightarrow> VerifyFailed Malformed
                | payload \<Rightarrow> check_payload payload)
          else VerifyFailed Malformed
      | payload \<Rightarrow> check_payload payload)"

text \<open>\<open>/^(\d+)([smhd])$/\<close> on the lifetime, seven days when it does not match.\<close>

definition sessionExpiry :: "jwt_env \<Rightarrow> int \<Rightarrow> int" where
  "sessionExpiry env now =
     (let s = JWT_EXPIRES_IN env
      in if s = [] \<or> butlast s = [] \<or> \<not> all_digits (butlast s) then now + 7 * 24 * 60 * 60 * 1000
         else let v = int (digits_val (butlast s)); c = last s
              in if c = CHR ''s'' then now + v * 1000
                 else if c = CHR ''m'' then now + v * 60000
                 else if c = CHR ''h'' then now + v * 3600000
                 else if c = CHR ''d'' then now + v * 86400000
                 else now + 7 * 24 * 60 * 60 * 1000)"

section \<open>The gates\<close>

datatype auth_reply = Authorized string | Unauthorized string

definition find_session :: "string \<Rightarrow> world \<Rightarrow> session_row option" where
  "find_session token w = find_row (\<lambda>s. s_token s = token) (sessions w)"

text \<open>Every rejection is a 401 with the given message; success sets \<open>request.userId\<close>.\<close>

definition requireAuth ::
  "jwt_verify \<Rightarrow> (string \<Rightarrow> int option) \<Rightarrow> jwt_env \<Rightarrow> int \<Rightarrow> string option \<Rightarrow> world \<Rightarrow> auth_reply" where
  "requireAuth jwt_verify parse_date env now authHeader w =
     (case authHeader of
        None \<Rightarrow> Unauthorized ''Unauthorized''
      | Some header \<Rightarrow>
          if \<not> startsWith header ''Bearer '' then Unauthorized ''Unauthorized''
          else let token = drop 7 header in
            (case verifySessionToken jwt_verify parse_date env now token of
               VerifyFailed reason \<Rightarrow>
                 if reason = ExpiredToken then Unauthorized ''Session expired'' else Unauthorized ''Invalid token''
             | VerifyOk sub \<Rightarrow>
                 (case find_session token w of
                    None \<Rightarrow> Unauthorized ''Session expired''
                  | Some session \<Rightarrow>
                      if s_expiresAt session < now then Unauthorized ''Session expired''
                      else if s_userId session \<noteq> sub then Unauthorized ''Invalid token''
                      else Authorized sub)))"

definition authenticateSocketToken ::
  "jwt_verify \<Rightarrow> (string \<Rightarrow> int option) \<Rightarrow> jwt_env \<Rightarrow> int \<Rightarrow> string option \<Rightarrow> world \<Rightarrow> auth_reply" where
  "authenticateSocketToken jwt_verify parse_date env now token' w =
     (if \<not> truthy token' then Unauthorized ''missing_token''
      else let token = the token' in
        (case verifySessionToken jwt_verify parse_date env now token of
           VerifyFailed reason \<Rightarrow> Unauthorized (if reason = ExpiredToken then ''expired'' else ''malformed'')
         | VerifyOk sub \<Rightarrow>
             (case find_session token w of
                None \<Rightarrow> Unauthorized ''unknown_session''
              | Some session \<Rightarrow>
                  if s_expiresAt session \<le> now then Unauthorized ''expired_session''
                  else if s_userId session \<noteq> sub then Unauthorized ''subject_mismatch''
                  else Authorized sub)))"

section \<open>Lemmas\<close>

lemma check_payload_Ok [simp]: "check_payload p = VerifyOk u \<longleftrightarrow> p = Claims (Some u) \<and> u \<noteq> []"
  by (cases p rule: check_payload.cases) auto

lemma requireAuth_iff:
  "requireAuth jwt_verify parse_date env now header w = Authorized u \<longleftrightarrow>
     (\<exists>token session. header = Some (''Bearer '' @ token) \<and>
        verifySessionToken jwt_verify parse_date env now token = VerifyOk u \<and>
        find_session token w = Some session \<and> now \<le> s_expiresAt session \<and> s_userId session = u)"
proof (cases header)
  case None
  then show ?thesis by (simp add: requireAuth_def)
next
  case (Some h)
  have h: "startsWith h ''Bearer '' \<longleftrightarrow> (\<exists>token. h = ''Bearer '' @ token)"
    by (rule startsWith_iff)
  show ?thesis
  proof (cases "startsWith h ''Bearer ''")
    case False
    then show ?thesis using Some h by (auto simp: requireAuth_def)
  next
    case True
    then obtain token where "h = ''Bearer '' @ token" using h by blast
    then show ?thesis using Some True
      by (auto simp: requireAuth_def Let_def split: verify_result.splits option.splits)
  qed
qed

lemma socket_iff:
  "authenticateSocketToken jwt_verify parse_date env now token' w = Authorized u \<longleftrightarrow>
     (\<exists>token session. token' = Some token \<and> token \<noteq> [] \<and>
        verifySessionToken jwt_verify parse_date env now token = VerifyOk u \<and>
        find_session token w = Some session \<and> now < s_expiresAt session \<and> s_userId session = u)"
  by (cases token') (auto simp: authenticateSocketToken_def Let_def split: verify_result.splits option.splits if_splits)

section \<open>Properties\<close>

text \<open>A token is accepted only when the current key verifies it, or when the current key rejects it
  other than as expired and a configured previous key, whose retirement time parses and lies in the
  future, verifies it; in both cases the subject is a non-empty string.  Once the retirement time is
  missing, unreadable or past, the previous key makes no difference.\<close>

lemma previous_key_only_in_window:
  "(verifySessionToken jwt_verify parse_date env now token = VerifyOk u \<longleftrightarrow>
      u \<noteq> [] \<and>
      (jwt_verify token (JWT_SECRET env) = Claims (Some u) \<or>
       (jwt_verify token (JWT_SECRET env) = TokenError \<and>
        (\<exists>previous retire at. JWT_PREVIOUS_SECRET env = Some previous \<and> previous \<noteq> [] \<and>
           JWT_PREVIOUS_SECRET_RETIRE_AT env = Some retire \<and> retire \<noteq> [] \<and> parse_date retire = Some at \<and> now < at \<and>
           jwt_verify token previous = Claims (Some u))))) \<and>
   (\<not> previousSecretActive parse_date env now \<longrightarrow>
      verifySessionToken jwt_verify parse_date env now token =
      verifySessionToken jwt_verify parse_date (env\<lparr>JWT_PREVIOUS_SECRET := None\<rparr>) now token)"
proof
  have a: "previousSecretActive parse_date env now \<longleftrightarrow>
      (\<exists>previous retire at. JWT_PREVIOUS_SECRET env = Some previous \<and> previous \<noteq> [] \<and>
         JWT_PREVIOUS_SECRET_RETIRE_AT env = Some retire \<and> retire \<noteq> [] \<and> parse_date retire = Some at \<and> now < at)"
    by (cases "JWT_PREVIOUS_SECRET env"; cases "JWT_PREVIOUS_SECRET_RETIRE_AT env")
      (auto simp: previousSecretActive_def split: option.splits)
  show "verifySessionToken jwt_verify parse_date env now token = VerifyOk u \<longleftrightarrow>
      u \<noteq> [] \<and>
      (jwt_verify token (JWT_SECRET env) = Claims (Some u) \<or>
       (jwt_verify token (JWT_SECRET env) = TokenError \<and>
        (\<exists>previous retire at. JWT_PREVIOUS_SECRET env = Some previous \<and> previous \<noteq> [] \<and>
           JWT_PREVIOUS_SECRET_RETIRE_AT env = Some retire \<and> retire \<noteq> [] \<and> parse_date retire = Some at \<and> now < at \<and>
           jwt_verify token previous = Claims (Some u))))"
    using a by (auto simp: verifySessionToken_def split: jwt_result.splits)
  show "\<not> previousSecretActive parse_date env now \<longrightarrow>
      verifySessionToken jwt_verify parse_date env now token =
      verifySessionToken jwt_verify parse_date (env\<lparr>JWT_PREVIOUS_SECRET := None\<rparr>) now token"
    by (simp add: verifySessionToken_def previousSecretActive_def [of _ "env\<lparr>JWT_PREVIOUS_SECRET := None\<rparr>"])
qed

definition demo_jwt :: jwt_env where
  "demo_jwt = \<lparr>JWT_SECRET = ''new'', JWT_PREVIOUS_SECRET = Some ''old'', JWT_PREVIOUS_SECRET_RETIRE_AT = Some ''t100'', JWT_EXPIRES_IN = ''7d''\<rparr>"

definition demo_verify :: jwt_verify where
  "demo_verify token secret = (if token = secret @ ''.u1'' then Claims (Some ''u1'') else TokenError)"

text \<open>\<open>requireAuth\<close> admits a request as user \<open>u\<close> exactly when it carries a bearer token that verifies
  with subject \<open>u\<close> and a stored session has that token, belongs to \<open>u\<close> and has not expired.  A
  revoked session, a foreign session and a tampered subject are all refused.\<close>

lemma requireAuth_admits_exactly:
  "requireAuth jwt_verify parse_date env now header w = Authorized u \<longleftrightarrow>
     (\<exists>token session. header = Some (''Bearer '' @ token) \<and>
        verifySessionToken jwt_verify parse_date env now token = VerifyOk u \<and>
        find_session token w = Some session \<and> now \<le> s_expiresAt session \<and> s_userId session = u)"
  by (rule requireAuth_iff)

text \<open>C24: the socket gate and the REST gate agree on every non-empty token except in the millisecond in
  which its session expires: there REST still admits the token and the socket refuses it.\<close>

theorem socket_gate_matches_rest:
  assumes "token \<noteq> []"
  shows "(authenticateSocketToken jwt_verify parse_date env now (Some token) w = Authorized u \<longleftrightarrow>
          requireAuth jwt_verify parse_date env now (Some (''Bearer '' @ token)) w = Authorized u \<and>
          s_expiresAt (the (find_session token w)) \<noteq> now)"
  using assms by (auto simp: socket_iff requireAuth_iff)

lemma socket_gate_matches_rest_witness:
  "(let w = empty_world\<lparr>sessions := [\<lparr>s_id = ''s'', s_userId = ''u1'', s_token = ''new.u1'', s_userAgent = None,
        s_ipAddress = None, s_expiresAt = 50, s_createdAt = 0\<rparr>]\<rparr>
    in authenticateSocketToken demo_verify (\<lambda>_. None) demo_jwt 50 (Some ''new.u1'') w \<noteq> Authorized ''u1'' \<and>
       requireAuth demo_verify (\<lambda>_. None) demo_jwt 50 (Some (''Bearer '' @ ''new.u1'')) w = Authorized ''u1'')"
proof -
  let ?w = "empty_world\<lparr>sessions := [\<lparr>s_id = ''s'', s_userId = ''u1'', s_token = ''new.u1'', s_userAgent = None,
        s_ipAddress = None, s_expiresAt = 50, s_createdAt = 0\<rparr>]\<rparr>"
  have "requireAuth demo_verify (\<lambda>_. None) demo_jwt 50 (Some (''Bearer '' @ ''new.u1'')) ?w = Authorized ''u1''"
    by (simp add: requireAuth_def startsWith_def verifySessionToken_def demo_verify_def demo_jwt_def find_session_def)
  moreover have "s_expiresAt (the (find_session ''new.u1'' ?w)) = 50" by (simp add: find_session_def)
  ultimately show ?thesis
    using socket_gate_matches_rest [of "''new.u1''" demo_verify "\<lambda>_. None" demo_jwt 50 ?w "''u1''"]
    by (simp add: Let_def)
qed

end
