(* ===== verification/Auth.thy ===== *)
theory Auth
  imports PinLockout OtpStore Jwt
begin

text \<open>
  Accounts, PINs and sessions: \<^verbatim>\<open>src/src/services/auth/auth.service.ts\<close>.  \<open>hash\<close> and \<open>compare\<close> stand
  for bcrypt, \<open>deliver\<close> for \<open>trySendEmail\<close> (whether the provider took the mail), and fresh ids, tokens
  and codes are arguments.  Mail that was handed to the provider is recorded in \<open>outbox\<close>.
  Where the code awaits between a check and the write that relies on it, \<open>mid\<close> is whatever other
  requests do to the world in that window.
\<close>

record auth_env =
  DEV_VERIFICATION_MODE :: bool
  NODE_ENV :: string
  emailConfigured :: bool
  otpConfig :: otp_config
  jwtEnv :: jwt_env

text \<open>The user as the client sees it: the row without the two credential columns.\<close>

record user_view =
  v_id :: string
  v_email :: string
  v_phone :: "string option"
  v_name :: "string option"
  v_photoUrl :: "string option"
  v_emailVerified :: bool
  v_phoneVerified :: bool
  v_biometricEnabled :: bool
  v_twoFactorEnabled :: bool
  v_pinFailedAttempts :: int
  v_pinLockedUntil :: "int option"
  v_defaultCurrency :: string
  v_defaultLanguage :: string
  v_defaultNetwork :: "chain option"
  v_createdAt :: int

definition sanitizeUser :: "user_row \<Rightarrow> user_view" where
  "sanitizeUser u =
     \<lparr>v_id = u_id u, v_email = u_email u, v_phone = u_phone u, v_name = u_name u, v_photoUrl = u_photoUrl u,
      v_emailVerified = u_emailVerified u, v_phoneVerified = u_phoneVerified u,
      v_biometricEnabled = u_biometricEnabled u, v_twoFactorEnabled = u_twoFactorEnabled u,
      v_pinFailedAttempts = u_pinFailedAttempts u, v_pinLockedUntil = u_pinLockedUntil u,
      v_defaultCurrency = u_defaultCurrency u, v_defaultLanguage = u_defaultLanguage u,
      v_defaultNetwork = u_defaultNetwork u, v_createdAt = u_createdAt u\<rparr>"

definition devVerificationEnabled :: "auth_env \<Rightarrow> bool" where
  "devVerificationEnabled env \<longleftrightarrow> DEV_VERIFICATION_MODE env \<and> NODE_ENV env \<noteq> ''production''"

definition verificationEmailSubject :: "string \<Rightarrow> string" where
  "verificationEmailSubject code = code @ '' is your Ulmara verification code''"

text \<open>
  \<open>issueAndDeliverCode\<close>: the raw code and, in development mode only, the code for the response.
  \<open>code2\<close> is the code the failure path stores without delivering it.
\<close>

definition issueAndDeliverCode ::
  "hmac \<Rightarrow> (string \<Rightarrow> string \<Rightarrow> bool) \<Rightarrow> auth_env \<Rightarrow> int \<Rightarrow> string \<Rightarrow> string \<Rightarrow> string \<Rightarrow> string \<Rightarrow> channel \<Rightarrow>
   (string \<times> string option) op" where
  "issueAndDeliverCode hmac deliver env now code code2 userId email ch w =
     (let devMode = devVerificationEnabled env
      in if \<not> devMode \<and> \<not> emailConfigured env
         then (Inl (HttpError 503 ''We could not send a verification code right now. Please try again shortly.''), w)
         else let (code, w1) = createVerificationCode hmac (otpConfig env) now userId ch code w
              in if devMode then (Inr (code, Some code), w1)
                 else if \<not> deliver email (verificationEmailSubject code)
                 then (Inl (HttpError 502 ''We could not send a verification code right now. Please try again shortly.''),
                       snd (createVerificationCode hmac (otpConfig env) now userId ch code2 w1))
                 else (Inr (code, None),
                       w1\<lparr>outbox := outbox w1 @ [(email, verificationEmailSubject code, code)]\<rparr>))"

fun verificationFailure :: "verify_outcome \<Rightarrow> thrown" where
  "verificationFailure Expired = HttpError 400 ''Verification code has expired. Request a new one.''"
| "verificationFailure AttemptsExhausted = HttpError 429 ''Too many incorrect attempts. Request a new verification code.''"
| "verificationFailure _ = HttpError 400 ''Invalid or expired verification code''"

section \<open>Creating users and sessions\<close>

text \<open>The unique columns of \<open>User\<close>: a violation of either answers \<open>P2002\<close>.\<close>

definition create_user :: "user_row \<Rightarrow> world \<Rightarrow> thrown + world" where
  "create_user u w =
     (case create_row (\<lambda>u. Some (u_email u)) u (users w) of
        Inl e \<Rightarrow> Inl e
      | Inr _ \<Rightarrow> (case create_row u_phone u (users w) of
                    Inl e \<Rightarrow> Inl e
                  | Inr rows \<Rightarrow> Inr (w\<lparr>users := rows\<rparr>)))"

definition session_key :: "session_row \<Rightarrow> string option" where
  "session_key s = Some (s_token s)"

definition create_session ::
  "jwt_env \<Rightarrow> int \<Rightarrow> string \<Rightarrow> string \<Rightarrow> string \<Rightarrow> string option \<Rightarrow> string option \<Rightarrow> world \<Rightarrow> thrown + world" where
  "create_session jenv now sid userId token userAgent ipAddress w =
     (case create_row session_key
        \<lparr>s_id = sid, s_userId = userId, s_token = token, s_userAgent = userAgent, s_ipAddress = ipAddress,
         s_expiresAt = sessionExpiry jenv now, s_createdAt = now\<rparr> (sessions w) of
        Inl e \<Rightarrow> Inl e
      | Inr rows \<Rightarrow> Inr (w\<lparr>sessions := rows\<rparr>))"

record signup_input =
  si_email :: string
  si_phone :: "string option"
  si_password :: string
  si_userAgent :: "string option"
  si_ipAddress :: "string option"

text \<open>Values drawn during a request: row ids, the signed token and the codes.\<close>

record fresh =
  fr_userId :: string
  fr_sessionId :: string
  fr_token :: string
  fr_code :: string
  fr_code2 :: string

record signup_result =
  sr_user :: user_view
  sr_token :: string
  sr_devCode :: "string option"

definition signup ::
  "hmac \<Rightarrow> (string \<Rightarrow> string \<Rightarrow> bool) \<Rightarrow> (string \<Rightarrow> string) \<Rightarrow> auth_env \<Rightarrow> int \<Rightarrow> (world \<Rightarrow> world) \<Rightarrow> fresh \<Rightarrow> signup_input \<Rightarrow>
   signup_result op" where
  "signup hmac deliver hash env now mid fr input w =
     (let email = toLowerCase (js_trim (si_email input))
      in if find_row (\<lambda>u. u_email u = email) (users w) \<noteq> None
         then (Inl (HttpError 409 ''An account with this email already exists. Try logging in instead.''), w)
         else if truthy (si_phone input) \<and> find_row (\<lambda>u. u_phone u = si_phone input) (users w) \<noteq> None
         then (Inl (HttpError 409 ''An account with this phone number already exists. Try logging in instead.''), w)
         else if length (si_password input) < 8
         then (Inl (HttpError 400 ''Password must be at least 8 characters''), w)
         else let user = new_user (fr_userId fr) email (si_phone input) (hash (si_password input)) now; w0 = mid w
              in (case create_user user w0 of
                    Inl e \<Rightarrow>
                      (if isUniqueConstraintViolation e
                       then (Inl (HttpError 409 ''An account with this email or phone already exists. Try logging in instead.''), w0)
                       else (Inl e, w0))
                  | Inr w1 \<Rightarrow>
                      (case create_session (jwtEnv env) now (fr_sessionId fr) (u_id user) (fr_token fr)
                              (si_userAgent input) (si_ipAddress input) w1 of
                         Inl e \<Rightarrow> (Inl e, w1)
                       | Inr w2 \<Rightarrow>
                           (case issueAndDeliverCode hmac deliver env now (fr_code fr) (fr_code2 fr) (u_id user) (u_email user)
                                   EmailChannel w2 of
                              (Inl e, w3) \<Rightarrow> (Inr \<lparr>sr_user = sanitizeUser user, sr_token = fr_token fr, sr_devCode = None\<rparr>, w3)
                            | (Inr (code, devCode), w3) \<Rightarrow>
                                (Inr \<lparr>sr_user = sanitizeUser user, sr_token = fr_token fr,
                                      sr_devCode = (if truthy devCode then devCode else None)\<rparr>, w3)))))"

definition login ::
  "(string \<Rightarrow> string \<Rightarrow> bool) \<Rightarrow> auth_env \<Rightarrow> int \<Rightarrow> fresh \<Rightarrow> string \<Rightarrow> string \<Rightarrow> string option \<Rightarrow> string option \<Rightarrow>
   (user_view \<times> string) op" where
  "login compare env now fr email password userAgent ipAddress w =
     (case find_row (\<lambda>u. u_email u = toLowerCase (js_trim email)) (users w) of
        None \<Rightarrow> (Inl (HttpError 401 ''Invalid email or password. Please check your details and try again.''), w)
      | Some user \<Rightarrow>
          if \<not> compare password (u_passwordHash user)
          then (Inl (HttpError 401 ''Invalid email or password. Please check your details and try again.''), w)
          else (case create_session (jwtEnv env) now (fr_sessionId fr) (u_id user) (fr_token fr) userAgent ipAddress w of
                  Inl e \<Rightarrow> (Inl e, w)
                | Inr w1 \<Rightarrow> (Inr (sanitizeUser user, fr_token fr), w1)))"

section \<open>Verification\<close>

text \<open>\<open>prisma.user.update({ where: { id }, data })\<close>: the updated row.\<close>

definition update_user :: "string \<Rightarrow> (user_row \<Rightarrow> user_row) \<Rightarrow> user_row op" where
  "update_user userId f w =
     (case update_row (\<lambda>u. u_id u = userId) f (users w) of
        Inl e \<Rightarrow> (Inl e, w)
      | Inr rows \<Rightarrow> let w' = w\<lparr>users := rows\<rparr> in
          (case find_user userId w' of None \<Rightarrow> (Inl record_not_found, w') | Some u \<Rightarrow> (Inr u, w')))"

definition verifyEmail :: "hmac \<Rightarrow> auth_env \<Rightarrow> int \<Rightarrow> (world \<Rightarrow> world) \<Rightarrow> string \<Rightarrow> string \<Rightarrow> user_view op" where
  "verifyEmail hmac env now mid userId code w =
     (case find_user userId w of
        None \<Rightarrow> (Inl (HttpError 404 ''Account not found. Please sign up again.''), w)
      | Some user \<Rightarrow>
          if u_emailVerified user then (Inr (sanitizeUser user), w)
          else (case verifyVerificationCode hmac (otpConfig env) now mid userId EmailChannel code w of
                  (Inl e, w1) \<Rightarrow> (Inl e, w1)
                | (Inr outcome, w1) \<Rightarrow>
                    if outcome \<noteq> Verified then (Inl (verificationFailure outcome), w1)
                    else (case update_user userId (\<lambda>u. u\<lparr>u_emailVerified := True\<rparr>) w1 of
                            (Inl e, w2) \<Rightarrow> (Inl e, w2)
                          | (Inr updated, w2) \<Rightarrow> (Inr (sanitizeUser updated), w2))))"

definition verifyPhone :: "hmac \<Rightarrow> auth_env \<Rightarrow> int \<Rightarrow> (world \<Rightarrow> world) \<Rightarrow> string \<Rightarrow> string \<Rightarrow> user_view op" where
  "verifyPhone hmac env now mid userId code w =
     (case find_user userId w of
        None \<Rightarrow> (Inl (HttpError 404 ''Account not found. Please sign up again.''), w)
      | Some user \<Rightarrow>
          if \<not> truthy (u_phone user) then (Inl (HttpError 400 ''No phone number is linked to this account.''), w)
          else if u_phoneVerified user then (Inr (sanitizeUser user), w)
          else (case verifyVerificationCode hmac (otpConfig env) now mid userId PhoneChannel code w of
                  (Inl e, w1) \<Rightarrow> (Inl e, w1)
                | (Inr outcome, w1) \<Rightarrow>
                    if outcome \<noteq> Verified then (Inl (verificationFailure outcome), w1)
                    else (case update_user userId (\<lambda>u. u\<lparr>u_phoneVerified := True\<rparr>) w1 of
                            (Inl e, w2) \<Rightarrow> (Inl e, w2)
                          | (Inr updated, w2) \<Rightarrow> (Inr (sanitizeUser updated), w2))))"

definition resendVerificationCode ::
  "hmac \<Rightarrow> (string \<Rightarrow> string \<Rightarrow> bool) \<Rightarrow> auth_env \<Rightarrow> int \<Rightarrow> fresh \<Rightarrow> string \<Rightarrow> channel \<Rightarrow> string option op" where
  "resendVerificationCode hmac deliver env now fr userId ch w =
     (case find_user userId w of
        None \<Rightarrow> (Inl (HttpError 404 ''Account not found. Please sign up again.''), w)
      | Some user \<Rightarrow>
          if ch = EmailChannel \<and> u_emailVerified user
          then (Inl (HttpError 400 ''Your email is already verified.''), w)
          else if ch = PhoneChannel \<and> (\<not> truthy (u_phone user) \<or> u_phoneVerified user)
          then (Inl (HttpError 400 ''Your phone number is already verified.''), w)
          else if ch = PhoneChannel \<and> \<not> truthy (u_phone user)
          then (Inl (HttpError 400 ''No phone number is linked to this account.''), w)
          else if ch = PhoneChannel
          then (Inl (HttpError 501 ''SMS verification is not available yet. Verify your email instead.''), w)
          else (case issueAndDeliverCode hmac deliver env now (fr_code fr) (fr_code2 fr) userId (u_email user) EmailChannel w of
                  (Inl e, w1) \<Rightarrow> (Inl e, w1)
                | (Inr (code, devCode), w1) \<Rightarrow> (Inr (if truthy devCode then devCode else None), w1)))"

text \<open>The answer is the same whatever the lookup finds.\<close>

definition requestPasswordReset :: "string \<Rightarrow> bool op" where
  "requestPasswordReset email w = (let _ = find_row (\<lambda>u. u_email u = toLowerCase (js_trim email)) (users w) in (Inr True, w))"

section \<open>PINs\<close>

definition setPin :: "(string \<Rightarrow> string) \<Rightarrow> (world \<Rightarrow> world) \<Rightarrow> string \<Rightarrow> string \<Rightarrow> unit op" where
  "setPin hash mid userId pin w =
     (if \<not> six_digits pin then (Inl (HttpError 400 ''PIN must be 6 digits''), w)
      else (case find_user userId w of
              None \<Rightarrow> (Inl (HttpError 404 ''Account not found''), w)
            | Some user \<Rightarrow>
                if truthy (u_pinHash user) then (Inl (HttpError 409 ''A PIN is already set for this account''), w)
                else let pinHash = hash pin;
                         (count, w1) = update_users userId (\<lambda>u. u_pinHash u = None) (\<lambda>u. u\<lparr>u_pinHash := Some pinHash\<rparr>) (mid w)
                     in if count \<noteq> 1 then (Inl (HttpError 409 ''A PIN is already set for this account''), w1)
                        else (Inr (), w1)))"

definition verifyPin :: "(string \<Rightarrow> string \<Rightarrow> bool) \<Rightarrow> int \<Rightarrow> string \<Rightarrow> string \<Rightarrow> unit op" where
  "verifyPin compare now userId pin w =
     (if \<not> six_digits pin then (Inl (HttpError 400 ''PIN must be 6 digits''), w)
      else (case getLockState now userId w of
              Some until \<Rightarrow>
                (Inl (HttpError 423 (lock_message (lock_minutes (until - now)))),
                 logAttemptDuringLockout userId ''login'' w)
            | None \<Rightarrow>
                (case find_user userId w of
                   None \<Rightarrow> (Inl (HttpError 409 ''No PIN set for this account''), w)
                 | Some user \<Rightarrow>
                     if \<not> truthy (u_pinHash user) then (Inl (HttpError 409 ''No PIN set for this account''), w)
                     else if \<not> compare pin (the (u_pinHash user))
                     then (case recordFailure now userId ''login'' w of
                             (Inl e, w') \<Rightarrow> (Inl e, w')
                           | (Inr attempts, w') \<Rightarrow>
                               if attempts \<ge> 5 then (Inl (HttpError 423 lockedMessage), w')
                               else (Inl (HttpError 401 ''Incorrect PIN. Try again.''), w'))
                     else (Inr (), resetPin userId w))))"

definition changePin ::
  "(string \<Rightarrow> string) \<Rightarrow> (string \<Rightarrow> string \<Rightarrow> bool) \<Rightarrow> int \<Rightarrow> string \<Rightarrow> string \<Rightarrow> string \<Rightarrow> unit op" where
  "changePin hash compare now userId currentPin newPin w =
     (if \<not> six_digits newPin then (Inl (HttpError 400 ''PIN must be 6 digits''), w)
      else (case find_user userId w of
              None \<Rightarrow> (Inl (HttpError 409 ''No PIN set for this account''), w)
            | Some user \<Rightarrow>
                if \<not> truthy (u_pinHash user) then (Inl (HttpError 409 ''No PIN set for this account''), w)
                else (case assertPinAuthorized compare now userId currentPin ''changePin'' w of
                        (Inl e, w1) \<Rightarrow> (Inl e, w1)
                      | (Inr _, w1) \<Rightarrow>
                          let pinHash = hash newPin
                          in (case update_user userId (\<lambda>u. u\<lparr>u_pinHash := Some pinHash\<rparr>) w1 of
                                (Inl e, w2) \<Rightarrow> (Inl e, w2)
                              | (Inr _, w2) \<Rightarrow> (Inr (), w2)))))"

section \<open>Deletion and sessions\<close>

text \<open>
  \<open>deleteAccount\<close>: the statements of the interactive transaction in order, each with what the
  schema's foreign keys do: deleting a transaction deletes its receipt and clears the intents that
  point at it, deleting the user deletes the rows of every relation declared \<open>Cascade\<close>.
\<close>

definition delete_transactions_of :: "string \<Rightarrow> world \<Rightarrow> world" where
  "delete_transactions_of userId w =
     (let gone = map t_id (filter (\<lambda>t. t_senderId t = userId) (transactions w))
      in w\<lparr>transactions := delete_rows (\<lambda>t. t_senderId t = userId) (transactions w),
           receipts := delete_rows (\<lambda>r. rc_transactionId r \<in> set gone) (receipts w),
           intents := update_rows (\<lambda>i. \<exists>x \<in> set gone. i_transactionId i = Some x) (\<lambda>i. i\<lparr>i_transactionId := None\<rparr>) (intents w)\<rparr>)"

definition delete_user_cascade :: "string \<Rightarrow> world \<Rightarrow> world" where
  "delete_user_cascade userId w =
     w\<lparr>users := delete_rows (\<lambda>u. u_id u = userId) (users w),
       accountIds := delete_rows (\<lambda>a. a_userId a = userId) (accountIds w),
       wallets := delete_rows (\<lambda>x. w_userId x = userId) (wallets w),
       intents := delete_rows (\<lambda>i. i_userId i = userId) (intents w),
       payRequests := delete_rows (\<lambda>p. p_userId p = userId) (payRequests w),
       rampTxs := delete_rows (\<lambda>r. r_userId r = userId) (rampTxs w),
       sessions := delete_rows (\<lambda>s. s_userId s = userId) (sessions w)\<rparr>"

definition deleteAccount :: "string \<Rightarrow> unit op" where
  "deleteAccount userId w =
     (case find_user userId w of
        None \<Rightarrow> (Inl (HttpError 404 ''Account not found''), w)
      | Some _ \<Rightarrow>
          let w1 = w\<lparr>sessions := delete_rows (\<lambda>s. s_userId s = userId) (sessions w)\<rparr>;
              w2 = delete_transactions_of userId w1;
              w3 = w2\<lparr>accountIds := delete_rows (\<lambda>a. a_userId a = userId) (accountIds w2)\<rparr>
          in (Inr (), delete_user_cascade userId w3))"

record session_view =
  sv_id :: string
  sv_userAgent :: "string option"
  sv_ipAddress :: "string option"
  sv_createdAt :: int
  sv_current :: bool

text \<open>\<open>orderBy: { createdAt: "desc" }\<close>, keeping the order of equal timestamps.\<close>

definition listSessions :: "int \<Rightarrow> string \<Rightarrow> string \<Rightarrow> world \<Rightarrow> session_view list" where
  "listSessions now userId currentToken w =
     map (\<lambda>s. \<lparr>sv_id = s_id s, sv_userAgent = s_userAgent s, sv_ipAddress = s_ipAddress s,
                sv_createdAt = s_createdAt s, sv_current = (s_token s = currentToken)\<rparr>)
       (sort_key (\<lambda>s. - s_createdAt s) (filter (\<lambda>s. s_userId s = userId \<and> s_expiresAt s > now) (sessions w)))"

definition revokeSession :: "string \<Rightarrow> string \<Rightarrow> string \<Rightarrow> unit op" where
  "revokeSession userId sessionId currentToken w =
     (case find_row (\<lambda>s. s_id s = sessionId) (sessions w) of
        None \<Rightarrow> (Inl (HttpError 404 ''Session not found''), w)
      | Some session \<Rightarrow>
          if s_userId session \<noteq> userId then (Inl (HttpError 404 ''Session not found''), w)
          else if s_token session = currentToken
          then (Inl (HttpError 400 ''Cannot revoke your current session - use POST /api/auth/logout to sign out''), w)
          else (Inr (), w\<lparr>sessions := delete_rows (\<lambda>s. s_id s = sessionId) (sessions w)\<rparr>))"

definition logout :: "string \<Rightarrow> unit op" where
  "logout currentToken w = (Inr (), w\<lparr>sessions := delete_rows (\<lambda>s. s_token s = currentToken) (sessions w)\<rparr>)"

section \<open>Lemmas\<close>

lemma sanitizeUser_hides: "sanitizeUser (u\<lparr>u_passwordHash := p, u_pinHash := h\<rparr>) = sanitizeUser u"
  by (simp add: sanitizeUser_def)

text \<open>The client-side view is a function of the other columns only; the login gate is the shared gate.\<close>

lemma verifyPin_eq:
  "six_digits pin \<Longrightarrow> verifyPin compare now userId pin w = assertPinAuthorized compare now userId pin ''login'' w"
  unfolding verifyPin_def assertPinAuthorized_def PIN_MAX_ATTEMPTS_def lockedMessage_def INCORRECT_MESSAGE_def
  by simp

lemma setPin_some:
  assumes "users_ok (mid w)" "find_user userId (mid w) = Some u" "u_pinHash u = Some h" "setPin hash mid userId pin w = (r, w')"
  shows "(\<exists>e. r = Inl e) \<and> (w' = w \<or> w' = mid w)"
proof -
  let ?upd = "update_users userId (\<lambda>u. u_pinHash u = None) (\<lambda>u. u\<lparr>u_pinHash := Some (hash pin)\<rparr>) (mid w)"
  have c: "fst ?upd = 0" using assms by (simp add: update_users_count)
  then have "\<forall>x \<in> set (users (mid w)). \<not> (u_id x = userId \<and> u_pinHash x = None)"
    by (simp add: update_users_def count_rows_0)
  then have "snd ?upd = mid w" by (simp add: update_users_def update_rows_none)
  with c show ?thesis using assms(4)
    by (auto simp: setPin_def Let_def case_prod_beta split: if_splits option.splits)
qed

lemma setPin_wins:
  assumes "users_ok (mid w)" "setPin hash mid userId pin w = (Inr (), w')"
  shows "six_digits pin \<and> (\<exists>u. find_user userId (mid w) = Some u \<and> u_pinHash u = None \<and>
     find_user userId w' = Some (u\<lparr>u_pinHash := Some (hash pin)\<rparr>)) \<and> users_ok w'"
proof -
  let ?upd = "update_users userId (\<lambda>u. u_pinHash u = None) (\<lambda>u. u\<lparr>u_pinHash := Some (hash pin)\<rparr>) (mid w)"
  have s: "six_digits pin" "fst ?upd = 1" "w' = snd ?upd"
    using assms(2) by (auto simp: setPin_def Let_def case_prod_beta split: if_splits option.splits)
  then obtain u where u: "find_user userId (mid w) = Some u" "u_pinHash u = None"
    using assms(1) by (auto simp: update_users_count split: option.splits if_splits)
  then have "find_user userId (snd ?upd) = Some (u\<lparr>u_pinHash := Some (hash pin)\<rparr>)"
    by (subst find_user_update) simp_all
  then show ?thesis using s u assms(1) by (simp add: update_users_ok)
qed

lemma issue_devCode:
  "issueAndDeliverCode hmac deliver env now code code2 userId email ch w = (Inr (c, Some d), w') \<Longrightarrow>
   DEV_VERIFICATION_MODE env \<and> NODE_ENV env \<noteq> ''production'' \<and> outbox w' = outbox w"
  by (auto simp: issueAndDeliverCode_def Let_def devVerificationEnabled_def createVerificationCode_def redis_set_def
      split: if_splits)

lemma issue_frame:
  "users (snd (issueAndDeliverCode hmac deliver env now code code2 userId email ch w)) = users w \<and>
   sessions (snd (issueAndDeliverCode hmac deliver env now code code2 userId email ch w)) = sessions w"
  by (simp add: issueAndDeliverCode_def Let_def createVerificationCode_def redis_set_def)

lemma create_user_Inr:
  assumes "create_user u w = Inr w'"
  shows "w' = w\<lparr>users := users w @ [u]\<rparr> \<and> (\<forall>v \<in> set (users w). u_email v \<noteq> u_email u) \<and>
     (u_phone u \<noteq> None \<longrightarrow> (\<forall>v \<in> set (users w). u_phone v \<noteq> u_phone u))"
  using assms by (auto simp: create_user_def create_row_def split: sum.splits if_splits)

lemma create_user_Inl: "create_user u w = Inl e \<Longrightarrow> e = unique_violation"
  by (auto simp: create_user_def create_row_def split: sum.splits if_splits)

lemma signup_outcome:
  assumes "signup hmac deliver hash env now mid fr input w = (Inr r, w')"
  defines "email \<equiv> toLowerCase (js_trim (si_email input))"
  defines "user \<equiv> new_user (fr_userId fr) email (si_phone input) (hash (si_password input)) now"
  shows "users w' = users (mid w) @ [user] \<and> (\<forall>v \<in> set (users (mid w)). u_email v \<noteq> email) \<and>
     (si_phone input \<noteq> None \<longrightarrow> (\<forall>v \<in> set (users (mid w)). u_phone v \<noteq> si_phone input)) \<and>
     8 \<le> length (si_password input) \<and> sr_user r = sanitizeUser user \<and> sr_token r = fr_token fr \<and>
     (\<exists>s. sessions w' = sessions (mid w) @ [s] \<and> s_token s = fr_token fr \<and> s_userId s = fr_userId fr \<and>
        s_expiresAt s = sessionExpiry (jwtEnv env) now) \<and>
     (sr_devCode r \<noteq> None \<longrightarrow> DEV_VERIFICATION_MODE env \<and> NODE_ENV env \<noteq> ''production'')"
proof -
  have p: "8 \<le> length (si_password input)"
    using assms(1) by (auto simp: signup_def Let_def split: if_splits)
  from assms(1) obtain w1 where 1: "create_user user (mid w) = Inr w1"
    by (auto simp: signup_def Let_def email_def user_def split: if_splits sum.splits)
  note c = create_user_Inr [OF 1]
  from assms(1) 1 obtain w2 where 2: "create_session (jwtEnv env) now (fr_sessionId fr) (u_id user) (fr_token fr)
      (si_userAgent input) (si_ipAddress input) w1 = Inr w2"
    by (auto simp: signup_def Let_def email_def user_def split: if_splits sum.splits)
  then obtain s where s: "w2 = w1\<lparr>sessions := sessions w1 @ [s]\<rparr>" "s_token s = fr_token fr" "s_userId s = u_id user"
      "s_expiresAt s = sessionExpiry (jwtEnv env) now"
    by (auto simp: create_session_def create_row_def split: sum.splits if_splits)
  let ?i = "issueAndDeliverCode hmac deliver env now (fr_code fr) (fr_code2 fr) (u_id user) (u_email user) EmailChannel w2"
  have 3: "w' = snd ?i" "sr_user r = sanitizeUser user" "sr_token r = fr_token fr"
    "sr_devCode r = (case fst ?i of Inl _ \<Rightarrow> None | Inr (code, dc) \<Rightarrow> if truthy dc then dc else None)"
    using assms(1) 1 2 p
    by (auto simp: signup_def Let_def email_def user_def split: if_splits sum.splits prod.splits)
  have "sr_devCode r \<noteq> None \<longrightarrow> DEV_VERIFICATION_MODE env \<and> NODE_ENV env \<noteq> ''production''"
  proof
    assume "sr_devCode r \<noteq> None"
    then obtain c d where "fst ?i = Inr (c, Some d)"
      by (auto simp: 3(4) split: sum.splits prod.splits if_splits)
    then have "?i = (Inr (c, Some d), snd ?i)" by (metis prod.collapse)
    from issue_devCode [OF this] show "DEV_VERIFICATION_MODE env \<and> NODE_ENV env \<noteq> ''production''" by blast
  qed
  moreover have "u_id user = fr_userId fr" "u_email user = email" "u_phone user = si_phone input"
    by (simp_all add: user_def new_user_def)
  ultimately show ?thesis
    using p c s 3 issue_frame [of hmac deliver env now "fr_code fr" "fr_code2 fr" "u_id user" "u_email user" EmailChannel w2]
    by auto
qed

section \<open>Properties\<close>

text \<open>A successful signup adds exactly one user, whose trimmed and lower-cased email and whose phone no
  other user had at the moment of the insert (a concurrent signup included), unverified and without a
  PIN, plus one session for the returned token; the answer carries no credential, and a code only in
  a non-production run with the development mode on.\<close>

lemma signup_adds_one_user:
  assumes "signup hmac deliver hash env now mid fr input w = (Inr r, w')"
  shows "\<exists>user. users w' = users (mid w) @ [user] \<and> u_email user = toLowerCase (js_trim (si_email input)) \<and>
     u_phone user = si_phone input \<and> u_passwordHash user = hash (si_password input) \<and> u_pinHash user = None \<and>
     \<not> u_emailVerified user \<and> \<not> u_phoneVerified user \<and>
     (\<forall>v \<in> set (users (mid w)). u_email v \<noteq> u_email user \<and> (u_phone user \<noteq> None \<longrightarrow> u_phone v \<noteq> u_phone user)) \<and>
     (\<exists>s. sessions w' = sessions (mid w) @ [s] \<and> s_token s = sr_token r \<and> s_userId s = u_id user \<and>
        s_expiresAt s = sessionExpiry (jwtEnv env) now) \<and>
     sr_user r = sanitizeUser user \<and>
     (\<forall>p h. sr_user r = sanitizeUser (user\<lparr>u_passwordHash := p, u_pinHash := h\<rparr>)) \<and>
     (sr_devCode r \<noteq> None \<longrightarrow> DEV_VERIFICATION_MODE env \<and> NODE_ENV env \<noteq> ''production'')"
  using signup_outcome [OF assms]
  by (intro exI [of _ "new_user (fr_userId fr) (toLowerCase (js_trim (si_email input))) (si_phone input)
        (hash (si_password input)) now"]) (auto simp: sanitizeUser_hides new_user_def sanitizeUser_def)

definition demo_auth_env :: auth_env where
  "demo_auth_env = \<lparr>DEV_VERIFICATION_MODE = False, NODE_ENV = ''production'', emailConfigured = True,
     otpConfig = demo_otp, jwtEnv = demo_jwt\<rparr>"

definition demo_fresh :: fresh where
  "demo_fresh = \<lparr>fr_userId = ''u9'', fr_sessionId = ''s9'', fr_token = ''tok'', fr_code = ''123456'', fr_code2 = ''654321''\<rparr>"

definition demo_signup :: signup_input where
  "demo_signup = \<lparr>si_email = ''z@y'', si_phone = None, si_password = ''longenough'', si_userAgent = None, si_ipAddress = None\<rparr>"

lemmas demo_auth_simps = demo_auth_env_def demo_fresh_def demo_signup_def demo_otp_def demo_jwt_def toLowerCase_def
  js_trim_def is_space_def lower_char_def is_upper_def code_of_def

text \<open>The PIN entry at login is the same gate as the one for transfers: on a six-digit PIN it answers,
  counts, locks and resets exactly as \<open>assertPinAuthorized\<close> does, and it rejects anything else without
  touching the state.\<close>

lemma verifyPin_is_shared_gate:
  "verifyPin compare now userId pin w =
     (if six_digits pin then assertPinAuthorized compare now userId pin ''login'' w
      else (Inl (HttpError 400 ''PIN must be 6 digits''), w))"
proof (cases "six_digits pin")
  case True
  then show ?thesis by (simp add: verifyPin_eq)
next
  case False
  then show ?thesis by (simp add: verifyPin_def)
qed

text \<open>A PIN is set once.  Whatever runs between the check and the claim, a call succeeds only if the
  row still had no PIN at the claim, and then stores the hash of its own PIN; if any other call set
  one in the meantime, this call fails and changes nothing, so of two racing first-time calls exactly
  one wins.\<close>

lemma setPin_claims_once:
  assumes "\<And>w. users_ok w \<Longrightarrow> users_ok (mid w)" "users_ok w" "setPin hash mid userId pin w = (r, w')"
  shows "(r = Inr () \<longrightarrow> six_digits pin \<and>
            (\<exists>u. find_user userId (mid w) = Some u \<and> u_pinHash u = None \<and>
                 find_user userId w' = Some (u\<lparr>u_pinHash := Some (hash pin)\<rparr>))) \<and>
         ((\<exists>u h. find_user userId (mid w) = Some u \<and> u_pinHash u = Some h) \<longrightarrow> (\<exists>e. r = Inl e) \<and> (w' = w \<or> w' = mid w))"
  using setPin_wins [of mid w hash userId pin w'] setPin_some [of mid w userId _ _ hash pin r w'] assms by blast

text \<open>C40: deleting an account removes the user and every row of every relation of the schema that refers
  to it (sessions, account id, wallets, transactions with their receipts, intents, payment requests,
  ramp transactions), and no row of any other user; the contacts the user owned and the verification
  codes issued to it stay behind.\<close>

theorem deleteAccount_removes_relations:
  assumes "deleteAccount userId w = (Inr (), w')"
  shows "find_user userId w' = None \<and>
    (\<forall>u \<in> set (users w'). u_id u \<noteq> userId) \<and> (\<forall>s \<in> set (sessions w'). s_userId s \<noteq> userId) \<and>
    (\<forall>a \<in> set (accountIds w'). a_userId a \<noteq> userId) \<and> (\<forall>x \<in> set (wallets w'). w_userId x \<noteq> userId) \<and>
    (\<forall>t \<in> set (transactions w'). t_senderId t \<noteq> userId) \<and> (\<forall>i \<in> set (intents w'). i_userId i \<noteq> userId) \<and>
    (\<forall>p \<in> set (payRequests w'). p_userId p \<noteq> userId) \<and> (\<forall>r \<in> set (rampTxs w'). r_userId r \<noteq> userId) \<and>
    (\<forall>r \<in> set (receipts w'). \<not> (\<exists>t \<in> set (transactions w). t_senderId t = userId \<and> t_id t = rc_transactionId r)) \<and>
    (\<forall>v. v \<noteq> userId \<longrightarrow> filter (\<lambda>u. u_id u = v) (users w') = filter (\<lambda>u. u_id u = v) (users w) \<and>
       filter (\<lambda>s. s_userId s = v) (sessions w') = filter (\<lambda>s. s_userId s = v) (sessions w) \<and>
       filter (\<lambda>t. t_senderId t = v) (transactions w') = filter (\<lambda>t. t_senderId t = v) (transactions w) \<and>
       filter (\<lambda>x. w_userId x = v) (wallets w') = filter (\<lambda>x. w_userId x = v) (wallets w)) \<and>
    contacts w' = contacts w \<and> otpStore w' = otpStore w"
proof -
  have w': "w' = delete_user_cascade userId ((delete_transactions_of userId (w\<lparr>sessions := delete_rows (\<lambda>s. s_userId s = userId) (sessions w)\<rparr>))
      \<lparr>accountIds := delete_rows (\<lambda>a. a_userId a = userId) (accountIds w)\<rparr>)"
    using assms by (auto simp: deleteAccount_def Let_def delete_transactions_of_def split: option.splits)
  have f: "v \<noteq> userId \<Longrightarrow> filter (\<lambda>r. g r = v) (delete_rows (\<lambda>r. g r = userId) rows) = filter (\<lambda>r. g r = v) rows"
    for v and g :: "'b \<Rightarrow> string" and rows
    by (induction rows) (auto simp: delete_rows_def)
  have d: "delete_rows P (delete_rows P rows) = delete_rows P rows" for P and rows :: "session_row list"
    by (simp add: delete_rows_def)
  show ?thesis
    unfolding w' delete_user_cascade_def delete_transactions_of_def Let_def
    by (auto simp: find_user_def find_row_None f d image_iff) (metis (mono_tags, lifting))?
qed

lemma deleteAccount_removes_relations_witness:
  "find_user ''u2'' (snd (deleteAccount ''u2'' demo_world)) = None"
proof -
  have "deleteAccount ''u2'' demo_world = (Inr (), snd (deleteAccount ''u2'' demo_world))"
    by (simp add: deleteAccount_def Let_def find_user_def demo_world_def new_user_def)
  from deleteAccount_removes_relations [OF this] show ?thesis by blast
qed

text \<open>Logging out kills exactly the caller's token: afterwards REST refuses it whatever its signature
  says, and the verdict on every other token is what it was.\<close>

lemma logout_ends_one_session:
  "requireAuth jwt_verify parse_date env now (Some (''Bearer '' @ token)) (snd (logout token w)) \<noteq> Authorized u \<and>
   (other \<noteq> token \<longrightarrow>
     requireAuth jwt_verify parse_date env now (Some (''Bearer '' @ other)) (snd (logout token w)) =
     requireAuth jwt_verify parse_date env now (Some (''Bearer '' @ other)) w)"
proof -
  have 1: "find_session token (snd (logout token w)) = None"
    by (simp add: find_session_def logout_def find_row_None)
  have 2: "find_session other (snd (logout token w)) = find_session other w" if "other \<noteq> token"
    unfolding find_session_def logout_def using that by (simp, intro find_row_delete) auto
  show ?thesis using 1 2 by (auto simp: requireAuth_iff) (simp add: requireAuth_def Let_def split: verify_result.split)
qed

text \<open>Asking to resend a phone code for an account without a phone number always answers that the
  number is already verified: the branch that says that no number is linked is never reached.\<close>

lemma resend_without_phone:
  "fst (resendVerificationCode hmac deliver env now fr userId PhoneChannel w) \<noteq>
     Inl (HttpError 400 ''No phone number is linked to this account.'') \<and>
   (find_user userId w = Some u \<and> u_phone u = None \<longrightarrow>
     resendVerificationCode hmac deliver env now fr userId PhoneChannel w =
     (Inl (HttpError 400 ''Your phone number is already verified.''), w))"
  by (auto simp: resendVerificationCode_def split: option.splits)

end
