(* ===== verification/Accounts.thy ===== *)
theory Accounts
  imports Auth
begin

text \<open>
  Account ids and settings (\<^verbatim>\<open>src/src/services/account/account.service.ts\<close>,
  \<^verbatim>\<open>src/src/utils/generateAccountId.ts\<close>), contacts (\<^verbatim>\<open>src/src/services/contact.service.ts\<close>) and payment
  requests (\<^verbatim>\<open>src/src/services/payment/payment.service.ts\<close>).  Random digits and fresh ids are
  arguments; \<open>parse_date\<close> is \<open>new Date(text).getTime()\<close>; \<open>mid\<close> is what other requests do while a
  handler awaits between its checks and its write.
\<close>

section \<open>Account ids\<close>

text \<open>Ten calls of \<open>randomInt(0, 10)\<close>.\<close>

definition generateAccountId :: "nat list \<Rightarrow> string" where
  "generateAccountId draws = concat (map show_nat draws)"

definition find_account :: "string \<Rightarrow> world \<Rightarrow> account_row option" where
  "find_account accountId w = find_row (\<lambda>a. a_accountId a = accountId) (accountIds w)"

definition account_of_user :: "string \<Rightarrow> world \<Rightarrow> account_row option" where
  "account_of_user userId w = find_row (\<lambda>a. a_userId a = userId) (accountIds w)"

definition me :: "string \<Rightarrow> world \<Rightarrow> thrown + (user_view \<times> account_row option)" where
  "me userId w =
     (case find_user userId w of
        None \<Rightarrow> Inl (StatusError 404 ''User not found'')
      | Some user \<Rightarrow> Inr (sanitizeUser user, account_of_user userId w))"

text \<open>Both columns of \<open>AccountId\<close> are unique.\<close>

definition create_account :: "account_row \<Rightarrow> world \<Rightarrow> (thrown + account_row) \<times> world" where
  "create_account a w =
     (case create_row (\<lambda>a. Some (a_accountId a)) a (accountIds w) of
        Inl e \<Rightarrow> (Inl e, w)
      | Inr _ \<Rightarrow> (case create_row (\<lambda>a. Some (a_userId a)) a (accountIds w) of
                    Inl e \<Rightarrow> (Inl e, w)
                  | Inr rows \<Rightarrow> (Inr a, w\<lparr>accountIds := rows\<rparr>)))"

text \<open>The retry loop, one list of draws per attempt; \<open>mid\<close> runs between a lookup and its insert.\<close>

fun accountIdLoop :: "int \<Rightarrow> (world \<Rightarrow> world) \<Rightarrow> string \<Rightarrow> string \<Rightarrow> nat list list \<Rightarrow> account_row op" where
  "accountIdLoop now mid rowId userId [] w =
     (Inl (HttpError 500 ''Could not generate a unique Account ID, try again''), w)"
| "accountIdLoop now mid rowId userId (draws # rest) w =
     (let candidate = generateAccountId draws
      in if find_account candidate w = None
         then create_account \<lparr>a_id = rowId, a_accountId = candidate, a_userId = userId, a_createdAt = now\<rparr> (mid w)
         else accountIdLoop now mid rowId userId rest w)"

definition createAccountId :: "int \<Rightarrow> (world \<Rightarrow> world) \<Rightarrow> string \<Rightarrow> nat list list \<Rightarrow> string \<Rightarrow> account_row op" where
  "createAccountId now mid rowId draws userId w =
     (if account_of_user userId w \<noteq> None then (Inl (StatusError 409 ''Account ID already created''), w)
      else accountIdLoop now mid rowId userId (take 5 draws) w)"

record profile =
  pf_id :: string
  pf_name :: "string option"
  pf_photoUrl :: "string option"
  pf_wallets :: "(chain \<times> string) list"

definition wallets_of :: "string \<Rightarrow> world \<Rightarrow> (chain \<times> string) list" where
  "wallets_of userId w = map (\<lambda>x. (w_chain x, w_address x)) (filter (\<lambda>x. w_userId x = userId) (wallets w))"

definition profile_of :: "user_row \<Rightarrow> world \<Rightarrow> profile" where
  "profile_of u w = \<lparr>pf_id = u_id u, pf_name = u_name u, pf_photoUrl = u_photoUrl u, pf_wallets = wallets_of (u_id u) w\<rparr>"

text \<open>\<open>include: { user }\<close>: the relation is required, so a stored account id has its user.\<close>

definition getByAccountId :: "string \<Rightarrow> world \<Rightarrow> thrown + (string \<times> string \<times> string option \<times> string option \<times> chain list)" where
  "getByAccountId accountId w =
     (case find_account accountId w of
        None \<Rightarrow> Inl (StatusError 404 ''Account ID not found'')
      | Some a \<Rightarrow>
          (case find_user (a_userId a) w of
             None \<Rightarrow> Inl (PlainError ''relation'')
           | Some u \<Rightarrow> Inr (a_accountId a, u_id u, u_name u, u_photoUrl u, map fst (wallets_of (u_id u) w))))"

definition resolveForTransfer :: "string \<Rightarrow> string \<Rightarrow> world \<Rightarrow> thrown + (string \<times> profile)" where
  "resolveForTransfer requestingUserId accountId w =
     (case find_account accountId w of
        None \<Rightarrow> Inl (StatusError 404 ''Account ID not found'')
      | Some a \<Rightarrow>
          if a_userId a = requestingUserId
          then Inl (StatusError 400 ''Cannot resolve your own Account ID for transfer'')
          else (case find_user (a_userId a) w of
                  None \<Rightarrow> Inl (PlainError ''relation'')
                | Some u \<Rightarrow> Inr (a_accountId a, profile_of u w)))"

text \<open>An absent key leaves the column alone; \<open>Some None\<close> is an explicit \<open>null\<close>.\<close>

record settings_input =
  st_name :: "string option option"
  st_photoUrl :: "string option option"
  st_defaultCurrency :: "string option"
  st_defaultLanguage :: "string option"
  st_defaultNetwork :: "chain option option"

text \<open>The selected columns of the answer.\<close>

record settings_view =
  sv_id :: string
  sv_email :: string
  sv_phone :: "string option"
  sv_name :: "string option"
  sv_photoUrl :: "string option"
  sv_emailVerified :: bool
  sv_phoneVerified :: bool
  sv_biometricEnabled :: bool
  sv_twoFactorEnabled :: bool
  sv_defaultCurrency :: string
  sv_defaultLanguage :: string
  sv_defaultNetwork :: "chain option"
  sv_createdAt :: int

definition selectSettings :: "user_row \<Rightarrow> settings_view" where
  "selectSettings u =
     \<lparr>sv_id = u_id u, sv_email = u_email u, sv_phone = u_phone u, sv_name = u_name u, sv_photoUrl = u_photoUrl u,
      sv_emailVerified = u_emailVerified u, sv_phoneVerified = u_phoneVerified u,
      sv_biometricEnabled = u_biometricEnabled u, sv_twoFactorEnabled = u_twoFactorEnabled u,
      sv_defaultCurrency = u_defaultCurrency u, sv_defaultLanguage = u_defaultLanguage u,
      sv_defaultNetwork = u_defaultNetwork u, sv_createdAt = u_createdAt u\<rparr>"

definition updateSettings :: "string \<Rightarrow> settings_input \<Rightarrow> settings_view op" where
  "updateSettings userId input w =
     (case update_user userId
        (\<lambda>u. u\<lparr>u_name := nullish (st_name input) (u_name u),
               u_photoUrl := nullish (st_photoUrl input) (u_photoUrl u),
               u_defaultCurrency := nullish (st_defaultCurrency input) (u_defaultCurrency u),
               u_defaultLanguage := nullish (st_defaultLanguage input) (u_defaultLanguage u),
               u_defaultNetwork := nullish (st_defaultNetwork input) (u_defaultNetwork u)\<rparr>) w of
        (Inl e, w') \<Rightarrow> (Inl e, w')
      | (Inr u, w') \<Rightarrow> (Inr (selectSettings u), w'))"

section \<open>Contacts\<close>

definition DUPLICATE_NAME :: string where
  "DUPLICATE_NAME = ''You already have a contact with that name''"

definition contact_key :: "contact_row \<Rightarrow> (string \<times> string) option" where
  "contact_key c = Some (c_ownerId c, c_name c)"

definition assertAccountIdExists :: "string \<Rightarrow> world \<Rightarrow> thrown + unit" where
  "assertAccountIdExists accountId w =
     (case find_account accountId w of None \<Rightarrow> Inl (StatusError 404 ''Account ID not found'') | Some _ \<Rightarrow> Inr ())"

text \<open>\<open>rank\<close> is the database's collation of names.\<close>

definition listContacts :: "(string \<Rightarrow> nat) \<Rightarrow> string \<Rightarrow> world \<Rightarrow> contact_row list" where
  "listContacts rank ownerId w = sort_key (\<lambda>c. rank (c_name c)) (filter (\<lambda>c. c_ownerId c = ownerId) (contacts w))"

record contact_input =
  ci_name :: string
  ci_accountId :: "string option"
  ci_address :: "string option"
  ci_chain :: "chain option"

definition createContact :: "int \<Rightarrow> string \<Rightarrow> string \<Rightarrow> contact_input \<Rightarrow> contact_row op" where
  "createContact now cid ownerId input w =
     (if \<not> truthy (ci_accountId input) \<and> \<not> truthy (ci_address input)
      then (Inl (StatusError 400 ''accountId or address is required''), w)
      else (case (if truthy (ci_accountId input) then assertAccountIdExists (the (ci_accountId input)) w else Inr ()) of
              Inl e \<Rightarrow> (Inl e, w)
            | Inr _ \<Rightarrow>
                let row = \<lparr>c_id = cid, c_ownerId = ownerId, c_accountId = ci_accountId input, c_name = js_trim (ci_name input),
                           c_address = ci_address input, c_chain = ci_chain input, c_createdAt = now\<rparr>
                in (case create_row contact_key row (contacts w) of
                      Inl e \<Rightarrow> (Inl (if isUniqueConstraintViolation e then StatusError 409 DUPLICATE_NAME else e), w)
                    | Inr rows \<Rightarrow> (Inr row, w\<lparr>contacts := rows\<rparr>))))"

text \<open>\<open>prisma.contact.update\<close>: a new name that another contact of the owner has is a \<open>P2002\<close>.\<close>

definition update_contact :: "string \<Rightarrow> (contact_row \<Rightarrow> contact_row) \<Rightarrow> world \<Rightarrow> (thrown + contact_row) \<times> world" where
  "update_contact cid f w =
     (case find_row (\<lambda>c. c_id c = cid) (contacts w) of
        None \<Rightarrow> (Inl record_not_found, w)
      | Some c \<Rightarrow>
          if \<exists>d \<in> set (contacts w). c_id d \<noteq> cid \<and> contact_key d = contact_key (f c)
          then (Inl unique_violation, w)
          else (Inr (f c), w\<lparr>contacts := update_rows (\<lambda>c. c_id c = cid) f (contacts w)\<rparr>))"

definition updateContact :: "string \<Rightarrow> string \<Rightarrow> string option \<Rightarrow> string option \<Rightarrow> contact_row op" where
  "updateContact ownerId cid name accountId w =
     (case find_row (\<lambda>c. c_id c = cid \<and> c_ownerId c = ownerId) (contacts w) of
        None \<Rightarrow> (Inl (StatusError 404 ''Contact not found''), w)
      | Some _ \<Rightarrow>
          (case (case accountId of None \<Rightarrow> Inr () | Some a \<Rightarrow> assertAccountIdExists a w) of
             Inl e \<Rightarrow> (Inl e, w)
           | Inr _ \<Rightarrow>
               (case update_contact cid
                   (\<lambda>c. c\<lparr>c_name := (case name of None \<Rightarrow> c_name c | Some n \<Rightarrow> js_trim n),
                          c_accountId := (case accountId of None \<Rightarrow> c_accountId c | Some a \<Rightarrow> Some a)\<rparr>) w of
                  (Inl e, w') \<Rightarrow> (Inl (if isUniqueConstraintViolation e then StatusError 409 DUPLICATE_NAME else e), w')
                | (Inr c, w') \<Rightarrow> (Inr c, w'))))"

definition removeContact :: "string \<Rightarrow> string \<Rightarrow> bool op" where
  "removeContact ownerId cid w =
     (if count_rows (\<lambda>c. c_id c = cid \<and> c_ownerId c = ownerId) (contacts w) = 0
      then (Inl (StatusError 404 ''Contact not found''), w)
      else (Inr True, w\<lparr>contacts := delete_rows (\<lambda>c. c_id c = cid \<and> c_ownerId c = ownerId) (contacts w)\<rparr>))"

section \<open>Payment requests\<close>

record payment_input =
  pi_asset :: "string option"
  pi_symbol :: "string option"
  pi_amount :: "string option"
  pi_expiresAt :: "string option"
  pi_note :: "string option"

definition createRequest ::
  "(string \<Rightarrow> int option) \<Rightarrow> (string \<Rightarrow> string) \<Rightarrow> int \<Rightarrow> string \<Rightarrow> string \<Rightarrow> payment_input \<Rightarrow> (string \<times> string) op" where
  "createRequest parse_date canon now rid userId input w =
     (let row = \<lparr>p_id = rid, p_userId = userId,
                 p_asset = nullish (pi_asset input) (nullish (pi_symbol input) ''ETH''),
                 p_amount = map_option canon (pi_amount input), p_note = pi_note input, p_status = PrOPEN,
                 p_expiresAt = (if truthy (pi_expiresAt input) then parse_date (the (pi_expiresAt input)) else None),
                 p_createdAt = now, p_fulfilledTransactionId = None, p_fulfilledAt = None\<rparr>
      in (Inr (rid, ''https://ulmara.app/pay/'' @ rid), w\<lparr>payRequests := payRequests w @ [row]\<rparr>))"

definition find_request :: "string \<Rightarrow> world \<Rightarrow> payreq_row option" where
  "find_request rid w = find_row (\<lambda>p. p_id p = rid) (payRequests w)"

record request_view =
  rv_id :: string
  rv_status :: payreq_status
  rv_amount :: "string option"
  rv_asset :: string
  rv_symbol :: string
  rv_note :: "string option"
  rv_requesterAccountId :: string
  rv_requesterName :: "string option"
  rv_expiresAt :: "int option"
  rv_createdAt :: int

definition mark_expired :: "string \<Rightarrow> world \<Rightarrow> world" where
  "mark_expired rid w = w\<lparr>payRequests := update_rows (\<lambda>p. p_id p = rid) (\<lambda>p. p\<lparr>p_status := PrEXPIRED\<rparr>) (payRequests w)\<rparr>"

definition getRequest :: "int \<Rightarrow> string \<Rightarrow> request_view op" where
  "getRequest now rid w =
     (case find_request rid w of
        None \<Rightarrow> (Inl (StatusError 404 ''Payment request not found''), w)
      | Some r \<Rightarrow>
          let late = (case p_expiresAt r of None \<Rightarrow> False | Some e \<Rightarrow> e < now) \<and> p_status r = PrOPEN;
              w' = (if late then mark_expired rid w else w)
          in (Inr \<lparr>rv_id = p_id r, rv_status = (if late then PrEXPIRED else p_status r), rv_amount = p_amount r,
                   rv_asset = p_asset r, rv_symbol = p_asset r, rv_note = p_note r,
                   rv_requesterAccountId = (case account_of_user (p_userId r) w' of None \<Rightarrow> [] | Some a \<Rightarrow> a_accountId a),
                   rv_requesterName = (case find_user (p_userId r) w of None \<Rightarrow> None | Some u \<Rightarrow> u_name u),
                   rv_expiresAt = p_expiresAt r, rv_createdAt = p_createdAt r\<rparr>, w'))"

fun payreq_status_name :: "payreq_status \<Rightarrow> string" where
  "payreq_status_name PrOPEN = ''open''"
| "payreq_status_name PrFULFILLED = ''fulfilled''"
| "payreq_status_name PrEXPIRED = ''expired''"
| "payreq_status_name PrCANCELLED = ''cancelled''"

text \<open>\<open>fulfilledTransactionId\<close> is unique.\<close>

definition fulfil_update :: "int \<Rightarrow> string \<Rightarrow> string \<Rightarrow> world \<Rightarrow> (thrown + payreq_row) \<times> world" where
  "fulfil_update now rid tid w =
     (case find_request rid w of
        None \<Rightarrow> (Inl record_not_found, w)
      | Some r \<Rightarrow>
          if \<exists>q \<in> set (payRequests w). p_id q \<noteq> rid \<and> p_fulfilledTransactionId q = Some tid
          then (Inl unique_violation, w)
          else let f = (\<lambda>p. p\<lparr>p_status := PrFULFILLED, p_fulfilledTransactionId := Some tid, p_fulfilledAt := Some now\<rparr>)
               in (Inr (f r), w\<lparr>payRequests := update_rows (\<lambda>p. p_id p = rid) f (payRequests w)\<rparr>))"

definition fulfillRequest :: "int \<Rightarrow> (world \<Rightarrow> world) \<Rightarrow> string \<Rightarrow> string \<Rightarrow> string \<Rightarrow> payreq_row op" where
  "fulfillRequest now mid requestId payerId transactionId w =
     (case find_request requestId w of
        None \<Rightarrow> (Inl (StatusError 404 ''Payment request not found''), w)
      | Some r \<Rightarrow>
          if p_status r \<noteq> PrOPEN then (Inl (StatusError 409 (''Payment request is '' @ payreq_status_name (p_status r))), w)
          else if (case p_expiresAt r of None \<Rightarrow> False | Some e \<Rightarrow> e \<le> now)
          then (Inl (StatusError 409 ''Payment request has expired''), mark_expired requestId w)
          else if p_userId r = payerId
          then (Inl (StatusError 400 ''A payment request cannot be fulfilled by its owner''), w)
          else let ownerAccount = account_of_user (p_userId r) w in
            (case find_row (\<lambda>t. t_id t = transactionId \<and> t_senderId t = payerId) (transactions w) of
               None \<Rightarrow> (Inl (StatusError 400 ''A completed transaction from the payer is required''), w)
             | Some t \<Rightarrow>
                 if t_status t \<noteq> TxCOMPLETED
                 then (Inl (StatusError 400 ''A completed transaction from the payer is required''), w)
                 else if \<not> (\<exists>a. ownerAccount = Some a \<and> t_recipientAccountId t = Some (a_accountId a)) \<or>
                         t_asset t \<noteq> p_asset r \<or> (p_amount r \<noteq> None \<and> p_amount r \<noteq> Some (t_amount t))
                 then (Inl (StatusError 400 ''Transaction does not match this payment request''), w)
                 else fulfil_update now requestId (t_id t) (mid w)))"

section \<open>Lemmas\<close>

definition accounts_ok :: "world \<Rightarrow> bool" where
  "accounts_ok w \<longleftrightarrow> unique_on (\<lambda>a. Some (a_accountId a)) (accountIds w) \<and> unique_on (\<lambda>a. Some (a_userId a)) (accountIds w)"

lemma show_digit: "d < 10 \<Longrightarrow> show_nat d = [digit_char d]"
  by (subst show_nat.simps) simp

lemma generateAccountId_digits:
  "\<forall>d \<in> set draws. d < 10 \<Longrightarrow> length (generateAccountId draws) = length draws \<and> all_digits (generateAccountId draws)"
  by (induction draws) (auto simp: generateAccountId_def show_digit)

lemma create_account_Inr:
  assumes "create_account a w = (Inr r, w')"
  shows "r = a \<and> w' = w\<lparr>accountIds := accountIds w @ [a]\<rparr> \<and>
    (\<forall>b \<in> set (accountIds w). a_accountId b \<noteq> a_accountId a \<and> a_userId b \<noteq> a_userId a)"
  using assms by (auto simp: create_account_def create_row_def split: sum.splits if_splits)

lemma create_account_Inl: "create_account a w = (Inl e, w') \<Longrightarrow> e = unique_violation \<and> w' = w"
  by (auto simp: create_account_def create_row_def split: sum.splits if_splits)

lemma accountIdLoop_Inr:
  assumes "accountIdLoop now mid rowId userId draws w = (Inr a, w')"
  shows "(\<exists>ds \<in> set draws. a_accountId a = generateAccountId ds) \<and> a_userId a = userId \<and>
    w' = (mid w)\<lparr>accountIds := accountIds (mid w) @ [a]\<rparr> \<and>
    (\<forall>b \<in> set (accountIds (mid w)). a_accountId b \<noteq> a_accountId a \<and> a_userId b \<noteq> userId)"
  using assms
proof (induction draws)
  case (Cons d draws)
  then show ?case by (auto simp: Let_def split: if_splits dest!: create_account_Inr)
qed simp

lemma accountIdLoop_all_taken:
  "\<forall>ds \<in> set draws. find_account (generateAccountId ds) w \<noteq> None \<Longrightarrow>
   accountIdLoop now mid rowId userId draws w = (Inl (HttpError 500 ''Could not generate a unique Account ID, try again''), w)"
  by (induction draws) (auto simp: Let_def)

lemma accountIdLoop_finds:
  "find_account (generateAccountId ds) w = None \<Longrightarrow> ds \<in> set draws \<Longrightarrow> account_of_user userId w = None \<Longrightarrow>
   \<exists>r. fst (accountIdLoop now (\<lambda>w. w) rowId userId draws w) = Inr r"
proof (induction draws)
  case (Cons d draws)
  show ?case
  proof (cases "find_account (generateAccountId d) w = None")
    case True
    then show ?thesis using Cons.prems(3)
      by (auto simp: Let_def create_account_def create_row_def find_account_def account_of_user_def find_row_None)
  next
    case False
    then show ?thesis using Cons by (auto simp: Let_def)
  qed
qed simp

definition contacts_ok :: "world \<Rightarrow> bool" where
  "contacts_ok w \<longleftrightarrow> unique_on contact_key (contacts w) \<and> unique_on (\<lambda>c. Some (c_id c)) (contacts w)"

lemma unique_on_update_one:
  assumes "unique_on key rows" "unique_on (\<lambda>r. Some (idf r)) rows" "\<And>r. idf (f r) = idf r"
    and "find_row (\<lambda>r. idf r = i) rows = Some r0" "\<forall>s \<in> set rows. idf s \<noteq> i \<longrightarrow> key s \<noteq> key (f r0)"
  shows "unique_on key (update_rows (\<lambda>r. idf r = i) f rows)"
  using assms
proof (induction rows)
  case (Cons r rows)
  show ?case
  proof (cases "idf r = i")
    case True
    then have r0: "r0 = r" using Cons.prems(4) by simp
    have n: "\<forall>s \<in> set rows. idf s \<noteq> i" using Cons.prems(2) True by (auto simp: unique_on_Cons)
    then have "update_rows (\<lambda>r. idf r = i) f rows = rows" by (simp add: update_rows_none)
    then show ?thesis using Cons.prems True r0 n by (auto simp: unique_on_Cons)
  next
    case False
    then have ih: "unique_on key (update_rows (\<lambda>r. idf r = i) f rows)"
      using Cons by (simp add: unique_on_Cons)
    have "\<forall>s \<in> set (update_rows (\<lambda>r. idf r = i) f rows). key s \<noteq> key r \<or> key r = None"
    proof
      fix s assume "s \<in> set (update_rows (\<lambda>r. idf r = i) f rows)"
      then obtain t where t: "t \<in> set rows" "s = (if idf t = i then f t else t)" by (auto simp: in_update_rows)
      show "key s \<noteq> key r \<or> key r = None"
      proof (cases "idf t = i")
        case True
        have "find_row (\<lambda>r. idf r = i) rows = Some r0" using Cons.prems(4) False by simp
        then have "r0 = t"
          using find_row_Some [of "\<lambda>r. idf r = i" rows r0] unique_on_eq [of "\<lambda>r. Some (idf r)" rows r0 t i] t True Cons.prems(2)
          by (simp add: unique_on_Cons)
        then show ?thesis using t True Cons.prems(5) False by force
      next
        case False
        then show ?thesis using t Cons.prems(1) by (auto simp: unique_on_Cons)
      qed
    qed
    then show ?thesis using ih False by (auto simp: unique_on_Cons)
  qed
qed simp

lemma update_contact_ok:
  assumes "contacts_ok w" "update_contact cid f w = (Inr c, w')" "\<And>c. c_id (f c) = c_id c"
  shows "contacts_ok w'"
proof -
  obtain c0 where c0: "find_row (\<lambda>c. c_id c = cid) (contacts w) = Some c0"
    "\<not> (\<exists>d \<in> set (contacts w). c_id d \<noteq> cid \<and> contact_key d = contact_key (f c0))"
    "w' = w\<lparr>contacts := update_rows (\<lambda>c. c_id c = cid) f (contacts w)\<rparr>"
    using assms(2) by (auto simp: update_contact_def split: option.splits if_splits)
  then show ?thesis
    using assms(1,3) unique_on_update_one [of contact_key "contacts w" c_id f cid c0]
    by (auto simp: contacts_ok_def unique_on_update_rows)
qed

text \<open>The checks of \<open>fulfillRequest\<close>, passed: an open request, and a completed matching payment.\<close>

definition fulfillable :: "int \<Rightarrow> string \<Rightarrow> string \<Rightarrow> string \<Rightarrow> world \<Rightarrow> bool" where
  "fulfillable now rid payerId tid w \<longleftrightarrow>
     (\<exists>r t a. find_request rid w = Some r \<and> p_status r = PrOPEN \<and> (\<forall>e. p_expiresAt r = Some e \<longrightarrow> now < e) \<and>
        p_userId r \<noteq> payerId \<and> account_of_user (p_userId r) w = Some a \<and>
        find_row (\<lambda>t. t_id t = tid \<and> t_senderId t = payerId) (transactions w) = Some t \<and>
        t_status t = TxCOMPLETED \<and> t_recipientAccountId t = Some (a_accountId a) \<and> t_asset t = p_asset r \<and>
        (p_amount r = None \<or> p_amount r = Some (t_amount t)))"

lemma fulfillRequest_eq:
  assumes "fulfillable now rid payerId tid w"
  shows "fulfillRequest now mid rid payerId tid w = fulfil_update now rid tid (mid w)"
proof -
  from assms obtain r t a where r: "find_request rid w = Some r" "p_status r = PrOPEN" "\<forall>e. p_expiresAt r = Some e \<longrightarrow> now < e"
     "p_userId r \<noteq> payerId" "account_of_user (p_userId r) w = Some a"
     and t: "find_row (\<lambda>t. t_id t = tid \<and> t_senderId t = payerId) (transactions w) = Some t"
        "t_status t = TxCOMPLETED" "t_recipientAccountId t = Some (a_accountId a)" "t_asset t = p_asset r"
        "p_amount r = None \<or> p_amount r = Some (t_amount t)"
    unfolding fulfillable_def by blast
  have "t_id t = tid" using find_row_Some [OF t(1)] by simp
  then show ?thesis using r t
    by (cases "p_expiresAt r"; cases "p_amount r") (simp_all add: fulfillRequest_def Let_def)
qed

lemma fulfillRequest_Inr:
  assumes "fulfillRequest now mid rid payerId tid w = (Inr row, w')"
  shows "fulfillable now rid payerId tid w \<and> fulfil_update now rid tid (mid w) = (Inr row, w')"
proof -
  obtain r where r: "find_request rid w = Some r"
    using assms by (auto simp: fulfillRequest_def split: option.splits)
  have c: "p_status r = PrOPEN" "\<not> (case p_expiresAt r of None \<Rightarrow> False | Some e \<Rightarrow> e \<le> now)" "p_userId r \<noteq> payerId"
    using assms r by (auto simp: fulfillRequest_def split: if_splits)
  obtain t where t: "find_row (\<lambda>t. t_id t = tid \<and> t_senderId t = payerId) (transactions w) = Some t" "t_status t = TxCOMPLETED"
    using assms r c by (auto simp: fulfillRequest_def Let_def split: option.splits if_splits)
  have m: "\<exists>a. account_of_user (p_userId r) w = Some a \<and> t_recipientAccountId t = Some (a_accountId a)"
    "t_asset t = p_asset r" "p_amount r = None \<or> p_amount r = Some (t_amount t)"
    using assms r c t by (auto simp: fulfillRequest_def Let_def split: if_splits)
  have "fulfillable now rid payerId tid w"
    using r c t m unfolding fulfillable_def by (auto split: option.splits)
  then show ?thesis using assms fulfillRequest_eq by metis
qed

section \<open>Properties\<close>

text \<open>An account id is created at most once per user and is unique: a successful call returns ten
  decimal digits that no other row had at the insert, whatever raced with it, for a user without one,
  and adds exactly that row; alone, the call succeeds unless all five candidates are taken, and then
  it answers 500 without a write.\<close>

lemma createAccountId_unique:
  assumes "\<forall>ds \<in> set draws. length ds = 10 \<and> (\<forall>d \<in> set ds. d < 10)"
  shows "(createAccountId now mid rowId draws userId w = (Inr a, w') \<longrightarrow>
            length (a_accountId a) = 10 \<and> all_digits (a_accountId a) \<and> a_userId a = userId \<and>
            w' = (mid w)\<lparr>accountIds := accountIds (mid w) @ [a]\<rparr> \<and>
            (\<forall>b \<in> set (accountIds (mid w)). a_accountId b \<noteq> a_accountId a \<and> a_userId b \<noteq> userId)) \<and>
         (account_of_user userId w = None \<longrightarrow>
            (\<forall>ds \<in> set (take 5 draws). find_account (generateAccountId ds) w \<noteq> None) \<longrightarrow>
            createAccountId now mid rowId draws userId w =
              (Inl (HttpError 500 ''Could not generate a unique Account ID, try again''), w)) \<and>
         (account_of_user userId w = None \<longrightarrow>
            (\<exists>ds \<in> set (take 5 draws). find_account (generateAccountId ds) w = None) \<longrightarrow>
            (\<exists>r. fst (createAccountId now (\<lambda>w. w) rowId draws userId w) = Inr r))"
proof -
  have d: "length (generateAccountId ds) = 10 \<and> all_digits (generateAccountId ds)" if "ds \<in> set draws" for ds
    using generateAccountId_digits [of ds] assms that by auto
  show ?thesis
    using accountIdLoop_Inr [of now mid rowId userId "take 5 draws" w a w'] d
      accountIdLoop_all_taken [of "take 5 draws" w now mid rowId userId]
      accountIdLoop_finds [of _ w "take 5 draws" userId now rowId]
    by (auto simp: createAccountId_def dest: in_set_takeD split: if_splits) (metis in_set_takeD)+
qed

text \<open>Contacts stay unique per owner and name under create and rename, a clash answers 409 and changes
  nothing, and rename and removal reach only contacts of the caller.\<close>

lemma contacts_stay_unique:
  assumes "contacts_ok w" "\<forall>x \<in> set (contacts w). c_id x \<noteq> cid'"
  shows "contacts_ok (snd (createContact now cid' ownerId input w)) \<and>
         contacts_ok (snd (updateContact ownerId cid name accountId w)) \<and>
         contacts_ok (snd (removeContact ownerId cid w)) \<and>
         filter (\<lambda>x. c_ownerId x \<noteq> ownerId) (contacts (snd (updateContact ownerId cid name accountId w))) =
           filter (\<lambda>x. c_ownerId x \<noteq> ownerId) (contacts w) \<and>
         filter (\<lambda>x. c_ownerId x \<noteq> ownerId) (contacts (snd (removeContact ownerId cid w))) =
           filter (\<lambda>x. c_ownerId x \<noteq> ownerId) (contacts w) \<and>
         ((\<exists>x \<in> set (contacts w). c_ownerId x = ownerId \<and> c_name x = js_trim (ci_name input)) \<longrightarrow>
           (\<exists>e. fst (createContact now cid' ownerId input w) = Inl e) \<and> snd (createContact now cid' ownerId input w) = w)"
proof -
  have 1: "contacts_ok (snd (createContact now cid' ownerId input w))"
    using assms by (auto simp: createContact_def Let_def contacts_ok_def create_row_def unique_on_append1 split: sum.splits)
  have u: "contacts_ok (snd (update_contact cid f w))" if "\<And>c. c_id (f c) = c_id c" for f
    using that update_contact_ok [OF assms(1), of cid f] assms(1)
    by (cases "update_contact cid f w"; cases "fst (update_contact cid f w)")
       (auto simp: update_contact_def split: option.splits if_splits)
  then have 2: "contacts_ok (snd (updateContact ownerId cid name accountId w))"
    using assms(1) by (auto simp: updateContact_def split: option.splits sum.splits prod.splits) (metis (no_types, lifting) snd_conv contact_row.ext_inject contact_row.surjective contact_row.update_convs u)+
  have 3: "contacts_ok (snd (removeContact ownerId cid w))"
    using assms(1) by (simp add: removeContact_def contacts_ok_def unique_on_delete_rows)
  have 4: "filter (\<lambda>x. c_ownerId x \<noteq> ownerId) (contacts (snd (updateContact ownerId cid name accountId w))) =
      filter (\<lambda>x. c_ownerId x \<noteq> ownerId) (contacts w)"
  proof (cases "find_row (\<lambda>c. c_id c = cid \<and> c_ownerId c = ownerId) (contacts w)")
    case None
    then show ?thesis by (simp add: updateContact_def)
  next
    case (Some c0)
    then have own: "\<forall>x \<in> set (contacts w). c_id x = cid \<longrightarrow> c_ownerId x = ownerId"
      using find_row_Some [OF Some] assms(1) unique_on_eq [of "\<lambda>c. Some (c_id c)" "contacts w" c0 _ cid]
      by (auto simp: contacts_ok_def)
    have k: "filter (\<lambda>x. c_ownerId x \<noteq> ownerId) (contacts (snd (update_contact cid f w))) =
        filter (\<lambda>x. c_ownerId x \<noteq> ownerId) (contacts w)" if "\<And>c. c_ownerId (f c) = c_ownerId c" for f
      using own that by (auto simp: update_contact_def filter_update_rows split: option.split)
    show ?thesis using Some
      by (auto simp: updateContact_def k split: option.splits sum.splits prod.splits) (metis (no_types, lifting) snd_conv contact_row.ext_inject contact_row.surjective contact_row.update_convs k)+
  qed
  have 5: "filter (\<lambda>x. c_ownerId x \<noteq> ownerId) (contacts (snd (removeContact ownerId cid w))) =
      filter (\<lambda>x. c_ownerId x \<noteq> ownerId) (contacts w)"
    by (auto simp: removeContact_def delete_rows_def intro: filter_cong)
  have 6: "(\<exists>x \<in> set (contacts w). c_ownerId x = ownerId \<and> c_name x = js_trim (ci_name input)) \<longrightarrow>
      (\<exists>e. fst (createContact now cid' ownerId input w) = Inl e) \<and> snd (createContact now cid' ownerId input w) = w"
    by (auto simp: createContact_def Let_def create_row_def contact_key_def split: sum.split)
  show ?thesis using 1 2 3 4 5 6 by blast
qed

text \<open>C27: a payment request is fulfilled only by a matching payment: success means that it was open and
  unexpired when checked, that the caller is not its owner, and that the caller sent a completed
  transaction of the requested asset (and amount, if one was asked) to the owner's account id; the row
  then names that transaction, which no other request names.  Presenting a transaction that already
  fulfils another request is an unmapped unique violation, which the client sees as the generic 500.\<close>

theorem fulfilment_needs_matching_payment:
  assumes "fulfillRequest now mid rid payerId tid w = (r, w')"
  shows "(\<forall>row. r = Inr row \<longrightarrow> fulfillable now rid payerId tid w \<and>
            p_status row = PrFULFILLED \<and> p_fulfilledTransactionId row = Some tid \<and> p_fulfilledAt row = Some now \<and>
            (\<forall>q \<in> set (payRequests w'). p_id q \<noteq> rid \<longrightarrow> p_fulfilledTransactionId q \<noteq> Some tid)) \<and>
         (fulfillable now rid payerId tid w \<and> find_request rid (mid w) \<noteq> None \<and>
          (\<exists>q \<in> set (payRequests (mid w)). p_id q \<noteq> rid \<and> p_fulfilledTransactionId q = Some tid) \<longrightarrow>
            (\<exists>e. r = Inl e \<and> handleError e = (500, GENERIC_MESSAGE)))"
proof -
  have 1: "fulfillable now rid payerId tid w \<and>
            p_status row = PrFULFILLED \<and> p_fulfilledTransactionId row = Some tid \<and> p_fulfilledAt row = Some now \<and>
            (\<forall>q \<in> set (payRequests w'). p_id q \<noteq> rid \<longrightarrow> p_fulfilledTransactionId q \<noteq> Some tid)" if "r = Inr row" for row
    using fulfillRequest_Inr [of now mid rid payerId tid w row w'] assms that
    by (auto simp: fulfil_update_def Let_def in_update_rows split: option.splits if_splits)
  have 2: "\<exists>e. r = Inl e \<and> handleError e = (500, GENERIC_MESSAGE)"
    if "fulfillable now rid payerId tid w" "find_request rid (mid w) \<noteq> None"
      "\<exists>q \<in> set (payRequests (mid w)). p_id q \<noteq> rid \<and> p_fulfilledTransactionId q = Some tid"
    using fulfillRequest_eq [OF that(1), of mid] assms that(2,3)
    by (auto simp: fulfil_update_def split: option.splits)
  show ?thesis using 1 2 by blast
qed

definition demo_pay_world :: world where
  "demo_pay_world = demo_world\<lparr>
     accountIds := [\<lparr>a_id = ''a1'', a_accountId = ''1111111111'', a_userId = ''u1'', a_createdAt = 0\<rparr>],
     payRequests := [\<lparr>p_id = ''r1'', p_userId = ''u1'', p_asset = ''ETH'', p_amount = Some ''2'', p_note = None, p_status = PrOPEN,
       p_expiresAt = None, p_createdAt = 0, p_fulfilledTransactionId = None, p_fulfilledAt = None\<rparr>],
     transactions := map (\<lambda>(i, u). \<lparr>t_id = i, t_senderId = u, t_recipientAccountId = Some ''1111111111'', t_recipientAddress = None,
       t_asset = ''ETH'', t_amount = ''2'', t_network = ETH, t_feeAmount = None, t_status = TxCOMPLETED, t_txHash = None,
       t_idempotencyKey = None, t_createdAt = 0\<rparr>) [(''t2'', ''u2''), (''t3'', ''u3'')]\<rparr>"

lemma demo_fulfillable: "fulfillable 5 ''r1'' ''u2'' ''t2'' demo_pay_world" "fulfillable 5 ''r1'' ''u3'' ''t3'' demo_pay_world"
  by (simp_all add: fulfillable_def demo_pay_world_def find_request_def account_of_user_def)

lemma fulfilment_needs_matching_payment_witness:
  "\<exists>row w'. fulfillRequest 5 (\<lambda>w. w) ''r1'' ''u2'' ''t2'' demo_pay_world = (Inr row, w') \<and> p_fulfilledTransactionId row = Some ''t2''"
proof -
  have "\<exists>row w'. fulfillRequest 5 (\<lambda>w. w) ''r1'' ''u2'' ''t2'' demo_pay_world = (Inr row, w')"
    unfolding fulfillRequest_eq [OF demo_fulfillable(1)] by (simp add: fulfil_update_def demo_pay_world_def find_request_def Let_def)
  then show ?thesis using fulfilment_needs_matching_payment by blast
qed

text \<open>Two payers can fulfil one request: if the second call checked the request before the first one
  wrote it, both succeed, and the second overwrites the transaction that the first recorded, because
  the final update is keyed by the id alone.\<close>

lemma concurrent_fulfilments_both_succeed:
  assumes "fulfillable now rid payer1 tid1 w" "fulfillable now rid payer2 tid2 w" "tid1 \<noteq> tid2"
    and "\<forall>q \<in> set (payRequests w). p_fulfilledTransactionId q = None"
    and mid: "mid = (\<lambda>w. snd (fulfillRequest now (\<lambda>w. w) rid payer1 tid1 w))"
  shows "(\<exists>row. fst (fulfillRequest now (\<lambda>w. w) rid payer1 tid1 w) = Inr row \<and> p_fulfilledTransactionId row = Some tid1) \<and>
         (\<exists>row. fst (fulfillRequest now mid rid payer2 tid2 w) = Inr row \<and> p_fulfilledTransactionId row = Some tid2) \<and>
         (\<forall>q \<in> set (payRequests (snd (fulfillRequest now mid rid payer2 tid2 w))). p_id q = rid \<longrightarrow> p_fulfilledTransactionId q = Some tid2)"
proof -
  let ?f = "\<lambda>p. p\<lparr>p_status := PrFULFILLED, p_fulfilledTransactionId := Some tid1, p_fulfilledAt := Some now\<rparr>"
  obtain r where r: "find_request rid w = Some r" using assms(1) by (auto simp: fulfillable_def)
  have 1: "fulfillRequest now (\<lambda>w. w) rid payer1 tid1 w =
      (Inr (?f r), w\<lparr>payRequests := update_rows (\<lambda>p. p_id p = rid) ?f (payRequests w)\<rparr>)"
    using fulfillRequest_eq [OF assms(1)] r assms(4) by (auto simp: fulfil_update_def Let_def)
  let ?g = "\<lambda>p. p\<lparr>p_status := PrFULFILLED, p_fulfilledTransactionId := Some tid2, p_fulfilledAt := Some now\<rparr>"
  have f: "find_request rid (mid w) = Some (?f r)"
    using r by (simp add: mid 1 find_request_def find_row_update_rows) (auto dest: find_row_Some)
  have no: "\<not> (\<exists>q \<in> set (payRequests (mid w)). p_id q \<noteq> rid \<and> p_fulfilledTransactionId q = Some tid2)"
    using assms(3,4) by (auto simp: mid 1 in_update_rows split: if_splits)
  have 2: "fulfillRequest now mid rid payer2 tid2 w =
      (Inr (?g (?f r)), (mid w)\<lparr>payRequests := update_rows (\<lambda>p. p_id p = rid) ?g (payRequests (mid w))\<rparr>)"
    unfolding fulfillRequest_eq [OF assms(2)] fulfil_update_def f using no by (simp add: Let_def)
  show ?thesis unfolding 1 2 by (auto simp: in_update_rows) (metis (mono_tags, lifting) payreq_row.select_convs(9) payreq_row.surjective payreq_row.update_convs(6,9,10))?
qed

end
