(* ===== verification/Tokens.thy ===== *)
theory Tokens
  imports Schema
begin

text \<open>
  Networks and the ERC-20 registry: \<^verbatim>\<open>src/src/chains/chain.network.ts\<close> and
  \<^verbatim>\<open>src/src/chains/tokens/registry.ts\<close>.  \<open>ERC20_TOKEN_CONFIG\<close> enters as what \<open>JSON.parse\<close> makes of it,
  each property of an entry present only when it has the type the code tests for; \<open>collate\<close> is the
  order of \<open>localeCompare\<close>.
\<close>

record raw_override =
  ro_chain :: "string option"
  ro_chainId :: "int option option"
  ro_symbol :: "string option"
  ro_name :: "string option"
  ro_address :: "string option"
  ro_decimals :: "nat option"

datatype token_json = NoConfig | NotJson | NotArray | Entries "raw_override list"

record chain_env =
  ETHEREUM_CHAIN_ID :: int
  BSC_CHAIN_ID :: "int option"
  BASE_CHAIN_ID :: "int option"
  POLYGON_CHAIN_ID :: "int option"
  ERC20_TOKEN_CONFIG :: token_json
  collate :: "string \<Rightarrow> nat"

section \<open>Networks\<close>

definition EVM_CHAINS :: "chain list" where
  "EVM_CHAINS = [ETH, BSC, BASE, POLYGON]"

definition isEvmChain :: "chain \<Rightarrow> bool" where
  "isEvmChain c \<longleftrightarrow> c \<in> set EVM_CHAINS"

definition getEvmChainId :: "chain_env \<Rightarrow> chain \<Rightarrow> thrown + int" where
  "getEvmChainId env c =
     (if \<not> isEvmChain c then Inl (StatusError 400 (''Not an EVM chain: '' @ chain_name c))
      else Inr (case c of
                  ETH \<Rightarrow> ETHEREUM_CHAIN_ID env
                | BSC \<Rightarrow> nullish (BSC_CHAIN_ID env) 56
                | BASE \<Rightarrow> nullish (BASE_CHAIN_ID env) 8453
                | _ \<Rightarrow> nullish (POLYGON_CHAIN_ID env) 137))"

fun nativeAssetFor :: "chain \<Rightarrow> string" where
  "nativeAssetFor TON = ''TON''"
| "nativeAssetFor BSC = ''BNB''"
| "nativeAssetFor ETH = ''ETH''"
| "nativeAssetFor SOL = ''SOL''"
| "nativeAssetFor BASE = ''ETH''"
| "nativeAssetFor POLYGON = ''POL''"
| "nativeAssetFor TRON = ''TRX''"
| "nativeAssetFor BTC = ''BTC''"

section \<open>The registry\<close>

record token_config =
  tk_symbol :: string
  tk_name :: string
  tk_decimals :: nat
  tk_address :: string
  tk_chain :: chain
  tk_chainId :: int
  tk_verified :: bool

definition seed :: "chain \<Rightarrow> int \<Rightarrow> string \<Rightarrow> string \<Rightarrow> string \<Rightarrow> nat \<Rightarrow> token_config" where
  "seed c cid symb nm addr dec =
     \<lparr>tk_symbol = symb, tk_name = nm, tk_decimals = dec, tk_address = addr, tk_chain = c, tk_chainId = cid, tk_verified = True\<rparr>"

definition SEEDS :: "token_config list" where
  "SEEDS =
     [seed ETH 1 ''USDC'' ''USD Coin'' ''0xA0b86991c6218b36c1d19D4a2e9Eb0cE3606eB48'' 6,
      seed ETH 1 ''USDT'' ''Tether USD'' ''0xdAC17F958D2ee523a2206206994597C13D831ec7'' 6,
      seed ETH 11155111 ''USDC'' ''USD Coin'' ''0x1c7D4B196Cb0C7B01d743Fbc6116a902379C7238'' 6,
      seed BSC 56 ''USDT'' ''Binance-Peg Tether USD'' ''0x55d398326f99059fF775485246999027B3197955'' 18,
      seed BSC 56 ''USDC'' ''Binance-Peg USD Coin'' ''0x8AC76a51cc950d9822D68b83fE1Ad97B32Cd580d'' 18,
      seed BASE 8453 ''USDC'' ''USD Coin'' ''0x833589fCD6eDb6E08f4c7C32D4f71b54bdA02913'' 6,
      seed BASE 84532 ''USDC'' ''USD Coin'' ''0x036CbD53842c5426634e7929541eC2318f3dCF7e'' 6,
      seed POLYGON 137 ''USDC'' ''USD Coin'' ''0x3c499c542cEF5E3811e1192ce70d8cC03d5c3359'' 6,
      seed POLYGON 80002 ''USDC'' ''USD Coin'' ''0x41E94Eb019C0762f9Bfcf9Fb1E58725BfB0e7582'' 6]"

text \<open>\<open>/^0x[0-9a-fA-F]{40}$/\<close>.\<close>

definition hex_address :: "string \<Rightarrow> bool" where
  "hex_address a \<longleftrightarrow> take 2 a = ''0x'' \<and> length a = 42 \<and> list_all is_hex (drop 2 a)"

definition valid_override :: "raw_override \<Rightarrow> bool" where
  "valid_override e \<longleftrightarrow>
     ro_chain e \<noteq> None \<and> ro_symbol e \<noteq> None \<and> ro_address e \<noteq> None \<and> ro_decimals e \<noteq> None \<and>
     hex_address (the (ro_address e))"

fun loadOverrides :: "token_json \<Rightarrow> raw_override list" where
  "loadOverrides (Entries parsed) = filter valid_override parsed"
| "loadOverrides _ = []"

definition applyOverrides :: "chain_env \<Rightarrow> chain \<Rightarrow> int \<Rightarrow> token_config list" where
  "applyOverrides env c chainId =
     map (\<lambda>e. \<lparr>tk_symbol = toUpperCase (the (ro_symbol e)),
               tk_name = nullish (ro_name e) (toUpperCase (the (ro_symbol e))),
               tk_decimals = the (ro_decimals e), tk_address = the (ro_address e),
               tk_chain = c, tk_chainId = chainId, tk_verified = False\<rparr>)
       (filter (\<lambda>e. toUpperCase (the (ro_chain e)) = chain_name c \<and>
                    (ro_chainId e = None \<or> ro_chainId e = Some (Some chainId)))
         (loadOverrides (ERC20_TOKEN_CONFIG env)))"

text \<open>\<open>bySymbol.set(token.symbol, token)\<close>: a later token replaces an earlier one in place.\<close>

fun set_symbol :: "token_config \<Rightarrow> token_config list \<Rightarrow> token_config list" where
  "set_symbol t [] = [t]"
| "set_symbol t (x # xs) = (if tk_symbol x = tk_symbol t then t # xs else x # set_symbol t xs)"

definition bySymbol :: "token_config list \<Rightarrow> token_config list" where
  "bySymbol ts = fold set_symbol ts []"

definition listTokens :: "chain_env \<Rightarrow> chain \<Rightarrow> int option \<Rightarrow> token_config list" where
  "listTokens env c chainIdOverride =
     (case (case chainIdOverride of Some i \<Rightarrow> Inr i | None \<Rightarrow> getEvmChainId env c) of
        Inl e \<Rightarrow> []
      | Inr configured \<Rightarrow>
          let fromSeeds = filter (\<lambda>s. tk_chain s = c \<and> tk_chainId s = configured) SEEDS
          in sort_key (\<lambda>t. collate env (tk_symbol t)) (bySymbol (fromSeeds @ applyOverrides env c configured)))"

definition resolveToken :: "chain_env \<Rightarrow> chain \<Rightarrow> string option \<Rightarrow> int option \<Rightarrow> token_config option" where
  "resolveToken env c asset chainIdOverride =
     (if \<not> truthy asset then None
      else find_row (\<lambda>t. tk_symbol t = toUpperCase (the asset)) (listTokens env c chainIdOverride))"

definition isTokenAsset :: "chain_env \<Rightarrow> chain \<Rightarrow> string \<Rightarrow> int option \<Rightarrow> bool" where
  "isTokenAsset env c asset chainIdOverride \<longleftrightarrow> resolveToken env c (Some asset) chainIdOverride \<noteq> None"

definition requireToken :: "chain_env \<Rightarrow> chain \<Rightarrow> string \<Rightarrow> int option \<Rightarrow> thrown + token_config" where
  "requireToken env c asset chainIdOverride =
     (case resolveToken env c (Some asset) chainIdOverride of
        Some t \<Rightarrow> Inr t
      | None \<Rightarrow>
          let available = map tk_symbol (listTokens env c chainIdOverride);
              hint = (if available \<noteq> [] then '' Supported on '' @ chain_name c @ '': '' @ js_join '', '' available @ ''.'' else [])
          in Inl (StatusError 400 (asset @ '' is not a supported token on '' @ chain_name c @ ''.'' @ hint)))"

definition assertTokenMatchesNetwork :: "token_config \<Rightarrow> int \<Rightarrow> thrown + unit" where
  "assertTokenMatchesNetwork t expectedChainId =
     (if tk_chainId t \<noteq> expectedChainId
      then Inl (StatusError 500 (tk_symbol t @ '' on '' @ chain_name (tk_chain t) @ '' is configured for chain id '' @
             show_int (tk_chainId t) @ '', but this deployment is running chain id '' @ show_int expectedChainId))
      else Inr ())"

section \<open>Lemmas\<close>

lemma set_symbol_symbols: "tk_symbol ` set (set_symbol t xs) = insert (tk_symbol t) (tk_symbol ` set xs)"
  by (induction xs) auto

lemma set_symbol_distinct: "distinct (map tk_symbol xs) \<Longrightarrow> distinct (map tk_symbol (set_symbol t xs))"
proof (induction xs)
  case (Cons x xs)
  have "tk_symbol x \<in> tk_symbol ` set (set_symbol t xs) \<longleftrightarrow> tk_symbol x = tk_symbol t \<or> tk_symbol x \<in> tk_symbol ` set xs"
    by (simp add: set_symbol_symbols)
  with Cons show ?case by auto
qed simp

lemma set_symbol_set: "distinct (map tk_symbol xs) \<Longrightarrow>
    x \<in> set (set_symbol t xs) \<longleftrightarrow> x = t \<or> (x \<in> set xs \<and> tk_symbol x \<noteq> tk_symbol t)"
  by (induction xs) (auto simp: image_iff)

lemma bySymbol_snoc: "bySymbol (ts @ [t]) = set_symbol t (bySymbol ts)"
  by (simp add: bySymbol_def)

lemma bySymbol_distinct: "distinct (map tk_symbol (bySymbol ts))"
proof (induction ts rule: rev_induct)
  case Nil
  then show ?case by (simp add: bySymbol_def)
next
  case (snoc t ts)
  then show ?case unfolding bySymbol_snoc by (rule set_symbol_distinct)
qed

text \<open>The registry keeps, for every symbol, the last token with it.\<close>

lemma bySymbol_set:
  "x \<in> set (bySymbol ts) \<longleftrightarrow> (\<exists>us vs. ts = us @ x # vs \<and> (\<forall>v \<in> set vs. tk_symbol v \<noteq> tk_symbol x))"
proof (induction ts rule: rev_induct)
  case Nil
  then show ?case by (simp add: bySymbol_def)
next
  case (snoc t ts)
  have "x \<in> set (bySymbol (ts @ [t])) \<longleftrightarrow> x = t \<or> (x \<in> set (bySymbol ts) \<and> tk_symbol x \<noteq> tk_symbol t)"
    unfolding bySymbol_snoc by (rule set_symbol_set) (rule bySymbol_distinct)
  also have "\<dots> \<longleftrightarrow> (\<exists>us vs. ts @ [t] = us @ x # vs \<and> (\<forall>v \<in> set vs. tk_symbol v \<noteq> tk_symbol x))"
  proof
    assume "x = t \<or> (x \<in> set (bySymbol ts) \<and> tk_symbol x \<noteq> tk_symbol t)"
    then show "\<exists>us vs. ts @ [t] = us @ x # vs \<and> (\<forall>v \<in> set vs. tk_symbol v \<noteq> tk_symbol x)"
    proof
      assume "x = t"
      then show ?thesis by (intro exI [of _ ts] exI [of _ "[]"]) simp
    next
      assume a: "x \<in> set (bySymbol ts) \<and> tk_symbol x \<noteq> tk_symbol t"
      then obtain us vs where "ts = us @ x # vs" "\<forall>v \<in> set vs. tk_symbol v \<noteq> tk_symbol x"
        using snoc by blast
      then show ?thesis using a by (intro exI [of _ us] exI [of _ "vs @ [t]"]) auto
    qed
  next
    assume "\<exists>us vs. ts @ [t] = us @ x # vs \<and> (\<forall>v \<in> set vs. tk_symbol v \<noteq> tk_symbol x)"
    then obtain us vs where u: "ts @ [t] = us @ x # vs" "\<forall>v \<in> set vs. tk_symbol v \<noteq> tk_symbol x" by blast
    show "x = t \<or> (x \<in> set (bySymbol ts) \<and> tk_symbol x \<noteq> tk_symbol t)"
    proof (cases vs rule: rev_cases)
      case Nil
      then show ?thesis using u by simp
    next
      case (snoc vs' v)
      then have "v = t" "ts = us @ x # vs'" using u(1) by auto
      then show ?thesis using u(2) snoc \<open>x \<in> set (bySymbol ts) \<longleftrightarrow> _\<close> by auto
    qed
  qed
  finally show ?case .
qed

lemma bySymbol_subset: "x \<in> set (bySymbol ts) \<Longrightarrow> x \<in> set ts"
  by (auto simp: bySymbol_set)

lemma find_symbol:
  assumes "distinct (map tk_symbol ts)"
  shows "find_row (\<lambda>t. tk_symbol t = s) ts = Some x \<longleftrightarrow> x \<in> set ts \<and> tk_symbol x = s"
  using assms by (induction ts) auto

lemma listTokens_distinct: "distinct (map tk_symbol (listTokens env c o'))"
proof -
  have "distinct (map tk_symbol (sort_key k (bySymbol ts)))" for k :: "token_config \<Rightarrow> nat" and ts
    using bySymbol_distinct [of ts] by (simp add: distinct_map)
  then show ?thesis by (simp add: listTokens_def Let_def split: sum.split)
qed

lemma listTokens_set:
  "(case o' of Some i \<Rightarrow> Inr i | None \<Rightarrow> getEvmChainId env c) = Inr cid \<Longrightarrow>
   set (listTokens env c o') =
   set (bySymbol (filter (\<lambda>s. tk_chain s = c \<and> tk_chainId s = cid) SEEDS @ applyOverrides env c cid))"
  by (simp add: listTokens_def Let_def)

lemma listTokens_bound:
  assumes "t \<in> set (listTokens env c o')"
  shows "tk_chain t = c \<and> (case o' of Some i \<Rightarrow> Inr i | None \<Rightarrow> getEvmChainId env c) = Inr (tk_chainId t)"
proof (cases "case o' of Some i \<Rightarrow> Inr i | None \<Rightarrow> getEvmChainId env c")
  case (Inl e)
  then show ?thesis using assms by (simp add: listTokens_def)
next
  case (Inr cid)
  have "t \<in> set (filter (\<lambda>s. tk_chain s = c \<and> tk_chainId s = cid) SEEDS @ applyOverrides env c cid)"
    using assms unfolding listTokens_set [OF Inr] by (rule bySymbol_subset)
  then show ?thesis using Inr by (auto simp: applyOverrides_def)
qed

lemma resolveToken_Some:
  "resolveToken env c asset o' = Some t \<longleftrightarrow>
   truthy asset \<and> t \<in> set (listTokens env c o') \<and> tk_symbol t = toUpperCase (the asset)"
  by (simp add: resolveToken_def find_symbol [OF listTokens_distinct])

lemma seeds_hex: "\<forall>t \<in> set SEEDS. hex_address (tk_address t)"
  by (simp add: SEEDS_def seed_def hex_address_def is_hex_def is_digit_def code_of_def)

lemma listTokens_hex: "t \<in> set (listTokens env c o') \<Longrightarrow> hex_address (tk_address t)"
proof -
  assume t: "t \<in> set (listTokens env c o')"
  then obtain cid where cid: "(case o' of Some i \<Rightarrow> Inr i | None \<Rightarrow> getEvmChainId env c) = Inr cid"
    using listTokens_bound by blast
  have "t \<in> set (filter (\<lambda>s. tk_chain s = c \<and> tk_chainId s = cid) SEEDS @ applyOverrides env c cid)"
    using t unfolding listTokens_set [OF cid] by (rule bySymbol_subset)
  moreover have "\<forall>e \<in> set (loadOverrides (ERC20_TOKEN_CONFIG env)). valid_override e"
    by (cases "ERC20_TOKEN_CONFIG env") auto
  ultimately show ?thesis using seeds_hex by (auto simp: applyOverrides_def valid_override_def)
qed

lemma nonEvm_no_tokens: "\<not> isEvmChain c \<Longrightarrow> listTokens env c None = []"
  by (simp add: listTokens_def getEvmChainId_def)

section \<open>Properties\<close>

text \<open>C28: every token the registry resolves belongs to the network it was asked for: its symbol is the
  upper-cased asset, its chain and chain id are those of the request (the override, else the
  configured id), so the network assertion passes; its contract is a well-formed address; no two
  listed tokens share a symbol; and a chain without a chain id has no tokens.\<close>

theorem registry_is_network_bound:
  "distinct (map tk_symbol (listTokens env c chainId)) \<and>
   (resolveToken env c asset chainId = Some t \<longrightarrow>
      t \<in> set (listTokens env c chainId) \<and> tk_symbol t = toUpperCase (the asset) \<and> tk_chain t = c \<and>
      (case chainId of Some i \<Rightarrow> Inr i | None \<Rightarrow> getEvmChainId env c) = Inr (tk_chainId t) \<and>
      assertTokenMatchesNetwork t (tk_chainId t) = Inr () \<and> hex_address (tk_address t)) \<and>
   (\<not> isEvmChain c \<longrightarrow> resolveToken env c asset None = None)"
  using listTokens_distinct [of env c chainId] listTokens_bound [of t env c chainId] listTokens_hex [of t env c chainId]
    nonEvm_no_tokens [of c env]
  by (auto simp: resolveToken_Some assertTokenMatchesNetwork_def resolveToken_def [of _ _ _ None])

definition demo_chain_env :: chain_env where
  "demo_chain_env = \<lparr>ETHEREUM_CHAIN_ID = 11155111, BSC_CHAIN_ID = None, BASE_CHAIN_ID = None, POLYGON_CHAIN_ID = None,
     ERC20_TOKEN_CONFIG = NoConfig, collate = length\<rparr>"

lemma demo_bsc_usdt:
  "resolveToken demo_chain_env BSC (Some ''USDT'') None =
     Some (seed BSC 56 ''USDT'' ''Binance-Peg Tether USD'' ''0x55d398326f99059fF775485246999027B3197955'' 18)"
  by (simp add: resolveToken_Some listTokens_def getEvmChainId_def isEvmChain_def EVM_CHAINS_def demo_chain_env_def
      SEEDS_def seed_def applyOverrides_def bySymbol_def toUpperCase_def upper_char_def is_lower_def code_of_def)

lemma registry_is_network_bound_witness:
  "tk_chainId (seed BSC 56 ''USDT'' ''Binance-Peg Tether USD'' ''0x55d398326f99059fF775485246999027B3197955'' 18) = 56 \<and>
   hex_address ''0x55d398326f99059fF775485246999027B3197955''"
  using registry_is_network_bound [of demo_chain_env BSC None "Some ''USDT''"
      "seed BSC 56 ''USDT'' ''Binance-Peg Tether USD'' ''0x55d398326f99059fF775485246999027B3197955'' 18"] demo_bsc_usdt
  by (simp add: seed_def)

text \<open>A configured override wins over the built-in entry: when a valid entry of the configuration names
  the chain (in any case) and the chain id or none, and no later applicable entry has its symbol, the
  symbol resolves to that entry's contract and decimals.\<close>

lemma override_wins:
  assumes "ERC20_TOKEN_CONFIG env = Entries (before @ e # later)" "valid_override e"
    and "toUpperCase (the (ro_chain e)) = chain_name c" "getEvmChainId env c = Inr cid"
    and "ro_chainId e = None \<or> ro_chainId e = Some (Some cid)"
    and "\<forall>l \<in> set later. toUpperCase (the (ro_symbol l)) \<noteq> toUpperCase (the (ro_symbol e))"
    and "toUpperCase asset = toUpperCase (the (ro_symbol e))" "asset \<noteq> []"
  shows "\<exists>t. resolveToken env c (Some asset) None = Some t \<and> tk_address t = the (ro_address e) \<and>
             tk_decimals t = the (ro_decimals e) \<and> tk_chainId t = cid \<and> \<not> tk_verified t"
proof -
  let ?tok = "\<lambda>e. \<lparr>tk_symbol = toUpperCase (the (ro_symbol e)),
               tk_name = nullish (ro_name e) (toUpperCase (the (ro_symbol e))),
               tk_decimals = the (ro_decimals e), tk_address = the (ro_address e),
               tk_chain = c, tk_chainId = cid, tk_verified = False\<rparr>"
  let ?ok = "\<lambda>e. toUpperCase (the (ro_chain e)) = chain_name c \<and> (ro_chainId e = None \<or> ro_chainId e = Some (Some cid))"
  let ?seeds = "filter (\<lambda>s. tk_chain s = c \<and> tk_chainId s = cid) SEEDS"
  let ?us = "map ?tok (filter ?ok (filter valid_override before))"
  let ?vs = "map ?tok (filter ?ok (filter valid_override later))"
  have a: "applyOverrides env c cid = ?us @ ?tok e # ?vs"
    using assms(1,2,3,5) by (simp add: applyOverrides_def)
  have "\<forall>v \<in> set ?vs. tk_symbol v \<noteq> tk_symbol (?tok e)" using assms(6) by auto
  then have "?tok e \<in> set (bySymbol (?seeds @ applyOverrides env c cid))"
    unfolding bySymbol_set a by (intro exI [of _ "?seeds @ ?us"] exI [of _ ?vs]) simp
  then have "?tok e \<in> set (listTokens env c None)"
    using assms(4) by (simp add: listTokens_set [where o' = None and cid = cid])
  then have "resolveToken env c (Some asset) None = Some (?tok e)"
    using assms(7,8) by (simp add: resolveToken_Some)
  then show ?thesis by simp
qed

definition demo_override :: raw_override where
  "demo_override = \<lparr>ro_chain = Some ''bsc'', ro_chainId = None, ro_symbol = Some ''USDT'', ro_name = None,
      ro_address = Some ''0x1111111111111111111111111111111111111111'', ro_decimals = Some 6\<rparr>"

end
