(* ===== verification/Money.thy ===== *)
theory Money
  imports Schema
begin

text \<open>
  Exact money: \<^verbatim>\<open>src/src/utils/money.ts\<close>.  Amounts are decimal strings and base units are
  integers.  \<open>parseUnits\<close> and \<open>formatUnits\<close> belong to the ethers package, so they are
  parameters (\<open>parse\<close>, \<open>format\<close>); \<open>unit_codec\<close> states what their documentation promises about
  plain decimals, with the 512-bit range that ethers computes in.
\<close>

section \<open>Plain decimal strings\<close>

text \<open>The two sides of \<open>const [whole, frac = ""] = amount.split(".")\<close>.\<close>

definition whole_part :: "string \<Rightarrow> string" where
  "whole_part s = (case js_split CHR ''.'' s of [] \<Rightarrow> [] | w # _ \<Rightarrow> w)"

definition frac_part :: "string \<Rightarrow> string" where
  "frac_part s = (case js_split CHR ''.'' s of _ # f # _ \<Rightarrow> f | _ \<Rightarrow> [])"

text \<open>The pattern \<open>/^\d+(\.\d+)?$/\<close>.\<close>

definition plain_decimal :: "string \<Rightarrow> bool" where
  "plain_decimal s =
     (case js_split CHR ''.'' s of
        [w] \<Rightarrow> w \<noteq> [] \<and> all_digits w
      | [w, f] \<Rightarrow> w \<noteq> [] \<and> all_digits w \<and> f \<noteq> [] \<and> all_digits f
      | _ \<Rightarrow> False)"

text \<open>\<open>/[1-9]/.test(s)\<close>.\<close>

definition has_nonzero_digit :: "string \<Rightarrow> bool" where
  "has_nonzero_digit s = list_ex (\<lambda>c. is_digit c \<and> c \<noteq> CHR ''0'') s"

definition decimalPlacesOf :: "string \<Rightarrow> nat" where
  "decimalPlacesOf amount =
     (let rest = dropWhile (\<lambda>c. c \<noteq> CHR ''.'') amount
      in if rest = [] then 0 else length rest - 1)"

definition isPositiveDecimalString :: "string \<Rightarrow> bool" where
  "isPositiveDecimalString amount =
     (if \<not> plain_decimal amount then False
      else has_nonzero_digit (whole_part amount) \<or> has_nonzero_digit (frac_part amount))"

section \<open>The validation schema\<close>

definition MAX_AMOUNT_INTEGER_DIGITS :: nat where
  "MAX_AMOUNT_INTEGER_DIGITS = 18"

definition MAX_AMOUNT_DECIMALS :: nat where
  "MAX_AMOUNT_DECIMALS = 18"

text \<open>
  \<open>moneyString(options)\<close> as the first issue the schema reports, \<open>None\<close> when it accepts.  The
  options are the asset label and the two digit budgets, each optional.
\<close>

definition moneyString :: "string option \<Rightarrow> nat option \<Rightarrow> nat option \<Rightarrow> string \<Rightarrow> string option" where
  "moneyString asset maxDecimals' maxIntegerDigits' value =
     (let label = (case asset of Some a \<Rightarrow> if a = [] then ''Amount'' else a @ '' amount'' | None \<Rightarrow> ''Amount'');
          maxDecimals = nullish maxDecimals' MAX_AMOUNT_DECIMALS;
          maxIntegerDigits = nullish maxIntegerDigits' MAX_AMOUNT_INTEGER_DIGITS
      in if \<not> plain_decimal value
         then Some (label @ '' must be a plain positive decimal number (digits, optionally one decimal point)'')
         else if \<not> isPositiveDecimalString value
         then Some (label @ '' must be greater than zero'')
         else if \<not> decimalPlacesOf value \<le> maxDecimals
         then Some (label @ '' must have at most '' @ show_nat maxDecimals @ '' decimal places'')
         else if \<not> length (dropWhile (\<lambda>c. c = CHR ''0'') (whole_part value)) \<le> maxIntegerDigits
         then Some (label @ '' is too large (at most '' @ show_nat maxIntegerDigits @ '' whole digits)'')
         else None)"

definition assertValidAmount :: "string option \<Rightarrow> nat option \<Rightarrow> nat option \<Rightarrow> string \<Rightarrow> thrown + unit" where
  "assertValidAmount asset maxDecimals maxIntegerDigits amount =
     (case moneyString asset maxDecimals maxIntegerDigits amount of
        Some message \<Rightarrow> Inl (StatusError 400 message)
      | None \<Rightarrow> Inr ())"

section \<open>Conversion\<close>

type_synonym parse_units = "string \<Rightarrow> nat \<Rightarrow> thrown + int"
type_synonym format_units = "int \<Rightarrow> nat \<Rightarrow> string"

definition toBaseUnits :: "parse_units \<Rightarrow> string \<Rightarrow> nat \<Rightarrow> thrown + int" where
  "toBaseUnits parse amount decimals = parse amount decimals"

text \<open>\<open>s.replace(/\.0+$/, "")\<close>: the leftmost point followed by zeros to the end.\<close>

fun drop_zero_fraction :: "string \<Rightarrow> string" where
  "drop_zero_fraction [] = []"
| "drop_zero_fraction (c # cs) =
     (if c = CHR ''.'' \<and> cs \<noteq> [] \<and> list_all (\<lambda>d. d = CHR ''0'') cs then []
      else c # drop_zero_fraction cs)"

definition fromBaseUnits :: "format_units \<Rightarrow> int \<Rightarrow> nat \<Rightarrow> string" where
  "fromBaseUnits format v decimals = drop_zero_fraction (format v decimals)"

text \<open>The value a plain decimal denotes, in units of \<open>10 ^ - decimals\<close>.\<close>

definition scaled_nat :: "string \<Rightarrow> nat \<Rightarrow> nat" where
  "scaled_nat s d = digits_val (whole_part s) * 10 ^ d + digits_val (frac_part s) * 10 ^ (d - length (frac_part s))"

definition scaled :: "string \<Rightarrow> nat \<Rightarrow> int" where
  "scaled s d = int (scaled_nat s d)"

section \<open>Lemmas on the decimal form\<close>

lemma plain_decimal_iff:
  "plain_decimal s \<longleftrightarrow>
     (s \<noteq> [] \<and> all_digits s) \<or>
     (\<exists>w f. s = w @ CHR ''.'' # f \<and> w \<noteq> [] \<and> all_digits w \<and> f \<noteq> [] \<and> all_digits f)"
  (is "_ \<longleftrightarrow> ?A \<or> ?B")
proof
  assume p: "plain_decimal s"
  then consider w where "js_split CHR ''.'' s = [w]" "w \<noteq> []" "all_digits w"
    | w f where "js_split CHR ''.'' s = [w, f]" "w \<noteq> []" "all_digits w" "f \<noteq> []" "all_digits f"
    by (auto simp: plain_decimal_def split: list.splits)
  then show "?A \<or> ?B" by cases (auto simp: js_split_one js_split_two)
next
  assume "?A \<or> ?B"
  then show "plain_decimal s"
    by (auto simp: plain_decimal_def js_split_no_sep js_split_append no_sep_in_digits)
qed

lemma plain_point: "w \<noteq> [] \<Longrightarrow> all_digits w \<Longrightarrow> f \<noteq> [] \<Longrightarrow> all_digits f \<Longrightarrow> plain_decimal (w @ CHR ''.'' # f)"
  by (auto simp: plain_decimal_iff)

lemma whole_frac_int [simp]:
  "all_digits w \<Longrightarrow> whole_part w = w" "all_digits w \<Longrightarrow> frac_part w = []"
  by (simp_all add: whole_part_def frac_part_def js_split_no_sep no_sep_in_digits)

lemma whole_frac_point [simp]:
  "all_digits w \<Longrightarrow> all_digits f \<Longrightarrow> whole_part (w @ CHR ''.'' # f) = w"
  "all_digits w \<Longrightarrow> all_digits f \<Longrightarrow> frac_part (w @ CHR ''.'' # f) = f"
  by (simp_all add: whole_part_def frac_part_def js_split_append js_split_no_sep no_sep_in_digits)

lemma places_int [simp]: "all_digits w \<Longrightarrow> decimalPlacesOf w = 0"
  using no_sep_in_digits by (auto simp: decimalPlacesOf_def Let_def dropWhile_eq_Nil_conv)

lemma places_point [simp]: "all_digits w \<Longrightarrow> decimalPlacesOf (w @ CHR ''.'' # f) = length f"
proof -
  assume "all_digits w"
  then have "dropWhile (\<lambda>c. c \<noteq> CHR ''.'') (w @ CHR ''.'' # f) = CHR ''.'' # f"
    using no_sep_in_digits [of w] by (induction w) auto
  then show ?thesis by (simp add: decimalPlacesOf_def)
qed

lemma plain_decimal_cases [consumes 1, case_names int point]:
  assumes "plain_decimal s"
  obtains "s \<noteq> []" "all_digits s"
  | w f where "s = w @ CHR ''.'' # f" "w \<noteq> []" "all_digits w" "f \<noteq> []" "all_digits f"
  using assms by (auto simp: plain_decimal_iff)

lemma places_frac: "plain_decimal s \<Longrightarrow> decimalPlacesOf s = length (frac_part s)"
  by (erule plain_decimal_cases) simp_all

lemma plain_digits: "plain_decimal s \<Longrightarrow> all_digits (whole_part s) \<and> all_digits (frac_part s) \<and> whole_part s \<noteq> []"
  by (erule plain_decimal_cases) simp_all

lemma has_nonzero_digit_val: "all_digits s \<Longrightarrow> has_nonzero_digit s \<longleftrightarrow> 0 < digits_val s"
  by (auto simp: has_nonzero_digit_def digits_val_pos_iff list_ex_iff all_digits_def)

lemma drop_leading_zeros: "digits_val (dropWhile (\<lambda>c. c = CHR ''0'') w) = digits_val w"
  by (induction w) (auto simp: digits_val_Cons)

lemma all_digits_dropWhile: "all_digits w \<Longrightarrow> all_digits (dropWhile P w)"
  using set_dropWhileD by (fastforce simp: all_digits_def)

lemma scaled_pos_nat: "0 < scaled s d \<longleftrightarrow> 0 < scaled_nat s d"
  by (simp add: scaled_def)

lemma isPositive_iff: "plain_decimal s \<Longrightarrow> isPositiveDecimalString s \<longleftrightarrow> 0 < scaled s (decimalPlacesOf s)"
  using plain_digits [of s]
  by (auto simp: isPositiveDecimalString_def scaled_pos_nat scaled_nat_def has_nonzero_digit_val places_frac)

text \<open>Rescaling: more decimals multiply by a power of ten.\<close>

lemma scaled_mono:
  assumes "plain_decimal s" "decimalPlacesOf s \<le> d" "d \<le> e"
  shows "scaled s e = scaled s d * 10 ^ (e - d)"
proof -
  let ?l = "length (frac_part s)"
  have l: "?l \<le> d" using assms places_frac by simp
  have "(10::nat) ^ e = 10 ^ d * 10 ^ (e - d)" and "(10::nat) ^ (e - ?l) = 10 ^ (d - ?l) * 10 ^ (e - d)"
    using assms l by (simp_all flip: power_add)
  then show ?thesis by (simp add: scaled_def scaled_nat_def algebra_simps)
qed

lemma scaled_pos:
  assumes "plain_decimal s" "isPositiveDecimalString s" "decimalPlacesOf s \<le> d"
  shows "0 < scaled s d"
  using assms scaled_mono [of s "decimalPlacesOf s" d] isPositive_iff [of s] by simp

lemma scaled_lt:
  assumes p: "plain_decimal s" and d: "decimalPlacesOf s \<le> d"
    and k: "length (dropWhile (\<lambda>c. c = CHR ''0'') (whole_part s)) \<le> k"
  shows "scaled s d < 10 ^ (k + d)"
proof -
  let ?w = "whole_part s" and ?f = "frac_part s"
  have dg: "all_digits ?w" "all_digits ?f" using plain_digits p by auto
  have "digits_val ?w < 10 ^ length (dropWhile (\<lambda>c. c = CHR ''0'') ?w)"
    using digits_val_lt [OF all_digits_dropWhile [OF dg(1)]] drop_leading_zeros by metis
  also have "\<dots> \<le> (10::nat) ^ k" using k by (simp add: power_increasing)
  finally have w: "digits_val ?w + 1 \<le> 10 ^ k" by simp
  have f: "digits_val ?f < 10 ^ length ?f" using digits_val_lt dg by blast
  have l: "length ?f \<le> d" using d p places_frac by simp
  have "digits_val ?f * 10 ^ (d - length ?f) < 10 ^ length ?f * 10 ^ (d - length ?f)"
    using f by simp
  also have "\<dots> = (10::nat) ^ d" using l by (simp flip: power_add)
  finally have f': "digits_val ?f * 10 ^ (d - length ?f) < 10 ^ d" .
  have "digits_val ?w * 10 ^ d + digits_val ?f * 10 ^ (d - length ?f) < (digits_val ?w + 1) * 10 ^ d"
    using f' by simp
  also have "\<dots> \<le> 10 ^ k * 10 ^ d" using w by (intro mult_right_mono) simp_all
  finally have "digits_val ?w * 10 ^ d + digits_val ?f * 10 ^ (d - length ?f) < 10 ^ (k + d)"
    by (simp add: power_add)
  then have "scaled_nat s d < 10 ^ (k + d)" by (simp add: scaled_nat_def)
  then have "int (scaled_nat s d) < int (10 ^ (k + d))" by (simp only: of_nat_less_iff)
  then show ?thesis by (simp add: scaled_def)
qed

section \<open>Dropping an all-zero fraction\<close>

lemma drop_zero_fraction_int: "CHR ''.'' \<notin> set w \<Longrightarrow> drop_zero_fraction w = w"
  by (induction w) auto

lemma drop_zero_fraction_point:
  "CHR ''.'' \<notin> set w \<Longrightarrow> CHR ''.'' \<notin> set f \<Longrightarrow>
   drop_zero_fraction (w @ CHR ''.'' # f) =
     (if f \<noteq> [] \<and> list_all (\<lambda>d. d = CHR ''0'') f then w else w @ CHR ''.'' # f)"
  by (induction w) (auto simp: drop_zero_fraction_int)

lemma all_zeros_replicate: "list_all (\<lambda>d. d = CHR ''0'') f \<longleftrightarrow> f = replicate (length f) (CHR ''0'')"
  by (induction f) auto

lemma not_all_last: "f \<noteq> [] \<Longrightarrow> last f \<noteq> c \<Longrightarrow> \<not> list_all (\<lambda>d. d = c) f"
  by (induction f) (auto split: if_splits)

text \<open>Dropping it changes neither the shape nor the value.\<close>

lemma drop_zero_fraction_plain:
  assumes "plain_decimal s"
  shows "plain_decimal (drop_zero_fraction s) \<and>
         decimalPlacesOf (drop_zero_fraction s) \<le> decimalPlacesOf s \<and>
         scaled (drop_zero_fraction s) d = scaled s d"
  using assms
proof (cases rule: plain_decimal_cases)
  case int
  then show ?thesis using assms by (simp add: drop_zero_fraction_int no_sep_in_digits)
next
  case (point w f)
  show ?thesis
  proof (cases "list_all (\<lambda>d. d = CHR ''0'') f")
    case True
    then have z: "digits_val f = 0" by (metis all_zeros_replicate digits_val_zeros)
    have "drop_zero_fraction s = w"
      using point True by (simp add: drop_zero_fraction_point no_sep_in_digits)
    then show ?thesis using point z by (simp add: plain_decimal_iff scaled_def scaled_nat_def)
  next
    case False
    then show ?thesis using point assms by (simp add: drop_zero_fraction_point no_sep_in_digits)
  qed
qed

section \<open>The contract of the conversion routines\<close>

text \<open>
  What the documentation of ethers' \<open>parseUnits\<close> and \<open>formatUnits\<close> says about values inside the
  signed 512-bit range: a plain decimal with no more than \<open>d\<close> places parses to its exact value;
  excess nonzero digits are an error; and a formatted value is a plain decimal of at most \<open>d\<close>
  places with that value and without trailing zeros (a single zero may be the whole fraction).
\<close>

definition UNIT_LIMIT :: int where
  "UNIT_LIMIT = 2 ^ 511"

definition tight_fraction :: "string \<Rightarrow> bool" where
  "tight_fraction s \<longleftrightarrow> frac_part s = [] \<or> frac_part s = ''0'' \<or> last (frac_part s) \<noteq> CHR ''0''"

locale unit_codec =
  fixes parse :: parse_units and format :: format_units
  assumes parse_plain: "plain_decimal s \<Longrightarrow> decimalPlacesOf s \<le> d \<Longrightarrow> scaled s d < UNIT_LIMIT \<Longrightarrow> parse s d = Inr (scaled s d)"
    and parse_excess: "plain_decimal s \<Longrightarrow> d < decimalPlacesOf s \<Longrightarrow> last (frac_part s) \<noteq> CHR ''0'' \<Longrightarrow> \<exists>e. parse s d = Inl e"
    and format_value: "0 \<le> v \<Longrightarrow> v < UNIT_LIMIT \<Longrightarrow>
      plain_decimal (format v d) \<and> decimalPlacesOf (format v d) \<le> d \<and> scaled (format v d) d = v"
    and format_tight: "0 \<le> v \<Longrightarrow> v < UNIT_LIMIT \<Longrightarrow> tight_fraction (format v d)"
begin

lemma from_shape:
  assumes "0 \<le> v" "v < UNIT_LIMIT"
  shows "plain_decimal (fromBaseUnits format v d) \<and> decimalPlacesOf (fromBaseUnits format v d) \<le> d \<and>
         scaled (fromBaseUnits format v d) d = v"
  using format_value [OF assms, of d] drop_zero_fraction_plain [of "format v d" d]
  by (auto simp: fromBaseUnits_def)

lemma round_trip: "0 \<le> v \<Longrightarrow> v < UNIT_LIMIT \<Longrightarrow> toBaseUnits parse (fromBaseUnits format v d) d = Inr v"
  using from_shape [of v d] parse_plain [of "fromBaseUnits format v d" d] by (simp add: toBaseUnits_def)

lemma to_exact:
  "plain_decimal s \<Longrightarrow> decimalPlacesOf s \<le> d \<Longrightarrow> scaled s d < UNIT_LIMIT \<Longrightarrow> toBaseUnits parse s d = Inr (scaled s d)"
  by (simp add: toBaseUnits_def parse_plain)

lemma from_canonical:
  assumes v: "0 \<le> v" "v < UNIT_LIMIT"
  shows "frac_part (fromBaseUnits format v d) = [] \<or> last (frac_part (fromBaseUnits format v d)) \<noteq> CHR ''0''"
proof -
  have p: "plain_decimal (format v d)" using format_value v by blast
  have t: "tight_fraction (format v d)" using format_tight v by blast
  show ?thesis using p
  proof (cases rule: plain_decimal_cases)
    case int
    then show ?thesis by (simp add: fromBaseUnits_def drop_zero_fraction_int no_sep_in_digits)
  next
    case (point w f)
    have "f = ''0'' \<or> last f \<noteq> CHR ''0''" using t point by (simp add: tight_fraction_def)
    then show ?thesis
    proof
      assume "f = ''0''"
      then have "fromBaseUnits format v d = w"
        using point by (simp add: fromBaseUnits_def drop_zero_fraction_point no_sep_in_digits)
      then show ?thesis using point by simp
    next
      assume l: "last f \<noteq> CHR ''0''"
      then have "\<not> list_all (\<lambda>d. d = CHR ''0'') f"
        using point(4) by (intro not_all_last)
      then have "fromBaseUnits format v d = w @ CHR ''.'' # f"
        using point by (simp add: fromBaseUnits_def drop_zero_fraction_point no_sep_in_digits)
      then show ?thesis using point l by simp
    qed
  qed
qed

lemma from_inject:
  "0 \<le> v \<Longrightarrow> v < UNIT_LIMIT \<Longrightarrow> 0 \<le> u \<Longrightarrow> u < UNIT_LIMIT \<Longrightarrow>
   fromBaseUnits format v d = fromBaseUnits format u d \<longleftrightarrow> v = u"
  using from_shape by metis

lemma validated:
  assumes m: "assertValidAmount asset maxD' maxI' s = Inr u"
    and D: "maxD = nullish maxD' MAX_AMOUNT_DECIMALS" and I: "maxI = nullish maxI' MAX_AMOUNT_INTEGER_DIGITS"
    and d: "maxD \<le> d" and lim: "10 ^ (maxI + d) \<le> UNIT_LIMIT"
  shows "toBaseUnits parse s d = Inr (scaled s d) \<and> 0 < scaled s d \<and> scaled s d < 10 ^ (maxI + d)"
proof -
  have p: "plain_decimal s" "isPositiveDecimalString s" "decimalPlacesOf s \<le> maxD"
    "length (dropWhile (\<lambda>c. c = CHR ''0'') (whole_part s)) \<le> maxI"
    using m D I by (auto simp: assertValidAmount_def moneyString_def Let_def split: if_splits option.splits)
  have "scaled s d < 10 ^ (maxI + d)" using scaled_lt p d by simp
  moreover have "0 < scaled s d" using scaled_pos p d by simp
  moreover have "toBaseUnits parse s d = Inr (scaled s d)"
    using to_exact p d lim calculation(1) by simp
  ultimately show ?thesis by blast
qed

end

text \<open>The two routines as ethers documents them for non-negative values.\<close>

definition documented_parse :: parse_units where
  "documented_parse s d =
     (if \<not> plain_decimal s then Inl (PlainError ''invalid FixedNumber string value'')
      else if \<not> list_all (\<lambda>c. c = CHR ''0'') (drop d (frac_part s))
      then Inl (PlainError ''too many decimals for format'')
      else let v = digits_val (whole_part s @ take d (frac_part s @ replicate d (CHR ''0'')))
           in if int v < UNIT_LIMIT then Inr (int v) else Inl (PlainError ''value too large for format''))"

definition pad_zeros :: "nat \<Rightarrow> string \<Rightarrow> string" where
  "pad_zeros n s = replicate (n - length s) (CHR ''0'') @ s"

definition documented_format :: format_units where
  "documented_format v d =
     (if d = 0 then show_nat (nat v)
      else show_nat (nat v div 10 ^ d) @ CHR ''.'' #
        (let f = strip_trailing CHR ''0'' (pad_zeros d (show_nat (nat v mod 10 ^ d)))
         in if f = [] then ''0'' else f))"

lemma pad_zeros: "r < 10 ^ d \<Longrightarrow> 0 < d \<Longrightarrow>
    length (pad_zeros d (show_nat r)) = d \<and> all_digits (pad_zeros d (show_nat r)) \<and> digits_val (pad_zeros d (show_nat r)) = r"
  using length_show_nat [of r d] show_nat_digits [of r]
  by (auto simp: pad_zeros_def digits_val_append all_digits_def simp del: show_nat_digits)

lemma strip_zeros_val:
  assumes "length g = d"
  shows "digits_val (strip_trailing CHR ''0'' g) * 10 ^ (d - length (strip_trailing CHR ''0'' g)) = digits_val g"
proof -
  have "digits_val g = digits_val (strip_trailing CHR ''0'' g @
      replicate (length g - length (strip_trailing CHR ''0'' g)) (CHR ''0''))"
    using strip_trailing_append [of g "CHR ''0''"] by simp
  then show ?thesis using assms by (simp add: digits_val_append)
qed

lemma documented_format_point:
  assumes "0 < d"
  obtains f where
    "documented_format v d = show_nat (nat v div 10 ^ d) @ CHR ''.'' # f"
    "f \<noteq> []" "all_digits f" "length f \<le> d" "digits_val f * 10 ^ (d - length f) = nat v mod 10 ^ d"
    "f = ''0'' \<or> last f \<noteq> CHR ''0''"
proof -
  define g where "g = pad_zeros d (show_nat (nat v mod 10 ^ d))"
  define t where "t = strip_trailing CHR ''0'' g"
  have g: "length g = d" "all_digits g" "digits_val g = nat v mod 10 ^ d"
    using pad_zeros [of "nat v mod 10 ^ d" d] assms by (simp_all add: g_def)
  have t: "all_digits t" "length t \<le> d" "digits_val t * 10 ^ (d - length t) = nat v mod 10 ^ d"
    using g strip_trailing_set [of "CHR ''0''" g] strip_trailing_length [of "CHR ''0''" g]
      strip_zeros_val [OF g(1)]
    by (auto simp: t_def all_digits_def)
  have l: "t = [] \<or> last t \<noteq> CHR ''0''" using strip_trailing_last by (simp add: t_def)
  show ?thesis
  proof (rule that [of "if t = [] then ''0'' else t"])
    show "documented_format v d = show_nat (nat v div 10 ^ d) @ CHR ''.'' # (if t = [] then ''0'' else t)"
      using assms by (simp add: documented_format_def t_def g_def Let_def)
  qed (use t l assms in \<open>auto simp: digits_val_def\<close>)
qed

lemma documented_parse_ok:
  assumes "plain_decimal s" "decimalPlacesOf s \<le> d" "scaled s d < UNIT_LIMIT"
  shows "documented_parse s d = Inr (scaled s d)"
proof -
  have l: "length (frac_part s) \<le> d" using assms places_frac by simp
  then have "digits_val (whole_part s @ take d (frac_part s @ replicate d (CHR ''0''))) = scaled_nat s d"
    by (simp add: digits_val_append scaled_nat_def power_add [symmetric])
  then show ?thesis using assms l by (simp add: documented_parse_def scaled_def)
qed

interpretation ethers_units: unit_codec documented_parse documented_format
proof
  fix s d
  show "plain_decimal s \<Longrightarrow> decimalPlacesOf s \<le> d \<Longrightarrow> scaled s d < UNIT_LIMIT \<Longrightarrow> documented_parse s d = Inr (scaled s d)"
    by (rule documented_parse_ok)
  assume "plain_decimal s" "d < decimalPlacesOf s" "last (frac_part s) \<noteq> CHR ''0''"
  then have "last (drop d (frac_part s)) \<noteq> CHR ''0''" "drop d (frac_part s) \<noteq> []"
    by (simp_all add: places_frac)
  then have "\<not> list_all (\<lambda>c. c = CHR ''0'') (drop d (frac_part s))"
    by (intro not_all_last)
  then show "\<exists>e. documented_parse s d = Inl e" by (simp add: documented_parse_def)
next
  fix v d
  assume v: "0 \<le> v" "v < UNIT_LIMIT"
  have "plain_decimal (documented_format v d) \<and> decimalPlacesOf (documented_format v d) \<le> d \<and>
      scaled_nat (documented_format v d) d = nat v \<and> tight_fraction (documented_format v d)"
  proof (cases "d = 0")
    case True
    then show ?thesis by (simp add: documented_format_def plain_decimal_iff scaled_nat_def tight_fraction_def)
  next
    case False
    then have "0 < d" by simp
    then obtain f where "documented_format v d = show_nat (nat v div 10 ^ d) @ CHR ''.'' # f"
      "f \<noteq> []" "all_digits f" "length f \<le> d" "digits_val f * 10 ^ (d - length f) = nat v mod 10 ^ d"
      "f = ''0'' \<or> last f \<noteq> CHR ''0''" by (rule documented_format_point)
    then show ?thesis by (auto simp: plain_point scaled_nat_def tight_fraction_def div_mult_mod_eq)
  qed
  then show "plain_decimal (documented_format v d) \<and> decimalPlacesOf (documented_format v d) \<le> d \<and>
      scaled (documented_format v d) d = v"
    and "tight_fraction (documented_format v d)"
    using v by (simp_all add: scaled_def)
qed

lemmas amount_eval = plain_decimal_def isPositiveDecimalString_def has_nonzero_digit_def decimalPlacesOf_def
  whole_part_def frac_part_def all_digits_def digits_val_def is_digit_def digit_val_def code_of_def
  MAX_AMOUNT_DECIMALS_def MAX_AMOUNT_INTEGER_DIGITS_def

section \<open>Properties\<close>

text \<open>C16: converting base units to a display string and back loses nothing: for every non-negative
  value inside the range ethers computes in and every scale, \<open>toBaseUnits\<close> of \<open>fromBaseUnits\<close> is the
  same integer, and the display string has no trailing zero in its fraction.\<close>

theorem money_round_trip:
  assumes "unit_codec parse format" "0 \<le> v" "v < UNIT_LIMIT"
  shows "toBaseUnits parse (fromBaseUnits format v d) d = Inr v \<and>
         (frac_part (fromBaseUnits format v d) = [] \<or> last (frac_part (fromBaseUnits format v d)) \<noteq> CHR ''0'')"
  using unit_codec.round_trip [OF assms] unit_codec.from_canonical [OF assms] by blast

lemma money_round_trip_witness:
  "toBaseUnits documented_parse (fromBaseUnits documented_format 707273841233737152270 9) 9
     = Inr 707273841233737152270"
  using money_round_trip [OF ethers_units.unit_codec_axioms, of 707273841233737152270 9]
  by (simp add: UNIT_LIMIT_def)

text \<open>C17: an amount that \<open>assertValidAmount\<close> accepts converts without an exception at every scale with
  at least the permitted number of decimals, to exactly the value it denotes, which is positive and
  below \<open>10 ^ (integer digits + decimals)\<close>.\<close>

theorem validated_amount_converts:
  assumes "unit_codec parse format"
    and "assertValidAmount asset maxDecimals maxIntegerDigits s = Inr ()"
    and "nullish maxDecimals MAX_AMOUNT_DECIMALS \<le> d"
    and "10 ^ (nullish maxIntegerDigits MAX_AMOUNT_INTEGER_DIGITS + d) \<le> UNIT_LIMIT"
  shows "toBaseUnits parse s d = Inr (scaled s d) \<and> 0 < scaled s d \<and>
         scaled s d < 10 ^ (nullish maxIntegerDigits MAX_AMOUNT_INTEGER_DIGITS + d)"
  by (rule unit_codec.validated [OF assms(1,2) refl refl assms(3,4)])

lemma validated_amount_converts_witness:
  "toBaseUnits documented_parse ''52060961747.611969'' 18 = Inr 52060961747611969000000000000"
proof -
  have "assertValidAmount (Some ''TRX'') (Some 6) None ''52060961747.611969'' = Inr ()"
    by (simp add: assertValidAmount_def moneyString_def amount_eval)
  from validated_amount_converts [OF ethers_units.unit_codec_axioms this, of 18]
  have "toBaseUnits documented_parse ''52060961747.611969'' 18 = Inr (scaled ''52060961747.611969'' 18)"
    by (simp add: UNIT_LIMIT_def MAX_AMOUNT_INTEGER_DIGITS_def)
  moreover have "scaled ''52060961747.611969'' 18 = 52060961747611969000000000000"
    by (simp add: scaled_def scaled_nat_def amount_eval)
  ultimately show ?thesis by simp
qed

end
