(* ===== verification/Chains.thy ===== *)
theory Chains
  imports Tokens Money
begin

text \<open>
  The chain adapters' address formats (\<^verbatim>\<open>src/src/chains/\<close>), the on-chain existence check
  (\<^verbatim>\<open>src/src/blockchain/\<close>) and the shared EVM adapter (\<^verbatim>\<open>src/src/chains/evm.adapter.ts\<close>).  The RPC
  provider, TriVerify and the ethers functions are arguments: what they answered, thrown values
  included.
\<close>

section \<open>Address formats\<close>

definition base58 :: "char \<Rightarrow> bool" where
  "base58 c \<longleftrightarrow> (is_digit c \<and> c \<noteq> CHR ''0'') \<or> (is_upper c \<and> c \<noteq> CHR ''I'' \<and> c \<noteq> CHR ''O'') \<or> (is_lower c \<and> c \<noteq> CHR ''l'')"

text \<open>\<open>/^[A-Za-z0-9_-]{48}$/\<close>.\<close>

definition ton_isValidAddress :: "string \<Rightarrow> bool" where
  "ton_isValidAddress a \<longleftrightarrow> length a = 48 \<and>
     list_all (\<lambda>c. is_upper c \<or> is_lower c \<or> is_digit c \<or> c = CHR ''_'' \<or> c = CHR ''-'') a"

text \<open>\<open>/^T[1-9A-HJ-NP-Za-km-z]{33}$/\<close>.\<close>

definition tron_isValidAddress :: "string \<Rightarrow> bool" where
  "tron_isValidAddress a \<longleftrightarrow> length a = 34 \<and> take 1 a = ''T'' \<and> list_all base58 (drop 1 a)"

definition solana_isValidAddress :: "string \<Rightarrow> bool" where
  "solana_isValidAddress a \<longleftrightarrow> 32 \<le> length a \<and> length a \<le> 44 \<and> list_all base58 a"

text \<open>\<open>BASE58\<close> is \<open>[1-9A-HJ-NP-Za-km-z]{26,62}\<close>, \<open>BECH32\<close> is \<open>(bc1|tb1)[023456789ac-hj-np-z]{11,87}\<close>.\<close>

definition bech32_char :: "char \<Rightarrow> bool" where
  "bech32_char c \<longleftrightarrow> (is_digit c \<and> c \<noteq> CHR ''1'') \<or> (is_lower c \<and> c \<noteq> CHR ''b'' \<and> c \<noteq> CHR ''i'' \<and> c \<noteq> CHR ''o'')"

definition bitcoin_isValidAddress :: "string \<Rightarrow> bool" where
  "bitcoin_isValidAddress a \<longleftrightarrow>
     (26 \<le> length a \<and> length a \<le> 62 \<and> list_all base58 a) \<or>
     ((take 3 a = ''bc1'' \<or> take 3 a = ''tb1'') \<and> 14 \<le> length a \<and> length a \<le> 90 \<and> list_all bech32_char (drop 3 a))"

definition evm_isValidAddress :: "string \<Rightarrow> bool" where
  "evm_isValidAddress a \<longleftrightarrow> take 2 a = ''0x'' \<and> length a = 42 \<and> list_all is_hex (drop 2 a)"

text \<open>\<open>getChainAdapter(chain).isValidAddress\<close>.\<close>

fun isValidAddress :: "chain \<Rightarrow> string \<Rightarrow> bool" where
  "isValidAddress TON = ton_isValidAddress"
| "isValidAddress ETH = evm_isValidAddress"
| "isValidAddress BSC = evm_isValidAddress"
| "isValidAddress BASE = evm_isValidAddress"
| "isValidAddress POLYGON = evm_isValidAddress"
| "isValidAddress SOL = solana_isValidAddress"
| "isValidAddress TRON = tron_isValidAddress"
| "isValidAddress BTC = bitcoin_isValidAddress"

text \<open>What the rest of the system takes from a format check: a non-empty word of bounded length over
  letters, digits, underscore and dash, so it can be stored, compared and put in a path unescaped.\<close>

definition address_char :: "char \<Rightarrow> bool" where
  "address_char c \<longleftrightarrow> is_upper c \<or> is_lower c \<or> is_digit c \<or> c = CHR ''_'' \<or> c = CHR ''-''"

lemma address_char_no_space: "address_char c \<Longrightarrow> \<not> is_space c"
  by (auto simp: address_char_def is_space_def is_upper_def is_lower_def is_digit_def code_of_def)

lemma dropWhile_none: "(\<And>x. x \<in> set xs \<Longrightarrow> \<not> P x) \<Longrightarrow> dropWhile P xs = xs"
  by (cases xs) auto

locale address_format =
  fixes valid :: "string \<Rightarrow> bool"
  assumes bounded: "valid a \<Longrightarrow> 14 \<le> length a \<and> length a \<le> 90"
    and chars: "valid a \<Longrightarrow> list_all address_char a"
begin

lemma not_empty: "valid a \<Longrightarrow> a \<noteq> []"
  using bounded by fastforce

lemma no_space:
  assumes v: "valid a" and c: "c \<in> set a"
  shows "\<not> is_space c"
proof -
  have "address_char c" using chars [OF v] c by (simp add: list_all_iff)
  then show ?thesis by (rule address_char_no_space)
qed

lemma trimmed: "valid a \<Longrightarrow> js_trim a = a"
  using dropWhile_none [of a is_space] dropWhile_none [of "rev a" is_space] no_space [of a] by (simp add: js_trim_def)

end

lemma base58_char: "base58 c \<Longrightarrow> address_char c"
  by (auto simp: base58_def address_char_def)

lemma list_all_base58: "list_all base58 s \<Longrightarrow> list_all address_char s"
  by (auto simp: list_all_iff base58_char)

lemma is_hex_char: "is_hex c \<Longrightarrow> address_char c"
  by (auto simp: is_hex_def address_char_def is_upper_def is_lower_def)

lemma drop_prefix_chars:
  "take n a = p \<Longrightarrow> list_all address_char p \<Longrightarrow> list_all address_char (drop n a) \<Longrightarrow> list_all address_char a"
  by (metis append_take_drop_id list_all_append)

lemma letters_char: "list_all address_char ''0x''" "list_all address_char ''T''" "list_all address_char ''bc1''" "list_all address_char ''tb1''"
  by (simp_all add: address_char_def is_upper_def is_lower_def is_digit_def code_of_def)

interpretation ton_format: address_format ton_isValidAddress
  by unfold_locales (auto simp: ton_isValidAddress_def address_char_def list_all_iff)

interpretation tron_format: address_format tron_isValidAddress
proof
  fix a assume v: "tron_isValidAddress a"
  then show "14 \<le> length a \<and> length a \<le> 90" by (simp add: tron_isValidAddress_def)
  have "take 1 a = ''T''" "list_all base58 (drop 1 a)" using v by (auto simp: tron_isValidAddress_def)
  then show "list_all address_char a" by (rule drop_prefix_chars [OF _ letters_char(2) list_all_base58])
qed

interpretation solana_format: address_format solana_isValidAddress
  by unfold_locales (auto simp: solana_isValidAddress_def list_all_base58)

interpretation evm_format: address_format evm_isValidAddress
proof
  fix a assume v: "evm_isValidAddress a"
  then show "14 \<le> length a \<and> length a \<le> 90" by (simp add: evm_isValidAddress_def)
  have "list_all address_char (drop 2 a)" using v by (auto simp: evm_isValidAddress_def list_all_iff is_hex_char)
  moreover have "take 2 a = ''0x''" using v by (simp add: evm_isValidAddress_def)
  ultimately show "list_all address_char a" by (rule drop_prefix_chars [OF _ letters_char(1), rotated])
qed

interpretation bitcoin_format: address_format bitcoin_isValidAddress
proof
  fix a assume v: "bitcoin_isValidAddress a"
  then show "14 \<le> length a \<and> length a \<le> 90" by (auto simp: bitcoin_isValidAddress_def)
  have b: "list_all bech32_char s \<Longrightarrow> list_all address_char s" for s
    by (auto simp: list_all_iff bech32_char_def address_char_def)
  from v consider "list_all base58 a" | "take 3 a = ''bc1''" "list_all bech32_char (drop 3 a)"
    | "take 3 a = ''tb1''" "list_all bech32_char (drop 3 a)"
    unfolding bitcoin_isValidAddress_def by blast
  then show "list_all address_char a"
  proof cases
    case 1
    then show ?thesis by (rule list_all_base58)
  next
    case 2
    then show ?thesis by (intro drop_prefix_chars [OF _ letters_char(3) b])
  next
    case 3
    then show ?thesis by (intro drop_prefix_chars [OF _ letters_char(4) b])
  qed
qed

text \<open>The dispatch on the chain keeps the contract.\<close>

interpretation chain_format: address_format "isValidAddress c"
proof
  fix a
  show "isValidAddress c a \<Longrightarrow> 14 \<le> length a \<and> length a \<le> 90"
    using ton_format.bounded tron_format.bounded solana_format.bounded evm_format.bounded bitcoin_format.bounded
    by (cases c) simp_all
  show "isValidAddress c a \<Longrightarrow> list_all address_char a"
    using ton_format.chars tron_format.chars solana_format.chars evm_format.chars bitcoin_format.chars
    by (cases c) simp_all
qed

section \<open>On-chain existence\<close>

record verify_answer =
  va_exists :: bool
  va_active :: bool
  va_source :: "string option"
  va_error :: "string option"

record fallback_result =
  fb_exists :: bool
  fb_active :: bool
  fb_type :: string
  fb_balance :: "string option"
  fb_transactionCount :: "int option"
  fb_source :: string
  fb_error :: "string option"

text \<open>Only BSC and Base have a default.\<close>

definition DEFAULT_RPC_URLS :: "chain \<Rightarrow> string" where
  "DEFAULT_RPC_URLS c = (if c = BSC then ''https://bsc-dataseed.binance.org'' else ''https://mainnet.base.org'')"

text \<open>
  \<open>verifyOnChainFallback\<close>: \<open>is_address\<close> is ethers' \<open>isAddress\<close>, \<open>rpc url address\<close> the three reads raced
  against the timeout (code, transaction count, balance), or what was thrown.
\<close>

definition verifyOnChainFallback ::
  "(string \<Rightarrow> bool) \<Rightarrow> (string \<Rightarrow> string \<Rightarrow> thrown + (string \<times> int \<times> int)) \<Rightarrow> string \<Rightarrow> chain \<Rightarrow> string option \<Rightarrow> fallback_result" where
  "verifyOnChainFallback is_address rpc address c rpcUrl' =
     (let rpcUrl = nullish rpcUrl' (DEFAULT_RPC_URLS c)
      in if \<not> is_address address
         then \<lparr>fb_exists = False, fb_active = False, fb_type = ''unknown'', fb_balance = None, fb_transactionCount = None,
               fb_source = rpcUrl, fb_error = Some ''invalid_address_format''\<rparr>
         else (case rpc rpcUrl address of
                 Inr (code, txCount, balance) \<Rightarrow>
                   let isContract = (code \<noteq> ''0x'');
                       active = isContract \<or> txCount > 0 \<or> balance > 0
                   in \<lparr>fb_exists = True, fb_active = active, fb_type = (if isContract then ''contract'' else ''wallet''),
                       fb_balance = Some (show_int balance), fb_transactionCount = Some txCount, fb_source = rpcUrl, fb_error = None\<rparr>
               | Inl err \<Rightarrow>
                   \<lparr>fb_exists = False, fb_active = False, fb_type = ''unknown'', fb_balance = None, fb_transactionCount = None,
                    fb_source = rpcUrl, fb_error = Some (if err = NotAnError then ''rpc_error'' else message_of err)\<rparr>))"

text \<open>TriVerify serves every chain except BSC and Base; \<open>rpcUrl\<close> is the configured URL of the chain.\<close>

definition verifyAddressOnChain ::
  "(chain \<Rightarrow> string \<Rightarrow> thrown + verify_answer) \<Rightarrow> (string \<Rightarrow> bool) \<Rightarrow> (string \<Rightarrow> string \<Rightarrow> thrown + (string \<times> int \<times> int)) \<Rightarrow>
   (chain \<Rightarrow> string option) \<Rightarrow> string \<Rightarrow> chain \<Rightarrow> thrown + verify_answer" where
  "verifyAddressOnChain triverify is_address rpc rpcUrl address c =
     (if c = BSC \<or> c = BASE
      then let r = verifyOnChainFallback is_address rpc address c (rpcUrl c)
           in Inr \<lparr>va_exists = fb_exists r, va_active = fb_active r, va_source = Some (fb_source r), va_error = fb_error r\<rparr>
      else triverify c address)"

record address_verification =
  av_address :: string
  av_chain :: chain
  av_formatValid :: bool
  av_existsOnChain :: bool
  av_active :: bool
  av_source :: "string option"
  av_error :: "string option"

definition verifyAddressExists ::
  "(string \<Rightarrow> chain \<Rightarrow> thrown + verify_answer) \<Rightarrow> string \<Rightarrow> chain \<Rightarrow> thrown + address_verification" where
  "verifyAddressExists onChain address c =
     (if \<not> isValidAddress c address
      then Inr \<lparr>av_address = address, av_chain = c, av_formatValid = False, av_existsOnChain = False, av_active = False,
                av_source = None, av_error = Some ''invalid_address_format''\<rparr>
      else (case onChain address c of
              Inl e \<Rightarrow> Inl e
            | Inr result \<Rightarrow>
                if \<not> va_exists result
                then Inl (StatusError 400 (''Address could not be verified on '' @ chain_name c))
                else Inr \<lparr>av_address = address, av_chain = c, av_formatValid = True, av_existsOnChain = va_exists result,
                          av_active = va_active result, av_source = va_source result, av_error = va_error result\<rparr>))"

section \<open>The EVM adapter\<close>

definition CHAIN_CONFIG :: "chain \<Rightarrow> (int \<times> nat) option" where
  "CHAIN_CONFIG c =
     (case c of ETH \<Rightarrow> Some (1, 18) | BSC \<Rightarrow> Some (56, 18) | BASE \<Rightarrow> Some (8453, 18) | POLYGON \<Rightarrow> Some (137, 18) | _ \<Rightarrow> None)"

definition NATIVE_TRANSFER_GAS :: int where "NATIVE_TRANSFER_GAS = 21000"

definition TOKEN_TRANSFER_GAS :: int where "TOKEN_TRANSFER_GAS = 65000"

text \<open>The JSON-RPC provider: balances, ERC-20 \<open>balanceOf\<close>, fee data (the maximum fee, the legacy price and the
  tip, each optional), broadcast, and the receipt's status.\<close>

record rpc =
  rpc_getBalance :: "string \<Rightarrow> thrown + int"
  rpc_balanceOf :: "string \<Rightarrow> string \<Rightarrow> thrown + int"
  rpc_feeData :: "thrown + (int option \<times> int option \<times> int option)"
  rpc_broadcast :: "string \<Rightarrow> thrown + string"
  rpc_receipt :: "string \<Rightarrow> thrown + int option"

record evm_lib =
  el_getAddress :: "string \<Rightarrow> thrown + string"
  el_encodeTransfer :: "string \<Rightarrow> int \<Rightarrow> thrown + string"
  el_parse :: parse_units
  el_format :: format_units

record evm_adapter =
  ea_chain :: chain
  ea_chainId :: int
  ea_nativeDecimals :: nat
  ea_provider :: "rpc option"
  ea_env :: chain_env
  ea_lib :: evm_lib

definition createEvmAdapter :: "chain_env \<Rightarrow> evm_lib \<Rightarrow> chain \<Rightarrow> rpc option \<Rightarrow> int option \<Rightarrow> thrown + evm_adapter" where
  "createEvmAdapter env lib c provider chainIdOverride =
     (case CHAIN_CONFIG c of
        None \<Rightarrow> Inl (PlainError (''Unsupported EVM chain: '' @ chain_name c))
      | Some (cid, dec) \<Rightarrow>
          Inr \<lparr>ea_chain = c, ea_chainId = nullish chainIdOverride cid, ea_nativeDecimals = dec, ea_provider = provider,
               ea_env = env, ea_lib = lib\<rparr>)"

text \<open>\<open>new ProviderUnavailableError(chain, operation)\<close>.\<close>

definition ProviderUnavailableError :: "string \<Rightarrow> string \<Rightarrow> thrown" where
  "ProviderUnavailableError c operation = PlainError (c @ '' '' @ operation @ '' provider is not configured'')"

definition requireProvider :: "evm_adapter \<Rightarrow> thrown + rpc" where
  "requireProvider a =
     (case ea_provider a of Some p \<Rightarrow> Inr p | None \<Rightarrow> Inl (ProviderUnavailableError (chain_name (ea_chain a)) ''RPC''))"

definition nativeSymbol :: "evm_adapter \<Rightarrow> string" where
  "nativeSymbol a = (if ea_chain a = BASE then ''ETH'' else chain_name (ea_chain a))"

definition assertNativeAsset :: "evm_adapter \<Rightarrow> string \<Rightarrow> thrown + unit" where
  "assertNativeAsset a asset =
     (if asset \<noteq> nativeSymbol a
      then Inl (StatusError 400 (''Native EVM adapter cannot transfer '' @ asset @ '' on '' @ chain_name (ea_chain a)))
      else Inr ())"

definition tokensForChain :: "evm_adapter \<Rightarrow> token_config list" where
  "tokensForChain a = listTokens (ea_env a) (ea_chain a) (Some (ea_chainId a))"

definition findToken :: "evm_adapter \<Rightarrow> string \<Rightarrow> token_config option" where
  "findToken a asset = find_row (\<lambda>t. tk_symbol t = toUpperCase asset) (tokensForChain a)"

definition tokenFor :: "evm_adapter \<Rightarrow> string \<Rightarrow> thrown + token_config" where
  "tokenFor a asset =
     (case findToken a asset of
        None \<Rightarrow>
          let available = map tk_symbol (tokensForChain a);
              hint = (if available \<noteq> []
                      then '' Supported on '' @ chain_name (ea_chain a) @ '': '' @ js_join '', '' available @ ''.'' else [])
          in Inl (StatusError 400 (asset @ '' is not a supported token on '' @ chain_name (ea_chain a) @ ''.'' @ hint))
      | Some t \<Rightarrow>
          if tk_chainId t \<noteq> ea_chainId a
          then Inl (StatusError 500 (tk_symbol t @ '' on '' @ chain_name (ea_chain a) @ '' is configured for chain id '' @
                 show_int (tk_chainId t) @ '', but this deployment runs chain id '' @ show_int (ea_chainId a)))
          else Inr t)"

definition gasCost :: "evm_adapter \<Rightarrow> int \<Rightarrow> thrown + string" where
  "gasCost a gasLimit =
     then_do (requireProvider a) (\<lambda>p.
     then_do (rpc_feeData p) (\<lambda>(maxFee, price, tip).
       let gasPrice = (case maxFee of Some x \<Rightarrow> Some x | None \<Rightarrow> price)
       in if gasPrice = None \<or> gasPrice = Some 0 then Inl (PlainError ''Unable to estimate gas price'')
          else Inr (fromBaseUnits (el_format (ea_lib a)) (the gasPrice * gasLimit) (ea_nativeDecimals a))))"

record transfer_input =
  ti_from :: string
  ti_to :: string
  ti_asset :: string
  ti_amount :: string

record token_plan =
  tp_chain :: chain
  tp_chainId :: int
  tp_token :: token_config
  tp_to :: string
  tp_recipient :: string
  tp_value :: string
  tp_data :: string
  tp_gasLimit :: int
  tp_maxFeePerGas :: "int option"
  tp_maxPriorityFeePerGas :: "int option"

definition buildTokenTransfer :: "evm_adapter \<Rightarrow> transfer_input \<Rightarrow> token_config option \<Rightarrow> thrown + token_plan" where
  "buildTokenTransfer a input tok =
     then_do (case tok of Some t \<Rightarrow> Inr t | None \<Rightarrow> tokenFor a (ti_asset input)) (\<lambda>resolved.
       if tk_chainId resolved \<noteq> ea_chainId a
       then Inl (StatusError 400 (tk_symbol resolved @ '' is not configured for chain id '' @ show_int (ea_chainId a)))
       else let feeData = (case ea_provider a of None \<Rightarrow> None
                           | Some p \<Rightarrow> (case rpc_feeData p of Inl _ \<Rightarrow> None | Inr f \<Rightarrow> Some f))
            in then_do (el_getAddress (ea_lib a) (ti_to input)) (\<lambda>to.
               then_do (toBaseUnits (el_parse (ea_lib a)) (ti_amount input) (tk_decimals resolved)) (\<lambda>amount.
               then_do (el_encodeTransfer (ea_lib a) to amount) (\<lambda>data.
                 Inr \<lparr>tp_chain = ea_chain a, tp_chainId = ea_chainId a, tp_token = resolved, tp_to = tk_address resolved,
                      tp_recipient = to, tp_value = ''0'', tp_data = data, tp_gasLimit = TOKEN_TRANSFER_GAS,
                      tp_maxFeePerGas = (case feeData of None \<Rightarrow> None | Some (m, _, _) \<Rightarrow> m),
                      tp_maxPriorityFeePerGas = (case feeData of None \<Rightarrow> None | Some (_, _, t) \<Rightarrow> t)\<rparr>))))"

definition getNativeBalance :: "evm_adapter \<Rightarrow> string \<Rightarrow> thrown + string" where
  "getNativeBalance a address =
     then_do (requireProvider a) (\<lambda>p. then_do (rpc_getBalance p address) (\<lambda>b.
       Inr (fromBaseUnits (el_format (ea_lib a)) b (ea_nativeDecimals a))))"

definition getTokenBalance :: "evm_adapter \<Rightarrow> string \<Rightarrow> string \<Rightarrow> thrown + string" where
  "getTokenBalance a address asset =
     then_do (tokenFor a asset) (\<lambda>t. then_do (requireProvider a) (\<lambda>p. then_do (rpc_balanceOf p (tk_address t) address) (\<lambda>raw.
       Inr (fromBaseUnits (el_format (ea_lib a)) raw (tk_decimals t)))))"

definition getBalance :: "evm_adapter \<Rightarrow> string \<Rightarrow> string option \<Rightarrow> thrown + string" where
  "getBalance a address asset =
     (if \<not> truthy asset \<or> the asset = nativeSymbol a then getNativeBalance a address
      else getTokenBalance a address (the asset))"

definition estimateFee :: "evm_adapter \<Rightarrow> transfer_input \<Rightarrow> thrown + string" where
  "estimateFee a input =
     (if findToken a (ti_asset input) \<noteq> None then gasCost a TOKEN_TRANSFER_GAS else gasCost a NATIVE_TRANSFER_GAS)"

record native_tx =
  nt_from :: string
  nt_to :: string
  nt_value :: int
  nt_chainId :: int
  nt_gasLimit :: int
  nt_maxFeePerGas :: "int option"
  nt_maxPriorityFeePerGas :: "int option"

definition buildTransaction :: "evm_adapter \<Rightarrow> transfer_input \<Rightarrow> thrown + (token_plan + native_tx)" where
  "buildTransaction a input =
     (case findToken a (ti_asset input) of
        Some t \<Rightarrow> then_do (buildTokenTransfer a input (Some t)) (\<lambda>p. Inr (Inl p))
      | None \<Rightarrow>
          then_do (assertNativeAsset a (ti_asset input)) (\<lambda>_.
          then_do (requireProvider a) (\<lambda>p.
          then_do (rpc_feeData p) (\<lambda>(maxFee, _, tip).
          then_do (el_getAddress (ea_lib a) (ti_from input)) (\<lambda>from.
          then_do (el_getAddress (ea_lib a) (ti_to input)) (\<lambda>to.
          then_do (toBaseUnits (el_parse (ea_lib a)) (ti_amount input) (ea_nativeDecimals a)) (\<lambda>v.
            Inr (Inr \<lparr>nt_from = from, nt_to = to, nt_value = v, nt_chainId = ea_chainId a, nt_gasLimit = NATIVE_TRANSFER_GAS,
                      nt_maxFeePerGas = maxFee, nt_maxPriorityFeePerGas = tip\<rparr>))))))))"

definition canPayGas :: "evm_adapter \<Rightarrow> string \<Rightarrow> string \<Rightarrow> thrown + bool" where
  "canPayGas a address requiredNative =
     then_do (requireProvider a) (\<lambda>p. then_do (rpc_getBalance p address) (\<lambda>balance.
     then_do (toBaseUnits (el_parse (ea_lib a)) requiredNative (ea_nativeDecimals a)) (\<lambda>needed. Inr (balance \<ge> needed))))"

definition sendSignedTransaction :: "evm_adapter \<Rightarrow> string \<Rightarrow> thrown + string" where
  "sendSignedTransaction a signedTx = then_do (requireProvider a) (\<lambda>p. rpc_broadcast p signedTx)"

datatype onchain_status = StPending | StConfirmed | StFailed

definition getTransactionStatus :: "evm_adapter \<Rightarrow> string \<Rightarrow> thrown + onchain_status" where
  "getTransactionStatus a txHash =
     then_do (requireProvider a) (\<lambda>p. then_do (rpc_receipt p txHash) (\<lambda>r.
       Inr (case r of None \<Rightarrow> StPending | Some status \<Rightarrow> if status = 1 then StConfirmed else StFailed)))"

end
