(* ===== verification/LedgerAmount.thy ===== *)
theory LedgerAmount
  imports Money
begin

text \<open>
  Amounts in the ledger: \<open>normalizeAmount\<close> (\<^verbatim>\<open>src/src/services/transaction/transaction.service.ts\<close>) and the
  text that a \<open>Decimal(36, 18)\<close> column gives back.  That text is produced by the Decimal class of the
  Prisma client, so it is a parameter with the contract \<open>amount_column\<close>: from one millionth upward the
  plain decimal without superfluous zeros, below it exponent notation (\<open>toExpNeg\<close> is -7).
\<close>

section \<open>Normalisation\<close>

text \<open>\<open>s.replace(/\.$/, "")\<close>.\<close>

definition drop_last_point :: "string \<Rightarrow> string" where
  "drop_last_point s = (if s \<noteq> [] \<and> last s = CHR ''.'' then butlast s else s)"

definition normalizeAmount :: "string \<Rightarrow> string" where
  "normalizeAmount value =
     (let trimmed = js_trim value
      in if js_includes trimmed ''.'' then drop_last_point (strip_trailing (CHR ''0'') trimmed) else trimmed)"

section \<open>Decimal numerals\<close>

lemma digits_val_ge: "all_digits (c # s) \<Longrightarrow> c \<noteq> CHR ''0'' \<Longrightarrow> 10 ^ length s \<le> digits_val (c # s)"
  using digit_val_eq_0 [of c] by (cases "digit_val c") (auto simp: digits_val_Cons)

lemma digits_inject:
  "all_digits s \<Longrightarrow> all_digits t \<Longrightarrow> length s = length t \<Longrightarrow> digits_val s = digits_val t \<Longrightarrow> s = t"
proof (induction s arbitrary: t)
  case (Cons c s)
  then obtain d u where t: "t = d # u" by (cases t) auto
  have lt: "digits_val s < 10 ^ length s" "digits_val u < 10 ^ length s"
    using Cons.prems t digits_val_lt [of s] digits_val_lt [of u] by auto
  have "digit_val c * 10 ^ length s + digits_val s = digit_val d * 10 ^ length s + digits_val u"
    using Cons.prems t by (simp add: digits_val_Cons)
  then have "(digit_val c * 10 ^ length s + digits_val s) div 10 ^ length s = (digit_val d * 10 ^ length s + digits_val u) div 10 ^ length s"
    "(digit_val c * 10 ^ length s + digits_val s) mod 10 ^ length s = (digit_val d * 10 ^ length s + digits_val u) mod 10 ^ length s"
    by simp_all
  then have "digit_val c = digit_val d" "digits_val s = digits_val u" using lt by simp_all
  then show ?case using Cons t digit_char_digit_val by (metis all_digits_simps(2) length_Cons nat.inject)
qed simp

text \<open>A whole part without superfluous leading zeros.\<close>

definition canonical_whole :: "string \<Rightarrow> bool" where
  "canonical_whole w \<longleftrightarrow> w = ''0'' \<or> (w \<noteq> [] \<and> hd w \<noteq> CHR ''0'')"

lemma whole_inject:
  assumes "all_digits s" "all_digits t" "canonical_whole s" "canonical_whole t" "digits_val s = digits_val t"
  shows "s = t"
proof -
  have z: "w = ''0''" if "canonical_whole w" "all_digits w" "digits_val w = 0" for w
    using that digits_val_ge [of "hd w" "tl w"] by (cases w) (auto simp: canonical_whole_def)
  show ?thesis
  proof (cases "digits_val s = 0")
    case True
    then show ?thesis using z assms by metis
  next
    case False
    have nz: "\<exists>c u. w = c # u \<and> c \<noteq> CHR ''0''" if "canonical_whole w" "digits_val w \<noteq> 0" for w
      using that by (cases w) (auto simp: canonical_whole_def digits_val_Cons)
    obtain c u where s: "s = c # u" "c \<noteq> CHR ''0''" using nz [OF assms(3) False] by blast
    obtain d v where t: "t = d # v" "d \<noteq> CHR ''0''" using nz [OF assms(4)] False assms(5) by metis
    note st = s t
    have "10 ^ length u \<le> digits_val s" using digits_val_ge assms(1) st by blast
    moreover have "digits_val s < 10 ^ Suc (length u)" using digits_val_lt [OF assms(1)] st by simp
    moreover have "10 ^ length v \<le> digits_val s" using digits_val_ge assms(2,5) st by metis
    moreover have "digits_val s < 10 ^ Suc (length v)" using digits_val_lt [OF assms(2)] assms(5) st by simp
    ultimately have "(10::nat) ^ length u < 10 ^ Suc (length v)" "(10::nat) ^ length v < 10 ^ Suc (length u)"
      using le_less_trans by blast+
    then have "length u < Suc (length v)" "length v < Suc (length u)"
      by (simp_all add: power_strict_increasing_iff del: power_Suc)
    then show ?thesis using digits_inject [of s t] assms st by simp
  qed
qed

lemma strip_append_zeros: "strip_trailing c (s @ replicate n c) = strip_trailing c s"
  by (simp add: strip_trailing_def rev_replicate) (induction n, auto)

lemma strip_trailing_point: "x \<noteq> c \<Longrightarrow> strip_trailing c (w @ x # f) = w @ x # strip_trailing c f"
  by (induction f rule: rev_induct) (auto simp: strip_trailing_def dropWhile_append)

lemma frac_inject:
  assumes "all_digits f" "all_digits g" "length f \<le> n" "length g \<le> n"
    and "digits_val f * 10 ^ (n - length f) = digits_val g * 10 ^ (n - length g)"
  shows "strip_trailing (CHR ''0'') f = strip_trailing (CHR ''0'') g"
proof -
  let ?z = "\<lambda>s. s @ replicate (n - length s) (CHR ''0'')"
  have "digits_val (?z f) = digits_val (?z g)" using assms(5) by (simp add: digits_val_append)
  moreover have "all_digits (?z f)" "all_digits (?z g)" using assms(1,2) by (auto simp: all_digits_def)
  ultimately have "?z f = ?z g" using assms(3,4) by (intro digits_inject) simp_all
  then show ?thesis using strip_append_zeros by metis
qed

section \<open>What normalisation identifies\<close>

lemma digit_not_space: "is_digit c \<Longrightarrow> \<not> is_space c"
  by (auto simp: is_digit_def is_space_def)

lemma point_not_space: "\<not> is_space (CHR ''.'')"
  by (simp add: is_space_def code_of_def)

lemma plain_no_space: "plain_decimal a \<Longrightarrow> c \<in> set a \<Longrightarrow> \<not> is_space c"
  by (cases rule: plain_decimal_cases) (auto simp: all_digits_def digit_not_space point_not_space list_all_iff)

lemma js_trim_no_space: "(\<And>c. c \<in> set a \<Longrightarrow> \<not> is_space c) \<Longrightarrow> js_trim a = a"
proof -
  have d: "dropWhile is_space s = s" if "\<And>c. c \<in> set s \<Longrightarrow> \<not> is_space c" for s
    using that by (cases s) auto
  assume "\<And>c. c \<in> set a \<Longrightarrow> \<not> is_space c"
  then show ?thesis using d [of a] d [of "rev a"] by (simp add: js_trim_def)
qed

lemma js_includes_char: "js_includes s [c] \<longleftrightarrow> c \<in> set s"
  by (induction s) (auto simp: startsWith_def)

lemma normalize_int: "w \<noteq> [] \<Longrightarrow> all_digits w \<Longrightarrow> normalizeAmount w = w"
  using js_trim_no_space [of w] no_sep_in_digits [of w]
  by (auto simp: normalizeAmount_def js_includes_char all_digits_def digit_not_space list_all_iff)

lemma normalize_point:
  assumes "plain_decimal (w @ CHR ''.'' # f)"
  shows "normalizeAmount (w @ CHR ''.'' # f) =
         (let g = strip_trailing (CHR ''0'') f in if g = [] then w else w @ CHR ''.'' # g)"
proof -
  have "js_trim (w @ CHR ''.'' # f) = w @ CHR ''.'' # f" using js_trim_no_space plain_no_space [OF assms] by blast
  moreover have "last (strip_trailing (CHR ''0'') f) \<noteq> CHR ''.''" if "strip_trailing (CHR ''0'') f \<noteq> []"
  proof -
    have "all_digits f" using assms by (cases rule: plain_decimal_cases)
      (metis in_set_conv_decomp no_sep_in_digits, metis append_Cons_eq_iff no_sep_in_digits)
    then have "CHR ''.'' \<notin> set (strip_trailing (CHR ''0'') f)"
      using no_sep_in_digits strip_trailing_set by blast
    then show ?thesis using that by (metis last_in_set)
  qed
  ultimately show ?thesis
    by (simp add: normalizeAmount_def js_includes_char strip_trailing_point drop_last_point_def Let_def butlast_append)
qed

lemma normalize_cases:
  assumes "plain_decimal a"
  shows "normalizeAmount a =
         (let g = strip_trailing (CHR ''0'') (frac_part a) in if g = [] then whole_part a else whole_part a @ CHR ''.'' # g)"
  using assms
proof (cases rule: plain_decimal_cases)
  case int
  then show ?thesis by (simp add: normalize_int no_sep_in_digits strip_trailing_def)
next
  case (point w f)
  then show ?thesis using normalize_point [of w f] assms by (simp add: no_sep_in_digits Let_def)
qed

text \<open>Two plain decimals of the same value with canonical whole parts are one amount.\<close>

lemma normalize_eq:
  assumes a: "plain_decimal a" "canonical_whole (whole_part a)" "decimalPlacesOf a \<le> n"
    and b: "plain_decimal b" "canonical_whole (whole_part b)" "decimalPlacesOf b \<le> n"
    and v: "scaled a n = scaled b n"
  shows "normalizeAmount a = normalizeAmount b"
proof -
  have d: "all_digits (whole_part x) \<and> all_digits (frac_part x) \<and> length (frac_part x) \<le> n"
    if "plain_decimal x" "decimalPlacesOf x \<le> n" for x
    using that plain_digits places_frac by metis
  have lt: "digits_val (frac_part x) * 10 ^ (n - length (frac_part x)) < 10 ^ n" if "plain_decimal x" "decimalPlacesOf x \<le> n" for x
  proof -
    have "digits_val (frac_part x) * 10 ^ (n - length (frac_part x)) < 10 ^ length (frac_part x) * 10 ^ (n - length (frac_part x))"
      using digits_val_lt [of "frac_part x"] d [OF that] by simp
    also have "\<dots> = 10 ^ n" using d [OF that] by (simp flip: power_add)
    finally show ?thesis .
  qed
  let ?f = "\<lambda>x. digits_val (frac_part x) * 10 ^ (n - length (frac_part x))"
  have e: "digits_val (whole_part a) * 10 ^ n + ?f a = digits_val (whole_part b) * 10 ^ n + ?f b"
    using v by (simp add: scaled_def scaled_nat_def flip: of_nat_add)
  then have "(digits_val (whole_part a) * 10 ^ n + ?f a) div 10 ^ n = (digits_val (whole_part b) * 10 ^ n + ?f b) div 10 ^ n" by simp
  then have w: "digits_val (whole_part a) = digits_val (whole_part b)" using lt a b by simp
  then have "?f a = ?f b" using e by simp
  then have "strip_trailing (CHR ''0'') (frac_part a) = strip_trailing (CHR ''0'') (frac_part b)"
    using frac_inject d a b by blast
  moreover have "whole_part a = whole_part b" using whole_inject w d a b by blast
  ultimately show ?thesis using normalize_cases a(1) b(1) by metis
qed

lemma strip_digits: "all_digits f \<Longrightarrow> all_digits (strip_trailing c f)"
  using strip_trailing_set [of c f] by (auto simp: all_digits_def)

lemma normalize_whole:
  assumes "plain_decimal a"
  shows "whole_part (normalizeAmount a) = whole_part a"
proof -
  have d: "all_digits (whole_part a)" "all_digits (strip_trailing (CHR ''0'') (frac_part a))"
    using plain_digits [OF assms] strip_digits by simp_all
  show ?thesis unfolding normalize_cases [OF assms] using d by (simp add: Let_def no_sep_in_digits)
qed

lemma no_e_in_digits: "all_digits s \<Longrightarrow> CHR ''e'' \<notin> set s"
  by (auto simp: all_digits_def is_digit_def code_of_def dest: bspec [of _ _ "CHR ''e''"])

lemma plain_no_e: "plain_decimal a \<Longrightarrow> CHR ''e'' \<notin> set a"
  by (cases rule: plain_decimal_cases) (auto dest: no_e_in_digits)

lemma normalize_no_e:
  assumes "plain_decimal a"
  shows "CHR ''e'' \<notin> set (normalizeAmount a)"
proof -
  have "CHR ''e'' \<notin> set (whole_part a)" "CHR ''e'' \<notin> set (strip_trailing (CHR ''0'') (frac_part a))"
    using plain_digits [OF assms] strip_digits no_e_in_digits by blast+
  then show ?thesis unfolding normalize_cases [OF assms] by (simp add: Let_def)
qed

lemma in_dropWhile: "c \<in> set s \<Longrightarrow> \<not> P c \<Longrightarrow> c \<in> set (dropWhile P s)"
  by (induction s) auto

lemma normalize_keeps_e:
  assumes "CHR ''e'' \<in> set a"
  shows "CHR ''e'' \<in> set (normalizeAmount a)"
proof -
  have sp: "\<not> is_space (CHR ''e'')" by (simp add: is_space_def code_of_def)
  have 1: "CHR ''e'' \<in> set (js_trim a)" using assms sp by (simp add: js_trim_def in_dropWhile)
  then have "CHR ''e'' \<in> set (strip_trailing (CHR ''0'') (js_trim a))" by (simp add: strip_trailing_def in_dropWhile)
  then have "CHR ''e'' \<in> set (drop_last_point (strip_trailing (CHR ''0'') (js_trim a)))"
    by (cases "strip_trailing (CHR ''0'') (js_trim a)" rule: rev_cases) (auto simp: drop_last_point_def)
  with 1 show ?thesis by (simp add: normalizeAmount_def Let_def)
qed

section \<open>The text of a stored amount\<close>

locale amount_column =
  fixes canon :: "string \<Rightarrow> string"
  assumes plain_text: "plain_decimal a \<Longrightarrow> decimalPlacesOf a \<le> 18 \<Longrightarrow> 10 ^ 12 \<le> scaled a 18 \<Longrightarrow>
      plain_decimal (canon a) \<and> canonical_whole (whole_part (canon a)) \<and> decimalPlacesOf (canon a) \<le> decimalPlacesOf a \<and>
      scaled (canon a) 18 = scaled a 18"
    and small_text: "plain_decimal a \<Longrightarrow> decimalPlacesOf a \<le> 18 \<Longrightarrow> 0 < scaled a 18 \<Longrightarrow> scaled a 18 < 10 ^ 12 \<Longrightarrow>
      CHR ''e'' \<in> set (canon a)"
begin

text \<open>The text names the same amount at every scale that holds all the decimals written.\<close>

lemma same_value:
  assumes "plain_decimal a" "decimalPlacesOf a \<le> 18" "10 ^ 12 \<le> scaled a 18" "decimalPlacesOf a \<le> d"
  shows "plain_decimal (canon a)" "decimalPlacesOf (canon a) \<le> d" "scaled (canon a) d = scaled a d"
proof -
  have c: "plain_decimal (canon a)" "decimalPlacesOf (canon a) \<le> decimalPlacesOf a" "scaled (canon a) 18 = scaled a 18"
    using plain_text [OF assms(1-3)] by simp_all
  then show "plain_decimal (canon a)" "decimalPlacesOf (canon a) \<le> d" using assms(4) by simp_all
  show "scaled (canon a) d = scaled a d"
  proof (cases "d \<le> 18")
    case True
    then have "scaled x 18 = scaled x d * 10 ^ (18 - d)" if "plain_decimal x" "decimalPlacesOf x \<le> d" for x
      using scaled_mono [OF that, of 18] by simp
    from this [of a] this [of "canon a"] c assms show ?thesis by simp
  next
    case False
    then have "scaled x d = scaled x 18 * 10 ^ (d - 18)" if "plain_decimal x" "decimalPlacesOf x \<le> 18" for x
      using scaled_mono [OF that, of d] by simp
    from this [of a] this [of "canon a"] c assms show ?thesis by simp
  qed
qed

lemma same_amount:
  assumes "plain_decimal a" "decimalPlacesOf a \<le> 18" "10 ^ 12 \<le> scaled a 18" "canonical_whole (whole_part a)"
  shows "normalizeAmount (canon a) = normalizeAmount a"
  using plain_text [OF assms(1-3)] normalize_eq [of "canon a" 18 a] assms by simp

lemma leading_zero_differs:
  assumes "plain_decimal a" "decimalPlacesOf a \<le> 18" "10 ^ 12 \<le> scaled a 18" "\<not> canonical_whole (whole_part a)"
  shows "normalizeAmount (canon a) \<noteq> normalizeAmount a"
  using plain_text [OF assms(1-3)] normalize_whole [of "canon a"] normalize_whole [of a] assms by metis

lemma small_differs:
  assumes "plain_decimal a" "decimalPlacesOf a \<le> 18" "0 < scaled a 18" "scaled a 18 < 10 ^ 12"
  shows "normalizeAmount (canon a) \<noteq> normalizeAmount a"
  using small_text [OF assms] normalize_keeps_e [of "canon a"] normalize_no_e [OF assms(1)] by metis

lemma small_not_plain:
  assumes "plain_decimal a" "decimalPlacesOf a \<le> 18" "0 < scaled a 18" "scaled a 18 < 10 ^ 12"
  shows "\<not> plain_decimal (canon a)"
  using small_text [OF assms] plain_no_e by blast

end

text \<open>\<open>Decimal.toString()\<close> as documented, for the plain decimals the ledger stores.\<close>

definition decimal_text :: "string \<Rightarrow> string" where
  "decimal_text a =
     (let n = digits_val (whole_part a);
          g = strip_trailing (CHR ''0'') (frac_part a);
          k = length (takeWhile (\<lambda>c. c = CHR ''0'') g)
      in if 0 < n \<or> g = [] \<or> k \<le> 5 then show_nat n @ (if g = [] then [] else CHR ''.'' # g)
         else hd (drop k g) # (if tl (drop k g) = [] then [] else CHR ''.'' # tl (drop k g)) @ ''e-'' @ show_nat (k + 1))"

lemma plain_decimal_int: "w \<noteq> [] \<Longrightarrow> all_digits w \<Longrightarrow> plain_decimal w"
  by (simp add: plain_decimal_iff)

lemma stripped_value:
  assumes "all_digits f" "length f \<le> d"
  shows "digits_val (strip_trailing (CHR ''0'') f) * 10 ^ (d - length (strip_trailing (CHR ''0'') f)) =
         digits_val f * 10 ^ (d - length f)"
proof -
  let ?g = "strip_trailing (CHR ''0'') f" and ?m = "length f - length (strip_trailing (CHR ''0'') f)"
  have "digits_val f = digits_val ?g * 10 ^ ?m"
    using strip_trailing_append [of f "CHR ''0''"] by (metis add.right_neutral digits_val_append digits_val_zeros length_replicate)
  moreover have "?m + (d - length f) = d - length ?g" using assms(2) strip_trailing_length [of "CHR ''0''" f] by simp
  ultimately show ?thesis by (simp add: mult.assoc flip: power_add)
qed

lemma canonical_show_nat: "canonical_whole (show_nat n)"
proof (cases "n = 0")
  case True
  moreover have "show_nat 0 = ''0''" by code_simp
  ultimately show ?thesis by (simp add: canonical_whole_def)
next
  case False
  have "hd (show_nat n) \<noteq> CHR ''0''" using False
  proof (induction n rule: show_nat.induct)
    case (1 n)
    show ?case
    proof (cases "n < 10")
      case True
      then have "digit_val (digit_char n) = n" by simp
      then have "digit_char n \<noteq> CHR ''0''" using 1(2) zero_is_digit(2) by metis
      then show ?thesis using True by (subst show_nat.simps) simp
    next
      case False
      then have "hd (show_nat (n div 10)) \<noteq> CHR ''0''" using 1 by simp
      then show ?thesis using False by (subst show_nat.simps) simp
    qed
  qed
  then show ?thesis by (simp add: canonical_whole_def)
qed

lemma length_dropWhile_eq: "length (dropWhile P f) = length f - length (takeWhile P f)"
  by (induction f) auto

lemma leading_zeros_small:
  assumes "all_digits f" "length f \<le> 18" "5 < length (takeWhile (\<lambda>c. c = CHR ''0'') f)"
  shows "digits_val f * 10 ^ (18 - length f) < 10 ^ 12"
proof -
  let ?k = "length (takeWhile (\<lambda>c. c = CHR ''0'') f)"
  have z: "takeWhile (\<lambda>c. c = CHR ''0'') f = replicate ?k (CHR ''0'')"
    by (rule replicate_length_same [symmetric]) (auto dest: set_takeWhileD)
  have f: "f = replicate ?k (CHR ''0'') @ dropWhile (\<lambda>c. c = CHR ''0'') f" using z takeWhile_dropWhile_id by metis
  have l: "length (dropWhile (\<lambda>c. c = CHR ''0'') f) = length f - ?k"
    by (rule length_dropWhile_eq)
  have "digits_val f = digits_val (dropWhile (\<lambda>c. c = CHR ''0'') f)" by (simp add: drop_leading_zeros)
  also have "\<dots> < 10 ^ (length f - ?k)"
    unfolding l [symmetric] by (rule digits_val_lt [OF all_digits_dropWhile [OF assms(1)]])
  finally have "digits_val f * 10 ^ (18 - length f) < 10 ^ (length f - ?k) * 10 ^ (18 - length f)" by simp
  also have "\<dots> = 10 ^ (length f - ?k + (18 - length f))" by (simp flip: power_add)
  also have "\<dots> \<le> 10 ^ 12"
    using assms(2,3) length_takeWhile_le [of "\<lambda>c. c = CHR ''0''" f] by (intro power_increasing) auto
  finally show ?thesis .
qed

lemma leading_nonzero_big:
  assumes "all_digits f" "length f \<le> 18" "f \<noteq> []" "last f \<noteq> CHR ''0''" "length (takeWhile (\<lambda>c. c = CHR ''0'') f) \<le> 5"
  shows "10 ^ 12 \<le> digits_val f * 10 ^ (18 - length f)"
proof -
  let ?k = "length (takeWhile (\<lambda>c. c = CHR ''0'') f)" and ?r = "dropWhile (\<lambda>c. c = CHR ''0'') f"
  have ne: "?r \<noteq> []"
  proof
    assume "?r = []"
    then have "\<forall>c \<in> set f. c = CHR ''0''" by (simp add: dropWhile_eq_Nil_conv)
    then show False using last_in_set [OF assms(3)] assms(4) by blast
  qed
  have l: "length ?r = length f - ?k" by (rule length_dropWhile_eq)
  have c: "hd ?r \<noteq> CHR ''0''" using hd_dropWhile [OF ne] .
  have r: "hd ?r # tl ?r = ?r" using ne by (rule hd_Cons_tl)
  have "10 ^ length (tl ?r) \<le> digits_val (hd ?r # tl ?r)"
    by (rule digits_val_ge [OF _ c]) (unfold r, rule all_digits_dropWhile [OF assms(1)])
  then have v: "10 ^ (length f - ?k - 1) \<le> digits_val f" unfolding r drop_leading_zeros by (simp add: l)
  have "(10::nat) ^ 12 \<le> 10 ^ (length f - ?k - 1 + (18 - length f))"
  proof (rule power_increasing)
    have "0 < length ?r" using ne by simp
    then show "12 \<le> length f - ?k - 1 + (18 - length f)" using assms(2,5) l by linarith
  qed simp
  also have "\<dots> \<le> digits_val f * 10 ^ (18 - length f)" using v by (simp add: power_add)
  finally show ?thesis .
qed

text \<open>The two branches of the documented text.\<close>

lemma scaled_nat_bounds:
  "10 ^ 12 \<le> scaled a d \<longleftrightarrow> 10 ^ 12 \<le> scaled_nat a d" "scaled a d < 10 ^ 12 \<longleftrightarrow> scaled_nat a d < 10 ^ 12"
proof -
  have "(10::int) ^ 12 = int (10 ^ 12)" by simp
  then show "10 ^ 12 \<le> scaled a d \<longleftrightarrow> 10 ^ 12 \<le> scaled_nat a d" "scaled a d < 10 ^ 12 \<longleftrightarrow> scaled_nat a d < 10 ^ 12"
    unfolding scaled_def by (simp_all only: of_nat_le_iff of_nat_less_iff)
qed

lemma decimal_text_plain:
  assumes a: "plain_decimal a" "decimalPlacesOf a \<le> 18" and v: "10 ^ 12 \<le> scaled a 18"
  defines "g \<equiv> strip_trailing (CHR ''0'') (frac_part a)"
  shows "decimal_text a = show_nat (digits_val (whole_part a)) @ (if g = [] then [] else CHR ''.'' # g)"
proof -
  have f: "all_digits (frac_part a)" "length (frac_part a) \<le> 18" using a plain_digits places_frac by metis+
  have g: "all_digits g" "length g \<le> 18"
    using f strip_digits strip_trailing_length [of "CHR ''0''" "frac_part a"] by (simp_all add: g_def)
  have "digits_val g * 10 ^ (18 - length g) = digits_val (frac_part a) * 10 ^ (18 - length (frac_part a))"
    unfolding g_def by (rule stripped_value [OF f])
  then have "digits_val (whole_part a) = 0 \<Longrightarrow> \<not> digits_val g * 10 ^ (18 - length g) < 10 ^ 12"
    using v unfolding scaled_nat_bounds scaled_nat_def by simp
  then have "0 < digits_val (whole_part a) \<or> length (takeWhile (\<lambda>c. c = CHR ''0'') g) \<le> 5"
    using leading_zeros_small [OF g] by linarith
  then show ?thesis by (auto simp: decimal_text_def Let_def g_def)
qed

lemma decimal_text_small:
  assumes a: "plain_decimal a" "decimalPlacesOf a \<le> 18" and v: "0 < scaled a 18" "scaled a 18 < 10 ^ 12"
  shows "CHR ''e'' \<in> set (decimal_text a)"
proof -
  let ?g = "strip_trailing (CHR ''0'') (frac_part a)"
  have f: "all_digits (frac_part a)" "length (frac_part a) \<le> 18" using a plain_digits places_frac by metis+
  have g: "all_digits ?g" "length ?g \<le> 18"
    using f strip_digits strip_trailing_length [of "CHR ''0''" "frac_part a"] by simp_all
  have e: "digits_val ?g * 10 ^ (18 - length ?g) = digits_val (frac_part a) * 10 ^ (18 - length (frac_part a))"
    by (rule stripped_value [OF f])
  have s: "digits_val (whole_part a) * 10 ^ 18 + digits_val ?g * 10 ^ (18 - length ?g) < 10 ^ 12"
    "0 < digits_val (whole_part a) * 10 ^ 18 + digits_val ?g * 10 ^ (18 - length ?g)"
    using v unfolding e scaled_nat_bounds scaled_pos_nat scaled_nat_def by simp_all
  then have w: "digits_val (whole_part a) = 0" by (cases "digits_val (whole_part a)") auto
  then have ne: "?g \<noteq> []" using s(2) by (intro notI) simp
  then have "last ?g \<noteq> CHR ''0''" using strip_trailing_last by blast
  then have "\<not> length (takeWhile (\<lambda>c. c = CHR ''0'') ?g) \<le> 5"
    using leading_nonzero_big [OF g ne] s(1) w by fastforce
  then show ?thesis using w ne by (simp add: decimal_text_def Let_def)
qed

interpretation ledger_text: amount_column decimal_text
proof
  fix a assume a: "plain_decimal a" "decimalPlacesOf a \<le> 18"
  let ?g = "strip_trailing (CHR ''0'') (frac_part a)" and ?w = "show_nat (digits_val (whole_part a))"
  have f: "all_digits (frac_part a)" "length (frac_part a) \<le> 18" using a plain_digits places_frac by metis+
  have g: "all_digits ?g" "length ?g \<le> 18"
    using f strip_digits strip_trailing_length [of "CHR ''0''" "frac_part a"] by simp_all
  show "plain_decimal (decimal_text a) \<and> canonical_whole (whole_part (decimal_text a)) \<and>
      decimalPlacesOf (decimal_text a) \<le> decimalPlacesOf a \<and> scaled (decimal_text a) 18 = scaled a 18" if v: "10 ^ 12 \<le> scaled a 18"
    using stripped_value [OF f] g strip_trailing_length [of "CHR ''0''" "frac_part a"] places_frac [OF a(1)] plain_point [of ?w ?g] canonical_show_nat plain_decimal_int [of ?w]
    unfolding decimal_text_plain [OF a v] scaled_def scaled_nat_def of_nat_eq_iff by (cases "?g = []") simp_all
  show "0 < scaled a 18 \<Longrightarrow> scaled a 18 < 10 ^ 12 \<Longrightarrow> CHR ''e'' \<in> set (decimal_text a)"
    by (rule decimal_text_small [OF a])
qed

end
