(* ===== verification/Transactions.thy ===== *)
theory Transactions
  imports Accounts Chains LedgerAmount
begin

text \<open>
  Internal transfers (\<^verbatim>\<open>src/src/services/transaction/transaction.service.ts\<close>): authorising, resolving,
  creating and replaying a transfer, its broadcast, and the reads.  A handler that awaits between a
  check and a write is interleaved with other requests: \<open>mid n\<close> is what they do at its \<open>n\<close>-th such
  point.
\<close>

section \<open>Sending\<close>

record send_input =
  sn_senderId :: string
  sn_recipientAccountId :: "string option"
  sn_recipientAddress :: "string option"
  sn_asset :: string
  sn_amount :: string
  sn_network :: chain
  sn_pin :: string
  sn_idempotencyKey :: string

text \<open>What a request is served with: \<open>bcrypt.compare\<close>, the clock, the on-chain lookup, the text of a
  stored decimal, and the id of the row it may create.\<close>

record send_env =
  sd_compare :: "string \<Rightarrow> string \<Rightarrow> bool"
  sd_now :: int
  sd_onChain :: "string \<Rightarrow> chain \<Rightarrow> thrown + verify_answer"
  sd_canon :: "string \<Rightarrow> string"
  sd_txId :: string

record tx_view =
  tv_row :: tx_row
  tv_direction :: string
  tv_counterpartyAccountId :: "string option"

definition describeCreated :: "tx_row \<Rightarrow> tx_view" where
  "describeCreated row =
     \<lparr>tv_row = row, tv_direction = ''sent'',
      tv_counterpartyAccountId =
        Some (nullish (t_recipientAccountId row) (nullish (t_recipientAddress row) ''Unknown''))\<rparr>"

definition findByIdempotencyKey :: "string \<Rightarrow> string \<Rightarrow> world \<Rightarrow> tx_row option" where
  "findByIdempotencyKey key senderId w =
     (case find_row (\<lambda>t. t_idempotencyKey t = Some key) (transactions w) of
        None \<Rightarrow> None
      | Some existing \<Rightarrow> if t_senderId existing \<noteq> senderId then None else Some existing)"

definition matchesIntent :: "tx_row \<Rightarrow> send_input \<Rightarrow> bool" where
  "matchesIntent stored candidate \<longleftrightarrow>
     t_network stored = sn_network candidate \<and>
     t_asset stored = sn_asset candidate \<and>
     normalizeAmount (t_amount stored) = normalizeAmount (sn_amount candidate) \<and>
     (if truthy (sn_recipientAddress candidate)
      then map_option toLowerCase (t_recipientAddress stored) = map_option toLowerCase (sn_recipientAddress candidate)
      else True)"

definition find_wallet :: "string \<Rightarrow> chain \<Rightarrow> world \<Rightarrow> wallet_row option" where
  "find_wallet userId c w = find_row (\<lambda>x. w_userId x = userId \<and> w_chain x = c) (wallets w)"

text \<open>The recipient, from the account id if there is one, checked for format and existence.\<close>

definition recipientWallet :: "send_input \<Rightarrow> string \<Rightarrow> world \<Rightarrow> thrown + string option" where
  "recipientWallet input accountId w =
     (case find_account accountId w of
        None \<Rightarrow> Inl (StatusError 404 ''Recipient Account ID not found'')
      | Some recipient \<Rightarrow>
          if a_userId recipient = sn_senderId input
          then Inl (StatusError 400 ''Cannot send to your own Account ID'')
          else (case find_wallet (a_userId recipient) (sn_network input) w of
                  None \<Rightarrow> Inl (StatusError 400 (''Recipient has no wallet on '' @ chain_name (sn_network input)))
                | Some wallet \<Rightarrow> Inr (Some (w_address wallet))))"

definition resolveRecipient :: "send_env \<Rightarrow> send_input \<Rightarrow> world \<Rightarrow> thrown + string" where
  "resolveRecipient env input w =
     then_do (if truthy (sn_recipientAccountId input)
              then recipientWallet input (the (sn_recipientAccountId input)) w
              else Inr (sn_recipientAddress input)) (\<lambda>recipientAddress.
       if \<not> truthy recipientAddress \<or> \<not> isValidAddress (sn_network input) (the recipientAddress)
       then Inl (StatusError 400 ''Recipient address failed validation'')
       else then_do (verifyAddressExists (sd_onChain env) (the recipientAddress) (sn_network input)) (\<lambda>_.
              Inr (the recipientAddress)))"

definition KEY_REUSED :: thrown where
  "KEY_REUSED = StatusError 409 ''This idempotency key was already used for a different transfer''"

definition new_tx :: "send_env \<Rightarrow> send_input \<Rightarrow> string \<Rightarrow> tx_row" where
  "new_tx env input recipientAddress =
     \<lparr>t_id = sd_txId env, t_senderId = sn_senderId input, t_recipientAccountId = sn_recipientAccountId input,
      t_recipientAddress = Some recipientAddress, t_asset = sn_asset input, t_amount = sd_canon env (sn_amount input),
      t_network = sn_network input, t_feeAmount = None, t_status = TxPENDING, t_txHash = None,
      t_idempotencyKey = Some (sn_idempotencyKey input), t_createdAt = sd_now env\<rparr>"

text \<open>The interactive transaction: the re-check, the create, and the fold of a lost race.\<close>

definition createOrReplay :: "send_env \<Rightarrow> (nat \<Rightarrow> world \<Rightarrow> world) \<Rightarrow> send_input \<Rightarrow> string \<Rightarrow> tx_view op" where
  "createOrReplay env mid input recipientAddress w =
     (let w1 = mid 2 w
      in case findByIdempotencyKey (sn_idempotencyKey input) (sn_senderId input) w1 of
           Some raced \<Rightarrow> (Inr (describeCreated raced), w1)
         | None \<Rightarrow>
             (let w2 = mid 3 w1; row = new_tx env input recipientAddress
              in case create_row t_idempotencyKey row (transactions w2) of
                   Inr rows \<Rightarrow> (Inr (describeCreated row), w2\<lparr>transactions := rows\<rparr>)
                 | Inl err \<Rightarrow>
                     if \<not> isUniqueConstraintViolation err then (Inl err, w2)
                     else (let w3 = mid 4 w2
                           in case findByIdempotencyKey (sn_idempotencyKey input) (sn_senderId input) w3 of
                                None \<Rightarrow> (Inl KEY_REUSED, w3)
                              | Some winner \<Rightarrow>
                                  if \<not> matchesIntent winner (input\<lparr>sn_recipientAddress := Some recipientAddress\<rparr>)
                                  then (Inl KEY_REUSED, w3)
                                  else (Inr (describeCreated winner), w3))))"

text \<open>After the fast path: resolve, reject a reused key, create.\<close>

definition sendResolved :: "send_env \<Rightarrow> (nat \<Rightarrow> world \<Rightarrow> world) \<Rightarrow> send_input \<Rightarrow> tx_view op" where
  "sendResolved env mid input w =
     (case resolveRecipient env input w of
        Inl e \<Rightarrow> (Inl e, w)
      | Inr recipientAddress \<Rightarrow>
          (let w1 = mid 1 w
           in case findByIdempotencyKey (sn_idempotencyKey input) (sn_senderId input) w1 of
                Some reused \<Rightarrow>
                  if \<not> matchesIntent reused (input\<lparr>sn_recipientAddress := Some recipientAddress\<rparr>)
                  then (Inl KEY_REUSED, w1)
                  else (Inr (describeCreated reused), w1)
              | None \<Rightarrow> createOrReplay env mid input recipientAddress w1))"

definition send :: "send_env \<Rightarrow> (nat \<Rightarrow> world \<Rightarrow> world) \<Rightarrow> send_input \<Rightarrow> tx_view op" where
  "send env mid input w =
     (if sn_pin input = [] then (Inl (StatusError 400 ''A 6-digit PIN is required to authorize this transfer''), w)
      else (case assertPinAuthorized (sd_compare env) (sd_now env) (sn_senderId input) (sn_pin input) ''transfer'' w of
              (Inl e, w1) \<Rightarrow> (Inl e, w1)
            | (Inr _, w1) \<Rightarrow>
                (let w2 = mid 0 w1
                 in case findByIdempotencyKey (sn_idempotencyKey input) (sn_senderId input) w2 of
                      Some fastPath \<Rightarrow>
                        if matchesIntent fastPath input then (Inr (describeCreated fastPath), w2)
                        else sendResolved env mid input w2
                    | None \<Rightarrow> sendResolved env mid input w2)))"

section \<open>Reads\<close>

definition visible_to :: "string \<Rightarrow> account_row option \<Rightarrow> tx_row \<Rightarrow> bool" where
  "visible_to userId account t \<longleftrightarrow>
     t_senderId t = userId \<or> (case account of None \<Rightarrow> False | Some a \<Rightarrow> t_recipientAccountId t = Some (a_accountId a))"

definition describeFor :: "string \<Rightarrow> world \<Rightarrow> tx_row \<Rightarrow> tx_view" where
  "describeFor userId w t =
     (let sent = (t_senderId t = userId)
      in \<lparr>tv_row = t, tv_direction = (if sent then ''sent'' else ''received''),
          tv_counterpartyAccountId =
            (if sent then (case t_recipientAccountId t of Some a \<Rightarrow> Some a | None \<Rightarrow> t_recipientAddress t)
             else Some (nullish (map_option a_accountId (account_of_user (t_senderId t) w)) ''Unknown''))\<rparr>)"

definition getById :: "string \<Rightarrow> string \<Rightarrow> world \<Rightarrow> thrown + tx_view" where
  "getById userId tid w =
     (case find_row (\<lambda>t. t_id t = tid \<and> visible_to userId (account_of_user userId w) t) (transactions w) of
        None \<Rightarrow> Inl (StatusError 404 ''Transaction not found'')
      | Some t \<Rightarrow> Inr (describeFor userId w t))"

definition getStatus :: "string \<Rightarrow> string \<Rightarrow> world \<Rightarrow> thrown + (string \<times> tx_status \<times> string option)" where
  "getStatus userId tid w =
     then_do (getById userId tid w) (\<lambda>v. Inr (t_id (tv_row v), t_status (tv_row v), t_txHash (tv_row v)))"

record tx_page =
  pg_items :: "tx_view list"
  pg_page :: nat
  pg_limit :: nat
  pg_total :: nat

definition listTransactions :: "string \<Rightarrow> nat \<Rightarrow> nat \<Rightarrow> world \<Rightarrow> tx_page" where
  "listTransactions userId page limit w =
     (let rows = filter (visible_to userId (account_of_user userId w)) (transactions w);
          ordered = sort_key (\<lambda>t. - t_createdAt t) rows
      in \<lparr>pg_items = map (describeFor userId w) (take limit (drop ((page - 1) * limit) ordered)),
          pg_page = page, pg_limit = limit, pg_total = length rows\<rparr>)"

definition estimateSendFee :: "(chain \<Rightarrow> transfer_input \<Rightarrow> thrown + string) \<Rightarrow> string \<Rightarrow> string \<Rightarrow> string \<Rightarrow> string \<Rightarrow> chain \<Rightarrow>
    world \<Rightarrow> thrown + (chain \<times> string \<times> string)" where
  "estimateSendFee adapterFee senderId recipientAddress asset amount network w =
     (case find_wallet senderId network w of
        None \<Rightarrow> Inl (StatusError 400 (''Sender has no wallet on '' @ chain_name network))
      | Some senderWallet \<Rightarrow>
          if \<not> isValidAddress network recipientAddress
          then Inl (StatusError 400 ''Recipient address failed validation'')
          else then_do (adapterFee network \<lparr>ti_from = w_address senderWallet, ti_to = recipientAddress,
                                            ti_asset = asset, ti_amount = amount\<rparr>) (\<lambda>fee. Inr (network, asset, fee)))"

section \<open>Broadcast\<close>

text \<open>\<open>prisma.transaction.updateMany({ where, data: { status } })\<close>.\<close>

definition set_tx_status :: "(tx_row \<Rightarrow> bool) \<Rightarrow> tx_status \<Rightarrow> world \<Rightarrow> world" where
  "set_tx_status P s w = w\<lparr>transactions := update_rows P (\<lambda>t. t\<lparr>t_status := s\<rparr>) (transactions w)\<rparr>"

definition process_job :: "string \<Rightarrow> string \<Rightarrow> tx_job" where
  "process_job tid signedTx =
     \<lparr>tj_transactionId = tid, tj_signedTx = Some signedTx, tj_txHash = None, tj_checkOnly = False, tj_delay = 0\<rparr>"

text \<open>\<open>enqueue\<close> is the error of \<open>transactionQueue.add\<close>, if it fails.\<close>

definition broadcast :: "thrown option \<Rightarrow> (nat \<Rightarrow> world \<Rightarrow> world) \<Rightarrow> string \<Rightarrow> string \<Rightarrow> string \<Rightarrow> tx_view op" where
  "broadcast enqueue mid userId transactionId signedTx w =
     (case getById userId transactionId w of
        Inl e \<Rightarrow> (Inl e, w)
      | Inr v \<Rightarrow>
          (if t_status (tv_row v) \<noteq> TxPENDING
           then (if t_status (tv_row v) = TxPROCESSING then (Inr v, w)
                 else (Inl (StatusError 409 ''Transaction is no longer awaiting broadcast''), w))
           else (let w1 = mid 0 w;
                     tid = t_id (tv_row v);
                     P = (\<lambda>t. t_id t = tid \<and> t_senderId t = userId \<and> t_status t = TxPENDING);
                     claimed = count_rows P (transactions w1);
                     w2 = set_tx_status P TxPROCESSING w1;
                     answer = v\<lparr>tv_row := (tv_row v)\<lparr>t_status := TxPROCESSING\<rparr>\<rparr>
                 in if claimed \<noteq> 1 then (Inr answer, w2)
                    else (case enqueue of
                            None \<Rightarrow> (Inr answer, w2\<lparr>txQueue := txQueue w2 @ [process_job tid signedTx]\<rparr>)
                          | Some err \<Rightarrow>
                              (Inl err,
                               set_tx_status (\<lambda>t. t_id t = tid \<and> t_status t = TxPROCESSING \<and> t_txHash t = None) TxPENDING
                                 (mid 1 w2))))))"

section \<open>Lemmas on sending\<close>

definition authorised :: "send_env \<Rightarrow> send_input \<Rightarrow> world \<Rightarrow> bool" where
  "authorised env input w \<longleftrightarrow> sn_pin input \<noteq> [] \<and>
     fst (assertPinAuthorized (sd_compare env) (sd_now env) (sn_senderId input) (sn_pin input) ''transfer'' w) = Inr ()"

definition quiet :: "nat \<Rightarrow> world \<Rightarrow> world" where
  "quiet n w = w"

abbreviation keys_unique :: "world \<Rightarrow> bool" where
  "keys_unique w \<equiv> unique_on t_idempotencyKey (transactions w)"

abbreviation resolved :: "send_input \<Rightarrow> string \<Rightarrow> send_input" where
  "resolved input recipientAddress \<equiv> input\<lparr>sn_recipientAddress := Some recipientAddress\<rparr>"

lemma quiet_simp [simp]: "quiet n w = w"
  by (simp add: quiet_def)

lemma findByIdempotencyKey_Some:
  assumes "keys_unique w"
  shows "findByIdempotencyKey key senderId w = Some t \<longleftrightarrow>
         t \<in> set (transactions w) \<and> t_idempotencyKey t = Some key \<and> t_senderId t = senderId"
proof (cases "find_row (\<lambda>r. t_idempotencyKey r = Some key) (transactions w)")
  case None
  then have "\<forall>r \<in> set (transactions w). t_idempotencyKey r \<noteq> Some key" by (simp add: find_row_None)
  then show ?thesis using None by (auto simp: findByIdempotencyKey_def)
next
  case (Some a)
  have "a \<in> set (transactions w)" "t_idempotencyKey a = Some key"
    "t \<in> set (transactions w) \<Longrightarrow> t_idempotencyKey t = Some key \<Longrightarrow> t = a"
    using find_row_Some [OF Some] find_row_unique [OF assms, of t key] Some by auto
  then show ?thesis using Some by (auto simp: findByIdempotencyKey_def)
qed

lemma findByIdempotencyKey_SomeD:
  "findByIdempotencyKey key senderId w = Some t \<Longrightarrow>
   t \<in> set (transactions w) \<and> t_idempotencyKey t = Some key \<and> t_senderId t = senderId"
  by (auto simp: findByIdempotencyKey_def dest: find_row_Some split: option.splits if_splits)

lemma findByIdempotencyKey_cong:
  "transactions w = transactions w' \<Longrightarrow> findByIdempotencyKey key s w = findByIdempotencyKey key s w'"
  by (simp add: findByIdempotencyKey_def)

lemma resolveRecipient_cong:
  assumes "accountIds w = accountIds w'" "wallets w = wallets w'"
  shows "resolveRecipient env input w = resolveRecipient env input w'"
  unfolding resolveRecipient_def recipientWallet_def find_account_def find_wallet_def assms ..

lemma resolved_recipient:
  assumes "resolveRecipient env input w = Inr addr"
  shows "addr \<noteq> [] \<and> isValidAddress (sn_network input) addr \<and>
         (\<exists>r. sd_onChain env addr (sn_network input) = Inr r \<and> va_exists r)"
proof -
  have *: "truthy a \<Longrightarrow> the a \<noteq> []" for a by (cases a) auto
  show ?thesis using assms
    by (auto simp: resolveRecipient_def verifyAddressExists_def * split: if_splits sum.splits)
qed

text \<open>Past the PIN gate, a request runs on a world that differs in users and the security log only.\<close>

definition pin_checked :: "send_env \<Rightarrow> send_input \<Rightarrow> world \<Rightarrow> world" where
  "pin_checked env input w =
     snd (assertPinAuthorized (sd_compare env) (sd_now env) (sn_senderId input) (sn_pin input) ''transfer'' w)"

lemma pin_checked_simps [simp]:
  "transactions (pin_checked env input w) = transactions w"
  "accountIds (pin_checked env input w) = accountIds w"
  "wallets (pin_checked env input w) = wallets w"
  using pin_frame_simps [OF pin_frame_assert] by (simp_all add: pin_checked_def)

lemma send_authorised:
  assumes "authorised env input w"
  shows "send env mid input w =
       (let w2 = mid 0 (pin_checked env input w)
        in case findByIdempotencyKey (sn_idempotencyKey input) (sn_senderId input) w2 of
             Some fastPath \<Rightarrow> if matchesIntent fastPath input then (Inr (describeCreated fastPath), w2)
                             else sendResolved env mid input w2
           | None \<Rightarrow> sendResolved env mid input w2)"
proof -
  obtain w1 where "assertPinAuthorized (sd_compare env) (sd_now env) (sn_senderId input) (sn_pin input) ''transfer'' w = (Inr (), w1)"
    using assms by (auto simp: authorised_def) (metis prod.collapse)
  moreover have "sn_pin input \<noteq> []" using assms by (simp add: authorised_def)
  ultimately show ?thesis by (simp add: send_def pin_checked_def Let_def)
qed

lemma send_refused:
  assumes "\<not> authorised env input w"
  shows "\<exists>e. fst (send env mid input w) = Inl e" "transactions (snd (send env mid input w)) = transactions w"
proof -
  have "pin_frame w (snd (assertPinAuthorized (sd_compare env) (sd_now env) (sn_senderId input) (sn_pin input) ''transfer'' w))"
    by (rule pin_frame_assert)
  from pin_frame_simps(1) [OF this] assms
  show "\<exists>e. fst (send env mid input w) = Inl e" "transactions (snd (send env mid input w)) = transactions w"
    by (auto simp: send_def authorised_def split: prod.splits sum.splits)
qed

text \<open>The network, asset, amount and recipient of the row the code creates.\<close>

lemma new_tx_matches:
  assumes "normalizeAmount (sd_canon env (sn_amount input)) = normalizeAmount (sn_amount input)"
  shows "matchesIntent (new_tx env input addr) (resolved input addr)"
  using assms by (simp add: matchesIntent_def new_tx_def)

lemma new_tx_no_match:
  assumes "normalizeAmount (sd_canon env (sn_amount input)) \<noteq> normalizeAmount (sn_amount input)"
  shows "\<not> matchesIntent (new_tx env input addr) (resolved input addr')" "\<not> matchesIntent (new_tx env input addr) input"
  using assms by (simp_all add: matchesIntent_def new_tx_def)

lemma matchesIntent_cong:
  "t_network t = t_network u \<Longrightarrow> t_asset t = t_asset u \<Longrightarrow> t_amount t = t_amount u \<Longrightarrow>
   t_recipientAddress t = t_recipientAddress u \<Longrightarrow> matchesIntent t input = matchesIntent u input"
  by (simp add: matchesIntent_def)

text \<open>The rows a user has sent.\<close>

definition sent_by :: "string \<Rightarrow> world \<Rightarrow> tx_row list" where
  "sent_by userId w = filter (\<lambda>t. t_senderId t = userId) (transactions w)"

lemma createOrReplay_adds:
  assumes "\<And>n w. sent_by (sn_senderId input) (mid n w) = sent_by (sn_senderId input) w"
  shows "sent_by (sn_senderId input) (snd (createOrReplay env mid input addr w)) = sent_by (sn_senderId input) w \<or>
         (fst (createOrReplay env mid input addr w) = Inr (describeCreated (new_tx env input addr)) \<and>
          sent_by (sn_senderId input) (snd (createOrReplay env mid input addr w)) = sent_by (sn_senderId input) w @ [new_tx env input addr] \<and>
          (\<forall>t \<in> set (sent_by (sn_senderId input) w). t_idempotencyKey t \<noteq> Some (sn_idempotencyKey input)))"
proof -
  let ?s = "sn_senderId input"
  have m: "sent_by ?s (mid 4 (mid 3 (mid 2 w))) = sent_by ?s w" "sent_by ?s (mid 3 (mid 2 w)) = sent_by ?s w"
    "sent_by ?s (mid 2 w) = sent_by ?s w" using assms by metis+
  have n: "t_senderId (new_tx env input addr) = ?s" "t_idempotencyKey (new_tx env input addr) = Some (sn_idempotencyKey input)"
    by (simp_all add: new_tx_def)
  show ?thesis
  proof (cases "findByIdempotencyKey (sn_idempotencyKey input) ?s (mid 2 w) = None \<and>
      \<not> (\<exists>t \<in> set (transactions (mid 3 (mid 2 w))). t_idempotencyKey t = Some (sn_idempotencyKey input))")
    case True
    then have "createOrReplay env mid input addr w = (Inr (describeCreated (new_tx env input addr)),
        (mid 3 (mid 2 w))\<lparr>transactions := transactions (mid 3 (mid 2 w)) @ [new_tx env input addr]\<rparr>)"
      using n by (auto simp: createOrReplay_def Let_def create_row_def)
    moreover have "\<forall>t \<in> set (sent_by ?s w). t_idempotencyKey t \<noteq> Some (sn_idempotencyKey input)"
      using True unfolding m(2) [symmetric] by (auto simp: sent_by_def)
    ultimately show ?thesis using m(2) n by (simp add: sent_by_def)
  next
    case False
    then have "\<exists>i \<in> {mid 2 w, mid 3 (mid 2 w), mid 4 (mid 3 (mid 2 w))}. snd (createOrReplay env mid input addr w) = i"
      using n by (auto simp: createOrReplay_def Let_def create_row_def split: option.splits)
    then show ?thesis using m by auto
  qed
qed

lemma sendResolved_stored:
  assumes "resolveRecipient env input w = Inr addr"
    and "findByIdempotencyKey (sn_idempotencyKey input) (sn_senderId input) (mid 1 w) = Some t"
  shows "sendResolved env mid input w =
         (if matchesIntent t (resolved input addr) then Inr (describeCreated t) else Inl KEY_REUSED, mid 1 w)"
  using assms by (simp add: sendResolved_def)

lemma sendResolved_adds:
  assumes "\<And>n w. sent_by (sn_senderId input) (mid n w) = sent_by (sn_senderId input) w"
  shows "sent_by (sn_senderId input) (snd (sendResolved env mid input w)) = sent_by (sn_senderId input) w \<or>
         (\<exists>addr. resolveRecipient env input w = Inr addr \<and>
          fst (sendResolved env mid input w) = Inr (describeCreated (new_tx env input addr)) \<and>
          sent_by (sn_senderId input) (snd (sendResolved env mid input w)) = sent_by (sn_senderId input) w @ [new_tx env input addr] \<and>
          (\<forall>t \<in> set (sent_by (sn_senderId input) w). t_idempotencyKey t \<noteq> Some (sn_idempotencyKey input)))"
proof (cases "resolveRecipient env input w")
  case (Inl e)
  then show ?thesis by (simp add: sendResolved_def)
next
  case (Inr addr)
  have m: "sent_by (sn_senderId input) (mid 1 w) = sent_by (sn_senderId input) w" by (rule assms)
  show ?thesis
  proof (cases "findByIdempotencyKey (sn_idempotencyKey input) (sn_senderId input) (mid 1 w)")
    case None
    then have "sendResolved env mid input w = createOrReplay env mid input addr (mid 1 w)"
      using Inr by (simp add: sendResolved_def)
    then show ?thesis using createOrReplay_adds [of input mid env addr "mid 1 w", OF assms] m Inr by simp
  next
    case (Some t)
    have "snd (sendResolved env mid input w) = mid 1 w" using sendResolved_stored [of env input w addr mid t] Inr Some by simp
    then show ?thesis using m by simp
  qed
qed

text \<open>Alone, with the key free, the row is created; with the row there, the answer is the row.\<close>

lemma createOrReplay_free:
  assumes "\<forall>t \<in> set (transactions w). t_idempotencyKey t \<noteq> Some (sn_idempotencyKey input)"
  shows "createOrReplay env quiet input addr w =
         (Inr (describeCreated (new_tx env input addr)), w\<lparr>transactions := transactions w @ [new_tx env input addr]\<rparr>)"
proof -
  have "findByIdempotencyKey (sn_idempotencyKey input) (sn_senderId input) w = None"
    using assms findByIdempotencyKey_SomeD by (metis not_None_eq)
  moreover have "create_row t_idempotencyKey (new_tx env input addr) (transactions w) = Inr (transactions w @ [new_tx env input addr])"
    using assms by (simp add: create_row_def new_tx_def)
  ultimately show ?thesis by (simp add: createOrReplay_def Let_def)
qed

text \<open>The key belongs to another user: the create conflicts and the fold finds nothing to replay.\<close>

lemma createOrReplay_foreign:
  assumes "t \<in> set (transactions w)" "t_idempotencyKey t = Some (sn_idempotencyKey input)"
    and "findByIdempotencyKey (sn_idempotencyKey input) (sn_senderId input) w = None"
  shows "createOrReplay env quiet input addr w = (Inl KEY_REUSED, w)"
proof -
  have "create_row t_idempotencyKey (new_tx env input addr) (transactions w) = Inl unique_violation"
    using assms(1,2) by (auto simp: create_row_def new_tx_def)
  then show ?thesis using assms(3) by (simp add: createOrReplay_def)
qed

text \<open>An amount that its stored text still names: accepted by the schema, at least one millionth, no
  superfluous leading zero.\<close>

definition replayable_amount :: "string \<Rightarrow> bool" where
  "replayable_amount a \<longleftrightarrow> assertValidAmount None None None a = Inr () \<and> 10 ^ 12 \<le> scaled a 18 \<and> canonical_whole (whole_part a)"

lemma valid_amount_plain:
  assumes "assertValidAmount None None None a = Inr ()"
  shows "plain_decimal a" "decimalPlacesOf a \<le> 18" "0 < scaled a 18"
  using assms scaled_pos [of a 18]
  by (auto simp: assertValidAmount_def moneyString_def Let_def MAX_AMOUNT_DECIMALS_def split: if_splits option.splits)

lemma replayable_same:
  "amount_column canon \<Longrightarrow> replayable_amount a \<Longrightarrow> normalizeAmount (canon a) = normalizeAmount a"
  using amount_column.same_amount valid_amount_plain by (simp add: replayable_amount_def)

lemma not_replayable_differs:
  assumes "amount_column canon" "assertValidAmount None None None a = Inr ()" "\<not> replayable_amount a"
  shows "normalizeAmount (canon a) \<noteq> normalizeAmount a"
proof (cases "10 ^ 12 \<le> scaled a 18")
  case True
  then show ?thesis using amount_column.leading_zero_differs [OF assms(1)] valid_amount_plain [OF assms(2)] assms(2,3)
    by (simp add: replayable_amount_def)
next
  case False
  then show ?thesis using amount_column.small_differs [OF assms(1)] valid_amount_plain [OF assms(2)] by (simp add: not_le)
qed

text \<open>The row a request created, as it is found later: its status, hash and fee may have moved on.\<close>

definition created_by :: "send_env \<Rightarrow> send_input \<Rightarrow> string \<Rightarrow> tx_row \<Rightarrow> bool" where
  "created_by env input addr t \<longleftrightarrow>
     t\<lparr>t_status := TxPENDING, t_txHash := None, t_feeAmount := None\<rparr> = new_tx env input addr"

lemma created_by_fields:
  assumes "created_by env input addr t"
  shows "t_idempotencyKey t = Some (sn_idempotencyKey input)" "t_senderId t = sn_senderId input" "t_id t = sd_txId env"
    "matchesIntent t i = matchesIntent (new_tx env input addr) i"
proof -
  have f: "t_network t = t_network (new_tx env input addr)" "t_asset t = t_asset (new_tx env input addr)"
    "t_amount t = t_amount (new_tx env input addr)" "t_recipientAddress t = t_recipientAddress (new_tx env input addr)"
    "t_idempotencyKey t = t_idempotencyKey (new_tx env input addr)" "t_senderId t = t_senderId (new_tx env input addr)"
    "t_id t = t_id (new_tx env input addr)"
    using assms [unfolded created_by_def, symmetric] by simp_all
  show "matchesIntent t i = matchesIntent (new_tx env input addr) i" by (rule matchesIntent_cong [OF f(1-4)])
  show "t_idempotencyKey t = Some (sn_idempotencyKey input)" "t_senderId t = sn_senderId input" "t_id t = sd_txId env"
    using f by (simp_all add: new_tx_def)
qed

lemma findByIdempotencyKey_last:
  "\<forall>s \<in> set (transactions w). t_idempotencyKey s \<noteq> Some key \<Longrightarrow> t_idempotencyKey t = Some key \<Longrightarrow> t_senderId t = senderId \<Longrightarrow>
   findByIdempotencyKey key senderId (w\<lparr>transactions := transactions w @ [t]\<rparr>) = Some t"
proof -
  assume f: "\<forall>s \<in> set (transactions w). t_idempotencyKey s \<noteq> Some key" and t: "t_idempotencyKey t = Some key" "t_senderId t = senderId"
  have "find_row (\<lambda>t. t_idempotencyKey t = Some key) (transactions w) = None" using f by (simp add: find_row_None)
  then show ?thesis using t by (simp add: findByIdempotencyKey_def find_row_append)
qed

lemma findByIdempotencyKey_none:
  "\<forall>s \<in> set (transactions w). t_idempotencyKey s \<noteq> Some key \<Longrightarrow> findByIdempotencyKey key senderId w = None"
  using findByIdempotencyKey_SomeD by (metis not_None_eq)

section \<open>Lemmas on the broadcast\<close>

abbreviation ids_unique :: "world \<Rightarrow> bool" where
  "ids_unique w \<equiv> unique_on (\<lambda>t. Some (t_id t)) (transactions w)"

lemma find_row_by_id:
  "unique_on (\<lambda>t. Some (f t)) rows \<Longrightarrow> r \<in> set rows \<Longrightarrow> f r = k \<Longrightarrow> Q r \<Longrightarrow> find_row (\<lambda>s. f s = k \<and> Q s) rows = Some r"
  by (induction rows) (auto simp: unique_on_Cons)

lemma getById_visible:
  "ids_unique w \<Longrightarrow> t \<in> set (transactions w) \<Longrightarrow> visible_to userId (account_of_user userId w) t \<Longrightarrow>
   getById userId (t_id t) w = Inr (describeFor userId w t)"
  by (simp add: getById_def find_row_by_id)

lemma describeFor_row [simp]: "tv_row (describeFor userId w t) = t"
  by (simp add: describeFor_def Let_def)

text \<open>The claim: the row is pending and the caller's own, or it is not claimed at all.\<close>

lemma broadcast_pending:
  assumes "ids_unique w" "t \<in> set (transactions w)" "t_status t = TxPENDING"
    and "visible_to userId (account_of_user userId w) t"
  shows "broadcast enqueue mid userId (t_id t) signedTx w =
    (let w1 = mid 0 w;
         P = (\<lambda>s. t_id s = t_id t \<and> t_senderId s = userId \<and> t_status s = TxPENDING);
         w2 = set_tx_status P TxPROCESSING w1;
         answer = (describeFor userId w t)\<lparr>tv_row := t\<lparr>t_status := TxPROCESSING\<rparr>\<rparr>
     in if count_rows P (transactions w1) \<noteq> 1 then (Inr answer, w2)
        else (case enqueue of
                None \<Rightarrow> (Inr answer, w2\<lparr>txQueue := txQueue w2 @ [process_job (t_id t) signedTx]\<rparr>)
              | Some err \<Rightarrow> (Inl err, set_tx_status (\<lambda>s. t_id s = t_id t \<and> t_status s = TxPROCESSING \<and> t_txHash s = None)
                              TxPENDING (mid 1 w2))))"
  using getById_visible [OF assms(1,2,4)] assms(3) by (simp add: broadcast_def Let_def)

lemma count_own:
  assumes "ids_unique w" "t \<in> set (transactions w)"
  shows "count_rows (\<lambda>s. t_id s = t_id t \<and> Q s) (transactions w) = (if Q t then 1 else 0)"
proof -
  have "find_row (\<lambda>s. Some (t_id s) = Some (t_id t)) (transactions w) = Some t"
    by (rule find_row_unique [OF assms(1,2)]) simp
  then show ?thesis using count_keyed [OF assms(1), of "t_id t" Q] by simp
qed

lemma set_tx_status_simps [simp]:
  "transactions (set_tx_status P s w) = update_rows P (\<lambda>t. t\<lparr>t_status := s\<rparr>) (transactions w)"
  "txQueue (set_tx_status P s w) = txQueue w" "accountIds (set_tx_status P s w) = accountIds w"
  "receipts (set_tx_status P s w) = receipts w" "published (set_tx_status P s w) = published w"
  by (simp_all add: set_tx_status_def)

lemma set_tx_status_unique: "ids_unique w \<Longrightarrow> ids_unique (set_tx_status P s w)"
  by (simp add: unique_on_update_rows)

text \<open>Alone, the sender's first broadcast claims the row and queues one job.\<close>

lemma broadcast_first:
  assumes "ids_unique w" "t \<in> set (transactions w)" "t_status t = TxPENDING" "t_senderId t = userId"
  shows "broadcast None quiet userId (t_id t) signedTx w =
         (Inr ((describeFor userId w t)\<lparr>tv_row := t\<lparr>t_status := TxPROCESSING\<rparr>\<rparr>),
          w\<lparr>transactions := update_rows (\<lambda>s. t_id s = t_id t) (\<lambda>t. t\<lparr>t_status := TxPROCESSING\<rparr>) (transactions w),
            txQueue := txQueue w @ [process_job (t_id t) signedTx]\<rparr>)"
proof -
  have only: "s = t" if "s \<in> set (transactions w)" "t_id s = t_id t" for s
    using unique_on_eq [OF assms(1) that(1) assms(2)] that(2) by simp
  have "update_rows (\<lambda>s. t_id s = t_id t \<and> t_senderId s = userId \<and> t_status s = TxPENDING) (\<lambda>t. t\<lparr>t_status := TxPROCESSING\<rparr>) (transactions w) =
      update_rows (\<lambda>s. t_id s = t_id t) (\<lambda>t. t\<lparr>t_status := TxPROCESSING\<rparr>) (transactions w)"
    unfolding update_rows_def using only assms(3,4) by (intro map_cong) auto
  then show ?thesis
    using broadcast_pending [OF assms(1-3), of userId None quiet signedTx] count_own [OF assms(1,2), of "\<lambda>s. t_senderId s = userId \<and> t_status s = TxPENDING"]
      assms(3,4) by (simp add: visible_to_def set_tx_status_def Let_def)
qed

section \<open>A small world\<close>

definition demo_addr :: string where
  "demo_addr = ''0x'' @ replicate 40 (CHR ''a'')"

definition demo_send_env :: send_env where
  "demo_send_env = \<lparr>sd_compare = demo_compare, sd_now = 0,
     sd_onChain = (\<lambda>_ _. Inr \<lparr>va_exists = True, va_active = True, va_source = None, va_error = None\<rparr>),
     sd_canon = decimal_text, sd_txId = ''t1''\<rparr>"

definition demo_input :: "string \<Rightarrow> send_input" where
  "demo_input amount = \<lparr>sn_senderId = ''u2'', sn_recipientAccountId = None, sn_recipientAddress = Some demo_addr,
     sn_asset = ''ETH'', sn_amount = amount, sn_network = ETH, sn_pin = ''123456'', sn_idempotencyKey = ''k1''\<rparr>"

lemma demo_addr_valid: "isValidAddress ETH demo_addr" "demo_addr \<noteq> []"
  by (simp_all add: demo_addr_def evm_isValidAddress_def list_all_iff is_hex_def is_digit_def code_of_def)

lemma demo_authorised:
  "authorised demo_send_env (demo_input amount) (demo_world\<lparr>transactions := ts\<rparr>)"
  "authorised demo_send_env (demo_input amount\<lparr>sn_recipientAddress := None\<rparr>) (demo_world\<lparr>transactions := ts\<rparr>)"
  by (simp_all add: authorised_def demo_send_env_def demo_input_def assertPinAuthorized_def getLockState_def demo_simps)

lemma demo_refused: "\<not> authorised demo_send_env (demo_input amount\<lparr>sn_pin := []\<rparr>) w"
  by (simp add: authorised_def)

lemma demo_resolves: "resolveRecipient demo_send_env (demo_input amount) w = Inr demo_addr"
  using demo_addr_valid by (simp add: resolveRecipient_def demo_input_def demo_send_env_def verifyAddressExists_def)

definition demo_ledger :: "string \<Rightarrow> world" where
  "demo_ledger amount = demo_world\<lparr>transactions := [new_tx demo_send_env (demo_input amount) demo_addr]\<rparr>"

lemma demo_ledger_facts:
  "keys_unique (demo_ledger amount)" "ids_unique (demo_ledger amount)"
  "new_tx demo_send_env (demo_input amount) demo_addr \<in> set (transactions (demo_ledger amount))"
  "created_by demo_send_env (demo_input amount) demo_addr (new_tx demo_send_env (demo_input amount) demo_addr)"
  "authorised demo_send_env (demo_input amount') (demo_ledger amount)"
  "authorised demo_send_env (demo_input amount'\<lparr>sn_recipientAddress := None\<rparr>) (demo_ledger amount)"
  using demo_authorised by (simp_all add: demo_ledger_def unique_on_Cons created_by_def new_tx_def)

lemma demo_amounts:
  "assertValidAmount None None None ''1.5'' = Inr ()" "replayable_amount ''1.5''"
  "assertValidAmount None None None ''0.0000001'' = Inr ()" "\<not> replayable_amount ''0.0000001''"
  by (simp_all add: replayable_amount_def assertValidAmount_def moneyString_def canonical_whole_def scaled_def scaled_nat_def amount_eval)

section \<open>Properties\<close>

text \<open>C3: a transfer needs the PIN and a checked recipient.  A request without an authorised PIN throws and
  leaves the ledger as it is.  Whatever other users do meanwhile, a request leaves the rows its sender
  has sent alone or adds exactly one: then the PIN was authorised, the key was on no row of the sender,
  the recipient's address passed the chain's format check and was found to exist on the chain, and the
  answer describes the new pending row.\<close>

theorem transfer_needs_pin_and_checked_recipient:
  assumes others: "\<And>n w. sent_by (sn_senderId input) (mid n w) = sent_by (sn_senderId input) w"
    and run: "send env mid input w = (r, w')"
  shows "(\<not> authorised env input w \<longrightarrow> (\<exists>e. r = Inl e) \<and> transactions w' = transactions w) \<and>
         (sent_by (sn_senderId input) w' = sent_by (sn_senderId input) w \<or>
          (\<exists>addr. authorised env input w \<and>
             resolveRecipient env input (mid 0 (pin_checked env input w)) = Inr addr \<and>
             isValidAddress (sn_network input) addr \<and>
             (\<exists>seen. sd_onChain env addr (sn_network input) = Inr seen \<and> va_exists seen) \<and>
             (\<forall>t \<in> set (sent_by (sn_senderId input) w). t_idempotencyKey t \<noteq> Some (sn_idempotencyKey input)) \<and>
             sent_by (sn_senderId input) w' = sent_by (sn_senderId input) w @ [new_tx env input addr] \<and>
             r = Inr (describeCreated (new_tx env input addr))))"
proof (cases "authorised env input w")
  case False
  then show ?thesis using send_refused [OF False, of mid] run by (auto simp: sent_by_def)
next
  case True
  let ?w2 = "mid 0 (pin_checked env input w)"
  have m: "sent_by (sn_senderId input) ?w2 = sent_by (sn_senderId input) w"
    unfolding others by (simp add: sent_by_def)
  show ?thesis
  proof (cases "(r, w') = sendResolved env mid input ?w2")
    case resolved: True
    then show ?thesis
      using True sendResolved_adds [of input mid env ?w2, OF others] m resolved_recipient [of env input ?w2]
      by (metis fst_conv snd_conv)
  next
    case False
    then have "w' = ?w2" using run unfolding send_authorised [OF True] by (auto simp: Let_def split: option.splits if_splits)
    then show ?thesis using m True by simp
  qed
qed

lemma transfer_needs_pin_and_checked_recipient_witness:
  "\<exists>e. fst (send demo_send_env quiet (demo_input ''1.5''\<lparr>sn_pin := []\<rparr>) demo_world) = Inl e"
  using transfer_needs_pin_and_checked_recipient [of "demo_input ''1.5''\<lparr>sn_pin := []\<rparr>" quiet demo_send_env demo_world,
      OF _ prod.collapse [symmetric]] demo_refused by simp

text \<open>C13: a retry replays.  Take an amount the schema accepts, of at least one millionth and without
  superfluous leading zeros.  After a request has created its row, the same request served again --
  later, with the row meanwhile processed, and even if the on-chain lookup is down -- answers with that
  row and adds nothing.\<close>

theorem retry_replays_the_transfer:
  assumes "amount_column (sd_canon env)" "replayable_amount (sn_amount input)"
    and "keys_unique w" "t \<in> set (transactions w)" "created_by env input addr t"
    and "sn_recipientAddress input = None \<or> sn_recipientAddress input = Some addr"
    and "authorised env' input w"
  shows "fst (send env' quiet input w) = Inr (describeCreated t) \<and>
         transactions (snd (send env' quiet input w)) = transactions w \<and>
         t_id (tv_row (describeCreated t)) = sd_txId env"
proof -
  have n: "normalizeAmount (sd_canon env (sn_amount input)) = normalizeAmount (sn_amount input)"
    using replayable_same [OF assms(1,2)] .
  have "matchesIntent (new_tx env input addr) input" using n assms(6) by (auto simp: matchesIntent_def new_tx_def)
  then have match: "matchesIntent t input" using created_by_fields(4) [OF assms(5)] by simp
  have "findByIdempotencyKey (sn_idempotencyKey input) (sn_senderId input) (pin_checked env' input w) = Some t"
    using assms(3,4) created_by_fields [OF assms(5)] by (simp add: findByIdempotencyKey_Some)
  then have "send env' quiet input w = (Inr (describeCreated t), pin_checked env' input w)"
    unfolding send_authorised [OF assms(7)] using match by simp
  then show ?thesis using created_by_fields(3) [OF assms(5)] by (simp add: describeCreated_def)
qed

lemma retry_replays_the_transfer_witness:
  "fst (send demo_send_env quiet (demo_input ''1.5'') (demo_ledger ''1.5'')) =
     Inr (describeCreated (new_tx demo_send_env (demo_input ''1.5'') demo_addr))"
  by (rule conjunct1 [OF retry_replays_the_transfer [OF _ _ demo_ledger_facts(1,3,4) _ demo_ledger_facts(5)]])
     (simp_all add: demo_send_env_def demo_input_def demo_amounts ledger_text.amount_column_axioms)

text \<open>C11: a double tap creates one transfer.  If a second request with the same body is served completely
  at any of the awaits before the create -- after the PIN, after the recipient lookup, after the second
  key lookup or after the third one, inside the transaction -- the request answers with the row of the
  other one and the ledger has one new row.\<close>

theorem double_tap_creates_one:
  assumes column: "amount_column (sd_canon env')" "replayable_amount (sn_amount input)"
    and pin: "authorised env input w" and recipient: "resolveRecipient env input w = Inr addr"
    and free: "\<forall>s \<in> set (transactions w). t_idempotencyKey s \<noteq> Some (sn_idempotencyKey input)"
    and rival: "mid = (\<lambda>n w. if n = k then w\<lparr>transactions := transactions w @ [new_tx env' input addr]\<rparr> else w)" "k < 4"
  shows "fst (send env mid input w) = Inr (describeCreated (new_tx env' input addr)) \<and>
         transactions (snd (send env mid input w)) = transactions w @ [new_tx env' input addr]"
proof -
  let ?t = "new_tx env' input addr" and ?w1 = "pin_checked env input w" and ?key = "sn_idempotencyKey input"
  let ?w2 = "?w1\<lparr>transactions := transactions w @ [?t]\<rparr>"
  have t: "t_idempotencyKey ?t = Some ?key" "t_senderId ?t = sn_senderId input" by (simp_all add: new_tx_def)
  have some: "findByIdempotencyKey ?key (sn_senderId input) ?w2 = Some ?t"
    using findByIdempotencyKey_last [of ?w1 ?key ?t "sn_senderId input"] free t by simp
  have none: "findByIdempotencyKey ?key (sn_senderId input) ?w1 = None"
    using free by (intro findByIdempotencyKey_none) simp
  have m: "matchesIntent ?t (resolved input addr)" using replayable_same [OF column] by (rule new_tx_matches)
  have r: "resolveRecipient env input ?w1 = Inr addr" "resolveRecipient env input ?w2 = Inr addr"
    using recipient resolveRecipient_cong [of ?w1 w env input] resolveRecipient_cong [of ?w2 w env input] by simp_all
  have clash: "create_row t_idempotencyKey (new_tx env input addr) (transactions w @ [?t]) = Inl unique_violation"
    using t by (simp add: create_row_def new_tx_def)
  consider "k = 0" | "k = 1" | "k = 2" | "k = 3" using rival(2) by linarith
  then have "send env mid input w = (Inr (describeCreated ?t), ?w2)"
  proof cases
    case 1
    then show ?thesis using some m r by (simp add: send_authorised [OF pin] rival(1) Let_def sendResolved_def)
  next
    case 2
    then show ?thesis using some none m r by (simp add: send_authorised [OF pin] rival(1) Let_def sendResolved_def)
  next
    case 3
    then show ?thesis using some none m r
      by (simp add: send_authorised [OF pin] rival(1) Let_def sendResolved_def createOrReplay_def)
  next
    case 4
    then show ?thesis using some none m r clash
      by (simp add: send_authorised [OF pin] rival(1) Let_def sendResolved_def createOrReplay_def UNIQUE_VIOLATION_CODE_def)
  qed
  then show ?thesis by simp
qed

lemma double_tap_creates_one_witness:
  "transactions (snd (send demo_send_env
      (\<lambda>n w. if n = 3 then w\<lparr>transactions := transactions w @ [new_tx demo_send_env (demo_input ''1.5'') demo_addr]\<rparr> else w)
      (demo_input ''1.5'') demo_world)) = [new_tx demo_send_env (demo_input ''1.5'') demo_addr]"
proof -
  have "authorised demo_send_env (demo_input ''1.5'') demo_world"
    using demo_authorised(1) [of "''1.5''" "[]"] by (simp add: demo_world_def empty_world_def)
  moreover have "amount_column (sd_canon demo_send_env)" "replayable_amount (sn_amount (demo_input ''1.5''))" "transactions demo_world = []"
    by (simp_all add: demo_send_env_def demo_input_def demo_amounts ledger_text.amount_column_axioms demo_world_def empty_world_def)
  ultimately show ?thesis using double_tap_creates_one [OF _ _ _ demo_resolves _ refl, of demo_send_env "''1.5''" demo_world 3] by simp
qed

text \<open>A reused key creates nothing.  If the key is on a row of another user, or on an own row whose
  network, asset, amount or resolved recipient differs, an authorised request with a good recipient is
  answered 409, the ledger stays as it is, and nothing of the stored row is disclosed.\<close>

lemma reused_key_is_rejected:
  assumes pin: "authorised env input w" and recipient: "resolveRecipient env input w = Inr addr"
    and stored: "keys_unique w" "t \<in> set (transactions w)" "t_idempotencyKey t = Some (sn_idempotencyKey input)"
    and other: "t_senderId t \<noteq> sn_senderId input \<or> \<not> matchesIntent t input \<and> \<not> matchesIntent t (resolved input addr)"
  shows "fst (send env quiet input w) = Inl KEY_REUSED \<and> fst (handleError KEY_REUSED) = 409 \<and>
         transactions (snd (send env quiet input w)) = transactions w"
proof -
  let ?w1 = "pin_checked env input w"
  have r: "resolveRecipient env input ?w1 = Inr addr"
    using recipient resolveRecipient_cong [of ?w1 w env input] by simp
  have "send env quiet input w = (Inl KEY_REUSED, ?w1)"
  proof (cases "t_senderId t = sn_senderId input")
    case True
    then have "findByIdempotencyKey (sn_idempotencyKey input) (sn_senderId input) ?w1 = Some t"
      using stored by (simp add: findByIdempotencyKey_Some)
    then show ?thesis using True other r by (simp add: send_authorised [OF pin] sendResolved_def)
  next
    case False
    have "findByIdempotencyKey (sn_idempotencyKey input) (sn_senderId input) ?w1 \<noteq> Some u" for u
    proof
      assume "findByIdempotencyKey (sn_idempotencyKey input) (sn_senderId input) ?w1 = Some u"
      from findByIdempotencyKey_SomeD [OF this] have "u = t" "t_senderId u = sn_senderId input"
        using unique_on_eq [OF stored(1,2) _ stored(3), of u] by auto
      then show False using False by simp
    qed
    then have none: "findByIdempotencyKey (sn_idempotencyKey input) (sn_senderId input) ?w1 = None" by blast
    have "createOrReplay env quiet input addr ?w1 = (Inl KEY_REUSED, ?w1)"
      by (rule createOrReplay_foreign [OF _ stored(3) none]) (simp add: stored(2))
    then show ?thesis using r none by (simp add: send_authorised [OF pin] sendResolved_def)
  qed
  then show ?thesis by (simp add: KEY_REUSED_def)
qed

text \<open>Some honest retries are rejected.  The replay check compares the text of the stored decimal with
  the text the client sent, so for an amount that the schema accepts but that is below one millionth
  (stored text in exponent notation) or has a superfluous leading zero, the retry of the very request
  that created the row is answered 409, as if the key had been reused for a different transfer.\<close>

lemma small_amount_retry_conflicts:
  assumes "amount_column (sd_canon env)" "assertValidAmount None None None (sn_amount input) = Inr ()"
    and "\<not> replayable_amount (sn_amount input)"
    and "keys_unique w" "t \<in> set (transactions w)" "created_by env input addr t"
    and "authorised env input w" "resolveRecipient env input w = Inr addr"
  shows "fst (send env quiet input w) = Inl KEY_REUSED \<and>
         transactions (snd (send env quiet input w)) = transactions w"
proof -
  have n: "\<not> matchesIntent t input" "\<not> matchesIntent t (resolved input addr)"
    using new_tx_no_match [OF not_replayable_differs [OF assms(1-3)]] created_by_fields(4) [OF assms(6)] by simp_all
  have f: "findByIdempotencyKey (sn_idempotencyKey input) (sn_senderId input) (pin_checked env input w) = Some t"
    using assms(4,5) created_by_fields [OF assms(6)] by (simp add: findByIdempotencyKey_Some)
  have "resolveRecipient env input (pin_checked env input w) = Inr addr"
    using assms(8) resolveRecipient_cong [of "pin_checked env input w" w env input] by simp
  then have "send env quiet input w = (Inl KEY_REUSED, pin_checked env input w)"
    using f n by (simp add: send_authorised [OF assms(7)] sendResolved_def)
  then show ?thesis by simp
qed

text \<open>The fast path does not look at the account id.  A request that names its recipient by account id
  has no address to compare, so with the same key, network, asset and amount but any other account id
  it is answered with the old row, to the old recipient, as a success.\<close>

lemma changed_account_id_is_replayed:
  assumes "keys_unique w" "t \<in> set (transactions w)" "t_idempotencyKey t = Some (sn_idempotencyKey input)"
    and "t_senderId t = sn_senderId input" "t_network t = sn_network input" "t_asset t = sn_asset input"
    and "normalizeAmount (t_amount t) = normalizeAmount (sn_amount input)"
    and "sn_recipientAddress input = None" "authorised env input w"
  shows "fst (send env quiet (input\<lparr>sn_recipientAccountId := other\<rparr>) w) = Inr (describeCreated t)"
proof -
  let ?i = "input\<lparr>sn_recipientAccountId := other\<rparr>"
  have a: "authorised env ?i w" using assms(9) by (simp add: authorised_def)
  have "findByIdempotencyKey (sn_idempotencyKey input) (sn_senderId input) (pin_checked env ?i w) = Some t"
    using assms(1-4) by (simp add: findByIdempotencyKey_Some)
  moreover have "matchesIntent t ?i" using assms(5-8) by (simp add: matchesIntent_def)
  ultimately show ?thesis by (simp add: send_authorised [OF a])
qed

text \<open>A claim of a row and its release, and the rows of a sender after a claim.\<close>

lemma release_undoes_claim:
  assumes only: "\<And>s. s \<in> set rows \<Longrightarrow> t_id s = t_id t \<Longrightarrow> s = t"
    and t: "t_status t = TxPENDING" "t_txHash t = None" "t_senderId t = userId"
  shows "update_rows (\<lambda>s. t_id s = t_id t \<and> t_status s = TxPROCESSING \<and> t_txHash s = None) (\<lambda>t. t\<lparr>t_status := TxPENDING\<rparr>)
      (update_rows (\<lambda>s. t_id s = t_id t \<and> t_senderId s = userId \<and> t_status s = TxPENDING) (\<lambda>t. t\<lparr>t_status := TxPROCESSING\<rparr>) rows) = rows"
  unfolding update_rows_def map_map
proof (rule map_idI)
  fix x assume x: "x \<in> set rows"
  have same: "t\<lparr>t_status := TxPENDING\<rparr> = t" using t(1) by (cases t) simp
  show "((\<lambda>r. if t_id r = t_id t \<and> t_status r = TxPROCESSING \<and> t_txHash r = None then r\<lparr>t_status := TxPENDING\<rparr> else r) \<circ>
      (\<lambda>r. if t_id r = t_id t \<and> t_senderId r = userId \<and> t_status r = TxPENDING then r\<lparr>t_status := TxPROCESSING\<rparr> else r)) x = x"
  proof (cases "t_id x = t_id t")
    case True
    then have "x = t" using only x by blast
    then show ?thesis using t same by simp
  qed simp
qed

lemma none_pending_after_claim:
  "count_rows (\<lambda>s. t_id s = k \<and> t_senderId s = userId \<and> t_status s = TxPENDING)
     (update_rows (\<lambda>s. t_id s = k) (\<lambda>t. t\<lparr>t_status := TxPROCESSING\<rparr>) rows) = 0"
proof -
  have "\<not> (t_id s = k \<and> t_senderId s = userId \<and> t_status s = TxPENDING)"
    if s: "s \<in> set (update_rows (\<lambda>s. t_id s = k) (\<lambda>t. t\<lparr>t_status := TxPROCESSING\<rparr>) rows)" for s
  proof -
    obtain s0 where "s = (if t_id s0 = k then s0\<lparr>t_status := TxPROCESSING\<rparr> else s0)"
      using s by (auto simp: in_update_rows)
    then show ?thesis by (cases "t_id s0 = k") simp_all
  qed
  then show ?thesis by (simp add: count_rows_0)
qed



end
