(* ===== verification/Spl.thy ===== *)
theory Spl
  imports Chains "HOL-Library.Word"
begin

text \<open>
  SPL tokens: the instruction encoding and the account read of \<^verbatim>\<open>src/src/chains/solana/spl.ts\<close>, the
  registry of \<^verbatim>\<open>src/src/chains/solana/tokens.ts\<close>, and the adapter \<^verbatim>\<open>src/src/chains/solana/index.ts\<close>.
  A public key is represented by its base58 text; \<open>PublicKey\<close>, the derivation of program addresses
  and the connection belong to \<^verbatim>\<open>@solana/web3.js\<close> and are parameters.  A buffer is a list of bytes.
\<close>

section \<open>Encoding\<close>

type_synonym byte = "8 word"

definition SYSTEM_PROGRAM_ID :: string where "SYSTEM_PROGRAM_ID = ''11111111111111111111111111111111''"

definition TOKEN_PROGRAM_ID :: string where "TOKEN_PROGRAM_ID = ''TokenkegQfeZyiNwAJbNbGKPFXCWuBvf9Ss623VQ5DA''"

definition TOKEN_2022_PROGRAM_ID :: string where "TOKEN_2022_PROGRAM_ID = ''TokenzQdBNbLqP5VEhdkAS6EPFLC1PHnBqCXEpPxuEb''"

definition ASSOCIATED_TOKEN_PROGRAM_ID :: string where
  "ASSOCIATED_TOKEN_PROGRAM_ID = ''ATokenGPvbdGVxr1b2hvZbsiqW5xWH25efTNsLJA8knL''"

definition TOKEN_INSTRUCTION_TRANSFER_CHECKED :: byte where "TOKEN_INSTRUCTION_TRANSFER_CHECKED = 12"

definition TOKEN_ACCOUNT_LENGTH :: nat where "TOKEN_ACCOUNT_LENGTH = 165"

definition TOKEN_ACCOUNT_AMOUNT_OFFSET :: nat where "TOKEN_ACCOUNT_AMOUNT_OFFSET = 64"

datatype token_program = SplToken | Token2022

definition tokenProgramId :: "token_program \<Rightarrow> string" where
  "tokenProgramId p = (if p = Token2022 then TOKEN_2022_PROGRAM_ID else TOKEN_PROGRAM_ID)"

type_synonym derive = "string list \<Rightarrow> string \<Rightarrow> string"

definition associatedTokenAddress :: "derive \<Rightarrow> string \<Rightarrow> string \<Rightarrow> token_program \<Rightarrow> string" where
  "associatedTokenAddress derive mint owner p =
     derive [owner, tokenProgramId p, mint] ASSOCIATED_TOKEN_PROGRAM_ID"

definition assertDecimals :: "int \<Rightarrow> thrown + unit" where
  "assertDecimals decimals =
     (if decimals < 0 \<or> decimals > 255
      then Inl (PlainError (''SPL decimals must be an integer 0-255 (it is a u8 in the instruction); got '' @ show_int decimals))
      else Inr ())"

text \<open>\<open>buf.writeBigUInt64LE\<close> and \<open>buf.readBigUInt64LE\<close>: least significant byte first.\<close>

fun le_bytes :: "nat \<Rightarrow> int \<Rightarrow> byte list" where
  "le_bytes 0 v = []"
| "le_bytes (Suc n) v = word_of_int v # le_bytes n (v div 256)"

fun le_value :: "byte list \<Rightarrow> int" where
  "le_value [] = 0"
| "le_value (b # bs) = uint b + 256 * le_value bs"

definition writeU64LE :: "int \<Rightarrow> thrown + byte list" where
  "writeU64LE v =
     (if v < 0 then Inl (PlainError (''SPL amount cannot be negative (got '' @ show_int v @ '')''))
      else if v > 18446744073709551615 then Inl (PlainError (''SPL amount exceeds u64 (got '' @ show_int v @ '')''))
      else Inr (le_bytes 8 v))"

record account_meta =
  am_pubkey :: string
  am_isSigner :: bool
  am_isWritable :: bool

record instruction =
  in_programId :: string
  in_keys :: "account_meta list"
  in_data :: "byte list"

definition meta :: "string \<Rightarrow> bool \<Rightarrow> bool \<Rightarrow> account_meta" where
  "meta key signer writable = \<lparr>am_pubkey = key, am_isSigner = signer, am_isWritable = writable\<rparr>"

definition createTransferInstruction ::
  "string \<Rightarrow> string \<Rightarrow> string \<Rightarrow> string \<Rightarrow> int \<Rightarrow> int \<Rightarrow> token_program option \<Rightarrow> thrown + instruction" where
  "createTransferInstruction mint source destination owner amount decimals p =
     then_do (assertDecimals decimals) (\<lambda>_.
     then_do (writeU64LE amount) (\<lambda>bytes.
       Inr \<lparr>in_programId = tokenProgramId (nullish p SplToken),
            in_keys = [meta source False True, meta mint False False, meta destination False True, meta owner True False],
            in_data = TOKEN_INSTRUCTION_TRANSFER_CHECKED # bytes @ [word_of_int decimals]\<rparr>))"

definition createAssociatedTokenAccountInstruction ::
  "derive \<Rightarrow> string \<Rightarrow> string \<Rightarrow> string \<Rightarrow> token_program option \<Rightarrow> bool option \<Rightarrow> instruction" where
  "createAssociatedTokenAccountInstruction derive funder owner mint p idempotent =
     \<lparr>in_programId = ASSOCIATED_TOKEN_PROGRAM_ID,
      in_keys = [meta funder True True, meta (associatedTokenAddress derive mint owner (nullish p SplToken)) False True,
                 meta owner False False, meta mint False False, meta SYSTEM_PROGRAM_ID False False,
                 meta (tokenProgramId (nullish p SplToken)) False False],
      in_data = [if nullish idempotent True then 1 else 0]\<rparr>"

definition readTokenAccountAmount :: "byte list \<Rightarrow> thrown + int" where
  "readTokenAccountAmount data =
     (if length data < TOKEN_ACCOUNT_LENGTH
      then Inl (PlainError (''Token account is '' @ show_nat (length data) @ '' bytes; expected '' @ show_nat TOKEN_ACCOUNT_LENGTH @
             ''. Refusing to read a balance from a buffer that is not a token account.''))
      else Inr (le_value (take 8 (drop TOKEN_ACCOUNT_AMOUNT_OFFSET data))))"

definition isTokenAccountSize :: "byte list option \<Rightarrow> bool" where
  "isTokenAccountSize data = (case data of None \<Rightarrow> False | Some d \<Rightarrow> length d = TOKEN_ACCOUNT_LENGTH)"

definition TOKEN_ACCOUNT_RENT_LAMPORTS :: int where "TOKEN_ACCOUNT_RENT_LAMPORTS = 1488440"

definition LAMPORTS_PER_SIGNATURE :: int where "LAMPORTS_PER_SIGNATURE = 5000"

section \<open>The registry\<close>

datatype cluster = Devnet | Mainnet

fun cluster_name :: "cluster \<Rightarrow> string" where
  "cluster_name Devnet = ''devnet''"
| "cluster_name Mainnet = ''mainnet''"

record spl_token =
  sp_symbol :: string
  sp_name :: string
  sp_decimals :: int
  sp_address :: string
  sp_cluster :: cluster
  sp_program :: token_program

definition clusterFromRpcUrl :: "string option \<Rightarrow> cluster" where
  "clusterFromRpcUrl rpcUrl =
     (if \<not> truthy rpcUrl then Devnet
      else let url = toLowerCase (the rpcUrl)
           in if js_includes url ''devnet'' then Devnet
              else if js_includes url ''mainnet'' then Mainnet
              else Devnet)"

definition resolveSolanaCluster :: "cluster option \<Rightarrow> string option \<Rightarrow> cluster" where
  "resolveSolanaCluster configured rpcUrl = nullish configured (clusterFromRpcUrl rpcUrl)"

definition SEED_TOKENS :: "spl_token list" where
  "SEED_TOKENS = [\<lparr>sp_symbol = ''USDC'', sp_name = ''USD Coin'', sp_decimals = 6,
     sp_address = ''4zMMC9srt5Ri5X14GAgXhaHii3GnPAEERYPJgZJDncDU'', sp_cluster = Devnet, sp_program = SplToken\<rparr>]"

text \<open>One entry of the JSON array; \<open>None\<close> is a missing field or one of another type (for \<open>decimals\<close>, also
  a number that is not an integer).\<close>

datatype program_json = ProgramAbsent | ProgramText string | ProgramOther

record raw_spl =
  rs_symbol :: "string option"
  rs_name :: "string option"
  rs_decimals :: "int option"
  rs_address :: "string option"
  rs_program :: program_json

datatype spl_json = NoSplConfig | SplNotJson | SplNotArray | SplEntries "raw_spl list"

definition trimmed_within :: "nat \<Rightarrow> string option \<Rightarrow> string option" where
  "trimmed_within n s =
     (case s of None \<Rightarrow> None
      | Some t \<Rightarrow> if 1 \<le> length (js_trim t) \<and> length (js_trim t) \<le> n then Some (js_trim t) else None)"

fun program_of :: "program_json \<Rightarrow> token_program option" where
  "program_of ProgramAbsent = Some SplToken"
| "program_of (ProgramText t) = (if t = ''spl-token'' then Some SplToken else if t = ''token-2022'' then Some Token2022 else None)"
| "program_of ProgramOther = None"

definition overrideEntrySchema :: "cluster \<Rightarrow> raw_spl \<Rightarrow> spl_token option" where
  "overrideEntrySchema c e =
     (case (trimmed_within 20 (rs_symbol e), trimmed_within 80 (rs_name e), rs_decimals e, rs_address e, program_of (rs_program e)) of
        (Some symbol, Some name, Some decimals, Some address, Some p) \<Rightarrow>
          if 0 \<le> decimals \<and> decimals \<le> 18 \<and> solana_isValidAddress (js_trim address)
          then Some \<lparr>sp_symbol = symbol, sp_name = name, sp_decimals = decimals, sp_address = js_trim address, sp_cluster = c, sp_program = p\<rparr>
          else None
      | _ \<Rightarrow> None)"

text \<open>\<open>loadOverrides\<close>: the overrides and the module's cache after the call.  One bad entry fails the array.\<close>

definition loadSplOverrides :: "spl_json \<Rightarrow> cluster \<Rightarrow> spl_token list option \<Rightarrow> spl_token list \<times> spl_token list option" where
  "loadSplOverrides raw c cache =
     (case cache of
        Some overrides \<Rightarrow> (filter (\<lambda>t. sp_cluster t = c) overrides, Some overrides)
      | None \<Rightarrow>
          (case raw of
             SplEntries es \<Rightarrow>
               if list_all (\<lambda>e. overrideEntrySchema c e \<noteq> None) es
               then (map (\<lambda>e. the (overrideEntrySchema c e)) es, Some (map (\<lambda>e. the (overrideEntrySchema c e)) es))
               else ([], Some [])
           | _ \<Rightarrow> ([], Some [])))"

definition listSplTokens :: "spl_json \<Rightarrow> cluster \<Rightarrow> spl_token list option \<Rightarrow> spl_token list" where
  "listSplTokens raw c cache = fst (loadSplOverrides raw c cache) @ filter (\<lambda>t. sp_cluster t = c) SEED_TOKENS"

definition resolveSplToken :: "spl_token list \<Rightarrow> string \<Rightarrow> spl_token option" where
  "resolveSplToken tokens symbol =
     (let wanted = toUpperCase (js_trim symbol) in find_row (\<lambda>t. toUpperCase (sp_symbol t) = wanted) tokens)"

definition requireSplToken :: "spl_token list \<Rightarrow> cluster \<Rightarrow> string \<Rightarrow> thrown + spl_token" where
  "requireSplToken tokens c symbol =
     (case resolveSplToken tokens symbol of
        Some t \<Rightarrow> Inr t
      | None \<Rightarrow>
          let joined = js_join '', '' (map sp_symbol tokens)
          in Inl (StatusError 400 (''Unsupported SPL token: '' @ symbol @ ''. Configured on '' @ cluster_name c @ '': '' @
               (if joined = [] then ''none'' else joined))))"

section \<open>The adapter\<close>

definition LAMPORT_DECIMALS :: nat where "LAMPORT_DECIMALS = 9"

definition NATIVE_SYMBOL :: string where "NATIVE_SYMBOL = ''SOL''"

datatype sol_instruction = SystemTransfer string string int | ProgramCall instruction

record sol_transaction =
  st_recentBlockhash :: string
  st_feePayer :: string
  st_instructions :: "sol_instruction list"

text \<open>A signature's status: whether it has an error, and its confirmation level.\<close>

record sol_rpc =
  sr_accountInfo :: "string \<Rightarrow> thrown + byte list option"
  sr_getBalance :: "string \<Rightarrow> thrown + int"
  sr_blockhash :: "thrown + string"
  sr_signatureStatus :: "string \<Rightarrow> thrown + (bool \<times> string) option"
  sr_feeForMessage :: "sol_transaction \<Rightarrow> thrown + int option"
  sr_sendRaw :: "string \<Rightarrow> thrown + string"

text \<open>The module's state: the connection if a URL is configured, the tokens of the cluster in effect, and the
  functions of the two libraries.\<close>

record sol_adapter =
  so_connection :: "sol_rpc option"
  so_publicKey :: "string \<Rightarrow> thrown + string"
  so_derive :: derive
  so_parse :: parse_units
  so_format :: format_units
  so_cluster :: cluster
  so_tokens :: "spl_token list"

definition requireConnection :: "sol_adapter \<Rightarrow> thrown + sol_rpc" where
  "requireConnection a =
     (case so_connection a of Some c \<Rightarrow> Inr c | None \<Rightarrow> Inl (ProviderUnavailableError ''SOL'' ''RPC''))"

definition tokenAccountInfo :: "sol_adapter \<Rightarrow> string \<Rightarrow> thrown + byte list option" where
  "tokenAccountInfo a address = then_do (requireConnection a) (\<lambda>c. sr_accountInfo c address)"

definition hasTokenAccount :: "sol_adapter \<Rightarrow> string \<Rightarrow> string \<Rightarrow> thrown + bool" where
  "hasTokenAccount a mint owner =
     then_do (tokenAccountInfo a (associatedTokenAddress (so_derive a) mint owner SplToken)) (\<lambda>info. Inr (isTokenAccountSize info))"

definition sol_listTokens :: "sol_adapter \<Rightarrow> (string \<times> string \<times> int \<times> string) list" where
  "sol_listTokens a = map (\<lambda>t. (sp_symbol t, sp_name t, sp_decimals t, sp_address t)) (so_tokens a)"

definition sol_resolveToken :: "sol_adapter \<Rightarrow> string \<Rightarrow> (string \<times> string \<times> int \<times> string) option" where
  "sol_resolveToken a asset =
     map_option (\<lambda>t. (sp_symbol t, sp_name t, sp_decimals t, sp_address t)) (resolveSplToken (so_tokens a) asset)"

definition sol_getTokenBalance :: "sol_adapter \<Rightarrow> string \<Rightarrow> string \<Rightarrow> thrown + string" where
  "sol_getTokenBalance a address asset =
     then_do (requireSplToken (so_tokens a) (so_cluster a) asset) (\<lambda>token.
     then_do (so_publicKey a address) (\<lambda>owner.
     then_do (so_publicKey a (sp_address token)) (\<lambda>mint.
     then_do (tokenAccountInfo a (associatedTokenAddress (so_derive a) mint owner (sp_program token))) (\<lambda>info.
       case info of
         None \<Rightarrow> Inr ''0''
       | Some data \<Rightarrow>
           if \<not> isTokenAccountSize (Some data)
           then Inl (PlainError (''Account at the associated address for '' @ sp_symbol token @ '' is not a token account ('' @
                  show_nat (length data) @ '' bytes). Refusing to report a balance.''))
           else then_do (readTokenAccountAmount data) (\<lambda>amount.
                  Inr (fromBaseUnits (so_format a) amount (nat (sp_decimals token))))))))"

definition sol_getBalance :: "sol_adapter \<Rightarrow> string \<Rightarrow> string option \<Rightarrow> thrown + string" where
  "sol_getBalance a address asset =
     (if truthy asset \<and> the asset \<noteq> NATIVE_SYMBOL then sol_getTokenBalance a address (the asset)
      else then_do (requireConnection a) (\<lambda>c. then_do (so_publicKey a address) (\<lambda>key. then_do (sr_getBalance c key) (\<lambda>lamports.
             Inr (fromBaseUnits (so_format a) lamports LAMPORT_DECIMALS)))))"

definition sol_canPayGas :: "sol_adapter \<Rightarrow> string \<Rightarrow> string \<Rightarrow> thrown + bool" where
  "sol_canPayGas a address requiredNative =
     then_do (toBaseUnits (so_parse a) requiredNative LAMPORT_DECIMALS) (\<lambda>needed.
       let rentPlusFee = TOKEN_ACCOUNT_RENT_LAMPORTS + LAMPORTS_PER_SIGNATURE;
           required = (if needed > rentPlusFee then needed else rentPlusFee)
       in then_do (requireConnection a) (\<lambda>c. then_do (so_publicKey a address) (\<lambda>key. then_do (sr_getBalance c key) (\<lambda>balance.
            Inr (balance \<ge> required)))))"

text \<open>The instructions of a token transfer: the account creation if the check finds no account, and the
  checked transfer of exactly the converted amount.\<close>

definition splInstructions :: "sol_adapter \<Rightarrow> spl_token \<Rightarrow> string \<Rightarrow> string \<Rightarrow> string \<Rightarrow> string \<Rightarrow> thrown + sol_instruction list" where
  "splInstructions a token mint from to amount =
     (let source = associatedTokenAddress (so_derive a) mint from (sp_program token);
          destination = associatedTokenAddress (so_derive a) mint to (sp_program token)
      in then_do (hasTokenAccount a mint to) (\<lambda>has.
         then_do (toBaseUnits (so_parse a) amount (nat (sp_decimals token))) (\<lambda>units.
         then_do (createTransferInstruction mint source destination from units (sp_decimals token) (Some (sp_program token))) (\<lambda>transfer.
           Inr ((if has then []
                 else [ProgramCall (createAssociatedTokenAccountInstruction (so_derive a) from to mint (Some (sp_program token)) None)])
                @ [ProgramCall transfer])))))"

definition sol_buildTransaction :: "sol_adapter \<Rightarrow> transfer_input \<Rightarrow> thrown + sol_transaction" where
  "sol_buildTransaction a input =
     then_do (requireConnection a) (\<lambda>c.
     then_do (sr_blockhash c) (\<lambda>blockhash.
     then_do (so_publicKey a (ti_from input)) (\<lambda>from.
       if ti_asset input = NATIVE_SYMBOL
       then then_do (so_publicKey a (ti_to input)) (\<lambda>to.
            then_do (toBaseUnits (so_parse a) (ti_amount input) LAMPORT_DECIMALS) (\<lambda>lamports.
              Inr \<lparr>st_recentBlockhash = blockhash, st_feePayer = from, st_instructions = [SystemTransfer from to lamports]\<rparr>))
       else then_do (requireSplToken (so_tokens a) (so_cluster a) (ti_asset input)) (\<lambda>token.
            then_do (so_publicKey a (sp_address token)) (\<lambda>mint.
            then_do (so_publicKey a (ti_to input)) (\<lambda>to.
            then_do (splInstructions a token mint from to (ti_amount input)) (\<lambda>is.
              Inr \<lparr>st_recentBlockhash = blockhash, st_feePayer = from, st_instructions = is\<rparr>)))))))"

definition sol_getTransactionStatus :: "sol_adapter \<Rightarrow> string \<Rightarrow> thrown + onchain_status" where
  "sol_getTransactionStatus a txHash =
     then_do (requireConnection a) (\<lambda>c. then_do (sr_signatureStatus c txHash) (\<lambda>status.
       Inr (case status of
              None \<Rightarrow> StPending
            | Some (err, level) \<Rightarrow> if err then StFailed else if level = ''finalized'' then StConfirmed else StPending)))"

definition sol_estimateFee :: "sol_adapter \<Rightarrow> transfer_input \<Rightarrow> thrown + string" where
  "sol_estimateFee a input =
     then_do (sol_buildTransaction a input) (\<lambda>tx. then_do (requireConnection a) (\<lambda>c. then_do (sr_feeForMessage c tx) (\<lambda>fee.
       Inr (fromBaseUnits (so_format a) (nullish fee 0) LAMPORT_DECIMALS))))"

definition sol_sendSignedTransaction :: "sol_adapter \<Rightarrow> string \<Rightarrow> thrown + string" where
  "sol_sendSignedTransaction a signedTx = then_do (requireConnection a) (\<lambda>c. sr_sendRaw c signedTx)"

section \<open>Lemmas on the encoding\<close>

lemma le_bytes_length [simp]: "length (le_bytes n v) = n"
  by (induction n arbitrary: v) simp_all

lemma le_round_trip: "0 \<le> v \<Longrightarrow> v < 256 ^ n \<Longrightarrow> le_value (le_bytes n v) = v"
proof (induction n arbitrary: v)
  case (Suc n)
  have "v div 256 < 256 ^ n" using Suc.prems by (simp add: div_less_iff_less_mult mult.commute)
  moreover have "uint (word_of_int v :: byte) = v mod 256" by (simp add: uint_word_of_int)
  ultimately show ?case using Suc.IH [of "v div 256"] Suc.prems(1) by (simp add: pos_imp_zdiv_nonneg_iff)
qed simp

lemma le_value_bounds: "0 \<le> le_value bs \<and> le_value bs < 256 ^ length bs"
proof (induction bs)
  case (Cons b bs)
  have "uint b < 256" "0 \<le> uint b" using uint_bounded [of b] by simp_all
  moreover have "le_value bs + 1 \<le> 256 ^ length bs" using Cons by simp
  ultimately show ?case using Cons by simp
qed simp

lemma le_inject: "0 \<le> u \<Longrightarrow> u < 256 ^ n \<Longrightarrow> 0 \<le> v \<Longrightarrow> v < 256 ^ n \<Longrightarrow> le_bytes n u = le_bytes n v \<longleftrightarrow> u = v"
  by (metis le_round_trip)

lemma writeU64LE_Inr: "writeU64LE v = Inr bs \<longleftrightarrow> 0 \<le> v \<and> v < 256 ^ 8 \<and> bs = le_bytes 8 v"
  by (auto simp: writeU64LE_def)

text \<open>What the token program reads out of the data of an instruction with the tag of \<open>TransferChecked\<close>.\<close>

definition decode_transfer :: "byte list \<Rightarrow> (int \<times> int) option" where
  "decode_transfer data =
     (if length data = 10 \<and> hd data = TOKEN_INSTRUCTION_TRANSFER_CHECKED
      then Some (le_value (take 8 (tl data)), uint (last data)) else None)"

lemma decode_encoded:
  assumes "0 \<le> amount" "amount < 256 ^ 8" "0 \<le> decimals" "decimals \<le> 255"
  shows "decode_transfer (TOKEN_INSTRUCTION_TRANSFER_CHECKED # le_bytes 8 amount @ [word_of_int decimals]) = Some (amount, decimals)"
proof -
  have "uint (word_of_int decimals :: byte) = decimals" using assms(3,4) by (simp add: uint_word_of_int)
  then show ?thesis using le_round_trip [OF assms(1,2)] by (simp add: decode_transfer_def)
qed

lemma createTransferInstruction_Inr:
  "createTransferInstruction mint source destination owner amount decimals p = Inr i \<longleftrightarrow>
     0 \<le> amount \<and> amount < 256 ^ 8 \<and> 0 \<le> decimals \<and> decimals \<le> 255 \<and>
     i = \<lparr>in_programId = tokenProgramId (nullish p SplToken),
          in_keys = [meta source False True, meta mint False False, meta destination False True, meta owner True False],
          in_data = TOKEN_INSTRUCTION_TRANSFER_CHECKED # le_bytes 8 amount @ [word_of_int decimals]\<rparr>"
  by (auto simp: createTransferInstruction_def assertDecimals_def writeU64LE_Inr split: if_splits)

text \<open>The registry: a listing that reuses the cache of the same cluster is the first one.\<close>

lemma listSplTokens_cached:
  "snd (loadSplOverrides raw c None) = Some os \<Longrightarrow> listSplTokens raw c (Some os) = listSplTokens raw c None"
proof -
  have t: "\<forall>t \<in> set (fst (loadSplOverrides raw c None)). sp_cluster t = c"
    by (auto simp: loadSplOverrides_def overrideEntrySchema_def list_all_iff split: spl_json.split option.splits if_splits)
  assume "snd (loadSplOverrides raw c None) = Some os"
  then have "os = fst (loadSplOverrides raw c None)" by (auto simp: loadSplOverrides_def split: spl_json.splits if_splits)
  then have "filter (\<lambda>t. sp_cluster t = c) os = fst (loadSplOverrides raw c None)" using t by simp
  then show ?thesis unfolding listSplTokens_def by (simp add: loadSplOverrides_def)
qed

section \<open>Properties\<close>

text \<open>C15: the SPL encoding is exact.  A transfer instruction exists exactly for amounts that fit an unsigned
  64-bit integer and decimals that fit a byte; its data are ten bytes from which the token program reads
  back that amount and those decimals; every other input is an exception, never a wrapped value.  The
  balance read returns the amount that stands at offset 64 of an account of at least 165 bytes.\<close>

theorem spl_encoding_is_exact:
  "((\<exists>i. createTransferInstruction mint source destination owner amount decimals p = Inr i) \<longleftrightarrow>
      0 \<le> amount \<and> amount < 2 ^ 64 \<and> 0 \<le> decimals \<and> decimals \<le> 255) \<and>
   (\<forall>i. createTransferInstruction mint source destination owner amount decimals p = Inr i \<longrightarrow>
      length (in_data i) = 10 \<and> decode_transfer (in_data i) = Some (amount, decimals) \<and>
      in_keys i = [meta source False True, meta mint False False, meta destination False True, meta owner True False]) \<and>
   (0 \<le> amount \<and> amount < 2 ^ 64 \<and> length before = 64 \<and> 93 \<le> length after \<longrightarrow>
      readTokenAccountAmount (before @ le_bytes 8 amount @ after) = Inr amount)"
proof (intro conjI allI impI)
  show "(\<exists>i. createTransferInstruction mint source destination owner amount decimals p = Inr i) \<longleftrightarrow>
      0 \<le> amount \<and> amount < 2 ^ 64 \<and> 0 \<le> decimals \<and> decimals \<le> 255"
    by (simp add: createTransferInstruction_Inr)
  show "length (in_data i) = 10" "decode_transfer (in_data i) = Some (amount, decimals)"
    "in_keys i = [meta source False True, meta mint False False, meta destination False True, meta owner True False]"
    if "createTransferInstruction mint source destination owner amount decimals p = Inr i" for i
    using that decode_encoded [of amount decimals] by (auto simp: createTransferInstruction_Inr)
  show "readTokenAccountAmount (before @ le_bytes 8 amount @ after) = Inr amount"
    if "0 \<le> amount \<and> amount < 2 ^ 64 \<and> length before = 64 \<and> 93 \<le> length after"
    using that le_round_trip [of amount 8] by (simp add: readTokenAccountAmount_def TOKEN_ACCOUNT_LENGTH_def TOKEN_ACCOUNT_AMOUNT_OFFSET_def)
qed

lemma spl_encoding_is_exact_witness:
  "\<exists>i. createTransferInstruction ''m'' ''s'' ''d'' ''o'' 18446744073709551615 6 None = Inr i \<and>
     decode_transfer (in_data i) = Some (18446744073709551615, 6) \<and>
     readTokenAccountAmount (replicate 64 0 @ le_bytes 8 18446744073709551615 @ replicate 93 0) = Inr 18446744073709551615"
  using spl_encoding_is_exact [of "''m''" "''s''" "''d''" "''o''" 18446744073709551615 6 None "replicate 64 0" "replicate 93 0"]
  by auto

text \<open>C14: a token transfer moves exactly the requested amount.  For an amount with at most the token's
  decimals, the last instruction of the built transaction is a checked transfer by the token's program,
  with the mint's own decimals, of exactly the value the string denotes, from the sender's to the
  recipient's associated account of that program; it is preceded by the creation of the recipient's
  account exactly when no token account is found at the address that the default program derives --
  for a Token-2022 mint that is another address than the destination.\<close>

theorem spl_transfer_moves_exact_amount:
  assumes codec: "unit_codec (so_parse a) (so_format a)"
    and amount: "plain_decimal (ti_amount input)" "decimalPlacesOf (ti_amount input) \<le> nat (sp_decimals token)"
      "scaled (ti_amount input) (nat (sp_decimals token)) < UNIT_LIMIT"
    and token: "ti_asset input \<noteq> NATIVE_SYMBOL" "requireSplToken (so_tokens a) (so_cluster a) (ti_asset input) = Inr token"
      "so_publicKey a (sp_address token) = Inr mint" "so_publicKey a (ti_from input) = Inr from" "so_publicKey a (ti_to input) = Inr to"
    and built: "sol_buildTransaction a input = Inr tx"
  shows "(\<exists>i. last (st_instructions tx) = ProgramCall i \<and> in_programId i = tokenProgramId (sp_program token) \<and>
           decode_transfer (in_data i) = Some (scaled (ti_amount input) (nat (sp_decimals token)), sp_decimals token) \<and>
           map am_pubkey (in_keys i) = [associatedTokenAddress (so_derive a) mint from (sp_program token), mint,
             associatedTokenAddress (so_derive a) mint to (sp_program token), from]) \<and>
         butlast (st_instructions tx) =
           (if hasTokenAccount a mint to = Inr True then []
            else [ProgramCall (createAssociatedTokenAccountInstruction (so_derive a) from to mint (Some (sp_program token)) None)]) \<and>
         hasTokenAccount a mint to = then_do (tokenAccountInfo a (so_derive a [to, TOKEN_PROGRAM_ID, mint] ASSOCIATED_TOKEN_PROGRAM_ID))
           (\<lambda>info. Inr (isTokenAccountSize info))"
proof -
  have v: "toBaseUnits (so_parse a) (ti_amount input) (nat (sp_decimals token)) = Inr (scaled (ti_amount input) (nat (sp_decimals token)))"
    using unit_codec.to_exact [OF codec amount] .
  obtain has i where parts: "hasTokenAccount a mint to = Inr has"
    "createTransferInstruction mint (associatedTokenAddress (so_derive a) mint from (sp_program token))
       (associatedTokenAddress (so_derive a) mint to (sp_program token)) from (scaled (ti_amount input) (nat (sp_decimals token)))
       (sp_decimals token) (Some (sp_program token)) = Inr i"
    "st_instructions tx = (if has then []
       else [ProgramCall (createAssociatedTokenAccountInstruction (so_derive a) from to mint (Some (sp_program token)) None)]) @ [ProgramCall i]"
    using built token v by (auto simp: sol_buildTransaction_def splInstructions_def Let_def split: if_splits)
  have "\<exists>i. last (st_instructions tx) = ProgramCall i \<and> in_programId i = tokenProgramId (sp_program token) \<and>
      decode_transfer (in_data i) = Some (scaled (ti_amount input) (nat (sp_decimals token)), sp_decimals token) \<and>
      map am_pubkey (in_keys i) = [associatedTokenAddress (so_derive a) mint from (sp_program token), mint,
        associatedTokenAddress (so_derive a) mint to (sp_program token), from]"
    using parts(2) decode_encoded by (intro exI [of _ i]) (auto simp: parts(3) createTransferInstruction_Inr meta_def)
  moreover have "butlast (st_instructions tx) = (if hasTokenAccount a mint to = Inr True then []
      else [ProgramCall (createAssociatedTokenAccountInstruction (so_derive a) from to mint (Some (sp_program token)) None)])"
    by (simp add: parts(1,3) butlast_append)
  moreover have "hasTokenAccount a mint to = then_do (tokenAccountInfo a (so_derive a [to, TOKEN_PROGRAM_ID, mint] ASSOCIATED_TOKEN_PROGRAM_ID))
      (\<lambda>info. Inr (isTokenAccountSize info))"
    by (simp add: hasTokenAccount_def associatedTokenAddress_def tokenProgramId_def)
  ultimately show ?thesis by blast
qed

definition demo_sol :: sol_adapter where
  "demo_sol = \<lparr>so_connection = Some \<lparr>sr_accountInfo = (\<lambda>_. Inr None), sr_getBalance = (\<lambda>_. Inr 0), sr_blockhash = Inr ''b'',
       sr_signatureStatus = (\<lambda>_. Inr None), sr_feeForMessage = (\<lambda>_. Inr (Some 5000)), sr_sendRaw = Inr\<rparr>,
     so_publicKey = Inr, so_derive = (\<lambda>seeds p. concat seeds @ p), so_parse = documented_parse, so_format = documented_format,
     so_cluster = Devnet, so_tokens = SEED_TOKENS\<rparr>"

lemma spl_transfer_moves_exact_amount_witness:
  "\<exists>tx i. sol_buildTransaction demo_sol \<lparr>ti_from = ''A'', ti_to = ''B'', ti_asset = ''USDC'', ti_amount = ''1.5''\<rparr> = Inr tx \<and>
     last (st_instructions tx) = ProgramCall i \<and> decode_transfer (in_data i) = Some (1500000, 6)"
proof -
  let ?in = "\<lparr>ti_from = ''A'', ti_to = ''B'', ti_asset = ''USDC'', ti_amount = ''1.5''\<rparr>" and ?t = "hd SEED_TOKENS"
  have t: "requireSplToken (so_tokens demo_sol) (so_cluster demo_sol) (ti_asset ?in) = Inr ?t"
    by (simp add: demo_sol_def SEED_TOKENS_def requireSplToken_def resolveSplToken_def) code_simp
  have p: "plain_decimal ''1.5''" "decimalPlacesOf ''1.5'' \<le> nat (sp_decimals ?t)" "scaled ''1.5'' (nat (sp_decimals ?t)) = 1500000"
    "sp_decimals ?t = 6"
    by (simp_all add: SEED_TOKENS_def amount_eval scaled_def scaled_nat_def)
  have v: "toBaseUnits documented_parse ''1.5'' 6 = Inr 1500000"
    using ethers_units.to_exact [of "''1.5''" 6] p by (simp add: UNIT_LIMIT_def)
  have "\<exists>tx. sol_buildTransaction demo_sol ?in = Inr tx"
    using t v p(4)
    by (simp add: sol_buildTransaction_def splInstructions_def requireConnection_def hasTokenAccount_def tokenAccountInfo_def
        demo_sol_def NATIVE_SYMBOL_def Let_def createTransferInstruction_Inr)
  then obtain tx where tx: "sol_buildTransaction demo_sol ?in = Inr tx" ..
  have "\<exists>i. last (st_instructions tx) = ProgramCall i \<and> in_programId i = tokenProgramId (sp_program ?t) \<and>
      decode_transfer (in_data i) = Some (scaled (ti_amount ?in) (nat (sp_decimals ?t)), sp_decimals ?t) \<and>
      map am_pubkey (in_keys i) = [associatedTokenAddress (so_derive demo_sol) (sp_address ?t) ''A'' (sp_program ?t), sp_address ?t,
        associatedTokenAddress (so_derive demo_sol) (sp_address ?t) ''B'' (sp_program ?t), ''A'']"
    by (rule conjunct1 [OF spl_transfer_moves_exact_amount [OF _ _ _ _ _ t _ _ _ tx]])
       (use p ethers_units.unit_codec_axioms in \<open>simp_all add: demo_sol_def NATIVE_SYMBOL_def UNIT_LIMIT_def\<close>)
  then show ?thesis using tx p by auto
qed

end
