(* ===== verification/Json.thy ===== *)
theory Json
  imports ApiErrors
begin

text \<open>
  JSON values as \<open>JSON.parse\<close> answers them, and the JavaScript operations the services apply to a
  value of unknown shape: property access, \<open>typeof\<close> tests, truthiness, \<open>String(v)\<close>.  A number is held
  as the text \<open>String\<close> prints for it; \<open>JSON.parse\<close> and \<open>JSON.stringify\<close> themselves are parameters of
  the code that calls them.  An absent property is \<open>None\<close> (\<open>undefined\<close>).
\<close>

datatype json =
    JNull
  | JBool bool
  | JNumber string
  | JString string
  | JArray "json list"
  | JObject "(string \<times> json) list"

text \<open>\<open>v.key\<close> on a value that is not \<open>null\<close>: only objects have the properties the services read.  A
  repeated key of the text is the last one, as \<open>JSON.parse\<close> keeps it.\<close>

fun field :: "json \<Rightarrow> string \<Rightarrow> json option" where
  "field (JObject kvs) k = map_of (rev kvs) k"
| "field _ k = None"

text \<open>\<open>v?.key\<close> and \<open>typeof v === "string" ? v : undefined\<close>.\<close>

fun field_opt :: "json option \<Rightarrow> string \<Rightarrow> json option" where
  "field_opt None k = None"
| "field_opt (Some v) k = field v k"

fun as_string :: "json option \<Rightarrow> string option" where
  "as_string (Some (JString s)) = Some s"
| "as_string _ = None"

fun js_truthy :: "json option \<Rightarrow> bool" where
  "js_truthy None = False"
| "js_truthy (Some JNull) = False"
| "js_truthy (Some (JBool b)) = b"
| "js_truthy (Some (JNumber n)) = (n \<noteq> ''0'')"
| "js_truthy (Some (JString s)) = (s \<noteq> [])"
| "js_truthy (Some (JArray vs)) = True"
| "js_truthy (Some (JObject kvs)) = True"

text \<open>\<open>v ?? w\<close>: \<open>null\<close> and \<open>undefined\<close> fall through.\<close>

fun js_nullish :: "json option \<Rightarrow> json option \<Rightarrow> json option" where
  "js_nullish None w = w"
| "js_nullish (Some JNull) w = w"
| "js_nullish (Some v) w = Some v"

text \<open>\<open>String(v)\<close>.  An array prints its elements joined by a comma, \<open>null\<close> elements as nothing.\<close>

fun js_string :: "json \<Rightarrow> string" where
  "js_string JNull = ''null''"
| "js_string (JBool b) = (if b then ''true'' else ''false'')"
| "js_string (JNumber n) = n"
| "js_string (JString s) = s"
| "js_string (JArray vs) = js_join '','' (map (\<lambda>v. if v = JNull then [] else js_string v) vs)"
| "js_string (JObject kvs) = ''[object Object]''"

fun js_string_opt :: "json option \<Rightarrow> string" where
  "js_string_opt None = ''undefined''"
| "js_string_opt (Some v) = js_string v"

text \<open>What reading a property of \<open>null\<close> or \<open>undefined\<close> throws.\<close>

definition TypeError :: "string \<Rightarrow> thrown" where
  "TypeError prop = PlainError (''Cannot read properties of null (reading '' @ prop @ '')'')"

text \<open>\<open>v.key\<close> on a value that may be \<open>null\<close> or absent.\<close>

fun field_of :: "json option \<Rightarrow> string \<Rightarrow> thrown + json option" where
  "field_of None k = Inl (TypeError k)"
| "field_of (Some JNull) k = Inl (TypeError k)"
| "field_of (Some v) k = Inr (field v k)"

lemma as_string_Some: "as_string v = Some s \<longleftrightarrow> v = Some (JString s)"
  by (cases v rule: as_string.cases) auto

lemma as_string_truthy: "as_string v = Some s \<Longrightarrow> js_truthy v \<longleftrightarrow> s \<noteq> []"
  by (simp add: as_string_Some)

lemma field_of_object [simp]: "field_of (Some (JObject kvs)) k = Inr (map_of (rev kvs) k)"
  by simp

end
