(* ===== verification/Adapters.thy ===== *)
theory Adapters
  imports Spl Json
begin

text \<open>
  The TON, TRON and Bitcoin adapters (\<^verbatim>\<open>src/src/chains/{ton,tron,btc}/index.ts\<close>) and the loader that
  picks the adapter of a chain (\<^verbatim>\<open>src/src/chains/index.ts\<close>).  An adapter is a record of its methods, the
  optional ones as options, as the interface \<open>ChainAdapter\<close> declares them; the services use nothing
  else of a chain.  The SDK clients, \<open>fetch\<close> and \<open>JSON.parse\<close> are parameters.
\<close>

section \<open>TON\<close>

definition NANOTOKEN_DECIMALS :: nat where "NANOTOKEN_DECIMALS = 9"

record ton_client =
  tc_getBalance :: "string \<Rightarrow> thrown + int"
  tc_sendFile :: "string \<Rightarrow> thrown + unit"

text \<open>\<open>tn_rawAddress\<close> is \<open>Address.parse(a).toRawString()\<close>.\<close>

record ton_adapter =
  tn_client :: "ton_client option"
  tn_rawAddress :: "string \<Rightarrow> thrown + string"
  tn_parse :: parse_units
  tn_format :: format_units

definition requireClient :: "ton_adapter \<Rightarrow> thrown + ton_client" where
  "requireClient a = (case tn_client a of Some c \<Rightarrow> Inr c | None \<Rightarrow> Inl (ProviderUnavailableError ''TON'' ''RPC''))"

definition ton_getBalance :: "ton_adapter \<Rightarrow> string \<Rightarrow> string option \<Rightarrow> thrown + string" where
  "ton_getBalance a address asset =
     (if truthy asset \<and> the asset \<noteq> ''TON'' then Inl (PlainError ''Jetton balance reads are not implemented yet'')
      else then_do (requireClient a) (\<lambda>c. then_do (tn_rawAddress a address) (\<lambda>key. then_do (tc_getBalance c key) (\<lambda>balance.
             Inr (fromBaseUnits (tn_format a) balance NANOTOKEN_DECIMALS)))))"

definition ton_buildTransaction :: "ton_adapter \<Rightarrow> transfer_input \<Rightarrow> thrown + (string \<times> string)" where
  "ton_buildTransaction a input =
     (if ti_asset input \<noteq> ''TON'' then Inl (PlainError ''TON adapter supports native TON only'')
      else then_do (tn_rawAddress a (ti_to input)) (\<lambda>to.
           then_do (toBaseUnits (tn_parse a) (ti_amount input) NANOTOKEN_DECIMALS) (\<lambda>nano. Inr (to, show_int nano))))"

definition ton_getTransactionStatus :: "string \<Rightarrow> thrown + onchain_status" where
  "ton_getTransactionStatus txHash =
     (if txHash = [] then Inl (PlainError ''TON transaction hash is required'')
      else Inl (ProviderUnavailableError ''TON'' ''transaction status''))"

definition ton_estimateFee :: "transfer_input \<Rightarrow> thrown + string" where
  "ton_estimateFee input =
     (if ti_asset input \<noteq> ''TON'' then Inl (PlainError ''Jetton fee estimation is not implemented yet'')
      else Inl (ProviderUnavailableError ''TON'' ''fee estimation''))"

definition ton_sendSignedTransaction :: "ton_adapter \<Rightarrow> string \<Rightarrow> thrown + string" where
  "ton_sendSignedTransaction a signedTx =
     then_do (requireClient a) (\<lambda>c. then_do (tc_sendFile c signedTx) (\<lambda>_. Inr signedTx))"

section \<open>TRON\<close>

definition SUN_DECIMALS :: nat where "SUN_DECIMALS = 6"

definition MAX_EXACT_SUN :: int where "MAX_EXACT_SUN = 9007199254740991"

text \<open>The parts of a transaction's info that are read: its id and the receipt's result; and the answer to a
  broadcast: \<open>result\<close> and \<open>txid\<close>.\<close>

record tron_client =
  tw_getBalance :: "string \<Rightarrow> thrown + int"
  tw_sendTrx :: "string \<Rightarrow> int \<Rightarrow> string \<Rightarrow> thrown + string"
  tw_transactionInfo :: "string \<Rightarrow> thrown + (string option \<times> string option) option"
  tw_sendRaw :: "json \<Rightarrow> thrown + (bool \<times> string option)"

record tron_adapter =
  tr_client :: "tron_client option"
  tr_jsonParse :: "string \<Rightarrow> thrown + json"
  tr_parse :: parse_units
  tr_format :: format_units

definition requireTron :: "tron_adapter \<Rightarrow> thrown + tron_client" where
  "requireTron a = (case tr_client a of Some c \<Rightarrow> Inr c | None \<Rightarrow> Inl (ProviderUnavailableError ''TRON'' ''RPC''))"

definition tron_getBalance :: "tron_adapter \<Rightarrow> string \<Rightarrow> string option \<Rightarrow> thrown + string" where
  "tron_getBalance a address asset =
     (if truthy asset \<and> the asset \<noteq> ''TRX'' then Inl (PlainError ''TRC-20 balance reads are not implemented yet'')
      else then_do (requireTron a) (\<lambda>c. then_do (tw_getBalance c address) (\<lambda>sun.
             Inr (fromBaseUnits (tr_format a) sun SUN_DECIMALS))))"

definition tron_buildTransaction :: "tron_adapter \<Rightarrow> transfer_input \<Rightarrow> thrown + string" where
  "tron_buildTransaction a input =
     (if ti_asset input \<noteq> ''TRX'' then Inl (PlainError ''TRON adapter supports native TRX only'')
      else then_do (toBaseUnits (tr_parse a) (ti_amount input) SUN_DECIMALS) (\<lambda>sun.
             if sun > MAX_EXACT_SUN
             then Inl (PlainError ''TRON amount exceeds the exact range of tronweb's sendTrx (max 9,007,199,254 TRX)'')
             else then_do (requireTron a) (\<lambda>c. tw_sendTrx c (ti_to input) sun (ti_from input))))"

definition tron_getTransactionStatus :: "tron_adapter \<Rightarrow> string \<Rightarrow> thrown + onchain_status" where
  "tron_getTransactionStatus a txHash =
     then_do (requireTron a) (\<lambda>c. then_do (tw_transactionInfo c txHash) (\<lambda>info.
       Inr (case info of
              None \<Rightarrow> StPending
            | Some (tid, result) \<Rightarrow> if \<not> truthy tid then StPending else if result = Some ''SUCCESS'' then StConfirmed else StFailed)))"

definition tron_estimateFee :: "transfer_input \<Rightarrow> thrown + string" where
  "tron_estimateFee input =
     (if ti_asset input \<noteq> ''TRX'' then Inl (PlainError ''TRC-20 fee estimation is not implemented yet'')
      else Inl (ProviderUnavailableError ''TRON'' ''fee estimation''))"

definition tron_sendSignedTransaction :: "tron_adapter \<Rightarrow> string \<Rightarrow> thrown + string" where
  "tron_sendSignedTransaction a signedTx =
     then_do (requireTron a) (\<lambda>c. then_do (tr_jsonParse a signedTx) (\<lambda>raw. then_do (tw_sendRaw c raw) (\<lambda>(ok, txid).
       if \<not> ok \<or> \<not> truthy txid then Inl (PlainError ''TRON broadcast failed'') else Inr (the txid))))"

section \<open>Bitcoin\<close>

text \<open>The node is reached over JSON-RPC; \<open>bl_fetch url headers body\<close> is the HTTP exchange: whether the
  status is in the 200s, the status, and the body, if it parses as JSON.\<close>

record btc_adapter =
  bl_url :: "string option"
  bl_user :: "string option"
  bl_password :: "string option"
  bl_base64 :: "string \<Rightarrow> string"
  bl_fetch :: "string \<Rightarrow> (string \<times> string) list \<Rightarrow> json \<Rightarrow> thrown + (bool \<times> nat \<times> (thrown + json))"

definition btc_headers :: "btc_adapter \<Rightarrow> (string \<times> string) list" where
  "btc_headers a =
     (''content-type'', ''application/json'') #
     (if truthy (bl_user a) \<or> truthy (bl_password a)
      then [(''authorization'', ''Basic '' @ bl_base64 a (nullish (bl_user a) [] @ '':'' @ nullish (bl_password a) []))]
      else [])"

definition btc_rpc :: "btc_adapter \<Rightarrow> string \<Rightarrow> json list \<Rightarrow> thrown + json option" where
  "btc_rpc a method params =
     (if \<not> truthy (bl_url a) then Inl (ProviderUnavailableError ''BTC'' ''RPC'')
      else then_do (bl_fetch a (the (bl_url a)) (btc_headers a)
             (JObject [(''jsonrpc'', JString ''1.0''), (''id'', JString ''avora''), (''method'', JString method), (''params'', JArray params)]))
             (\<lambda>(ok, status, reply).
               if \<not> ok then Inl (PlainError (''BTC RPC HTTP '' @ show_nat status))
               else then_do reply (\<lambda>body.
                    then_do (field_of (Some body) ''error'') (\<lambda>error.
                      if js_truthy error
                      then Inl (PlainError (case js_nullish (field_opt error ''message'') None of
                                              Some m \<Rightarrow> js_string m | None \<Rightarrow> ''BTC RPC error''))
                      else field_of (Some body) ''result''))))"

definition btc_getBalance :: "btc_adapter \<Rightarrow> string \<Rightarrow> thrown + string" where
  "btc_getBalance a address =
     then_do (btc_rpc a ''getreceivedbyaddress'' [JString address, JNumber ''0'']) (\<lambda>result. Inr (js_string_opt result))"

definition btc_buildTransaction :: "thrown + string" where
  "btc_buildTransaction = Inl (ProviderUnavailableError ''BTC'' ''transaction construction'')"

definition btc_sendSignedTransaction :: "btc_adapter \<Rightarrow> string \<Rightarrow> thrown + string" where
  "btc_sendSignedTransaction a signedTx =
     (if signedTx = [] then Inl (PlainError ''Signed BTC transaction is required'')
      else then_do (btc_rpc a ''sendrawtransaction'' [JString signedTx]) (\<lambda>result. Inr (js_string_opt result)))"

text \<open>\<open>v > 0\<close> for a JSON number.\<close>

fun json_positive :: "json option \<Rightarrow> bool" where
  "json_positive (Some (JNumber n)) = (take 1 n \<noteq> ''-'' \<and> has_nonzero_digit n)"
| "json_positive _ = False"

definition btc_getTransactionStatus :: "btc_adapter \<Rightarrow> string \<Rightarrow> thrown + onchain_status" where
  "btc_getTransactionStatus a txHash =
     then_do (btc_rpc a ''getrawtransaction'' [JString txHash, JBool True]) (\<lambda>result.
     then_do (field_of result ''confirmations'') (\<lambda>confirmations.
       Inr (if json_positive confirmations then StConfirmed else StPending)))"

definition btc_estimateFee :: "btc_adapter \<Rightarrow> thrown + string" where
  "btc_estimateFee a =
     then_do (btc_rpc a ''estimatesmartfee'' [JNumber ''6'']) (\<lambda>result.
     then_do (field_of result ''feerate'') (\<lambda>feerate.
       case feerate of
         Some (JNumber n) \<Rightarrow> Inr n
       | _ \<Rightarrow> Inl (PlainError ''BTC node did not return a fee estimate'')))"

section \<open>The adapter of a chain\<close>

type_synonym token_meta = "string \<times> string \<times> int \<times> string"

datatype built_tx = BuiltEvm "token_plan + native_tx" | BuiltSol sol_transaction | BuiltTon string string | BuiltTron string | BuiltBtc string

record chain_adapter =
  ca_chain :: string
  ca_isValidAddress :: "string \<Rightarrow> bool"
  ca_getBalance :: "string \<Rightarrow> string option \<Rightarrow> thrown + string"
  ca_getNativeBalance :: "(string \<Rightarrow> thrown + string) option"
  ca_listTokens :: "token_meta list option"
  ca_resolveToken :: "(string \<Rightarrow> token_meta option) option"
  ca_getTokenBalance :: "(string \<Rightarrow> string \<Rightarrow> thrown + string) option"
  ca_canPayGas :: "(string \<Rightarrow> string \<Rightarrow> thrown + bool) option"
  ca_buildTransaction :: "transfer_input \<Rightarrow> thrown + built_tx"
  ca_buildTokenTransfer :: "(transfer_input \<Rightarrow> token_config option \<Rightarrow> thrown + token_plan) option"
  ca_sendTransaction :: "string option \<Rightarrow> thrown + string"
  ca_getTransactionStatus :: "string \<Rightarrow> thrown + onchain_status"
  ca_estimateFee :: "transfer_input \<Rightarrow> thrown + string"
  ca_sendSignedTransaction :: "(string \<Rightarrow> thrown + string) option"

text \<open>\<open>sendTransaction(signedTx)\<close>: \<open>None\<close> stands for a value that is not a string.\<close>

definition sendIfString :: "string \<Rightarrow> (string \<Rightarrow> thrown + string) \<Rightarrow> string option \<Rightarrow> thrown + string" where
  "sendIfString complaint send' signedTx = (case signedTx of None \<Rightarrow> Inl (PlainError complaint) | Some t \<Rightarrow> send' t)"

definition meta_of_token :: "token_config \<Rightarrow> token_meta" where
  "meta_of_token t = (tk_symbol t, tk_name t, int (tk_decimals t), tk_address t)"

definition of_evm :: "evm_adapter \<Rightarrow> chain_adapter" where
  "of_evm a =
     \<lparr>ca_chain = chain_name (ea_chain a), ca_isValidAddress = evm_isValidAddress, ca_getBalance = getBalance a,
      ca_getNativeBalance = Some (getNativeBalance a), ca_listTokens = Some (map meta_of_token (tokensForChain a)),
      ca_resolveToken = Some (\<lambda>s. map_option meta_of_token (findToken a s)), ca_getTokenBalance = Some (getTokenBalance a),
      ca_canPayGas = Some (canPayGas a), ca_buildTransaction = (\<lambda>i. then_do (buildTransaction a i) (\<lambda>t. Inr (BuiltEvm t))),
      ca_buildTokenTransfer = Some (buildTokenTransfer a),
      ca_sendTransaction = sendIfString ''Signed EVM transaction must be serialized hex'' (sendSignedTransaction a),
      ca_getTransactionStatus = getTransactionStatus a, ca_estimateFee = estimateFee a,
      ca_sendSignedTransaction = Some (sendSignedTransaction a)\<rparr>"

definition of_sol :: "sol_adapter \<Rightarrow> chain_adapter" where
  "of_sol a =
     \<lparr>ca_chain = ''SOL'', ca_isValidAddress = solana_isValidAddress, ca_getBalance = sol_getBalance a,
      ca_getNativeBalance = None, ca_listTokens = Some (sol_listTokens a), ca_resolveToken = Some (sol_resolveToken a),
      ca_getTokenBalance = Some (sol_getTokenBalance a), ca_canPayGas = Some (sol_canPayGas a),
      ca_buildTransaction = (\<lambda>i. then_do (sol_buildTransaction a i) (\<lambda>t. Inr (BuiltSol t))), ca_buildTokenTransfer = None,
      ca_sendTransaction = sendIfString ''Signed Solana transaction must be base64'' (sol_sendSignedTransaction a),
      ca_getTransactionStatus = sol_getTransactionStatus a, ca_estimateFee = sol_estimateFee a,
      ca_sendSignedTransaction = Some (sol_sendSignedTransaction a)\<rparr>"

text \<open>The adapters of the chains that implement only the required methods.\<close>

definition basic_adapter :: "string \<Rightarrow> (string \<Rightarrow> bool) \<Rightarrow> (string \<Rightarrow> string option \<Rightarrow> thrown + string) \<Rightarrow> (transfer_input \<Rightarrow> thrown + built_tx) \<Rightarrow>
    (string option \<Rightarrow> thrown + string) \<Rightarrow> (string \<Rightarrow> thrown + onchain_status) \<Rightarrow> (transfer_input \<Rightarrow> thrown + string) \<Rightarrow>
    (string \<Rightarrow> thrown + string) \<Rightarrow> chain_adapter" where
  "basic_adapter c valid balance build send' status fee sendSigned =
     \<lparr>ca_chain = c, ca_isValidAddress = valid, ca_getBalance = balance, ca_getNativeBalance = None, ca_listTokens = None,
      ca_resolveToken = None, ca_getTokenBalance = None, ca_canPayGas = None, ca_buildTransaction = build,
      ca_buildTokenTransfer = None, ca_sendTransaction = send', ca_getTransactionStatus = status, ca_estimateFee = fee,
      ca_sendSignedTransaction = Some sendSigned\<rparr>"

definition of_ton :: "ton_adapter \<Rightarrow> chain_adapter" where
  "of_ton a = basic_adapter ''TON'' ton_isValidAddress (ton_getBalance a)
     (\<lambda>i. then_do (ton_buildTransaction a i) (\<lambda>(to, nano). Inr (BuiltTon to nano)))
     (sendIfString ''Signed TON transaction must be base64 BOC'' (ton_sendSignedTransaction a))
     ton_getTransactionStatus ton_estimateFee (ton_sendSignedTransaction a)"

definition of_tron :: "tron_adapter \<Rightarrow> chain_adapter" where
  "of_tron a = basic_adapter ''TRON'' tron_isValidAddress (tron_getBalance a)
     (\<lambda>i. then_do (tron_buildTransaction a i) (\<lambda>t. Inr (BuiltTron t)))
     (sendIfString ''Signed TRON transaction must be serialized JSON'' (tron_sendSignedTransaction a))
     (tron_getTransactionStatus a) tron_estimateFee (tron_sendSignedTransaction a)"

text \<open>Bitcoin's \<open>sendTransaction\<close> does not check for the empty string.\<close>

definition of_btc :: "btc_adapter \<Rightarrow> chain_adapter" where
  "of_btc a = basic_adapter ''BTC'' bitcoin_isValidAddress (\<lambda>address _. btc_getBalance a address)
     (\<lambda>_. then_do btc_buildTransaction (\<lambda>t. Inr (BuiltBtc t)))
     (sendIfString ''Signed BTC transaction must be serialized hex''
       (\<lambda>tx. then_do (btc_rpc a ''sendrawtransaction'' [JString tx]) (\<lambda>result. Inr (js_string_opt result))))
     (btc_getTransactionStatus a) (\<lambda>_. btc_estimateFee a) (btc_sendSignedTransaction a)"

record chain_modules =
  cm_env :: chain_env
  cm_lib :: evm_lib
  cm_provider :: "chain \<Rightarrow> rpc option"
  cm_sol :: sol_adapter
  cm_ton :: ton_adapter
  cm_tron :: tron_adapter
  cm_btc :: btc_adapter

text \<open>The four EVM modules: each creates its adapter with its URL and the chain id in effect.\<close>

definition evmAdapter :: "chain_modules \<Rightarrow> chain \<Rightarrow> thrown + evm_adapter" where
  "evmAdapter m c =
     then_do (getEvmChainId (cm_env m) c) (\<lambda>cid. createEvmAdapter (cm_env m) (cm_lib m) c (cm_provider m c) (Some cid))"

fun getChainAdapter :: "chain_modules \<Rightarrow> chain \<Rightarrow> thrown + chain_adapter" where
  "getChainAdapter m TON = Inr (of_ton (cm_ton m))"
| "getChainAdapter m ETH = then_do (evmAdapter m ETH) (\<lambda>a. Inr (of_evm a))"
| "getChainAdapter m BSC = then_do (evmAdapter m BSC) (\<lambda>a. Inr (of_evm a))"
| "getChainAdapter m BASE = then_do (evmAdapter m BASE) (\<lambda>a. Inr (of_evm a))"
| "getChainAdapter m POLYGON = then_do (evmAdapter m POLYGON) (\<lambda>a. Inr (of_evm a))"
| "getChainAdapter m SOL = Inr (of_sol (cm_sol m))"
| "getChainAdapter m TRON = Inr (of_tron (cm_tron m))"
| "getChainAdapter m BTC = Inr (of_btc (cm_btc m))"

section \<open>Lemmas\<close>

definition evm_of :: "chain_modules \<Rightarrow> chain \<Rightarrow> evm_adapter" where
  "evm_of m c = \<lparr>ea_chain = c, ea_chainId = (case getEvmChainId (cm_env m) c of Inr i \<Rightarrow> i | Inl _ \<Rightarrow> 0), ea_nativeDecimals = 18,
     ea_provider = cm_provider m c, ea_env = cm_env m, ea_lib = cm_lib m\<rparr>"

lemma evmAdapter_eq: "isEvmChain c \<Longrightarrow> evmAdapter m c = Inr (evm_of m c)"
  by (cases c) (simp_all add: evmAdapter_def evm_of_def createEvmAdapter_def CHAIN_CONFIG_def getEvmChainId_def isEvmChain_def EVM_CHAINS_def)

definition adapter_of :: "chain_modules \<Rightarrow> chain \<Rightarrow> chain_adapter" where
  "adapter_of m c = (case c of TON \<Rightarrow> of_ton (cm_ton m) | SOL \<Rightarrow> of_sol (cm_sol m) | TRON \<Rightarrow> of_tron (cm_tron m)
     | BTC \<Rightarrow> of_btc (cm_btc m) | _ \<Rightarrow> of_evm (evm_of m c))"

lemma getChainAdapter_eq: "getChainAdapter m c = Inr (adapter_of m c)"
  using evmAdapter_eq [of c m] by (cases c) (simp_all add: adapter_of_def isEvmChain_def EVM_CHAINS_def)

lemma adapter_isValidAddress: "ca_isValidAddress (adapter_of m c) = isValidAddress c"
  by (cases c) (simp_all add: adapter_of_def of_ton_def of_sol_def of_tron_def of_btc_def of_evm_def basic_adapter_def)

lemma adapter_evm: "isEvmChain c \<Longrightarrow> adapter_of m c = of_evm (evm_of m c)"
  by (cases c) (simp_all add: adapter_of_def isEvmChain_def EVM_CHAINS_def)

lemma adapter_signed: "\<exists>f. ca_sendSignedTransaction (adapter_of m c) = Some f"
  by (cases c) (simp_all add: adapter_of_def of_ton_def of_sol_def of_tron_def of_btc_def of_evm_def basic_adapter_def)

lemmas evm_methods = of_evm_def evm_of_def

end
