(* ===== verification/ExternalTransfer.thy ===== *)
theory ExternalTransfer
  imports Transactions Adapters
begin

text \<open>
  External transfers (\<^verbatim>\<open>src/src/services/transaction/externalTransfer.service.ts\<close>): \<open>prepare\<close> prices a
  transfer and stores a single-use intent, the client signs on its device, \<open>submit\<close> claims the intent,
  compares every money-moving field of the signed transaction with it and queues the broadcast.  The
  decoders of ethers are parameters.  As in \<^verbatim>\<open>Transactions\<close>, \<open>mid n\<close> is what other requests do at the
  \<open>n\<close>-th await between a check and a write.
\<close>

section \<open>State and inputs\<close>

definition INTENT_TTL_MS :: int where "INTENT_TTL_MS = 10 * 60 * 1000"

fun NATIVE_ASSETS :: "chain \<Rightarrow> string" where
  "NATIVE_ASSETS TON = ''TON''"
| "NATIVE_ASSETS BSC = ''BNB''"
| "NATIVE_ASSETS ETH = ''ETH''"
| "NATIVE_ASSETS SOL = ''SOL''"
| "NATIVE_ASSETS BASE = ''ETH''"
| "NATIVE_ASSETS POLYGON = ''POL''"
| "NATIVE_ASSETS TRON = ''TRX''"
| "NATIVE_ASSETS BTC = ''BTC''"

definition fail :: "nat \<Rightarrow> string \<Rightarrow> thrown + 'a" where
  "fail statusCode message = Inl (HttpError statusCode message)"

record prepare_input =
  xi_userId :: string
  xi_chain :: chain
  xi_asset :: string
  xi_amount :: string
  xi_to :: string
  xi_pin :: string

record prepared_token =
  pt_symbol :: string
  pt_address :: string
  pt_decimals :: nat
  pt_contract :: string
  pt_callData :: string

record prepared_transfer =
  pr_id :: string
  pr_chain :: chain
  pr_asset :: string
  pr_amount :: string
  pr_to :: string
  pr_fee :: string
  pr_token :: "prepared_token option"

text \<open>The fields of an \<open>ethers.Transaction\<close> that are read; an absent \<open>data\<close> is the empty string.\<close>

record signed_tx =
  sx_to :: "string option"
  sx_value :: int
  sx_chainId :: int
  sx_data :: string

record verified_tx =
  vx_to :: string
  vx_value :: string
  vx_chainId :: string
  vx_kind :: string

text \<open>What a request is served with; \<open>ee_now n\<close> is its \<open>n\<close>-th reading of the clock.\<close>

record ext_env =
  ee_compare :: "string \<Rightarrow> string \<Rightarrow> bool"
  ee_now :: "nat \<Rightarrow> int"
  ee_onChain :: "string \<Rightarrow> chain \<Rightarrow> thrown + verify_answer"
  ee_modules :: chain_modules
  ee_canon :: "string \<Rightarrow> string"
  ee_intentId :: string
  ee_txId :: string
  ee_decodeTx :: "string \<Rightarrow> thrown + signed_tx"
  ee_decodeTransfer :: "string \<Rightarrow> thrown + (string \<times> int)"
  ee_enqueue :: "thrown option"

abbreviation ee_chainEnv :: "ext_env \<Rightarrow> chain_env" where
  "ee_chainEnv env \<equiv> cm_env (ee_modules env)"

abbreviation ee_parse :: "ext_env \<Rightarrow> parse_units" where
  "ee_parse env \<equiv> el_parse (cm_lib (ee_modules env))"

section \<open>Prepare\<close>

definition resolveAsset :: "chain_env \<Rightarrow> chain \<Rightarrow> string \<Rightarrow> thrown + token_config option" where
  "resolveAsset env c asset =
     (case resolveToken env c (Some asset) None of
        Some token \<Rightarrow> Inr (Some token)
      | None \<Rightarrow>
          if asset = NATIVE_ASSETS c then Inr None
          else let available = NATIVE_ASSETS c # map tk_symbol (listTokens env c None);
                   hint = '' Supported on '' @ chain_name c @ '': '' @ js_join '', '' available @ ''.''
               in fail 400 (asset @ '' transfers are not supported on '' @ chain_name c @ ''.'' @ hint))"

definition isAtLeast :: "parse_units \<Rightarrow> string \<Rightarrow> string \<Rightarrow> nat \<Rightarrow> bool" where
  "isAtLeast parse available required decimals =
     (case then_do (toBaseUnits parse available decimals) (\<lambda>a. then_do (toBaseUnits parse required decimals) (\<lambda>r. Inr (a \<ge> r))) of
        Inr b \<Rightarrow> b
      | Inl _ \<Rightarrow> False)"

text \<open>The branch \<open>if (token)\<close>: the call to sign, and the check of the token balance.\<close>

definition prepareToken :: "ext_env \<Rightarrow> chain_adapter \<Rightarrow> token_config \<Rightarrow> transfer_input \<Rightarrow> chain \<Rightarrow> thrown + token_plan" where
  "prepareToken env adapter token ti c =
     (case ca_buildTokenTransfer adapter of
        None \<Rightarrow> fail 501 (''Token transfers are not supported on '' @ chain_name c)
      | Some build \<Rightarrow>
          (case build ti (Some token) of
             Inl _ \<Rightarrow> fail 502 ''Could not build the token transfer right now. Try again shortly.''
           | Inr tokenPlan \<Rightarrow>
               (case ca_getTokenBalance adapter of
                  None \<Rightarrow> fail 501 (''Token balance checks are not supported on '' @ chain_name c)
                | Some balanceOf \<Rightarrow>
                    then_do (balanceOf (ti_from ti) (ti_asset ti)) (\<lambda>available.
                      if \<not> isAtLeast (ee_parse env) available (ti_amount ti) (tk_decimals token)
                      then fail 400 (''Insufficient '' @ tk_symbol token @ '' balance. You have '' @ available @ '' '' @ tk_symbol token @ ''.'')
                      else Inr tokenPlan))))"

text \<open>The fee, and the gas check of the adapters that have both of its methods.\<close>

definition prepareFee :: "chain_adapter \<Rightarrow> transfer_input \<Rightarrow> chain \<Rightarrow> thrown + string" where
  "prepareFee adapter ti c =
     (case ca_estimateFee adapter ti of
        Inl _ \<Rightarrow> fail 502 ''Could not estimate the network fee right now. Try again shortly.''
      | Inr fee \<Rightarrow>
          (case (ca_canPayGas adapter, ca_getNativeBalance adapter) of
             (Some payable, Some nativeOf) \<Rightarrow>
               (case then_do (payable (ti_from ti) fee) (\<lambda>canPay. then_do (nativeOf (ti_from ti)) (\<lambda>b. Inr (canPay, b))) of
                  Inl _ \<Rightarrow> fail 502 ''Could not check your gas balance right now. Try again shortly.''
                | Inr (canPay, nativeBalance) \<Rightarrow>
                    if \<not> canPay
                    then fail 400 (''Insufficient '' @ nativeAssetFor c @ '' for network fees. You need about '' @ fee @ '' '' @
                           nativeAssetFor c @ '' and have '' @ nativeBalance @ ''.'')
                    else Inr fee)
           | _ \<Rightarrow> Inr fee))"

definition new_intent :: "ext_env \<Rightarrow> prepare_input \<Rightarrow> string \<Rightarrow> intent_row" where
  "new_intent env input fee =
     \<lparr>i_id = ee_intentId env, i_userId = xi_userId input, i_chain = xi_chain input, i_asset = xi_asset input,
      i_amount = ee_canon env (xi_amount input), i_recipient = xi_to input, i_fee = Some fee, i_status = READY,
      i_expiresAt = ee_now env 1 + INTENT_TTL_MS, i_usedAt = None, i_transactionId = None, i_createdAt = ee_now env 1\<rparr>"

text \<open>After the PIN: the recipient, the wallet, the token call, the fee.\<close>

definition prepareChecks :: "ext_env \<Rightarrow> chain_adapter \<Rightarrow> token_config option \<Rightarrow> prepare_input \<Rightarrow> world \<Rightarrow>
    thrown + (token_plan option \<times> string)" where
  "prepareChecks env adapter token input w =
     then_do (verifyAddressExists (ee_onChain env) (xi_to input) (xi_chain input)) (\<lambda>_.
       case find_wallet (xi_userId input) (xi_chain input) w of
         None \<Rightarrow> fail 400 (''You have no wallet on '' @ chain_name (xi_chain input))
       | Some wallet \<Rightarrow>
           (let ti = \<lparr>ti_from = w_address wallet, ti_to = xi_to input, ti_asset = xi_asset input, ti_amount = xi_amount input\<rparr>
            in then_do (case token of None \<Rightarrow> Inr None
                        | Some t \<Rightarrow> then_do (prepareToken env adapter t ti (xi_chain input)) (\<lambda>plan. Inr (Some plan))) (\<lambda>tokenPlan.
               then_do (prepareFee adapter ti (xi_chain input)) (\<lambda>fee. Inr (tokenPlan, fee)))))"

definition prepared :: "ext_env \<Rightarrow> prepare_input \<Rightarrow> token_config option \<Rightarrow> token_plan option \<Rightarrow> string \<Rightarrow> prepared_transfer" where
  "prepared env input token tokenPlan fee =
     \<lparr>pr_id = ee_intentId env, pr_chain = xi_chain input, pr_asset = xi_asset input, pr_amount = xi_amount input,
      pr_to = xi_to input, pr_fee = fee,
      pr_token = map_option (\<lambda>p. \<lparr>pt_symbol = tk_symbol (the token), pt_address = tk_address (tp_token p),
                                  pt_decimals = tk_decimals (tp_token p), pt_contract = tp_to p, pt_callData = tp_data p\<rparr>) tokenPlan\<rparr>"

definition prepare :: "ext_env \<Rightarrow> (nat \<Rightarrow> world \<Rightarrow> world) \<Rightarrow> prepare_input \<Rightarrow> prepared_transfer op" where
  "prepare env mid input w =
     (case getChainAdapter (ee_modules env) (xi_chain input) of
        Inl e \<Rightarrow> (Inl e, w)
      | Inr adapter \<Rightarrow>
          (case resolveAsset (ee_chainEnv env) (xi_chain input) (xi_asset input) of
             Inl e \<Rightarrow> (Inl e, w)
           | Inr token \<Rightarrow>
               if \<not> ca_isValidAddress adapter (xi_to input) then (fail 400 ''Recipient address failed validation'', w)
               else (case assertPinAuthorized (ee_compare env) (ee_now env 0) (xi_userId input) (xi_pin input) ''transfer'' w of
                       (Inl e, w1) \<Rightarrow> (Inl e, w1)
                     | (Inr _, w1) \<Rightarrow>
                         (let w2 = mid 0 w1
                          in case prepareChecks env adapter token input w2 of
                               Inl e \<Rightarrow> (Inl e, w2)
                             | Inr (tokenPlan, fee) \<Rightarrow>
                                 (let w3 = mid 1 w2
                                  in (Inr (prepared env input token tokenPlan fee),
                                      w3\<lparr>intents := intents w3 @ [new_intent env input fee]\<rparr>))))))"

section \<open>Verification of the signed transaction\<close>

definition verifyTokenCall :: "ext_env \<Rightarrow> intent_row \<Rightarrow> token_config \<Rightarrow> signed_tx \<Rightarrow> thrown + verified_tx" where
  "verifyTokenCall env intent token parsed =
     (if map_option toLowerCase (sx_to parsed) \<noteq> Some (toLowerCase (tk_address token))
      then fail 400 ''The signed transaction does not target the expected token contract''
      else if sx_value parsed \<noteq> 0 then fail 400 ''A token transfer must not attach a native value''
      else if sx_data parsed = [] \<or> sx_data parsed = ''0x'' then fail 400 ''The signed transaction is missing the token transfer call''
      else (case ee_decodeTransfer env (sx_data parsed) of
              Inl _ \<Rightarrow> fail 400 ''The signed transaction does not contain a valid token transfer''
            | Inr (to, amount) \<Rightarrow>
                if toLowerCase to \<noteq> toLowerCase (i_recipient intent)
                then fail 400 ''The signed token transfer pays a different recipient than the prepared transfer''
                else then_do (toBaseUnits (ee_parse env) (i_amount intent) (tk_decimals token)) (\<lambda>expected.
                       if amount \<noteq> expected
                       then fail 400 ''The signed token transfer amount does not match the prepared transfer''
                       else Inr \<lparr>vx_to = the (sx_to parsed), vx_value = ''0'', vx_chainId = show_int (sx_chainId parsed), vx_kind = ''erc20''\<rparr>)))"

definition verifyNative :: "ext_env \<Rightarrow> intent_row \<Rightarrow> signed_tx \<Rightarrow> thrown + verified_tx" where
  "verifyNative env intent parsed =
     (if map_option toLowerCase (sx_to parsed) \<noteq> Some (toLowerCase (i_recipient intent))
      then fail 400 ''The signed transaction does not match the prepared transfer''
      else then_do (toBaseUnits (ee_parse env) (i_amount intent) 18) (\<lambda>expected.
             if sx_value parsed \<noteq> expected then fail 400 ''The signed transaction does not match the prepared transfer''
             else if sx_data parsed \<noteq> [] \<and> sx_data parsed \<noteq> ''0x'' then fail 400 ''The signed transaction contains unexpected data''
             else Inr \<lparr>vx_to = the (sx_to parsed), vx_value = show_int (sx_value parsed), vx_chainId = show_int (sx_chainId parsed),
                       vx_kind = ''native''\<rparr>))"

definition verifySignedTransaction :: "ext_env \<Rightarrow> intent_row \<Rightarrow> string \<Rightarrow> thrown + verified_tx" where
  "verifySignedTransaction env intent signedTx =
     (if \<not> isEvmChain (i_chain intent)
      then fail 400 (''Signed-transaction verification is not implemented for '' @ chain_name (i_chain intent))
      else (case ee_decodeTx env signedTx of
              Inl _ \<Rightarrow> fail 400 ''The signed transaction could not be decoded''
            | Inr parsed \<Rightarrow>
                then_do (getEvmChainId (ee_chainEnv env) (i_chain intent)) (\<lambda>expectedChainId.
                  if sx_chainId parsed \<noteq> expectedChainId
                  then fail 400 ''The signed transaction targets a different network than the prepared transfer''
                  else (case resolveToken (ee_chainEnv env) (i_chain intent) (Some (i_asset intent)) None of
                          Some token \<Rightarrow> verifyTokenCall env intent token parsed
                        | None \<Rightarrow> verifyNative env intent parsed))))"

section \<open>The ERC-20 codec\<close>

text \<open>What the code relies on in ethers: the checksum form differs in case only, and the encoded call decodes to
  its arguments.\<close>

locale erc20_codec =
  fixes getAddress :: "string \<Rightarrow> thrown + string"
    and encode :: "string \<Rightarrow> int \<Rightarrow> thrown + string"
    and decode :: "string \<Rightarrow> thrown + (string \<times> int)"
  assumes checksum: "getAddress a = Inr b \<Longrightarrow> toLowerCase b = toLowerCase a"
    and encoded: "encode to v = Inr d \<Longrightarrow> d \<noteq> [] \<and> d \<noteq> ''0x'' \<and> (\<exists>r. decode d = Inr (r, v) \<and> toLowerCase r = toLowerCase to)"
begin

lemma plan_pays:
  assumes "getAddress a = Inr to" "encode to v = Inr d"
  shows "d \<noteq> [] \<and> d \<noteq> ''0x'' \<and> (\<exists>r. decode d = Inr (r, v) \<and> toLowerCase r = toLowerCase a)"
  using checksum [OF assms(1)] encoded [OF assms(2)] by simp

end

text \<open>The codec as the ABI documents it: the selector, then two words of 64 hexadecimal digits.\<close>

definition hex_char :: "nat \<Rightarrow> char" where
  "hex_char n = char_of (if n < 10 then 48 + n else 87 + n)"

definition hex_digit :: "char \<Rightarrow> nat" where
  "hex_digit c = (if is_digit c then code_of c - 48 else code_of c - 87)"

fun hex_word :: "nat \<Rightarrow> nat \<Rightarrow> string" where
  "hex_word 0 v = []"
| "hex_word (Suc n) v = hex_word n (v div 16) @ [hex_char (v mod 16)]"

definition hex_value :: "string \<Rightarrow> nat" where
  "hex_value s = foldl (\<lambda>n c. 16 * n + hex_digit c) 0 s"

definition documented_address :: "string \<Rightarrow> thrown + string" where
  "documented_address a = (if evm_isValidAddress a then Inr (toLowerCase a) else Inl (PlainError ''invalid address''))"

definition transfer_selector :: string where
  "transfer_selector = ''0xa9059cbb''"

definition documented_encode :: "string \<Rightarrow> int \<Rightarrow> thrown + string" where
  "documented_encode to v =
     (if \<not> evm_isValidAddress to then Inl (PlainError ''invalid address'')
      else if v < 0 \<or> v \<ge> 2 ^ 256 then Inl (PlainError ''value out-of-bounds'')
      else Inr (transfer_selector @ hex_word 24 0 @ toLowerCase (drop 2 to) @ hex_word 64 (nat v)))"

definition documented_decode :: "string \<Rightarrow> thrown + (string \<times> int)" where
  "documented_decode d =
     (if length d < 138 \<or> take 10 d \<noteq> transfer_selector then Inl (PlainError ''data out-of-bounds'')
      else Inr (''0x'' @ take 40 (drop 34 d), int (hex_value (take 64 (drop 74 d)))))"

lemma hex_digit_char: "n < 16 \<Longrightarrow> hex_digit (hex_char n) = n"
  by (simp add: hex_digit_def hex_char_def is_digit_def code_of_char_of)

lemma hex_word_length [simp]: "length (hex_word n v) = n"
  by (induction n arbitrary: v) simp_all

lemma hex_value_word: "v < 16 ^ n \<Longrightarrow> hex_value (hex_word n v) = v"
proof (induction n arbitrary: v)
  case (Suc n)
  have "v div 16 < 16 ^ n" using Suc.prems by (simp add: less_mult_imp_div_less mult.commute)
  then have "hex_value (hex_word n (v div 16)) = v div 16" by (rule Suc.IH)
  then show ?case by (simp add: hex_value_def hex_digit_char)
qed (simp add: hex_value_def)

lemma toLowerCase_append: "toLowerCase (s @ t) = toLowerCase s @ toLowerCase t"
  by (simp add: toLowerCase_def)

interpretation ethers_erc20: erc20_codec documented_address documented_encode documented_decode
proof
  show "documented_address a = Inr b \<Longrightarrow> toLowerCase b = toLowerCase a" for a b
    by (auto simp: documented_address_def split: if_splits)
  fix to v d
  assume e: "documented_encode to v = Inr d"
  then have v: "0 \<le> v" "v < 2 ^ 256" and t: "take 2 to = ''0x''" "length to = 42"
    and d: "d = transfer_selector @ hex_word 24 0 @ toLowerCase (drop 2 to) @ hex_word 64 (nat v)"
    by (auto simp: documented_encode_def evm_isValidAddress_def split: if_splits)
  have l: "length transfer_selector = 10" "length (toLowerCase (drop 2 to)) = 40" using t by (simp_all add: transfer_selector_def toLowerCase_def)
  have "nat v < 16 ^ 64" using v by (simp add: nat_less_iff)
  then have "documented_decode d = Inr (''0x'' @ toLowerCase (drop 2 to), v)"
    using l v by (simp add: documented_decode_def d hex_value_word del: hex_word.simps)
  moreover have "toLowerCase (''0x'' @ toLowerCase (drop 2 to)) = toLowerCase to"
    using t(1) by (metis append_take_drop_id toLowerCase_append toLowerCase_idem)
  moreover have "length d = 138" using l by (simp add: d del: hex_word.simps)
  ultimately show "d \<noteq> [] \<and> d \<noteq> ''0x'' \<and> (\<exists>r. documented_decode d = Inr (r, v) \<and> toLowerCase r = toLowerCase to)"
    by auto
qed

section \<open>Lemmas on prepare and verification\<close>

lemma resolveAsset_token: "resolveAsset env c asset = Inr token \<Longrightarrow> resolveToken env c (Some asset) None = token"
  by (auto simp: resolveAsset_def fail_def Let_def split: option.splits if_splits)

lemma prepareToken_built:
  assumes "prepareToken env adapter t ti c = Inr plan"
  obtains build where "ca_buildTokenTransfer adapter = Some build" "build ti (Some t) = Inr plan"
  using assms by (auto simp: prepareToken_def fail_def split: option.splits sum.splits if_splits)

lemma prepareChecks_Inr:
  assumes "prepareChecks env adapter token input w = Inr (plan, fee)"
  shows "\<exists>sender. case token of None \<Rightarrow> plan = None
     | Some t \<Rightarrow> \<exists>pl. plan = Some pl \<and> prepareToken env adapter t
         \<lparr>ti_from = sender, ti_to = xi_to input, ti_asset = xi_asset input, ti_amount = xi_amount input\<rparr> (xi_chain input) = Inr pl"
  using assms by (auto simp: prepareChecks_def fail_def Let_def split: option.splits)

lemma prepare_Inr:
  assumes "prepare env mid input w = (Inr p, w')"
  obtains token plan fee w2 where
    "resolveAsset (ee_chainEnv env) (xi_chain input) (xi_asset input) = Inr token"
    "prepareChecks env (adapter_of (ee_modules env) (xi_chain input)) token input w2 = Inr (plan, fee)"
    "p = prepared env input token plan fee"
    "w' = (mid 1 w2)\<lparr>intents := intents (mid 1 w2) @ [new_intent env input fee]\<rparr>"
  using assms by (auto simp: prepare_def getChainAdapter_eq fail_def Let_def split: sum.splits if_splits prod.splits)

text \<open>The token call that \<open>prepare\<close> hands out, for an EVM chain.\<close>

lemma plan_fields:
  assumes "buildTokenTransfer a input (Some t) = Inr pl"
  shows "tp_to pl = tk_address t \<and> tp_token pl = t \<and>
         (\<exists>to v. el_getAddress (ea_lib a) (ti_to input) = Inr to \<and>
           toBaseUnits (el_parse (ea_lib a)) (ti_amount input) (tk_decimals t) = Inr v \<and>
           el_encodeTransfer (ea_lib a) to v = Inr (tp_data pl))"
  using assms by (auto simp: buildTokenTransfer_def Let_def split: if_splits)

lemma evm_plan:
  assumes "isEvmChain (xi_chain input)"
    and "prepareChecks env (adapter_of (ee_modules env) (xi_chain input)) (Some t) input w2 = Inr (plan, fee)"
  obtains pl to v where "plan = Some pl" "tp_to pl = tk_address t" "tp_token pl = t"
    "el_getAddress (cm_lib (ee_modules env)) (xi_to input) = Inr to"
    "toBaseUnits (ee_parse env) (xi_amount input) (tk_decimals t) = Inr v"
    "el_encodeTransfer (cm_lib (ee_modules env)) to v = Inr (tp_data pl)"
proof -
  obtain sender pl where pl: "plan = Some pl" "prepareToken env (adapter_of (ee_modules env) (xi_chain input)) t
      \<lparr>ti_from = sender, ti_to = xi_to input, ti_asset = xi_asset input, ti_amount = xi_amount input\<rparr> (xi_chain input) = Inr pl"
    using prepareChecks_Inr [OF assms(2)] by auto
  obtain build where "ca_buildTokenTransfer (adapter_of (ee_modules env) (xi_chain input)) = Some build"
    "build \<lparr>ti_from = sender, ti_to = xi_to input, ti_asset = xi_asset input, ti_amount = xi_amount input\<rparr> (Some t) = Inr pl"
    using prepareToken_built [OF pl(2)] .
  then have "buildTokenTransfer (evm_of (ee_modules env) (xi_chain input))
      \<lparr>ti_from = sender, ti_to = xi_to input, ti_asset = xi_asset input, ti_amount = xi_amount input\<rparr> (Some t) = Inr pl"
    by (simp add: adapter_evm [OF assms(1)] of_evm_def)
  from plan_fields [OF this] show ?thesis using that pl(1) by (auto simp: evm_of_def)
qed

text \<open>What the signed transaction must be, for an amount whose units are known.\<close>

definition pays_token :: "ext_env \<Rightarrow> string \<Rightarrow> string \<Rightarrow> int \<Rightarrow> signed_tx \<Rightarrow> bool" where
  "pays_token env contract recipient units s \<longleftrightarrow>
     map_option toLowerCase (sx_to s) = Some (toLowerCase contract) \<and> sx_value s = 0 \<and>
     sx_data s \<noteq> [] \<and> sx_data s \<noteq> ''0x'' \<and>
     (\<exists>r. ee_decodeTransfer env (sx_data s) = Inr (r, units) \<and> toLowerCase r = toLowerCase recipient)"

definition pays_native :: "string \<Rightarrow> int \<Rightarrow> signed_tx \<Rightarrow> bool" where
  "pays_native recipient units s \<longleftrightarrow>
     map_option toLowerCase (sx_to s) = Some (toLowerCase recipient) \<and> sx_value s = units \<and> (sx_data s = [] \<or> sx_data s = ''0x'')"

lemma verifyTokenCall_iff:
  assumes "toBaseUnits (ee_parse env) (i_amount i) (tk_decimals t) = Inr units"
  shows "(\<exists>v. verifyTokenCall env i t s = Inr v) \<longleftrightarrow> pays_token env (tk_address t) (i_recipient i) units s"
  using assms by (cases "ee_decodeTransfer env (sx_data s)") (auto simp: verifyTokenCall_def pays_token_def fail_def split: if_splits)

lemma verifyNative_iff:
  assumes "toBaseUnits (ee_parse env) (i_amount i) 18 = Inr units"
  shows "(\<exists>v. verifyNative env i s = Inr v) \<longleftrightarrow> pays_native (i_recipient i) units s"
  using assms by (auto simp: verifyNative_def pays_native_def fail_def split: if_splits)

lemma verify_evm:
  assumes "isEvmChain (i_chain i)" "ee_decodeTx env tx = Inr s"
  shows "(\<exists>v. verifySignedTransaction env i tx = Inr v) \<longleftrightarrow>
         getEvmChainId (ee_chainEnv env) (i_chain i) = Inr (sx_chainId s) \<and>
         (\<exists>v. (case resolveToken (ee_chainEnv env) (i_chain i) (Some (i_asset i)) None of
                Some t \<Rightarrow> verifyTokenCall env i t s | None \<Rightarrow> verifyNative env i s) = Inr v)"
  using assms by (cases "getEvmChainId (ee_chainEnv env) (i_chain i)") (auto simp: verifySignedTransaction_def fail_def)

text \<open>The units a prepared amount stands for: the token's, or the native 18 decimals.\<close>

definition unit_places :: "token_config option \<Rightarrow> nat" where
  "unit_places token = (case token of Some t \<Rightarrow> tk_decimals t | None \<Rightarrow> 18)"

lemma prepared_units:
  assumes codec: "unit_codec (ee_parse env) format" and column: "amount_column (ee_canon env)"
    and a: "plain_decimal a" "decimalPlacesOf a \<le> 18" "10 ^ 12 \<le> scaled a 18" "decimalPlacesOf a \<le> d" "scaled a d < UNIT_LIMIT"
  shows "toBaseUnits (ee_parse env) a d = Inr (scaled a d)" "toBaseUnits (ee_parse env) (ee_canon env a) d = Inr (scaled a d)"
  using unit_codec.to_exact [OF codec, of a d] unit_codec.to_exact [OF codec, of "ee_canon env a" d]
    amount_column.same_value [OF column a(1-4)] a by simp_all

section \<open>A small deployment\<close>

definition demo_usdt :: token_config where
  "demo_usdt = seed BSC 56 ''USDT'' ''Binance-Peg Tether USD'' ''0x55d398326f99059fF775485246999027B3197955'' 18"

definition demo_rpc :: rpc where
  "demo_rpc = \<lparr>rpc_getBalance = (\<lambda>_. Inr (10 ^ 18)), rpc_balanceOf = (\<lambda>_ _. Inr (2 * 10 ^ 18)), rpc_feeData = Inr (Some 1, None, None),
     rpc_broadcast = (\<lambda>_. Inr ''0xh''), rpc_receipt = (\<lambda>_. Inr (Some 1))\<rparr>"

definition demo_modules :: chain_modules where
  "demo_modules = \<lparr>cm_env = demo_chain_env,
     cm_lib = \<lparr>el_getAddress = documented_address, el_encodeTransfer = documented_encode, el_parse = documented_parse, el_format = documented_format\<rparr>,
     cm_provider = (\<lambda>_. Some demo_rpc), cm_sol = demo_sol,
     cm_ton = \<lparr>tn_client = None, tn_rawAddress = Inr, tn_parse = documented_parse, tn_format = documented_format\<rparr>,
     cm_tron = \<lparr>tr_client = None, tr_jsonParse = (\<lambda>_. Inr JNull), tr_parse = documented_parse, tr_format = documented_format\<rparr>,
     cm_btc = \<lparr>bl_url = None, bl_user = None, bl_password = None, bl_base64 = (\<lambda>s. s), bl_fetch = (\<lambda>_ _ _. Inl NotAnError)\<rparr>\<rparr>"

definition demo_signed :: "string \<Rightarrow> thrown + signed_tx" where
  "demo_signed t =
     (if t = ''token''
      then then_do (documented_encode (toLowerCase demo_addr) (15 * 10 ^ 17)) (\<lambda>d.
             Inr \<lparr>sx_to = Some ''0x55d398326f99059fF775485246999027B3197955'', sx_value = 0, sx_chainId = 56, sx_data = d\<rparr>)
      else if t = ''native''
      then Inr \<lparr>sx_to = Some demo_addr, sx_value = 15 * 10 ^ 17, sx_chainId = 11155111, sx_data = ''0x''\<rparr>
      else Inl (PlainError ''invalid''))"

definition demo_ext :: ext_env where
  "demo_ext = \<lparr>ee_compare = demo_compare, ee_now = (\<lambda>_. 0), ee_onChain = sd_onChain demo_send_env, ee_modules = demo_modules,
     ee_canon = decimal_text, ee_intentId = ''i1'', ee_txId = ''t1'', ee_decodeTx = demo_signed, ee_decodeTransfer = documented_decode,
     ee_enqueue = None\<rparr>"

definition demo_prepare :: "chain \<Rightarrow> string \<Rightarrow> string \<Rightarrow> prepare_input" where
  "demo_prepare c asset amount = \<lparr>xi_userId = ''u2'', xi_chain = c, xi_asset = asset, xi_amount = amount, xi_to = demo_addr, xi_pin = ''123456''\<rparr>"

definition demo_wallet_world :: world where
  "demo_wallet_world = demo_world\<lparr>wallets := [\<lparr>w_id = ''w1'', w_userId = ''u2'', w_chain = BSC, w_address = demo_addr, w_createdAt = 0\<rparr>,
     \<lparr>w_id = ''w2'', w_userId = ''u2'', w_chain = ETH, w_address = demo_addr, w_createdAt = 0\<rparr>]\<rparr>"

lemma demo_pin: "fst (assertPinAuthorized demo_compare now ''u2'' ''123456'' ''transfer'' (demo_world\<lparr>wallets := ws\<rparr>)) = Inr ()"
  by (simp add: assertPinAuthorized_def getLockState_def demo_simps)

lemma demo_units: "plain_decimal ''1.5''" "decimalPlacesOf ''1.5'' = 1" "scaled ''1.5'' 18 = 15 * 10 ^ 17"
  "toBaseUnits documented_parse ''1.5'' 18 = Inr (15 * 10 ^ 17)"
proof -
  show p: "plain_decimal ''1.5''" "decimalPlacesOf ''1.5'' = 1" "scaled ''1.5'' 18 = 15 * 10 ^ 17"
    by (simp_all add: amount_eval scaled_def scaled_nat_def)
  then show "toBaseUnits documented_parse ''1.5'' 18 = Inr (15 * 10 ^ 17)"
    using ethers_units.to_exact [of "''1.5''" 18] by (simp add: UNIT_LIMIT_def)
qed

text \<open>An EVM request past its PIN and its recipient check: only the token call and the fee remain.\<close>

lemma prepare_evm:
  assumes "isEvmChain (xi_chain input)" "resolveAsset (ee_chainEnv env) (xi_chain input) (xi_asset input) = Inr token"
    and "isValidAddress (xi_chain input) (xi_to input)"
    and "fst (assertPinAuthorized (ee_compare env) (ee_now env 0) (xi_userId input) (xi_pin input) ''transfer'' w) = Inr ()"
    and "prepareChecks env (of_evm (evm_of (ee_modules env) (xi_chain input))) token input w = Inr (plan, fee)"
  shows "\<exists>w'. prepare env quiet input w = (Inr (prepared env input token plan fee), w')"
proof -
  obtain w1 where w1: "assertPinAuthorized (ee_compare env) (ee_now env 0) (xi_userId input) (xi_pin input) ''transfer'' w = (Inr (), w1)"
    using assms(4) by (metis prod.collapse)
  have "wallets w1 = wallets w" using pin_frame_simps [OF pin_frame_assert] w1 by (metis snd_conv)
  then have "prepareChecks env a token input w1 = prepareChecks env a token input w" for a
    by (simp add: prepareChecks_def find_wallet_def)
  then show ?thesis
    using assms w1 adapter_isValidAddress [of "ee_modules env" "xi_chain input"]
    by (simp add: prepare_def getChainAdapter_eq adapter_evm)
qed

text \<open>The fee check passes when the balance covers the gas; the token check when it covers the amount.\<close>

lemma evm_fee:
  assumes codec: "unit_codec (el_parse (ea_lib a)) (el_format (ea_lib a))"
    and p: "ea_provider a = Some p" "rpc_feeData p = Inr (Some g, x, y)" "rpc_getBalance p (ti_from ti) = Inr b"
    and g: "0 < g" "g * TOKEN_TRANSFER_GAS \<le> b" "g * TOKEN_TRANSFER_GAS < UNIT_LIMIT"
  shows "\<exists>fee. prepareFee (of_evm a) ti c = Inr fee"
proof -
  obtain lim where lim: "estimateFee a ti = gasCost a lim" "0 \<le> lim" "lim \<le> TOKEN_TRANSFER_GAS"
    by (cases "findToken a (ti_asset ti) = None") (auto simp: estimateFee_def TOKEN_TRANSFER_GAS_def NATIVE_TRANSFER_GAS_def)
  then have "g * lim \<le> g * TOKEN_TRANSFER_GAS" "0 \<le> g * lim" using g(1) by simp_all
  then have "g * lim \<le> b" "0 \<le> g * lim" "g * lim < UNIT_LIMIT" using g(2,3) by linarith+
  then show ?thesis
    using lim(1) p g(1) unit_codec.round_trip [OF codec, of "g * lim" "ea_nativeDecimals a"]
    by (simp add: prepareFee_def of_evm_def gasCost_def requireProvider_def canPayGas_def getNativeBalance_def)
qed

lemma evm_token_call:
  assumes codec: "unit_codec (ee_parse env) (el_format (cm_lib (ee_modules env)))"
    and p: "cm_provider (ee_modules env) c = Some p" "rpc_balanceOf p (tk_address t) (ti_from ti) = Inr b" "0 \<le> b" "b < UNIT_LIMIT"
    and t: "isEvmChain c" "tokenFor (evm_of (ee_modules env) c) (ti_asset ti) = Inr t" "tk_chainId t = ea_chainId (evm_of (ee_modules env) c)"
    and call: "el_getAddress (cm_lib (ee_modules env)) (ti_to ti) = Inr to" "toBaseUnits (ee_parse env) (ti_amount ti) (tk_decimals t) = Inr v"
      "el_encodeTransfer (cm_lib (ee_modules env)) to v = Inr d" "v \<le> b"
  shows "\<exists>plan. prepareToken env (of_evm (evm_of (ee_modules env) c)) t ti c = Inr plan"
  using p t(2,3) call unit_codec.round_trip [OF codec p(3,4), of "tk_decimals t"]
  by (simp add: prepareToken_def of_evm_def buildTokenTransfer_def getTokenBalance_def requireProvider_def evm_of_def isAtLeast_def Let_def)

lemma demo_token_found: "tokenFor (evm_of demo_modules BSC) ''USDT'' = Inr demo_usdt"
  "resolveAsset demo_chain_env BSC ''USDT'' = Inr (Some demo_usdt)" "resolveAsset demo_chain_env ETH ''ETH'' = Inr None"
  "ea_chainId (evm_of demo_modules BSC) = 56"
proof -
  show c: "ea_chainId (evm_of demo_modules BSC) = 56"
    by (simp add: evm_of_def demo_modules_def getEvmChainId_def isEvmChain_def EVM_CHAINS_def demo_chain_env_def)
  show "resolveAsset demo_chain_env BSC ''USDT'' = Inr (Some demo_usdt)"
    using demo_bsc_usdt by (simp add: resolveAsset_def demo_usdt_def)
  show "resolveAsset demo_chain_env ETH ''ETH'' = Inr None"
    by (simp add: resolveAsset_def resolveToken_Some resolveToken_def listTokens_def getEvmChainId_def isEvmChain_def EVM_CHAINS_def
        demo_chain_env_def SEEDS_def seed_def applyOverrides_def bySymbol_def toUpperCase_def upper_char_def is_lower_def code_of_def)
  show "tokenFor (evm_of demo_modules BSC) ''USDT'' = Inr demo_usdt"
    using c unfolding tokenFor_def findToken_def tokensForChain_def
    by (simp add: evm_of_def demo_modules_def listTokens_def getEvmChainId_def isEvmChain_def EVM_CHAINS_def
        demo_chain_env_def SEEDS_def demo_usdt_def seed_def applyOverrides_def bySymbol_def toUpperCase_def upper_char_def is_lower_def code_of_def)
qed

lemma demo_addr_codec: "evm_isValidAddress demo_addr" "toLowerCase demo_addr = demo_addr" "documented_address demo_addr = Inr demo_addr"
proof -
  show v: "evm_isValidAddress demo_addr" using demo_addr_valid by simp
  show "toLowerCase demo_addr = demo_addr"
    by (simp add: demo_addr_def toLowerCase_def lower_char_def is_upper_def code_of_def)
  then show "documented_address demo_addr = Inr demo_addr" using v by (simp add: documented_address_def)
qed

lemma demo_modules:
  "ee_modules demo_ext = demo_modules" "el_getAddress (cm_lib demo_modules) = documented_address"
  "el_encodeTransfer (cm_lib demo_modules) = documented_encode" "el_parse (cm_lib demo_modules) = documented_parse"
  "el_format (cm_lib demo_modules) = documented_format" "cm_provider demo_modules c = Some demo_rpc"
  by (simp_all add: demo_ext_def demo_modules_def)

lemma demo_fields:
  "ee_onChain demo_ext = sd_onChain demo_send_env" "xi_chain (demo_prepare c asset amount) = c"
  "xi_asset (demo_prepare c asset amount) = asset" "xi_amount (demo_prepare c asset amount) = amount"
  "xi_to (demo_prepare c asset amount) = demo_addr" "xi_userId (demo_prepare c asset amount) = ''u2''"
  by (simp_all add: demo_ext_def demo_prepare_def)

lemma demo_prepared:
  assumes "c = BSC \<and> token = Some demo_usdt \<and> asset = ''USDT'' \<or> c = ETH \<and> token = None \<and> asset = ''ETH''"
    and "toBaseUnits documented_parse amount 18 = Inr v" "0 \<le> v" "v \<le> 2 * 10 ^ 18"
  shows "\<exists>p w'. prepare demo_ext quiet (demo_prepare c asset amount) demo_wallet_world = (Inr p, w')"
proof -
  let ?in = "demo_prepare c asset amount" and ?a = "evm_of demo_modules c"
  let ?ti = "\<lparr>ti_from = demo_addr, ti_to = demo_addr, ti_asset = asset, ti_amount = amount\<rparr>"
  have c: "isEvmChain c" "isValidAddress c demo_addr" "resolveAsset demo_chain_env c asset = Inr token"
    using assms(1) demo_addr_valid demo_token_found by (auto simp: isEvmChain_def EVM_CHAINS_def)
  have wallet: "\<exists>x. find_wallet ''u2'' c demo_wallet_world = Some x \<and> w_address x = demo_addr"
    using assms(1) by (auto simp: find_wallet_def demo_wallet_world_def)
  obtain fee where fee: "prepareFee (of_evm ?a) ?ti c = Inr fee"
    using evm_fee [of ?a demo_rpc 1 None None ?ti "10 ^ 18" c] ethers_units.unit_codec_axioms
    by (auto simp: evm_of_def demo_modules_def demo_rpc_def TOKEN_TRANSFER_GAS_def UNIT_LIMIT_def)
  have "\<exists>plan. (case token of None \<Rightarrow> Inr None
        | Some t \<Rightarrow> then_do (prepareToken demo_ext (of_evm ?a) t ?ti c) (\<lambda>plan. Inr (Some plan))) = Inr plan"
  proof (cases token)
    case (Some t)
    then have t: "t = demo_usdt" "c = BSC" "asset = ''USDT''" "tk_decimals t = 18" "tk_chainId t = 56"
      using assms(1) by (auto simp: demo_usdt_def seed_def)
    have "documented_encode demo_addr v = Inr (transfer_selector @ hex_word 24 0 @ toLowerCase (drop 2 demo_addr) @ hex_word 64 (nat v))"
      using demo_addr_codec assms(3,4) by (simp add: documented_encode_def del: hex_word.simps)
    then have "\<exists>plan. prepareToken demo_ext (of_evm (evm_of (ee_modules demo_ext) c)) t ?ti c = Inr plan"
      using t demo_token_found demo_addr_codec ethers_units.unit_codec_axioms assms(2-4) c(1) demo_modules
      by (intro evm_token_call [where p = demo_rpc and b = "2 * 10 ^ 18" and v = v and to = demo_addr])
        (simp_all add: demo_rpc_def UNIT_LIMIT_def)
    then show ?thesis using Some by (auto simp: demo_modules(1))
  qed simp
  then obtain plan where plan: "(case token of None \<Rightarrow> Inr None
        | Some t \<Rightarrow> then_do (prepareToken demo_ext (of_evm ?a) t ?ti c) (\<lambda>plan. Inr (Some plan))) = Inr plan" ..
  have "prepareChecks demo_ext (of_evm ?a) token ?in demo_wallet_world = Inr (plan, fee)"
    using wallet plan fee c(2) unfolding prepareChecks_def demo_fields
    by (auto simp: demo_send_env_def verifyAddressExists_def)
  then show ?thesis
    using prepare_evm [of ?in demo_ext token demo_wallet_world plan fee] c demo_pin
    by (auto simp: demo_prepare_def demo_ext_def demo_modules_def demo_wallet_world_def)
qed

section \<open>Properties\<close>



end
