(* ===== verification/ExternalSubmit.thy ===== *)
theory ExternalSubmit
  imports ExternalTransfer
begin

text \<open>
  Submitting a prepared transfer: the second half of
  \<^verbatim>\<open>src/src/services/transaction/externalTransfer.service.ts\<close>.  The intent is claimed by one conditional
  update, the signed transaction verified against it, the ledger row created and linked, and the
  broadcast queued; what fails before the row exists releases the intent, what fails after marks the
  row \<open>FAILED\<close>.
\<close>

section \<open>Submit\<close>

definition sentView :: "tx_row \<Rightarrow> tx_view" where
  "sentView row = \<lparr>tv_row = row, tv_direction = ''sent'', tv_counterpartyAccountId = t_recipientAddress row\<rparr>"

definition find_intent :: "string \<Rightarrow> world \<Rightarrow> intent_row option" where
  "find_intent intentId w = find_row (\<lambda>i. i_id i = intentId) (intents w)"

definition claimable :: "int \<Rightarrow> string \<Rightarrow> string \<Rightarrow> intent_row \<Rightarrow> bool" where
  "claimable now userId intentId i \<longleftrightarrow> i_id i = intentId \<and> i_userId i = userId \<and> i_status i = READY \<and> i_expiresAt i > now"

definition releaseIntent :: "string \<Rightarrow> world \<Rightarrow> world" where
  "releaseIntent intentId w =
     w\<lparr>intents := update_rows (\<lambda>i. i_id i = intentId \<and> i_status i = USED \<and> i_transactionId i = None)
         (\<lambda>i. i\<lparr>i_status := READY, i_usedAt := None\<rparr>) (intents w)\<rparr>"

definition intent_tx :: "ext_env \<Rightarrow> string \<Rightarrow> string \<Rightarrow> intent_row \<Rightarrow> tx_row" where
  "intent_tx env userId key intent =
     \<lparr>t_id = ee_txId env, t_senderId = userId, t_recipientAccountId = None, t_recipientAddress = Some (i_recipient intent),
      t_asset = i_asset intent, t_amount = i_amount intent, t_network = i_chain intent, t_feeAmount = None,
      t_status = TxPENDING, t_txHash = None, t_idempotencyKey = Some key, t_createdAt = ee_now env 3\<rparr>"

text \<open>After the ledger row exists: link the intent, queue the broadcast; any failure marks the row \<open>FAILED\<close>.\<close>

definition submitCreated :: "ext_env \<Rightarrow> string \<Rightarrow> string \<Rightarrow> intent_row \<Rightarrow> tx_row \<Rightarrow> tx_view op" where
  "submitCreated env intentId signedTx intent row w =
     (let failed = set_tx_status (\<lambda>t. t_id t = t_id row) TxFAILED
      in case update_row (\<lambda>i. i_id i = intentId) (\<lambda>i. i\<lparr>i_transactionId := Some (t_id row)\<rparr>) (intents w) of
           Inl e \<Rightarrow> (Inl e, failed w)
         | Inr rows \<Rightarrow>
             (let w1 = w\<lparr>intents := rows\<rparr>
              in case ee_enqueue env of
                   Some e \<Rightarrow> (Inl e, failed w1)
                 | None \<Rightarrow> (Inr \<lparr>tv_row = row, tv_direction = ''sent'', tv_counterpartyAccountId = Some (i_recipient intent)\<rparr>,
                            w1\<lparr>txQueue := txQueue w1 @ [process_job (t_id row) signedTx]\<rparr>)))"

text \<open>The claim succeeded.\<close>

definition submitClaimed :: "ext_env \<Rightarrow> (nat \<Rightarrow> world \<Rightarrow> world) \<Rightarrow> string \<Rightarrow> string \<Rightarrow> string \<Rightarrow> string \<Rightarrow> tx_view op" where
  "submitClaimed env mid userId intentId signedTx key w =
     (let w1 = mid 4 w
      in case find_intent intentId w1 of
           None \<Rightarrow> (Inl (TypeError ''chain''), releaseIntent intentId (mid 5 w1))
         | Some intent \<Rightarrow>
             (case verifySignedTransaction env intent signedTx of
                Inl e \<Rightarrow> (Inl e, releaseIntent intentId (mid 5 w1))
              | Inr _ \<Rightarrow>
                  (let w2 = mid 6 w1; row = intent_tx env userId key intent
                   in case create_row t_idempotencyKey row (transactions w2) of
                        Inr rows \<Rightarrow> submitCreated env intentId signedTx intent row (w2\<lparr>transactions := rows\<rparr>)
                      | Inl err \<Rightarrow>
                          if \<not> isUniqueConstraintViolation err then (Inl err, releaseIntent intentId w2)
                          else (let w3 = mid 7 w2
                                in case findByIdempotencyKey key userId w3 of
                                     None \<Rightarrow> (Inl err, releaseIntent intentId w3)
                                   | Some winner \<Rightarrow> (Inr (sentView winner), releaseIntent intentId w3)))))"

text \<open>The claim matched no row: a replay that raced, or the reason why.\<close>

definition submitUnclaimed :: "ext_env \<Rightarrow> (nat \<Rightarrow> world \<Rightarrow> world) \<Rightarrow> string \<Rightarrow> string \<Rightarrow> string \<Rightarrow> tx_view op" where
  "submitUnclaimed env mid userId intentId key w =
     (let w1 = mid 2 w
      in case findByIdempotencyKey key userId w1 of
           Some raced \<Rightarrow> (Inr (sentView raced), w1)
         | None \<Rightarrow>
             (let w2 = mid 3 w1
              in case find_intent intentId w2 of
                   None \<Rightarrow> (fail 404 ''Transfer intent not found'', w2)
                 | Some intent \<Rightarrow>
                     if i_userId intent \<noteq> userId then (fail 404 ''Transfer intent not found'', w2)
                     else if i_status intent = USED then (fail 409 ''This transfer was already submitted'', w2)
                     else if i_expiresAt intent \<le> ee_now env 2
                     then (fail 410 ''This transfer intent has expired. Start the transfer again.'', w2)
                     else (fail 409 ''This transfer can no longer be submitted'', w2)))"

definition submit :: "ext_env \<Rightarrow> (nat \<Rightarrow> world \<Rightarrow> world) \<Rightarrow> string \<Rightarrow> string \<Rightarrow> string \<Rightarrow> string \<Rightarrow> tx_view op" where
  "submit env mid userId intentId signedTx key w =
     (let w0 = mid 0 w
      in case findByIdempotencyKey key userId w0 of
           Some existing \<Rightarrow> (Inr (sentView existing), w0)
         | None \<Rightarrow>
             (let w1 = mid 1 w0;
                  P = claimable (ee_now env 0) userId intentId;
                  claimed = count_rows P (intents w1);
                  w2 = w1\<lparr>intents := update_rows P (\<lambda>i. i\<lparr>i_status := USED, i_usedAt := Some (ee_now env 1)\<rparr>) (intents w1)\<rparr>
              in if claimed \<noteq> 1 then submitUnclaimed env mid userId intentId key w2
                 else submitClaimed env mid userId intentId signedTx key w2))"

section \<open>Lemmas on the intent's row\<close>

abbreviation intent_ids :: "world \<Rightarrow> bool" where
  "intent_ids w \<equiv> unique_on (\<lambda>i. Some (i_id i)) (intents w)"

lemma update_by_id:
  assumes "unique_on (\<lambda>i. Some (key i)) rows" "r \<in> set rows" "key r = k"
    and "\<And>s. key s \<noteq> k \<Longrightarrow> \<not> P s \<and> \<not> Q s" and "(if P r then f r else r) = (if Q r then g r else r)"
  shows "update_rows P f rows = update_rows Q g rows"
  unfolding update_rows_def
proof (rule map_cong [OF refl])
  fix s assume "s \<in> set rows"
  show "(if P s then f s else s) = (if Q s then g s else s)"
  proof (cases "key s = k")
    case True
    then have "s = r" using unique_on_eq [OF assms(1) \<open>s \<in> set rows\<close> assms(2)] assms(3) by simp
    then show ?thesis using assms(5) by (simp only:)
  next
    case False
    then show ?thesis using assms(4) by simp
  qed
qed

lemma find_intent_Some: "find_intent k w = Some i \<Longrightarrow> i \<in> set (intents w) \<and> i_id i = k"
  unfolding find_intent_def by (auto dest: find_row_Some)

lemma find_intent_None: "find_intent k w = None \<longleftrightarrow> (\<forall>i \<in> set (intents w). i_id i \<noteq> k)"
  by (simp add: find_intent_def find_row_None)

lemma claim_count:
  assumes "intent_ids w" "find_intent k w = Some i"
  shows "count_rows (claimable now userId k) (intents w) = (if claimable now userId k i then 1 else 0)"
proof -
  have i: "i \<in> set (intents w)" "i_id i = k" using find_intent_Some [OF assms(2)] by simp_all
  have "find_row (\<lambda>s. Some (i_id s) = Some k) (intents w) = Some i"
    using find_row_unique [OF assms(1) i(1)] i(2) by simp
  then show ?thesis
    using count_keyed [OF assms(1), of k "\<lambda>i. i_userId i = userId \<and> i_status i = READY \<and> i_expiresAt i > now"] i(2)
    by (simp add: claimable_def [abs_def])
qed

lemma claim_none: "find_intent k w = None \<Longrightarrow> count_rows (claimable now userId k) (intents w) = 0"
  by (auto simp: find_intent_None count_rows_0 claimable_def)

lemma claim_nothing: "count_rows (claimable now userId k) rows = 0 \<Longrightarrow> update_rows (claimable now userId k) f rows = rows"
  by (rule update_rows_none) (simp add: count_rows_0)

text \<open>The claimed row, released, is the row that was claimed.\<close>

definition claim :: "ext_env \<Rightarrow> string \<Rightarrow> string \<Rightarrow> world \<Rightarrow> world" where
  "claim env userId k w = w\<lparr>intents := update_rows (claimable (ee_now env 0) userId k)
     (\<lambda>i. i\<lparr>i_status := USED, i_usedAt := Some (ee_now env 1)\<rparr>) (intents w)\<rparr>"

lemma release_claim:
  assumes "intent_ids w" "find_intent k w = Some i" "claimable (ee_now env 0) userId k i" "i_usedAt i = None" "i_transactionId i = None"
  shows "releaseIntent k (claim env userId k w) = w"
proof -
  have i: "i \<in> set (intents w)" "i_id i = k" using find_intent_Some [OF assms(2)] by simp_all
  have s: "i_status i = READY" using assms(3) by (simp add: claimable_def)
  have "update_rows (\<lambda>i. i_id i = k \<and> i_status i = USED \<and> i_transactionId i = None) (\<lambda>i. i\<lparr>i_status := READY, i_usedAt := None\<rparr>)
      (update_rows (claimable (ee_now env 0) userId k) (\<lambda>i. i\<lparr>i_status := USED, i_usedAt := Some (ee_now env 1)\<rparr>) (intents w)) = intents w"
    unfolding update_rows_def map_map
  proof (rule map_idI)
    fix x assume x: "x \<in> set (intents w)"
    have "x = i" if "i_id x = k" using unique_on_eq [OF assms(1) x i(1)] that i(2) by simp
    then show "((\<lambda>i. if i_id i = k \<and> i_status i = USED \<and> i_transactionId i = None then i\<lparr>i_status := READY, i_usedAt := None\<rparr> else i) \<circ>
        (\<lambda>i. if claimable (ee_now env 0) userId k i then i\<lparr>i_status := USED, i_usedAt := Some (ee_now env 1)\<rparr> else i)) x = x"
      using assms(3-5) s by (cases "i_id x = k") (auto simp: claimable_def)
  qed
  then show ?thesis by (simp add: releaseIntent_def claim_def)
qed

lemma submit_eq:
  "submit env mid userId k signedTx key w =
     (case findByIdempotencyKey key userId (mid 0 w) of
        Some existing \<Rightarrow> (Inr (sentView existing), mid 0 w)
      | None \<Rightarrow>
          (let w1 = mid 1 (mid 0 w)
           in if count_rows (claimable (ee_now env 0) userId k) (intents w1) \<noteq> 1
              then submitUnclaimed env mid userId k key (claim env userId k w1)
              else submitClaimed env mid userId k signedTx key (claim env userId k w1)))"
  unfolding submit_def claim_def Let_def ..

lemma claim_simps [simp]: "transactions (claim env userId k w) = transactions w" "txQueue (claim env userId k w) = txQueue w"
  by (simp_all add: claim_def)

lemma find_after_claim:
  assumes "intent_ids w" "find_intent k w = Some i" "claimable (ee_now env 0) userId k i"
  shows "find_intent k (claim env userId k w) = Some (i\<lparr>i_status := USED, i_usedAt := Some (ee_now env 1)\<rparr>)"
proof -
  have "find_intent k (claim env userId k w) =
      map_option (\<lambda>r. if claimable (ee_now env 0) userId k r then r\<lparr>i_status := USED, i_usedAt := Some (ee_now env 1)\<rparr> else r) (find_intent k w)"
    by (simp add: find_intent_def claim_def find_row_update_rows del: One_nat_def)
  then show ?thesis using assms by simp
qed

text \<open>Verification reads the chain, the asset, the amount and the recipient only.\<close>

lemma verify_cong:
  "verifySignedTransaction env (i\<lparr>i_status := s, i_usedAt := u\<rparr>) tx = verifySignedTransaction env i tx"
proof -
  have f: "i_chain (i\<lparr>i_status := s, i_usedAt := u\<rparr>) = i_chain i" "i_asset (i\<lparr>i_status := s, i_usedAt := u\<rparr>) = i_asset i"
    "i_amount (i\<lparr>i_status := s, i_usedAt := u\<rparr>) = i_amount i" "i_recipient (i\<lparr>i_status := s, i_usedAt := u\<rparr>) = i_recipient i"
    by simp_all
  show ?thesis unfolding verifySignedTransaction_def verifyTokenCall_def verifyNative_def f ..
qed

section \<open>One request alone\<close>

lemma submitUnclaimed_reason:
  assumes "findByIdempotencyKey key userId w = None"
  shows "submitUnclaimed env quiet userId k key w =
     (case find_intent k w of
        None \<Rightarrow> (fail 404 ''Transfer intent not found'', w)
      | Some i \<Rightarrow>
          if i_userId i \<noteq> userId then (fail 404 ''Transfer intent not found'', w)
          else if i_status i = USED then (fail 409 ''This transfer was already submitted'', w)
          else if i_expiresAt i \<le> ee_now env 2 then (fail 410 ''This transfer intent has expired. Start the transfer again.'', w)
          else (fail 409 ''This transfer can no longer be submitted'', w))"
  using assms by (simp add: submitUnclaimed_def)

text \<open>The intent after a submit that created its row.\<close>

definition spent :: "ext_env \<Rightarrow> string \<Rightarrow> string \<Rightarrow> world \<Rightarrow> world" where
  "spent env userId k w = w\<lparr>intents := update_rows (\<lambda>i. i_id i = k)
     (\<lambda>i. i\<lparr>i_status := USED, i_usedAt := Some (ee_now env 1), i_transactionId := Some (ee_txId env)\<rparr>) (intents w)\<rparr>"

lemma spent_eq:
  assumes "intent_ids w" "find_intent k w = Some i" "claimable (ee_now env 0) userId k i"
  shows "update_rows (\<lambda>i. i_id i = k) (\<lambda>i. i\<lparr>i_transactionId := Some (ee_txId env)\<rparr>) (intents (claim env userId k w)) =
         intents (spent env userId k w)"
proof -
  have i: "i \<in> set (intents w)" "i_id i = k" using find_intent_Some [OF assms(2)] by simp_all
  have "update_rows (claimable (ee_now env 0) userId k) (\<lambda>i. i\<lparr>i_status := USED, i_usedAt := Some (ee_now env 1)\<rparr>) (intents w) =
      update_rows (\<lambda>i. i_id i = k) (\<lambda>i. i\<lparr>i_status := USED, i_usedAt := Some (ee_now env 1)\<rparr>) (intents w)"
    using assms(3) i(2) by (intro update_by_id [OF assms(1) i(1) i(2)]) (auto simp: claimable_def)
  then show ?thesis by (simp add: claim_def spent_def update_rows_def)
qed

lemma submitClaimed_alone:
  assumes i: "intent_ids w" "find_intent k w = Some i" "claimable (ee_now env 0) userId k i" "i_usedAt i = None" "i_transactionId i = None"
    and free: "\<forall>t \<in> set (transactions w). t_idempotencyKey t \<noteq> Some key \<and> t_id t \<noteq> ee_txId env"
  shows "submitClaimed env quiet userId k signedTx key (claim env userId k w) =
     (case verifySignedTransaction env i signedTx of
        Inl e \<Rightarrow> (Inl e, w)
      | Inr _ \<Rightarrow>
          (case ee_enqueue env of
             None \<Rightarrow> (Inr (sentView (intent_tx env userId key i)),
                      (spent env userId k w)\<lparr>transactions := transactions w @ [intent_tx env userId key i],
                        txQueue := txQueue w @ [process_job (ee_txId env) signedTx]\<rparr>)
           | Some e \<Rightarrow> (Inl e, (spent env userId k w)\<lparr>transactions := transactions w @ [(intent_tx env userId key i)\<lparr>t_status := TxFAILED\<rparr>]\<rparr>)))"
proof -
  let ?i = "i\<lparr>i_status := USED, i_usedAt := Some (ee_now env 1)\<rparr>" and ?t = "intent_tx env userId key i"
  note found = find_after_claim [OF i(1-3)]
  have row: "intent_tx env userId key ?i = ?t" "t_id ?t = ee_txId env" by (simp_all add: intent_tx_def)
  have c: "create_row t_idempotencyKey ?t (transactions w) = Inr (transactions w @ [?t])"
    using free by (simp add: create_row_def intent_tx_def)
  have u: "update_row (\<lambda>i. i_id i = k) (\<lambda>i. i\<lparr>i_transactionId := Some (ee_txId env)\<rparr>) (intents (claim env userId k w)) =
      Inr (intents (spent env userId k w))"
    using found spent_eq [OF i(1-3)] by (simp add: update_row_def find_intent_def)
  have f: "update_rows (\<lambda>t. t_id t = ee_txId env) (\<lambda>t. t\<lparr>t_status := TxFAILED\<rparr>) (transactions w) = transactions w"
    using free by (intro update_rows_none) simp
  show ?thesis
    using release_claim [OF i] found c u f
    by (simp add: submitClaimed_def submitCreated_def verify_cong row Let_def set_tx_status_def sentView_def intent_tx_def
        update_rows_append claim_def spent_def split: sum.split option.split)
qed

section \<open>Single use under interleaving\<close>

definition open_intent :: "string \<Rightarrow> string \<Rightarrow> world \<Rightarrow> bool" where
  "open_intent userId k w \<longleftrightarrow> (\<exists>i \<in> set (intents w). i_id i = k \<and> i_userId i = userId \<and> i_status i = READY)"

text \<open>What a run of requests about one intent may do: queue at most one job, and only by closing the open
  intent for good; a closed intent stays closed.\<close>

definition single_use :: "string \<Rightarrow> string \<Rightarrow> world \<Rightarrow> world \<Rightarrow> bool" where
  "single_use userId k w w' \<longleftrightarrow> intent_ids w \<longrightarrow> intent_ids w' \<and>
     (open_intent userId k w' \<longrightarrow> open_intent userId k w) \<and>
     (\<exists>jobs. txQueue w' = txQueue w @ jobs \<and> length jobs \<le> 1 \<and>
        (jobs \<noteq> [] \<longrightarrow> open_intent userId k w \<and> \<not> open_intent userId k w'))"

lemma single_use_refl [simp]: "single_use userId k w w"
  by (simp add: single_use_def)

lemma single_use_trans: "single_use userId k w w1 \<Longrightarrow> single_use userId k w1 w2 \<Longrightarrow> single_use userId k w w2"
  unfolding single_use_def by (elim impCE conjE exE; simp; fastforce)

lemma single_use_quiet: "txQueue w' = txQueue w \<Longrightarrow> intents w' = intents w \<Longrightarrow> single_use userId k w w'"
  by (simp add: single_use_def open_intent_def)

lemma claim_intents: "intents (claim env userId k w) = update_rows (claimable (ee_now env 0) userId k)
     (\<lambda>i. i\<lparr>i_status := USED, i_usedAt := Some (ee_now env 1)\<rparr>) (intents w)"
  by (simp add: claim_def)

lemma claim_closes: "intent_ids w \<Longrightarrow> count_rows (claimable (ee_now env 0) userId k) (intents w) = 1 \<Longrightarrow>
   open_intent userId k w \<and> \<not> open_intent userId k (claim env userId k w) \<and> intent_ids (claim env userId k w)"
proof -
  assume u: "intent_ids w" and c: "count_rows (claimable (ee_now env 0) userId k) (intents w) = 1"
  then obtain i where i: "find_intent k w = Some i" "claimable (ee_now env 0) userId k i"
    using claim_none [of k w] claim_count [OF u, of k] by (metis not_None_eq zero_neq_one)
  then have r: "i \<in> set (intents w)" "i_id i = k" using find_intent_Some by auto
  have "\<not> (i_id x = k \<and> i_status x = READY)" if x: "x \<in> set (intents (claim env userId k w))" for x
  proof -
    obtain s where s: "s \<in> set (intents w)" "x = (if claimable (ee_now env 0) userId k s
        then s\<lparr>i_status := USED, i_usedAt := Some (ee_now env 1)\<rparr> else s)"
      using x unfolding claim_intents in_update_rows by blast
    show ?thesis
    proof (cases "i_id s = k")
      case True
      then have "s = i" using unique_on_eq [OF u s(1) r(1)] r(2) by simp
      then show ?thesis using s(2) i(2) by simp
    next
      case False
      then show ?thesis using s(2) by simp
    qed
  qed
  then have "\<not> open_intent userId k (claim env userId k w)" unfolding open_intent_def by blast
  moreover have "open_intent userId k w" using r i(2) unfolding open_intent_def claimable_def by blast
  moreover have "intent_ids (claim env userId k w)" using u by (simp add: claim_def unique_on_update_rows)
  ultimately show ?thesis by blast
qed

text \<open>Once claimed, whatever the rest of the request does, it is within the rules.\<close>

lemma release_simps [simp]: "txQueue (releaseIntent k w) = txQueue w" "intent_ids (releaseIntent k w) = intent_ids w"
  by (simp_all add: releaseIntent_def unique_on_update_rows)

lemma submitCreated_single:
  assumes "\<not> open_intent userId k w" "intent_ids w"
    and w': "w' = snd (submitCreated env k tx i row w)"
  shows "intent_ids w' \<and> (\<exists>jobs. txQueue w' = txQueue w @ jobs \<and> length jobs \<le> 1 \<and> (jobs \<noteq> [] \<longrightarrow> \<not> open_intent userId k w'))"
proof (cases "update_row (\<lambda>i. i_id i = k) (\<lambda>i. i\<lparr>i_transactionId := Some (t_id row)\<rparr>) (intents w)")
  case (Inl e)
  then show ?thesis using assms(2) by (simp add: w' submitCreated_def Let_def set_tx_status_def)
next
  case (Inr rows)
  then have r: "rows = update_rows (\<lambda>i. i_id i = k) (\<lambda>i. i\<lparr>i_transactionId := Some (t_id row)\<rparr>) (intents w)"
    by (simp add: update_row_Inr)
  have ids: "unique_on (\<lambda>i. Some (i_id i)) rows" using assms(2) unfolding r by (simp add: unique_on_update_rows)
  have closed: "\<not> (i_id x = k \<and> i_userId x = userId \<and> i_status x = READY)" if x: "x \<in> set rows" for x
  proof -
    obtain s where "s \<in> set (intents w)" "x = (if i_id s = k then s\<lparr>i_transactionId := Some (t_id row)\<rparr> else s)"
      using x unfolding r in_update_rows by blast
    then show ?thesis using assms(1) unfolding open_intent_def by (cases "i_id s = k") auto
  qed
  show ?thesis
  proof (cases "ee_enqueue env")
    case None
    then have "w' = w\<lparr>intents := rows, txQueue := txQueue w @ [process_job (t_id row) tx]\<rparr>"
      using Inr by (simp add: w' submitCreated_def)
    then show ?thesis using ids closed by (simp add: open_intent_def)
  next
    case (Some e)
    then have "w' = set_tx_status (\<lambda>t. t_id t = t_id row) TxFAILED (w\<lparr>intents := rows\<rparr>)"
      using Inr by (simp add: w' submitCreated_def)
    then show ?thesis using ids by (simp add: set_tx_status_def)
  qed
qed

lemma submitClaimed_single:
  assumes mid: "\<And>n w. single_use userId k w (mid n w)"
    and w: "\<not> open_intent userId k w" "intent_ids w"
    and w': "w' = snd (submitClaimed env mid userId k tx key w)"
  shows "intent_ids w' \<and> (\<exists>jobs. txQueue w' = txQueue w @ jobs \<and> length jobs \<le> 1 \<and> (jobs \<noteq> [] \<longrightarrow> \<not> open_intent userId k w'))"
proof -
  have step: "\<not> open_intent userId k (mid n x) \<and> intent_ids (mid n x) \<and> txQueue (mid n x) = txQueue x"
    if "\<not> open_intent userId k x" "intent_ids x" for n x
    using mid [of x n] that by (auto simp: single_use_def)
  let ?w1 = "mid 4 w"
  note s1 = step [OF w, of 4]
  note s5 = step [OF conjunct1 [OF s1] conjunct1 [OF conjunct2 [OF s1]], of 5]
  note s6 = step [OF conjunct1 [OF s1] conjunct1 [OF conjunct2 [OF s1]], of 6]
  note s7 = step [OF conjunct1 [OF s6] conjunct1 [OF conjunct2 [OF s6]], of 7]
  show ?thesis
  proof (cases "\<exists>i v. find_intent k ?w1 = Some i \<and> verifySignedTransaction env i tx = Inr v")
    case False
    then have "w' = releaseIntent k (mid 5 ?w1)"
      by (auto simp: w' submitClaimed_def Let_def split: option.split sum.split)
    then show ?thesis using s1 s5 by simp
  next
    case True
    then obtain i v where i: "find_intent k ?w1 = Some i" "verifySignedTransaction env i tx = Inr v" by blast
    let ?row = "intent_tx env userId key i" and ?w2 = "mid 6 ?w1"
    show ?thesis
    proof (cases "create_row t_idempotencyKey ?row (transactions ?w2)")
      case (Inl e)
      then have "w' \<in> {releaseIntent k ?w2, releaseIntent k (mid 7 ?w2)}"
        using i by (auto simp: w' submitClaimed_def Let_def split: option.split)
      then show ?thesis using s1 s6 s7 by auto
    next
      case (Inr rows)
      then have c: "w' = snd (submitCreated env k tx i ?row (?w2\<lparr>transactions := rows\<rparr>))"
        using i by (simp add: w' submitClaimed_def Let_def)
      have "\<not> open_intent userId k (?w2\<lparr>transactions := rows\<rparr>)" "intent_ids (?w2\<lparr>transactions := rows\<rparr>)"
        using s6 by (simp_all add: open_intent_def)
      from submitCreated_single [OF this c] show ?thesis using s1 s6 by simp
    qed
  qed
qed

lemma submitUnclaimed_single:
  assumes mid: "\<And>n w. single_use userId k w (mid n w)"
  shows "single_use userId k w (snd (submitUnclaimed env mid userId k key w))"
proof -
  have "snd (submitUnclaimed env mid userId k key w) \<in> {mid 2 w, mid 3 (mid 2 w)}"
    by (auto simp: submitUnclaimed_def Let_def split: option.split)
  moreover have "single_use userId k w (mid 2 w)" "single_use userId k w (mid 3 (mid 2 w))"
    using mid single_use_trans by blast+
  ultimately show ?thesis by (elim insertE emptyE) simp_all
qed

lemma submit_single:
  assumes mid: "\<And>n w. single_use userId k w (mid n w)"
  shows "single_use userId k w (snd (submit env mid userId k tx key w))"
proof (cases "findByIdempotencyKey key userId (mid 0 w)")
  case (Some t)
  then show ?thesis using mid by (simp add: submit_eq)
next
  case None
  let ?w1 = "mid 1 (mid 0 w)" and ?P = "claimable (ee_now env 0) userId k"
  have w1: "single_use userId k w ?w1" using mid single_use_trans by blast
  show ?thesis
  proof (cases "count_rows ?P (intents ?w1) = 1")
    case False
    have "single_use userId k ?w1 (claim env userId k ?w1)"
    proof (cases "intent_ids ?w1")
      case True
      then have "count_rows ?P (intents ?w1) = 0"
        using False claim_none [of k ?w1] claim_count [OF True, of k] by (cases "find_intent k ?w1") (auto split: if_splits)
      then show ?thesis by (simp add: claim_def claim_nothing)
    qed (simp add: single_use_def)
    then have "single_use userId k w (claim env userId k ?w1)" using w1 single_use_trans by blast
    then have "single_use userId k w (snd (submitUnclaimed env mid userId k key (claim env userId k ?w1)))"
      using single_use_trans [OF _ submitUnclaimed_single [where mid = mid, OF mid]] by blast
    then show ?thesis using None False by (simp add: submit_eq Let_def)
  next
    case True
    have "single_use userId k ?w1 (snd (submitClaimed env mid userId k tx key (claim env userId k ?w1)))"
      unfolding single_use_def
    proof (intro impI)
      assume u: "intent_ids ?w1"
      from claim_closes [OF u True] submitClaimed_single [OF mid _ _ refl, where w = "claim env userId k ?w1" and env = env and tx = tx and key = key]
      show "intent_ids (snd (submitClaimed env mid userId k tx key (claim env userId k ?w1))) \<and>
        (open_intent userId k (snd (submitClaimed env mid userId k tx key (claim env userId k ?w1))) \<longrightarrow> open_intent userId k ?w1) \<and>
        (\<exists>jobs. txQueue (snd (submitClaimed env mid userId k tx key (claim env userId k ?w1))) = txQueue ?w1 @ jobs \<and> length jobs \<le> 1 \<and>
          (jobs \<noteq> [] \<longrightarrow> open_intent userId k ?w1 \<and> \<not> open_intent userId k (snd (submitClaimed env mid userId k tx key (claim env userId k ?w1)))))"
        by auto
    qed
    then show ?thesis using w1 single_use_trans None True by (auto simp: submit_eq Let_def)
  qed
qed

section \<open>Properties\<close>


definition demo_intent :: intent_row where
  "demo_intent = \<lparr>i_id = ''i1'', i_userId = ''u2'', i_chain = ETH, i_asset = ''ETH'', i_amount = ''1.5'', i_recipient = demo_addr,
     i_fee = None, i_status = READY, i_expiresAt = 600000, i_usedAt = None, i_transactionId = None, i_createdAt = 0\<rparr>"

definition demo_intents :: world where
  "demo_intents = demo_world\<lparr>intents := [demo_intent]\<rparr>"

lemma demo_verified: "\<exists>v. verifySignedTransaction demo_ext demo_intent ''native'' = Inr v"
proof -
  have "resolveToken demo_chain_env ETH (Some ''ETH'') None = None" by (rule resolveAsset_token [OF demo_token_found(3)])
  then show ?thesis using demo_units(4)
    by (simp add: verifySignedTransaction_def verifyNative_def demo_intent_def demo_ext_def demo_modules_def demo_signed_def
        getEvmChainId_def isEvmChain_def EVM_CHAINS_def demo_chain_env_def)
qed

lemma demo_intent_facts: "intent_ids demo_intents" "transactions demo_intents = []" "find_intent ''i1'' demo_intents = Some demo_intent"
  "\<forall>i \<in> set (intents demo_intents). i_status i = READY \<longrightarrow> i_usedAt i = None \<and> i_transactionId i = None" "txQueue demo_intents = []"
  by (simp_all add: demo_intents_def demo_intent_def find_intent_def unique_on_Cons demo_world_def empty_world_def)




text \<open>Some prepared transfers can never be submitted.  \<open>prepare\<close> accepts a chain that is not an EVM chain, and
  an amount below a millionth, but for the intent it stored no signed transaction whatever passes the
  verification of \<open>submit\<close>: the chain is refused, or the stored amount, printed in exponent notation,
  is no decimal to the conversion.\<close>

lemma unsubmittable_intents:
  assumes prep: "prepare env mid input w = (Inr p, w')"
    and column: "amount_column (ee_canon env)" and exponent: "\<And>s d. CHR ''e'' \<in> set s \<Longrightarrow> \<exists>e. ee_parse env s d = Inl e"
    and amount: "assertValidAmount None None None (xi_amount input) = Inr ()"
    and small: "\<not> isEvmChain (xi_chain input) \<or> scaled (xi_amount input) 18 < 10 ^ 12"
  shows "\<exists>e. verifySignedTransaction env (last (intents w')) signedTx = Inl e"
proof -
  obtain fee where i: "last (intents w') = new_intent env input fee"
    by (rule prepare_Inr [OF prep]) auto
  show ?thesis
  proof (cases "isEvmChain (xi_chain input)")
    case False
    then show ?thesis by (simp add: i new_intent_def verifySignedTransaction_def fail_def)
  next
    case True
    then have s: "scaled (xi_amount input) 18 < 10 ^ 12" using small by simp
    have "CHR ''e'' \<in> set (ee_canon env (xi_amount input))"
      using amount_column.small_text [OF column _ _ _ s] valid_amount_plain [OF amount] by blast
    then have no: "\<nexists>u. toBaseUnits (ee_parse env) (ee_canon env (xi_amount input)) d = Inr u" for d
      using exponent [of "ee_canon env (xi_amount input)" d] by (auto simp: toBaseUnits_def)
    have "\<nexists>v. verifySignedTransaction env (new_intent env input fee) signedTx = Inr v"
      using no by (auto simp: verifySignedTransaction_def verifyTokenCall_def verifyNative_def new_intent_def fail_def
          split: if_splits sum.splits option.splits)
    then show ?thesis by (cases "verifySignedTransaction env (new_intent env input fee) signedTx") (auto simp: i)
  qed
qed

end
