(* ===== verification/Sockets.thy ===== *)
theory Sockets
  imports Jwt
begin

text \<open>
  Real-time delivery: the room registry and connection handler of
  \<^verbatim>\<open>src/src/websocket/socket.handler.ts\<close> and the Redis bridge of \<^verbatim>\<open>src/src/websocket/emit.ts\<close>.  A
  socket is a number; whether it is open and whether \<open>send\<close> throws are arguments.  A frame is kept
  as what it was built from; \<open>parse\<close> stands for \<open>JSON.parse\<close> of an envelope.  The life of a
  connection is a step relation, because the handler awaits the authentication before it registers
  the \<open>close\<close> listener.
\<close>

datatype frame = EventFrame string "(string \<times> string option) list" | ConnectedFrame string | PongFrame string

type_synonym rooms = "(string \<times> nat list) list"

definition room :: "string \<Rightarrow> rooms \<Rightarrow> nat list option" where
  "room userId rs = map_of rs userId"

text \<open>\<open>Set.add\<close> keeps the insertion order and ignores a member.\<close>

definition set_add :: "nat \<Rightarrow> nat list \<Rightarrow> nat list" where
  "set_add s xs = (if s \<in> set xs then xs else xs @ [s])"

definition set_room :: "string \<Rightarrow> nat list \<Rightarrow> rooms \<Rightarrow> rooms" where
  "set_room userId xs rs =
     (if map_of rs userId = None then rs @ [(userId, xs)]
      else map (\<lambda>(u, ys). if u = userId then (u, xs) else (u, ys)) rs)"

definition addToRoom :: "string \<Rightarrow> nat \<Rightarrow> rooms \<Rightarrow> rooms" where
  "addToRoom userId s rs = set_room userId (set_add s (nullish (room userId rs) [])) rs"

definition removeFromRoom :: "string \<Rightarrow> nat \<Rightarrow> rooms \<Rightarrow> rooms" where
  "removeFromRoom userId s rs =
     (case room userId rs of
        None \<Rightarrow> rs
      | Some r \<Rightarrow>
          let r' = filter (\<lambda>x. x \<noteq> s) r
          in if r' = [] then filter (\<lambda>(u, _). u \<noteq> userId) rs else set_room userId r' rs)"

text \<open>\<open>publishFrameToUser\<close>: the sockets the frame was delivered to, in room order.\<close>

definition publishFrameToUser :: "(nat \<Rightarrow> bool) \<Rightarrow> (nat \<Rightarrow> bool) \<Rightarrow> string \<Rightarrow> frame \<Rightarrow> rooms \<Rightarrow> (nat \<times> frame) list" where
  "publishFrameToUser is_open sends userId fr rs =
     (if userId = [] then []
      else (case room userId rs of
              None \<Rightarrow> []
            | Some r \<Rightarrow> map (\<lambda>s. (s, fr)) (filter (\<lambda>s. is_open s \<and> sends s) r)))"

definition publishToUser ::
  "(nat \<Rightarrow> bool) \<Rightarrow> (nat \<Rightarrow> bool) \<Rightarrow> string \<Rightarrow> string \<Rightarrow> (string \<times> string option) list \<Rightarrow> rooms \<Rightarrow> (nat \<times> frame) list" where
  "publishToUser is_open sends userId event payload rs =
     (if userId = [] \<or> event = [] then []
      else publishFrameToUser is_open sends userId (EventFrame event payload) rs)"

definition roomOccupancy :: "rooms \<Rightarrow> (string \<times> nat) list" where
  "roomOccupancy rs = map (\<lambda>(u, xs). (u, length xs)) rs"

section \<open>The Redis bridge\<close>

definition publishUserEvent :: "user_event \<Rightarrow> world \<Rightarrow> world" where
  "publishUserEvent ev w =
     (if ev_userId ev = [] \<or> ev_event ev = [] then w else w\<lparr>published := published w @ [ev]\<rparr>)"

text \<open>The subscriber's message listener.\<close>

definition bridgeMessage ::
  "(string \<Rightarrow> user_event option) \<Rightarrow> (nat \<Rightarrow> bool) \<Rightarrow> (nat \<Rightarrow> bool) \<Rightarrow> string \<Rightarrow> rooms \<Rightarrow> (nat \<times> frame) list" where
  "bridgeMessage parse is_open sends message rs =
     (case parse message of
        None \<Rightarrow> []
      | Some envelope \<Rightarrow>
          if ev_userId envelope = [] \<or> ev_event envelope = [] then []
          else publishFrameToUser is_open sends (ev_userId envelope) (EventFrame (ev_event envelope) (ev_payload envelope)) rs)"

section \<open>Admission\<close>

text \<open>\<open>tokenFrom\<close>: the query parameter, else the first \<open>sec-websocket-protocol\<close> header value.\<close>

definition tokenFrom :: "string option \<Rightarrow> string option \<Rightarrow> string option" where
  "tokenFrom query header =
     (if truthy query then query
      else (case header of
              Some raw \<Rightarrow>
                if startsWith (toLowerCase raw) ''bearer,''
                then (let t = js_trim (drop (length ''bearer,'') raw) in if t = [] then None else Some t)
                else None
            | None \<Rightarrow> None))"

text \<open>
  The server's view: the rooms, the sockets of \<open>wss.clients\<close>, which sockets are still open, which wait
  for their authentication, and the user an admitted socket belongs to.
\<close>

record ws_state =
  userRooms :: rooms
  clients :: "nat list"
  open_sockets :: "nat list"
  pending_auth :: "(nat \<times> string option) list"
  socket_user :: "(nat \<times> string) list"
  seen :: "nat list"

definition admit :: "string \<Rightarrow> nat \<Rightarrow> ws_state \<Rightarrow> ws_state" where
  "admit userId s st =
     st\<lparr>socket_user := (s, userId) # socket_user st, clients := set_add s (clients st),
        userRooms := addToRoom userId s (userRooms st)\<rparr>"

definition on_close :: "string \<Rightarrow> nat \<Rightarrow> ws_state \<Rightarrow> ws_state" where
  "on_close userId s st =
     st\<lparr>userRooms := removeFromRoom userId s (userRooms st), clients := filter (\<lambda>x. x \<noteq> s) (clients st)\<rparr>"

text \<open>
  A connection opens with its token; the awaited authentication ends with a verdict \<open>auth\<close> on that
  token; a socket closes at any time, and its listener runs only if it was registered by then.
\<close>

inductive ws_step :: "(string option \<Rightarrow> auth_reply) \<Rightarrow> ws_state \<Rightarrow> ws_state \<Rightarrow> bool" for auth where
  connect: "s \<notin> set (seen st) \<Longrightarrow>
    ws_step auth st (st\<lparr>open_sockets := s # open_sockets st, pending_auth := (s, tok) # pending_auth st, seen := s # seen st\<rparr>)"
| reject: "(s, tok) \<in> set (pending_auth st) \<Longrightarrow> auth tok = Unauthorized reason \<Longrightarrow>
    ws_step auth st (st\<lparr>pending_auth := filter (\<lambda>p. fst p \<noteq> s) (pending_auth st),
      open_sockets := filter (\<lambda>x. x \<noteq> s) (open_sockets st)\<rparr>)"
| accept: "(s, tok) \<in> set (pending_auth st) \<Longrightarrow> auth tok = Authorized userId \<Longrightarrow>
    ws_step auth st (admit userId s (st\<lparr>pending_auth := filter (\<lambda>p. fst p \<noteq> s) (pending_auth st)\<rparr>))"
| closed: "s \<in> set (open_sockets st) \<Longrightarrow>
    ws_step auth st ((case map_of (socket_user st) s of
        Some userId \<Rightarrow> on_close userId s st | None \<Rightarrow> st)\<lparr>open_sockets := filter (\<lambda>x. x \<noteq> s) (open_sockets st)\<rparr>)"

inductive_cases ws_stepE: "ws_step auth st st'"

section \<open>Lemmas\<close>

lemma map_of_set_room [simp]: "map_of (set_room u xs rs) v = (if v = u then Some xs else map_of rs v)"
proof (cases "map_of rs u")
  case None
  then show ?thesis by (simp add: set_room_def map_of_eq_None_iff map_add_def split: option.split)
    (metis map_of_eq_None_iff not_None_eq)
next
  case (Some ys)
  have "map_of (map (\<lambda>(a, b). if a = u then (a, xs) else (a, b)) rs) v =
      (if v = u then (if map_of rs u = None then None else Some xs) else map_of rs v)"
    by (induction rs) auto
  then show ?thesis using Some by (simp add: set_room_def)
qed

lemma map_of_filter_ne [simp]: "map_of (filter (\<lambda>(x, _). x \<noteq> u) rs) v = (if v = u then None else map_of rs v)"
  by (induction rs) auto

lemma room_add: "room v (addToRoom u s rs) = (if v = u then Some (set_add s (nullish (room u rs) [])) else room v rs)"
  by (simp add: addToRoom_def room_def)

lemma room_remove:
  "room v (removeFromRoom u s rs) =
     (if v = u then (case room u rs of None \<Rightarrow> None
        | Some r \<Rightarrow> if filter (\<lambda>x. x \<noteq> s) r = [] then None else Some (filter (\<lambda>x. x \<noteq> s) r))
      else room v rs)"
  by (auto simp: removeFromRoom_def room_def Let_def split: option.split)

lemma delivered_iff:
  "(s, f) \<in> set (publishFrameToUser is_open sends userId fr rs) \<longleftrightarrow>
     userId \<noteq> [] \<and> (\<exists>r. room userId rs = Some r \<and> s \<in> set r) \<and> is_open s \<and> sends s \<and> f = fr"
  by (cases "room userId rs") (auto simp: publishFrameToUser_def)

text \<open>
  The invariant: a socket sits only in the room of the user it was authenticated as, rooms are not
  empty, sockets waiting for their verdict belong to nobody yet.
\<close>

definition ws_inv :: "(string option \<Rightarrow> auth_reply) \<Rightarrow> ws_state \<Rightarrow> bool" where
  "ws_inv auth st \<longleftrightarrow>
     (\<forall>u r s. room u (userRooms st) = Some r \<and> s \<in> set r \<longrightarrow>
        map_of (socket_user st) s = Some u \<and> (\<exists>tok. auth tok = Authorized u)) \<and>
     (\<forall>u. room u (userRooms st) \<noteq> Some []) \<and>
     (\<forall>s tok. (s, tok) \<in> set (pending_auth st) \<longrightarrow> map_of (socket_user st) s = None \<and> s \<in> set (seen st)) \<and>
     (\<forall>s u. map_of (socket_user st) s = Some u \<longrightarrow> s \<in> set (seen st))"

lemma set_add_set [simp]: "set (set_add s xs) = insert s (set xs)"
  by (auto simp: set_add_def)

lemma set_add_ne [simp]: "set_add s xs \<noteq> []"
  by (auto simp: set_add_def)

lemma ws_inv_step:
  assumes "ws_step auth st st'" "ws_inv auth st"
  shows "ws_inv auth st'"
  using assms(1)
proof (cases rule: ws_step.cases)
  case (connect s tok)
  then show ?thesis using assms(2) by (fastforce simp: ws_inv_def)
next
  case (reject s tok reason)
  then show ?thesis using assms(2) by (auto simp: ws_inv_def)
next
  case (accept s tok userId)
  have s: "map_of (socket_user st) s = None" "s \<in> set (seen st)"
    using accept(2) assms(2) by (auto simp: ws_inv_def)
  then have fresh: "\<And>u r. room u (userRooms st) = Some r \<Longrightarrow> s \<notin> set r"
    using assms(2) by (fastforce simp: ws_inv_def)
  show ?thesis
    using assms(2) accept s fresh unfolding ws_inv_def
    by (auto simp: admit_def room_add split: if_splits) (cases "room userId (userRooms st)"; fastforce)+
next
  case (closed s)
  show ?thesis
  proof (cases "map_of (socket_user st) s")
    case None
    then show ?thesis using closed assms(2) unfolding ws_inv_def by auto
  next
    case (Some u)
    then show ?thesis using closed assms(2) unfolding ws_inv_def
      by (auto simp: on_close_def room_remove split: if_splits option.splits)
  qed
qed

lemma ws_inv_reachable: "(ws_step auth)\<^sup>*\<^sup>* st st' \<Longrightarrow> ws_inv auth st \<Longrightarrow> ws_inv auth st'"
  by (induction rule: rtranclp_induct) (auto dest: ws_inv_step)

definition ws_start :: ws_state where
  "ws_start = \<lparr>userRooms = [], clients = [], open_sockets = [], pending_auth = [], socket_user = [], seen = []\<rparr>"

lemma ws_inv_start: "ws_inv auth ws_start"
  by (simp add: ws_inv_def ws_start_def room_def)

section \<open>Properties\<close>

text \<open>C23: no event reaches another user's socket.  In every state the server can reach, whatever connects,
  authenticates and closes in between, an event published for a user, directly or through the Redis
  bridge, is delivered only to open sockets whose own token was authenticated as that user; and no
  room is empty.\<close>

theorem events_stay_in_their_room:
  assumes "(ws_step auth)\<^sup>*\<^sup>* ws_start st"
    and "(s, fr) \<in> set (publishToUser is_open sends userId event payload (userRooms st)) \<or>
         (s, fr) \<in> set (bridgeMessage parse is_open sends message (userRooms st)) \<and>
           map_option ev_userId (parse message) = Some userId"
  shows "map_of (socket_user st) s = Some userId \<and> (\<exists>tok. auth tok = Authorized userId) \<and> is_open s \<and>
         (\<forall>u. room u (userRooms st) \<noteq> Some [])"
proof -
  have "(\<exists>r. room userId (userRooms st) = Some r \<and> s \<in> set r) \<and> is_open s"
    using assms(2) by (auto simp: publishToUser_def bridgeMessage_def delivered_iff split: if_splits)
  then show ?thesis using ws_inv_reachable [OF assms(1) ws_inv_start] by (auto simp: ws_inv_def)
qed

lemma events_stay_in_their_room_witness:
  "\<exists>st :: ws_state. map_of (socket_user st) 7 = Some ''u1'' \<and>
     publishToUser (\<lambda>_. True) (\<lambda>_. True) ''u1'' ''ramp:updated'' [] (userRooms st) \<noteq> []"
proof -
  let ?auth = "\<lambda>tok. if tok = Some ''t'' then Authorized ''u1'' else Unauthorized ''missing_token''"
  let ?s1 = "ws_start\<lparr>open_sockets := [7], pending_auth := [(7, Some ''t'')], seen := [7]\<rparr>"
  let ?s2 = "admit ''u1'' 7 (?s1\<lparr>pending_auth := []\<rparr>)"
  have 1: "ws_step ?auth ws_start ?s1"
    using ws_step.connect [of 7 ws_start ?auth "Some ''t''"] by (simp add: ws_start_def)
  have 2: "ws_step ?auth ?s1 ?s2"
    using ws_step.accept [of 7 "Some ''t''" ?s1 ?auth "''u1''"] by (simp add: ws_start_def)
  have r: "(ws_step ?auth)\<^sup>*\<^sup>* ws_start ?s2" using 1 2 by (meson rtranclp.rtrancl_into_rtrancl rtranclp.rtrancl_refl)
  have p: "(7, EventFrame ''ramp:updated'' []) \<in> set (publishToUser (\<lambda>_. True) (\<lambda>_. True) ''u1'' ''ramp:updated'' [] (userRooms ?s2))"
    by (simp add: publishToUser_def delivered_iff admit_def room_add)
  have "publishToUser (\<lambda>_. True) (\<lambda>_. True) ''u1'' ''ramp:updated'' [] (userRooms ?s2) \<noteq> []" using p by auto
  with events_stay_in_their_room [OF r disjI1 [OF p]] show ?thesis
    by - (rule exI [of _ ?s2], blast)
qed

text \<open>A socket that closes while its token is being checked is still admitted afterwards, and then
  stays in its user's room for good: the \<open>close\<close> listener is registered only after the admission, so
  nothing is left to remove it.\<close>

lemma closed_during_auth_stays:
  assumes "s \<notin> set (seen st)" "auth tok = Authorized userId" "map_of (socket_user st) s = None"
  shows "\<exists>st'. (ws_step auth)\<^sup>*\<^sup>* st st' \<and> s \<notin> set (open_sockets st') \<and>
    (\<exists>r. room userId (userRooms st') = Some r \<and> s \<in> set r) \<and> s \<in> set (clients st') \<and>
    (\<forall>st''. ws_step auth st' st'' \<longrightarrow> (\<exists>r. room userId (userRooms st'') = Some r \<and> s \<in> set r))"
proof -
  let ?s1 = "st\<lparr>open_sockets := s # open_sockets st, pending_auth := (s, tok) # pending_auth st, seen := s # seen st\<rparr>"
  let ?s2 = "?s1\<lparr>open_sockets := filter (\<lambda>x. x \<noteq> s) (open_sockets ?s1)\<rparr>"
  let ?s3 = "admit userId s (?s2\<lparr>pending_auth := filter (\<lambda>p. fst p \<noteq> s) (pending_auth ?s2)\<rparr>)"
  have 1: "ws_step auth st ?s1" by (rule ws_step.connect) (rule assms(1))
  have 2: "ws_step auth ?s1 ?s2" using ws_step.closed [of s ?s1 auth] assms(3) by simp
  have 3: "ws_step auth ?s2 ?s3" by (rule ws_step.accept [where tok = tok]) (simp_all add: assms(2))
  have r: "(ws_step auth)\<^sup>*\<^sup>* st ?s3" using 1 2 3 by (meson rtranclp.rtrancl_into_rtrancl rtranclp.rtrancl_refl)
  have m: "\<exists>r. room userId (userRooms ?s3) = Some r \<and> s \<in> set r" by (simp add: admit_def room_add)
  have o: "s \<notin> set (open_sockets ?s3)" by (simp add: admit_def)
  have step: "\<exists>r. room userId (userRooms st'') = Some r \<and> s \<in> set r" if "ws_step auth ?s3 st''" for st''
    using that
  proof (cases rule: ws_step.cases)
    case (closed s')
    then have "s' \<noteq> s" using o by auto
    then show ?thesis using closed m
      by (auto simp: on_close_def room_remove admit_def room_add filter_empty_conv split: option.split)
  next
    case (accept s' tok' u')
    then show ?thesis using m by (cases "u' = userId") (auto simp: admit_def room_add)
  qed (use m in auto)
  show ?thesis using r m o step by (intro exI [of _ ?s3]) (auto simp: admit_def)
qed

section \<open>The server, its frames and the bridge's connection\<close>

definition UNAUTHORIZED :: nat where
  "UNAUTHORIZED = 4401"

definition WS_EVENTS :: "string list" where
  "WS_EVENTS = [''transaction:updated'', ''balance:updated'', ''ramp:updated'']"

text \<open>\<open>wsServer\<close>: the property \<open>clients\<close> of the HTTP server, where there is one.  The step \<open>accept\<close> is the case where there is.\<close>

definition wsServer :: "nat list option \<Rightarrow> thrown + nat list" where
  "wsServer server_clients =
     (case server_clients of
        None \<Rightarrow> Inl (PlainError ''WebSocket server is not initialised; register @fastify/websocket first'')
      | Some cs \<Rightarrow> Inr cs)"

text \<open>The registration of an authenticated socket with the server looked up: without it the socket joins no room.\<close>

definition registerSocket :: "nat list option \<Rightarrow> string \<Rightarrow> nat \<Rightarrow> ws_state \<Rightarrow> thrown + ws_state" where
  "registerSocket server_clients userId s st = then_do (wsServer server_clients) (\<lambda>_. Inr (admit userId s st))"

text \<open>The listener of client frames; \<open>parse\<close> is the \<open>type\<close> of the parsed frame, \<open>None\<close> where there is none or parsing fails.\<close>

definition onMessage :: "(string \<Rightarrow> string option) \<Rightarrow> string \<Rightarrow> string \<Rightarrow> frame option" where
  "onMessage parse now message = (if parse message = Some ''ping'' then Some (PongFrame now) else None)"

definition resetRooms :: "rooms \<Rightarrow> rooms" where
  "resetRooms rs = []"

text \<open>
  The bridge: whether it has started, its current connection, and the connections that are still up.  A failed
  subscription may leave its connection up.
\<close>

record bridge =
  br_started :: bool
  br_subscriber :: "nat option"
  br_up :: "nat list"

datatype subscription = Subscribed | SubscribeFailed bool

definition startUserEventBridge :: "nat \<Rightarrow> subscription \<Rightarrow> bridge \<Rightarrow> bool \<times> bridge" where
  "startUserEventBridge connection outcome b =
     (if br_started b then (True, b)
      else (case outcome of
              Subscribed \<Rightarrow> (True, b\<lparr>br_started := True, br_subscriber := Some connection, br_up := connection # br_up b\<rparr>)
            | SubscribeFailed up \<Rightarrow>
                (False, b\<lparr>br_started := False, br_subscriber := Some connection, br_up := (if up then connection # br_up b else br_up b)\<rparr>)))"

definition stopUserEventBridge :: "bridge \<Rightarrow> bridge" where
  "stopUserEventBridge b =
     (case br_subscriber b of
        None \<Rightarrow> b
      | Some connection \<Rightarrow> b\<lparr>br_subscriber := None, br_started := False, br_up := filter (\<lambda>c. c \<noteq> connection) (br_up b)\<rparr>)"

text \<open>A started bridge is live and stays as it is; after a start and a stop nothing of it is up.\<close>

lemma bridge_start_twice: "fst (startUserEventBridge c o1 b) \<Longrightarrow> startUserEventBridge d o2 (snd (startUserEventBridge c o1 b)) = (True, snd (startUserEventBridge c o1 b))"
  by (auto simp: startUserEventBridge_def split: if_splits subscription.splits)

lemma bridge_stop_closes:
  "\<not> br_started b \<Longrightarrow> c \<notin> set (br_up b) \<Longrightarrow> br_up (stopUserEventBridge (snd (startUserEventBridge c outcome b))) = br_up b"
  by (auto simp: startUserEventBridge_def stopUserEventBridge_def filter_id_conv split: subscription.split)

text \<open>A failed start whose connection is still up is forgotten by the next one: the stop closes only the last.\<close>

lemma failed_start_leaks:
  assumes "\<not> br_started b" "c \<noteq> d"
  shows "c \<in> set (br_up (stopUserEventBridge (snd (startUserEventBridge d Subscribed (snd (startUserEventBridge c (SubscribeFailed True) b))))))"
  using assms by (simp add: startUserEventBridge_def stopUserEventBridge_def)

end
