(* ===== verification/TxWorker.thy ===== *)
theory TxWorker
  imports ExternalSubmit Sockets
begin

text \<open>
  The processor of the transactions queue (\<^verbatim>\<open>src/src/jobs/transaction.worker.ts\<close>): it broadcasts a signed
  transaction and then polls its status until the chain has decided.  A job runs on the world; throwing
  makes the queue retry it.
\<close>

section \<open>The processor\<close>

text \<open>The adapters, whether Redis accepts a publication, the error of \<open>transactionQueue.add\<close> if it fails, and
  the id and time of a receipt the job may create.\<close>

record worker_env =
  wk_adapter :: "chain \<Rightarrow> thrown + chain_adapter"
  wk_publishes :: bool
  wk_enqueue :: "thrown option"
  wk_receiptId :: string
  wk_now :: int

record job_result =
  jr_transactionId :: string
  jr_status :: "onchain_status option"
  jr_txHash :: "string option"

definition notifyTransaction :: "worker_env \<Rightarrow> string \<Rightarrow> string \<Rightarrow> string \<Rightarrow> string option \<Rightarrow> world \<Rightarrow> world" where
  "notifyTransaction env userId transactionId status txHash w =
     (if wk_publishes env
      then publishUserEvent \<lparr>ev_userId = userId, ev_event = ''transaction:updated'',
             ev_payload = [(''transactionId'', Some transactionId), (''status'', Some status), (''txHash'', txHash)]\<rparr> w
      else w)"

definition check_job :: "string \<Rightarrow> string \<Rightarrow> tx_job" where
  "check_job transactionId txHash =
     \<lparr>tj_transactionId = transactionId, tj_signedTx = None, tj_txHash = Some txHash, tj_checkOnly = True, tj_delay = 10000\<rparr>"

text \<open>\<open>prisma.receipt.upsert\<close> with an empty update.\<close>

definition upsertReceipt :: "worker_env \<Rightarrow> string \<Rightarrow> world \<Rightarrow> world" where
  "upsertReceipt env transactionId w =
     (if find_row (\<lambda>r. rc_transactionId r = transactionId) (receipts w) \<noteq> None then w
      else w\<lparr>receipts := receipts w @ [\<lparr>rc_id = wk_receiptId env, rc_transactionId = transactionId, rc_createdAt = wk_now env\<rparr>]\<rparr>)"

abbreviation set_tx :: "string \<Rightarrow> (tx_row \<Rightarrow> tx_row) \<Rightarrow> world \<Rightarrow> world" where
  "set_tx tid f w \<equiv> w\<lparr>transactions := update_rows (\<lambda>t. t_id t = tid) f (transactions w)\<rparr>"

text \<open>The chain has decided: the status, the receipt, and the two parties.\<close>

definition settle :: "worker_env \<Rightarrow> tx_row \<Rightarrow> bool \<Rightarrow> string \<Rightarrow> world \<Rightarrow> world" where
  "settle env transaction confirmed txHash w =
     (let tid = t_id transaction;
          status = (if confirmed then TxCOMPLETED else TxFAILED);
          w1 = set_tx tid (\<lambda>t. t\<lparr>t_status := status\<rparr>) w;
          w2 = (if confirmed then upsertReceipt env tid w1 else w1);
          w3 = notifyTransaction env (t_senderId transaction) tid (tx_status_name status) (Some txHash) w2
      in if truthy (t_recipientAccountId transaction)
         then (case find_account (the (t_recipientAccountId transaction)) w3 of
                 None \<Rightarrow> w3
               | Some recipient \<Rightarrow> notifyTransaction env (a_userId recipient) tid (tx_status_name status) (Some txHash) w3)
         else w3)"

definition checkTransaction :: "worker_env \<Rightarrow> tx_row \<Rightarrow> string \<Rightarrow> job_result op" where
  "checkTransaction env transaction txHash w =
     (case then_do (wk_adapter env (t_network transaction)) (\<lambda>adapter. ca_getTransactionStatus adapter txHash) of
        Inl e \<Rightarrow> (Inl e, w)
      | Inr status \<Rightarrow>
          if status = StPending
          then (case wk_enqueue env of
                  Some e \<Rightarrow> (Inl e, w)
                | None \<Rightarrow> (Inr \<lparr>jr_transactionId = t_id transaction, jr_status = Some StPending, jr_txHash = None\<rparr>,
                          w\<lparr>txQueue := txQueue w @ [check_job (t_id transaction) txHash]\<rparr>))
          else (Inr \<lparr>jr_transactionId = t_id transaction, jr_status = Some status, jr_txHash = None\<rparr>,
                settle env transaction (status = StConfirmed) txHash w))"

text \<open>The \<open>try\<close> block of the broadcast: the error that ends it, if any, and the world it leaves.\<close>

definition tryBroadcast :: "worker_env \<Rightarrow> tx_row \<Rightarrow> string \<Rightarrow> string op" where
  "tryBroadcast env transaction signedTx w =
     (case then_do (wk_adapter env (t_network transaction)) (\<lambda>adapter.
             case ca_sendSignedTransaction adapter of
               None \<Rightarrow> Inl (PlainError (''Signed broadcast is not implemented for '' @ chain_name (t_network transaction)))
             | Some send' \<Rightarrow> send' signedTx) of
        Inl e \<Rightarrow> (Inl e, w)
      | Inr broadcastHash \<Rightarrow>
          (let w1 = set_tx (t_id transaction) (\<lambda>t. t\<lparr>t_txHash := Some broadcastHash, t_status := TxPROCESSING\<rparr>) w
           in case wk_enqueue env of
                Some e \<Rightarrow> (Inl e, w1)
              | None \<Rightarrow> (Inr broadcastHash, w1\<lparr>txQueue := txQueue w1 @ [check_job (t_id transaction) broadcastHash]\<rparr>)))"

definition broadcastTransaction :: "worker_env \<Rightarrow> tx_row \<Rightarrow> string \<Rightarrow> job_result op" where
  "broadcastTransaction env transaction signedTx w =
     (let tid = t_id transaction
      in case tryBroadcast env transaction signedTx (set_tx tid (\<lambda>t. t\<lparr>t_status := TxPROCESSING\<rparr>) w) of
           (Inr hash, w1) \<Rightarrow> (Inr \<lparr>jr_transactionId = tid, jr_status = None, jr_txHash = Some hash\<rparr>, w1)
         | (Inl e, w1) \<Rightarrow>
             (Inl e, notifyTransaction env (t_senderId transaction) tid ''FAILED'' None (set_tx tid (\<lambda>t. t\<lparr>t_status := TxFAILED\<rparr>) w1)))"

definition processTransactionJob :: "worker_env \<Rightarrow> tx_job \<Rightarrow> job_result op" where
  "processTransactionJob env job w =
     (case find_row (\<lambda>t. t_id t = tj_transactionId job) (transactions w) of
        None \<Rightarrow> (Inl (PlainError ''Transaction not found''), w)
      | Some transaction \<Rightarrow>
          if tj_checkOnly job \<and> truthy (tj_txHash job) then checkTransaction env transaction (the (tj_txHash job)) w
          else if \<not> truthy (tj_signedTx job)
          then (Inl (PlainError ''Signed transaction is required before broadcast''),
                set_tx (t_id transaction) (\<lambda>t. t\<lparr>t_status := TxFAILED\<rparr>) w)
          else broadcastTransaction env transaction (the (tj_signedTx job)) w)"

section \<open>Lemmas\<close>

lemma publish_simps [simp]:
  "transactions (publishUserEvent ev w) = transactions w" "receipts (publishUserEvent ev w) = receipts w"
  "txQueue (publishUserEvent ev w) = txQueue w" "accountIds (publishUserEvent ev w) = accountIds w"
  by (simp_all add: publishUserEvent_def)

lemma notify_simps [simp]:
  "transactions (notifyTransaction env u tid s h w) = transactions w" "receipts (notifyTransaction env u tid s h w) = receipts w"
  "txQueue (notifyTransaction env u tid s h w) = txQueue w" "accountIds (notifyTransaction env u tid s h w) = accountIds w"
  by (simp_all add: notifyTransaction_def)

lemma settle_simps:
  "transactions (settle env t c h w) = update_rows (\<lambda>s. t_id s = t_id t) (\<lambda>s. s\<lparr>t_status := if c then TxCOMPLETED else TxFAILED\<rparr>) (transactions w)"
  "txQueue (settle env t c h w) = txQueue w"
  "receipts (settle env t c h w) = (if c then receipts (upsertReceipt env (t_id t) w) else receipts w)"
  by (auto simp: settle_def Let_def upsertReceipt_def split: option.split)

abbreviation receipts_of :: "string \<Rightarrow> world \<Rightarrow> nat" where
  "receipts_of tid w \<equiv> count_rows (\<lambda>r. rc_transactionId r = tid) (receipts w)"

lemma upsert_once:
  "receipts_of tid w \<le> 1 \<Longrightarrow> receipts_of tid (upsertReceipt env tid w) = 1"
  "receipts_of tid w = 1 \<Longrightarrow> receipts (upsertReceipt env tid w) = receipts w"
proof -
  have "find_row (\<lambda>r. rc_transactionId r = tid) (receipts w) = None \<longleftrightarrow> receipts_of tid w = 0"
    by (simp add: find_row_None count_rows_0)
  then show "receipts_of tid w \<le> 1 \<Longrightarrow> receipts_of tid (upsertReceipt env tid w) = 1"
    "receipts_of tid w = 1 \<Longrightarrow> receipts (upsertReceipt env tid w) = receipts w"
    by (auto simp: upsertReceipt_def)
qed

lemma update_twice: "(\<And>s. P (f s) = P s) \<Longrightarrow> (\<And>s. f (f s) = f s) \<Longrightarrow> update_rows P f (update_rows P f rows) = update_rows P f rows"
  by (induction rows) auto

lemma check_job_runs:
  assumes "find_row (\<lambda>s. t_id s = tid) (transactions w) = Some t" "hash \<noteq> []"
  shows "processTransactionJob env (check_job tid hash) w = checkTransaction env t hash w"
  using assms by (simp add: processTransactionJob_def check_job_def)

lemma process_job_runs:
  assumes "find_row (\<lambda>s. t_id s = tid) (transactions w) = Some t" "tx \<noteq> []"
  shows "processTransactionJob env (process_job tid tx) w = broadcastTransaction env t tx w"
  using assms by (simp add: processTransactionJob_def process_job_def)

section \<open>Properties\<close>

text \<open>A check of a confirmed transfer, and the same check again.\<close>

lemma confirmed_check_runs:
  assumes found: "find_row (\<lambda>s. t_id s = tid) (transactions w) = Some t"
    and adapter: "wk_adapter env (t_network t) = Inr a" "ca_getTransactionStatus a hash = Inr StConfirmed"
    and hash: "hash \<noteq> []" and one: "receipts_of tid w \<le> 1"
  shows "let w1 = snd (processTransactionJob env (check_job tid hash) w);
             w2 = snd (processTransactionJob env (check_job tid hash) w1)
         in transactions w1 = update_rows (\<lambda>s. t_id s = tid) (\<lambda>s. s\<lparr>t_status := TxCOMPLETED\<rparr>) (transactions w) \<and>
            receipts_of tid w1 = 1 \<and> txQueue w1 = txQueue w \<and> transactions w2 = transactions w1 \<and> receipts w2 = receipts w1"
proof -
  have t: "t_id t = tid" using find_row_Some [OF found] by simp
  note run = check_job_runs [OF _ hash]
  let ?w1 = "settle env t True hash w" and ?t = "t\<lparr>t_status := TxCOMPLETED\<rparr>"
  have w1: "snd (processTransactionJob env (check_job tid hash) w) = ?w1"
    using run [OF found] adapter by (simp add: checkTransaction_def)
  have tx: "transactions ?w1 = update_rows (\<lambda>s. t_id s = tid) (\<lambda>s. s\<lparr>t_status := TxCOMPLETED\<rparr>) (transactions w)"
    by (simp add: settle_simps t)
  have "find_row (\<lambda>s. t_id s = tid) (transactions ?w1) = Some ?t"
    using found t unfolding tx by (subst find_row_update_rows) simp_all
  from run [OF this] have w2: "snd (processTransactionJob env (check_job tid hash) ?w1) = settle env ?t True hash ?w1"
    using adapter by (simp add: checkTransaction_def)
  have r: "receipts_of tid ?w1 = 1" using upsert_once(1) [OF one] by (simp add: settle_simps t)
  have "transactions (settle env ?t True hash ?w1) = transactions ?w1"
    unfolding settle_simps(1) [of env ?t] by (simp add: t tx update_twice)
  moreover have "receipts (settle env ?t True hash ?w1) = receipts ?w1"
    using upsert_once(2) [OF r] by (simp add: settle_simps(3) [of env ?t] t)
  ultimately show ?thesis unfolding w1 w2 Let_def using tx r by (simp add: settle_simps(2))
qed

text \<open>C10: the chain's decision is recorded once.  A status job whose transaction is confirmed completes the row,
  leaves every other row alone and ends with exactly one receipt, and running it again changes neither
  the ledger nor the receipts; a failed one is marked \<open>FAILED\<close> and gets no receipt; while it is pending
  the ledger stays as it is and one more status job is queued.  The broadcast job leaves the row
  \<open>PROCESSING\<close> with the hash the node answered and one status job.\<close>

theorem chain_decision_is_recorded_once:
  assumes found: "find_row (\<lambda>s. t_id s = tid) (transactions w) = Some t"
    and adapter: "wk_adapter env (t_network t) = Inr a" "ca_sendSignedTransaction a = Some send'"
    and up: "wk_enqueue env = None" and hash: "hash \<noteq> []" "tx \<noteq> []" and one: "receipts_of tid w \<le> 1"
  shows "(ca_getTransactionStatus a hash = Inr StConfirmed \<longrightarrow>
            (let w1 = snd (processTransactionJob env (check_job tid hash) w);
                 w2 = snd (processTransactionJob env (check_job tid hash) w1)
             in transactions w1 = update_rows (\<lambda>s. t_id s = tid) (\<lambda>s. s\<lparr>t_status := TxCOMPLETED\<rparr>) (transactions w) \<and>
                receipts_of tid w1 = 1 \<and> txQueue w1 = txQueue w \<and>
                transactions w2 = transactions w1 \<and> receipts w2 = receipts w1)) \<and>
         (ca_getTransactionStatus a hash = Inr StFailed \<longrightarrow>
            (let w1 = snd (processTransactionJob env (check_job tid hash) w)
             in transactions w1 = update_rows (\<lambda>s. t_id s = tid) (\<lambda>s. s\<lparr>t_status := TxFAILED\<rparr>) (transactions w) \<and>
                receipts w1 = receipts w \<and> txQueue w1 = txQueue w)) \<and>
         (ca_getTransactionStatus a hash = Inr StPending \<longrightarrow>
            snd (processTransactionJob env (check_job tid hash) w) = w\<lparr>txQueue := txQueue w @ [check_job tid hash]\<rparr>) \<and>
         (\<forall>h. send' tx = Inr h \<longrightarrow>
            snd (processTransactionJob env (process_job tid tx) w) =
              w\<lparr>transactions := update_rows (\<lambda>s. t_id s = tid) (\<lambda>s. s\<lparr>t_txHash := Some h, t_status := TxPROCESSING\<rparr>) (transactions w),
                txQueue := txQueue w @ [check_job tid h]\<rparr>)"
proof -
  have t: "t_id t = tid" using find_row_Some [OF found] by simp
  note run = check_job_runs [OF _ hash(1)]
  note confirmed = confirmed_check_runs [OF found adapter(1) _ hash(1) one]
  have sent: "snd (processTransactionJob env (process_job tid tx) w) =
              w\<lparr>transactions := update_rows (\<lambda>s. t_id s = tid) (\<lambda>s. s\<lparr>t_txHash := Some h, t_status := TxPROCESSING\<rparr>) (transactions w),
                txQueue := txQueue w @ [check_job tid h]\<rparr>" if "send' tx = Inr h" for h
  proof -
    have "update_rows (\<lambda>s. t_id s = tid) (\<lambda>s. s\<lparr>t_txHash := Some h, t_status := TxPROCESSING\<rparr>)
        (update_rows (\<lambda>s. t_id s = tid) (\<lambda>s. s\<lparr>t_status := TxPROCESSING\<rparr>) (transactions w)) =
      update_rows (\<lambda>s. t_id s = tid) (\<lambda>s. s\<lparr>t_txHash := Some h, t_status := TxPROCESSING\<rparr>) (transactions w)"
      by (simp add: update_rows_def)
    then show ?thesis
      using process_job_runs [OF found hash(2)] that adapter up by (simp add: broadcastTransaction_def tryBroadcast_def t Let_def)
  qed
  show ?thesis
    using confirmed sent run [OF found] adapter up
    by (auto simp: checkTransaction_def settle_simps t Let_def)
qed

definition demo_adapter :: "onchain_status \<Rightarrow> thrown option \<Rightarrow> chain_adapter" where
  "demo_adapter st e = (of_evm (evm_of demo_modules ETH))\<lparr>ca_getTransactionStatus := (\<lambda>_. Inr st),
     ca_sendSignedTransaction := Some (\<lambda>_. case e of None \<Rightarrow> Inr ''0xh'' | Some x \<Rightarrow> Inl x)\<rparr>"

definition demo_worker :: "onchain_status \<Rightarrow> thrown option \<Rightarrow> worker_env" where
  "demo_worker st e = \<lparr>wk_adapter = (\<lambda>_. Inr (demo_adapter st e)), wk_publishes = True, wk_enqueue = None, wk_receiptId = ''r1'', wk_now = 0\<rparr>"

lemma chain_decision_is_recorded_once_witness:
  "receipts_of ''t1'' (snd (processTransactionJob (demo_worker StConfirmed None) (check_job ''t1'' ''0xh'') (demo_ledger ''1.5''))) = 1"
proof -
  let ?t = "new_tx demo_send_env (demo_input ''1.5'') demo_addr"
  have f: "find_row (\<lambda>s. t_id s = ''t1'') (transactions (demo_ledger ''1.5'')) = Some ?t" "receipts_of ''t1'' (demo_ledger ''1.5'') \<le> 1"
    by (simp_all add: demo_ledger_def new_tx_def demo_send_env_def demo_world_def empty_world_def)
  show ?thesis
    using chain_decision_is_recorded_once [OF f(1), of "demo_worker StConfirmed None" "demo_adapter StConfirmed None" _ "''0xh''" "''tx''"] f(2)
    by (simp add: demo_worker_def demo_adapter_def Let_def)
qed

text \<open>C39: the worker can report a transfer as failed that the chain has accepted.  When the node accepts the
  transaction but the follow-up job cannot be queued, the row ends \<open>FAILED\<close> with the hash of the accepted
  transaction.  When a broadcast job is delivered again, the status of the row is not looked at: if the
  node refuses the known transaction, the row is \<open>FAILED\<close> even when it was completed and has its receipt.
  And a status read that throws changes nothing and queues nothing, so the row is never looked at again.\<close>

theorem accepted_transfer_can_be_failed:
  assumes found: "find_row (\<lambda>s. t_id s = tid) (transactions w) = Some t"
    and adapter: "wk_adapter env (t_network t) = Inr a" "ca_sendSignedTransaction a = Some send'"
    and job: "hash \<noteq> []" "tx \<noteq> []"
  shows "(\<forall>h e. send' tx = Inr h \<and> wk_enqueue env = Some e \<longrightarrow>
            fst (processTransactionJob env (process_job tid tx) w) = Inl e \<and>
            find_row (\<lambda>s. t_id s = tid) (transactions (snd (processTransactionJob env (process_job tid tx) w))) =
              Some (t\<lparr>t_txHash := Some h, t_status := TxFAILED\<rparr>)) \<and>
         (\<forall>e. send' tx = Inl e \<longrightarrow>
            find_row (\<lambda>s. t_id s = tid) (transactions (snd (processTransactionJob env (process_job tid tx) w))) =
              Some (t\<lparr>t_status := TxFAILED\<rparr>) \<and>
            receipts (snd (processTransactionJob env (process_job tid tx) w)) = receipts w) \<and>
         (\<forall>e. ca_getTransactionStatus a hash = Inl e \<longrightarrow> processTransactionJob env (check_job tid hash) w = (Inl e, w))"
proof -
  have t: "t_id t = tid" using find_row_Some [OF found] by simp
  have row: "find_row (\<lambda>s. t_id s = tid) (update_rows (\<lambda>s. t_id s = tid) f rows) = map_option f (find_row (\<lambda>s. t_id s = tid) rows)"
    if "\<And>s. t_id (f s) = t_id s" for f rows
    using that by (induction rows) auto
  show ?thesis
    using process_job_runs [OF found job(2), of env] check_job_runs [OF found job(1), of env] adapter found
    by (auto simp: broadcastTransaction_def tryBroadcast_def checkTransaction_def t Let_def row)
qed

lemma accepted_transfer_can_be_failed_witness:
  "(let w = set_tx ''t1'' (\<lambda>t. t\<lparr>t_status := TxCOMPLETED\<rparr>) (demo_ledger ''1.5'')
    in map_option t_status (find_row (\<lambda>s. t_id s = ''t1'') (transactions (snd (processTransactionJob
         (demo_worker StConfirmed (Some (PlainError ''already known''))) (process_job ''t1'' ''tx'') w)))) = Some TxFAILED)"
proof -
  let ?t = "new_tx demo_send_env (demo_input ''1.5'') demo_addr" and ?e = "PlainError ''already known''"
  let ?w = "set_tx ''t1'' (\<lambda>t. t\<lparr>t_status := TxCOMPLETED\<rparr>) (demo_ledger ''1.5'')"
  have f: "find_row (\<lambda>s. t_id s = ''t1'') (transactions ?w) = Some (?t\<lparr>t_status := TxCOMPLETED\<rparr>)"
    by (simp add: demo_ledger_def new_tx_def demo_send_env_def)
  show ?thesis
    using accepted_transfer_can_be_failed [OF f, of "demo_worker StConfirmed (Some ?e)" "demo_adapter StConfirmed (Some ?e)"
        "\<lambda>_. Inl ?e" "''0xh''" "''tx''"]
    by (simp add: demo_worker_def demo_adapter_def Let_def)
qed

section \<open>Polling\<close>

text \<open>What a run of a status job finds: the adapter of the network, its answer about the hash, and a queue that
  takes the next job.\<close>

definition answers :: "worker_env \<Rightarrow> chain \<Rightarrow> string \<Rightarrow> onchain_status \<Rightarrow> bool" where
  "answers env c hash status \<longleftrightarrow> wk_enqueue env = None \<and> then_do (wk_adapter env c) (\<lambda>a. ca_getTransactionStatus a hash) = Inr status"

definition poll :: "string \<Rightarrow> string \<Rightarrow> worker_env \<Rightarrow> world \<Rightarrow> world" where
  "poll tid hash env w = snd (processTransactionJob env (check_job tid hash) w)"

lemma poll_pending:
  assumes "find_row (\<lambda>s. t_id s = tid) (transactions w) = Some t" "hash \<noteq> []" "answers env (t_network t) hash StPending"
  shows "poll tid hash env w = w\<lparr>txQueue := txQueue w @ [check_job tid hash]\<rparr>"
proof -
  have "t_id t = tid" using find_row_Some [OF assms(1)] by simp
  then show ?thesis
    using check_job_runs [OF assms(1,2)] assms(3) by (simp add: poll_def checkTransaction_def answers_def del: then_do_Inr_iff)
qed

lemma polls_pending:
  assumes "find_row (\<lambda>s. t_id s = tid) (transactions w) = Some t" "hash \<noteq> []" "\<forall>env \<in> set envs. answers env (t_network t) hash StPending"
  shows "fold (poll tid hash) envs w = w\<lparr>txQueue := txQueue w @ replicate (length envs) (check_job tid hash)\<rparr>"
  using assms(1,3)
proof (induction envs arbitrary: w)
  case (Cons env envs)
  then have "poll tid hash env w = w\<lparr>txQueue := txQueue w @ [check_job tid hash]\<rparr>" using poll_pending [OF _ assms(2)] by simp
  then show ?case using Cons by simp
qed simp

lemma poll_decided:
  assumes "find_row (\<lambda>s. t_id s = tid) (transactions w) = Some t" "hash \<noteq> []" "answers env (t_network t) hash status" "status \<noteq> StPending"
  shows "poll tid hash env w = settle env t (status = StConfirmed) hash w"
  using check_job_runs [OF assms(1,2)] assms(3,4) by (simp add: poll_def checkTransaction_def answers_def del: then_do_Inr_iff)

lemma find_row_same:
  "(\<And>s. t_id (f s) = t_id s) \<Longrightarrow>
   find_row (\<lambda>s. t_id s = tid) (update_rows (\<lambda>s. t_id s = tid) f rows) = map_option f (find_row (\<lambda>s. t_id s = tid) rows)"
  by (induction rows) auto

text \<open>C5: polling lasts as long as the chain is undecided, and ends with its decision.  A broadcast the node accepts
  queues a status job; as long as the answers are pending, every run of it leaves the row \<open>PROCESSING\<close> and
  queues the next one; the first run that finds the transaction confirmed completes it with exactly one
  receipt, the first that finds it failed fails it, and neither queues another job.  So after \<open>n\<close> undecided
  answers the transfer is settled by job \<open>n + 2\<close>.\<close>

theorem polling_ends_with_the_chain:
  assumes found: "find_row (\<lambda>s. t_id s = tid) (transactions w) = Some t"
    and sent: "wk_enqueue env = None" "wk_adapter env (t_network t) = Inr a" "ca_sendSignedTransaction a = Some send'" "send' tx = Inr hash"
    and given: "tx \<noteq> []" "hash \<noteq> []" and one: "receipts_of tid w \<le> 1"
    and undecided: "\<forall>env \<in> set envs. answers env (t_network t) hash StPending"
    and decided: "answers env' (t_network t) hash status" "status \<noteq> StPending"
  shows "let w1 = snd (processTransactionJob env (process_job tid tx) w);
             w2 = fold (poll tid hash) envs w1;
             w3 = poll tid hash env' w2
         in txQueue w2 = txQueue w @ replicate (length envs + 1) (check_job tid hash) \<and> txQueue w3 = txQueue w2 \<and>
            find_row (\<lambda>s. t_id s = tid) (transactions w2) = Some (t\<lparr>t_txHash := Some hash, t_status := TxPROCESSING\<rparr>) \<and>
            find_row (\<lambda>s. t_id s = tid) (transactions w3) =
              Some (t\<lparr>t_txHash := Some hash, t_status := if status = StConfirmed then TxCOMPLETED else TxFAILED\<rparr>) \<and>
            receipts_of tid w3 = (if status = StConfirmed then 1 else receipts_of tid w)"
proof -
  let ?P = "\<lambda>s. t_id s = tid" and ?sent = "\<lambda>s. s\<lparr>t_txHash := Some hash, t_status := TxPROCESSING\<rparr>"
  let ?w1 = "w\<lparr>transactions := update_rows ?P ?sent (transactions w), txQueue := txQueue w @ [check_job tid hash]\<rparr>"
  let ?w2 = "?w1\<lparr>txQueue := txQueue ?w1 @ replicate (length envs) (check_job tid hash)\<rparr>"
  have t: "t_id t = tid" using find_row_Some [OF found] by simp
  have w1: "snd (processTransactionJob env (process_job tid tx) w) = ?w1"
  proof -
    have "update_rows ?P ?sent (update_rows ?P (\<lambda>s. s\<lparr>t_status := TxPROCESSING\<rparr>) (transactions w)) = update_rows ?P ?sent (transactions w)"
      by (simp add: update_rows_def)
    then show ?thesis
      using process_job_runs [OF found given(1)] sent by (simp add: broadcastTransaction_def tryBroadcast_def t Let_def)
  qed
  have row: "find_row ?P (transactions ?w1) = Some (?sent t)" using found by (simp add: find_row_same)
  have w2: "fold (poll tid hash) envs ?w1 = ?w2" using polls_pending [OF row given(2)] undecided by simp
  have row2: "find_row ?P (transactions ?w2) = Some (?sent t)" using row by simp
  have w3: "poll tid hash env' ?w2 = settle env' (?sent t) (status = StConfirmed) hash ?w2"
    using poll_decided [OF row2 given(2)] decided by simp
  have "receipts_of tid (settle env' (?sent t) (status = StConfirmed) hash ?w2) = (if status = StConfirmed then 1 else receipts_of tid w)"
    using upsert_once(1) [of tid ?w2 env'] one t by (simp add: settle_simps(3))
  moreover have "txQueue (settle env' (?sent t) (status = StConfirmed) hash ?w2) = txQueue ?w2" by (simp add: settle_simps(2))
  moreover have "find_row ?P (transactions (settle env' (?sent t) (status = StConfirmed) hash ?w2)) =
      Some (t\<lparr>t_txHash := Some hash, t_status := if status = StConfirmed then TxCOMPLETED else TxFAILED\<rparr>)"
    using found t by (simp add: settle_simps(1) find_row_same)
  ultimately show ?thesis unfolding Let_def w1 w2 w3 using row2 by simp
qed

lemma polling_ends_with_the_chain_witness:
  "let w1 = snd (processTransactionJob (demo_worker StPending None) (process_job ''t1'' ''tx'') (demo_ledger ''1.5''));
       w3 = poll ''t1'' ''0xh'' (demo_worker StConfirmed None) (fold (poll ''t1'' ''0xh'') (replicate 7 (demo_worker StPending None)) w1)
   in receipts_of ''t1'' w3 = 1"
proof -
  let ?t = "new_tx demo_send_env (demo_input ''1.5'') demo_addr"
  have f: "find_row (\<lambda>s. t_id s = ''t1'') (transactions (demo_ledger ''1.5'')) = Some ?t" "receipts_of ''t1'' (demo_ledger ''1.5'') \<le> 1"
    by (simp_all add: demo_ledger_def new_tx_def demo_send_env_def demo_world_def empty_world_def)
  have e: "wk_enqueue (demo_worker st None) = None" "wk_adapter (demo_worker st None) c = Inr (demo_adapter st None)"
    "ca_sendSignedTransaction (demo_adapter st None) = Some (\<lambda>_. Inr ''0xh'')" "answers (demo_worker st None) c h st" for st c h
    by (simp_all add: demo_worker_def demo_adapter_def answers_def)
  have q: "\<forall>env \<in> set (replicate 7 (demo_worker StPending None)). answers env (t_network ?t) ''0xh'' StPending" using e(4) by simp
  have g: "''tx'' \<noteq> []" "''0xh'' \<noteq> []" "StConfirmed \<noteq> StPending" by simp_all
  show ?thesis
    using polling_ends_with_the_chain [OF f(1) e(1) [of StPending] e(2) e(3) refl g(1,2) f(2) q e(4) g(3)]
    unfolding Let_def by (elim conjE, simp only: refl if_True)
qed

end
