(* ===== verification/RampTypes.thy ===== *)
theory RampTypes
  imports Json Money Schema
begin

text \<open>
  The Naira ramp's provider interface (\<^verbatim>\<open>src/src/services/ramp/providers/types.ts\<close>): the canonical
  statuses, the requests and answers of a provider, the check of an amount in kobo, and the message
  taken from a provider's error body.  A provider is a record of its methods.
\<close>

section \<open>Statuses\<close>

fun ramp_status_name :: "ramp_status \<Rightarrow> string" where
  "ramp_status_name PENDING = ''PENDING''"
| "ramp_status_name PROCESSING = ''PROCESSING''"
| "ramp_status_name COMPLETED = ''COMPLETED''"
| "ramp_status_name FAILED = ''FAILED''"

text \<open>\<open>RANK\<close> of \<^verbatim>\<open>ramp.service.ts\<close>, and the linear order it induces.\<close>

fun RANK :: "ramp_status \<Rightarrow> nat" where
  "RANK PENDING = 0"
| "RANK PROCESSING = 1"
| "RANK FAILED = 2"
| "RANK COMPLETED = 3"

lemma RANK_inject [simp]: "RANK a = RANK b \<longleftrightarrow> a = b"
  by (cases a; cases b) simp_all

instantiation ramp_status :: linorder
begin

definition less_eq_ramp_status :: "ramp_status \<Rightarrow> ramp_status \<Rightarrow> bool" where
  "less_eq_ramp_status a b \<longleftrightarrow> RANK a \<le> RANK b"

definition less_ramp_status :: "ramp_status \<Rightarrow> ramp_status \<Rightarrow> bool" where
  "less_ramp_status a b \<longleftrightarrow> RANK a < RANK b"

instance
  by standard (auto simp: less_eq_ramp_status_def less_ramp_status_def simp flip: RANK_inject)

end

lemma PENDING_least [simp]: "PENDING \<le> s"
  by (simp add: less_eq_ramp_status_def)

section \<open>Requests and answers\<close>

text \<open>An id that a provider's answer lacks (or that is not a string) is \<open>None\<close>, as the \<open>undefined\<close> that Prisma
  leaves out of the update.\<close>

record ramp_customer =
  cu_providerCustomerId :: "string option"
  cu_email :: string
  cu_name :: "string option"

record bank_account =
  ba_accountNumber :: string
  ba_bankCode :: string
  ba_accountName :: string

record ramp_instruction =
  in_reference :: string
  in_providerReference :: "string option"
  in_status :: ramp_status
  in_paymentInstructions :: "(string \<times> string) list option"

record ramp_result =
  rr_reference :: string
  rr_providerReference :: "string option"
  rr_status :: ramp_status
  rr_amountNgn :: string
  rr_failureReason :: "string option"

record ramp_event =
  re_type :: string
  re_reference :: string
  re_status :: ramp_status
  re_amountNgn :: "string option"
  re_providerReference :: "string option"
  re_failureReason :: "string option"
  re_eventId :: string
  re_raw :: json

record ramp_provider =
  rp_name :: string
  rp_createCustomer :: "string \<Rightarrow> string option \<Rightarrow> string \<Rightarrow> thrown + ramp_customer"
  rp_createDeposit :: "string \<Rightarrow> string \<Rightarrow> ramp_customer \<Rightarrow> thrown + ramp_instruction"
  rp_createWithdrawal :: "string \<Rightarrow> string \<Rightarrow> ramp_customer \<Rightarrow> bank_account \<Rightarrow> thrown + ramp_instruction"
  rp_getStatus :: "string \<Rightarrow> thrown + ramp_result"
  rp_verifyWebhookSignature :: "string \<Rightarrow> string option \<Rightarrow> bool"
  rp_parseWebhook :: "string \<Rightarrow> thrown + ramp_event"

section \<open>Amounts\<close>

text \<open>\<open>n.toLocaleString("en-NG")\<close> for a whole number: groups of three digits.\<close>

fun group_rev :: "string \<Rightarrow> string" where
  "group_rev (a # b # c # d # s) = a # b # c # CHR '','' # group_rev (d # s)"
| "group_rev s = s"

definition to_locale :: "nat \<Rightarrow> string" where
  "to_locale n = rev (group_rev (rev (show_nat n)))"

text \<open>The Naira sign, as the three bytes of its UTF-8 encoding.\<close>

definition NAIRA :: string where
  "NAIRA = [char_of (226 :: nat), char_of (130 :: nat), char_of (166 :: nat)]"

definition toKobo :: "nat \<Rightarrow> int" where
  "toKobo naira = int naira * 100"

text \<open>\<open>/^\d+(\.\d{1,2})?$/\<close>.\<close>

definition naira_pattern :: "string \<Rightarrow> bool" where
  "naira_pattern a \<longleftrightarrow> plain_decimal a \<and> length (frac_part a) \<le> 2"

definition padEnd :: "nat \<Rightarrow> char \<Rightarrow> string \<Rightarrow> string" where
  "padEnd n c s = s @ replicate (n - length s) c"

definition kobo :: "string \<Rightarrow> int" where
  "kobo a = int (digits_val (whole_part a)) * 100 + int (digits_val (padEnd 2 (CHR ''0'') (frac_part a)))"

definition assertValidNgnAmount :: "string \<Rightarrow> nat \<Rightarrow> nat \<Rightarrow> thrown + unit" where
  "assertValidNgnAmount amount lo hi =
     (if \<not> naira_pattern amount then Inl (StatusError 400 ''Amount must be a positive amount with at most 2 decimals'')
      else if \<not> has_nonzero_digit (whole_part amount) \<and> \<not> has_nonzero_digit (frac_part amount)
      then Inl (StatusError 400 ''Amount must be greater than zero'')
      else if kobo amount < toKobo lo then Inl (StatusError 400 (''Amount must be at least '' @ NAIRA @ to_locale lo))
      else if kobo amount > toKobo hi then Inl (StatusError 400 (''Amount must be at most '' @ NAIRA @ to_locale hi))
      else Inr ())"

section \<open>A provider's error body\<close>

fun first_message :: "(string \<Rightarrow> json option) \<Rightarrow> string list \<Rightarrow> string option" where
  "first_message get [] = None"
| "first_message get (key # keys) =
     (case get key of
        Some (JString s) \<Rightarrow> if s \<noteq> [] then Some (take 300 s) else first_message get keys
      | Some (JArray (JString s # vs)) \<Rightarrow> Some (take 300 s)
      | Some (JObject kvs) \<Rightarrow>
          (case as_string (field (JObject kvs) ''message'') of
             Some m \<Rightarrow> Some (take 300 m)
           | None \<Rightarrow> first_message get keys)
      | _ \<Rightarrow> first_message get keys)"

definition providerErrorMessage :: "json option \<Rightarrow> string \<Rightarrow> string" where
  "providerErrorMessage body fallback =
     (case body of
        Some (JString s) \<Rightarrow> if s \<noteq> [] then take 300 s else fallback
      | Some (JObject kvs) \<Rightarrow>
          nullish (first_message (field (JObject kvs)) [''message'', ''error'', ''detail'', ''reason'', ''errors'']) fallback
      | _ \<Rightarrow> fallback)"

section \<open>The platform\<close>

text \<open>An HTTP exchange: given up by the timeout, broken, or answered with \<open>ok\<close>, a status and a text.\<close>

datatype http_outcome = Aborted | NetworkError | Reply bool nat string

text \<open>\<open>wl_fetch url method headers body\<close>; \<open>JSON.parse\<close> (\<open>None\<close>: it throws) and \<open>JSON.stringify\<close>;
  \<open>encodeURIComponent\<close>; \<open>String(Number(s))\<close>; the digests of \<^verbatim>\<open>node:crypto\<close>, each with its printed form.\<close>

record web_lib =
  wl_fetch :: "string \<Rightarrow> string \<Rightarrow> (string \<times> string) list \<Rightarrow> string option \<Rightarrow> http_outcome"
  wl_parse :: "string \<Rightarrow> json option"
  wl_stringify :: "json \<Rightarrow> string"
  wl_encode :: "string \<Rightarrow> string"
  wl_number :: "string \<Rightarrow> string"
  wl_hmac256_hex :: "string \<Rightarrow> string \<Rightarrow> string"
  wl_hmac512_hex :: "string \<Rightarrow> string \<Rightarrow> string"
  wl_hmac256_base64 :: "string \<Rightarrow> string \<Rightarrow> string"
  wl_sha256_base64 :: "string \<Rightarrow> string"

text \<open>An object literal: \<open>JSON.stringify\<close> leaves out the properties that are \<open>undefined\<close>.\<close>

definition js_object :: "(string \<times> json option) list \<Rightarrow> json" where
  "js_object kvs = JObject (List.map_filter (\<lambda>(k, v). map_option (\<lambda>x. (k, x)) v) kvs)"

abbreviation js_text :: "string \<Rightarrow> json option" where
  "js_text s \<equiv> Some (JString s)"

text \<open>Payment instructions: the properties that are strings.\<close>

definition instructions :: "(string \<times> string option) list \<Rightarrow> (string \<times> string) list" where
  "instructions kvs = List.map_filter (\<lambda>(k, v). map_option (\<lambda>x. (k, x)) v) kvs"

text \<open>\<open>url.replace(/\/$/, "")\<close>.\<close>

definition drop_slash :: "string \<Rightarrow> string" where
  "drop_slash url = (if url \<noteq> [] \<and> last url = CHR ''/'' then butlast url else url)"

text \<open>Equal lengths, then \<open>timingSafeEqual\<close>.\<close>

definition constantTimeEquals :: "string \<Rightarrow> string \<Rightarrow> bool" where
  "constantTimeEquals a b \<longleftrightarrow> (if length a \<noteq> length b then False else a = b)"

lemma constantTimeEquals_iff [simp]: "constantTimeEquals a b \<longleftrightarrow> a = b"
  by (auto simp: constantTimeEquals_def)

section \<open>The contract of a provider\<close>

text \<open>
  What the service relies on, whichever provider is configured: an answer carries the reference it was
  asked about, and a webhook is accepted only with a signature that is one of the authentication codes
  of its body under the configured secret.
\<close>

locale ramp_contract =
  fixes provider :: ramp_provider
    and normal :: "string \<Rightarrow> string"
    and codes :: "string \<Rightarrow> string list"
  assumes deposit_echo: "rp_createDeposit provider ref amount c = Inr i \<Longrightarrow> in_reference i = ref"
    and withdrawal_echo: "rp_createWithdrawal provider ref amount c b = Inr i \<Longrightarrow> in_reference i = ref"
    and status_echo: "rp_getStatus provider ref = Inr r \<Longrightarrow> rr_reference r = ref"
    and verified: "rp_verifyWebhookSignature provider raw sig \<longleftrightarrow> truthy sig \<and> normal (the sig) \<in> set (codes raw)"
begin

lemma unsigned_refused: "\<not> truthy sig \<Longrightarrow> \<not> rp_verifyWebhookSignature provider raw sig"
  by (simp add: verified)

lemma forged_refused: "normal s \<notin> set (codes raw) \<Longrightarrow> \<not> rp_verifyWebhookSignature provider raw (Some s)"
  by (simp add: verified)

end

section \<open>Lemmas on amounts\<close>

text \<open>The kobo of an amount are its exact value in hundredths.\<close>

lemma kobo_scaled:
  assumes "naira_pattern a"
  shows "kobo a = scaled a 2"
proof -
  have "length (frac_part a) \<le> 2" using assms by (simp add: naira_pattern_def)
  then show ?thesis by (simp add: kobo_def padEnd_def scaled_def scaled_nat_def digits_val_append)
qed

lemma assertValidNgnAmount_iff:
  "assertValidNgnAmount a lo hi = Inr () \<longleftrightarrow>
     naira_pattern a \<and> 0 < scaled a 2 \<and> int lo * 100 \<le> scaled a 2 \<and> scaled a 2 \<le> int hi * 100"
proof (cases "naira_pattern a")
  case True
  then have p: "plain_decimal a" "decimalPlacesOf a \<le> 2" by (simp_all add: naira_pattern_def places_frac)
  have "has_nonzero_digit (whole_part a) \<or> has_nonzero_digit (frac_part a) \<longleftrightarrow> isPositiveDecimalString a"
    using p(1) by (simp add: isPositiveDecimalString_def)
  also have "\<dots> \<longleftrightarrow> 0 < scaled a 2"
    using isPositive_iff [OF p(1)] scaled_mono [OF p(1) order.refl p(2)] by (simp add: zero_less_mult_iff)
  finally show ?thesis using True kobo_scaled [OF True] by (auto simp: assertValidNgnAmount_def toKobo_def)
qed (simp add: assertValidNgnAmount_def)

end
