(* ===== verification/Bitnob.thy ===== *)
theory Bitnob
  imports RampTypes
begin

text \<open>
  The Bitnob adapter (\<^verbatim>\<open>src/src/services/ramp/providers/bitnob.provider.ts\<close>).  The clock and the nonces
  are arguments; \<open>bc_nonce path\<close> is the nonce drawn for the request to a path.
\<close>

section \<open>Statuses\<close>

definition PAYOUT_STATUS_MAP :: "string \<Rightarrow> ramp_status option" where
  "PAYOUT_STATUS_MAP = map_of
     [(''QUOTE'', PENDING), (''INITIATED'', PENDING), (''PENDING'', PENDING), (''PROCESSING'', PROCESSING),
      (''COMPLETED'', COMPLETED), (''SUCCESS'', COMPLETED), (''FAILED'', FAILED), (''EXPIRED'', FAILED)]"

definition PAYOUT_EVENT_MAP :: "string \<Rightarrow> ramp_status option" where
  "PAYOUT_EVENT_MAP = map_of
     [(''payouts.initialized'', PENDING), (''payouts.processing'', PROCESSING), (''payouts.withdrawal.success'', COMPLETED),
      (''payouts.withdrawal.expired'', FAILED), (''payout.transfer.success'', COMPLETED), (''payout.transfer.failed'', FAILED),
      (''payout.initiated'', PENDING), (''payout.processing'', PROCESSING)]"

definition DEPOSIT_EVENT_MAP :: "string \<Rightarrow> ramp_status option" where
  "DEPOSIT_EVENT_MAP = map_of
     [(''transaction.successful'', COMPLETED), (''charge.success'', COMPLETED), (''transaction.success'', COMPLETED),
      (''virtualaccount.receive.success'', COMPLETED), (''transaction.failed'', FAILED), (''charge.failed'', FAILED),
      (''virtualaccount.receive.failed'', FAILED), (''transaction.pending'', PENDING), (''transaction.processing'', PROCESSING)]"

definition mapPayoutStatus :: "string option \<Rightarrow> ramp_status" where
  "mapPayoutStatus status = (if \<not> truthy status then PENDING else nullish (PAYOUT_STATUS_MAP (toUpperCase (the status))) PENDING)"

section \<open>Requests\<close>

record bitnob_config =
  bc_clientId :: string
  bc_clientSecret :: string
  bc_webhookSecret :: string
  bc_baseUrl :: string
  bc_now :: int
  bc_nonce :: "string \<Rightarrow> string"

definition BITNOB_WEBHOOK_SIGNATURE_HEADER :: string where
  "BITNOB_WEBHOOK_SIGNATURE_HEADER = ''x-bitnob-signature''"

definition buildBitnobAuthHeaders :: "web_lib \<Rightarrow> bitnob_config \<Rightarrow> string \<Rightarrow> string \<Rightarrow> (string \<times> string) list" where
  "buildBitnobAuthHeaders lib config nonce body =
     (let timestamp = show_int (bc_now config div 1000);
          canonical = bc_clientId config @ '':'' @ timestamp @ '':'' @ nonce @ '':'' @ body;
          signature = wl_hmac256_hex lib (bc_clientSecret config) canonical
      in [(''content-type'', ''application/json''), (''X-Auth-Client'', bc_clientId config), (''X-Auth-Timestamp'', timestamp),
          (''X-Auth-Nonce'', nonce), (''X-Auth-Signature'', signature)])"

definition signBitnobWebhook :: "web_lib \<Rightarrow> string \<Rightarrow> string \<Rightarrow> string" where
  "signBitnobWebhook lib secret rawBody = wl_hmac512_hex lib secret rawBody"

definition bitnob_error :: "string \<Rightarrow> string \<Rightarrow> nat option \<Rightarrow> thrown" where
  "bitnob_error code message status = RampProviderError ''bitnob'' code message status"

definition bitnob_request :: "web_lib \<Rightarrow> bitnob_config \<Rightarrow> string \<Rightarrow> string \<Rightarrow> json option \<Rightarrow> thrown + json" where
  "bitnob_request lib config path method body =
     (let payload = (case body of None \<Rightarrow> [] | Some b \<Rightarrow> wl_stringify lib b);
          what = ''Bitnob '' @ method @ '' '' @ path
      in case wl_fetch lib (drop_slash (bc_baseUrl config) @ path) method (buildBitnobAuthHeaders lib config (bc_nonce config path) payload)
                (if method = ''GET'' then None else Some payload) of
           Aborted \<Rightarrow> Inl (bitnob_error ''timeout'' (what @ '' failed (timeout)'') None)
         | NetworkError \<Rightarrow> Inl (bitnob_error ''network_error'' (what @ '' failed (network_error)'') None)
         | Reply ok status reply \<Rightarrow>
             (let parsed = (if reply = [] then None else wl_parse lib reply)
              in if \<not> ok \<or> field_opt parsed ''success'' = Some (JBool False)
                 then Inl (bitnob_error ''api_error'' (providerErrorMessage (js_nullish parsed (js_text reply))
                        (what @ '' failed with status '' @ show_nat status)) (Some status))
                 else (case field_opt parsed ''data'' of
                         None \<Rightarrow> Inl (bitnob_error ''invalid_response'' (what @ '' returned no data envelope'') None)
                       | Some data \<Rightarrow> Inr data)))"

text \<open>\<open>name.trim().split(/\s+/)\<close>.\<close>

definition name_words :: "string \<Rightarrow> string list" where
  "name_words name =
     (let s = js_trim name
      in if s = [] then [[]]
         else filter (\<lambda>p. p \<noteq> []) (js_split (CHR '' '') (map (\<lambda>c. if is_space c then CHR '' '' else c) s)))"

definition non_empty :: "string \<Rightarrow> json option" where
  "non_empty s = (if s = [] then None else Some (JString s))"

definition bitnob_createCustomer :: "web_lib \<Rightarrow> bitnob_config \<Rightarrow> string \<Rightarrow> string option \<Rightarrow> string \<Rightarrow> thrown + ramp_customer" where
  "bitnob_createCustomer lib config email name reference =
     (let ws = name_words (nullish name [])
      in then_do (bitnob_request lib config ''/api/customers'' ''POST'' (Some (js_object
           [(''first_name'', non_empty (hd ws)), (''last_name'', non_empty (js_join '' '' (tl ws))),
            (''email'', js_text email), (''reference'', js_text reference), (''type'', js_text ''individual'')]))) (\<lambda>data.
         then_do (field_of (Some data) ''id'') (\<lambda>cid.
           Inr \<lparr>cu_providerCustomerId = as_string cid,
                cu_email = nullish (as_string (js_nullish (field data ''email'') None)) email, cu_name = name\<rparr>)))"

definition bitnob_createDeposit :: "web_lib \<Rightarrow> bitnob_config \<Rightarrow> string \<Rightarrow> string \<Rightarrow> ramp_customer \<Rightarrow> thrown + ramp_instruction" where
  "bitnob_createDeposit lib config reference amountNgn customer =
     then_do (bitnob_request lib config ''/api/virtual-accounts'' ''POST'' (Some (js_object
        [(''customer_id'', map_option JString (cu_providerCustomerId customer)), (''reference'', js_text reference)]))) (\<lambda>account.
     then_do (field_of (Some account) ''id'') (\<lambda>aid.
       Inr \<lparr>in_reference = reference, in_providerReference = as_string aid, in_status = PENDING,
            in_paymentInstructions = Some (instructions
              [(''accountNumber'', as_string (field account ''account_number'')), (''bankName'', as_string (field account ''bank_name'')),
               (''accountName'', as_string (field account ''account_name'')), (''amountNgn'', Some amountNgn)])\<rparr>))"

text \<open>\<open>{ ...v }\<close>.\<close>

fun spread :: "json \<Rightarrow> (string \<times> json) list" where
  "spread (JObject kvs) = kvs"
| "spread _ = []"

definition bitnob_createWithdrawal ::
  "web_lib \<Rightarrow> bitnob_config \<Rightarrow> string \<Rightarrow> string \<Rightarrow> ramp_customer \<Rightarrow> bank_account \<Rightarrow> thrown + ramp_instruction" where
  "bitnob_createWithdrawal lib config reference amountNgn customer bank =
     then_do (bitnob_request lib config ''/api/payouts/quotes'' ''POST'' (Some (js_object
        [(''source'', js_text ''OFFCHAIN''), (''from_asset'', js_text ''USDT''), (''to_currency'', js_text ''ngn''),
         (''amount'', js_text amountNgn), (''country'', js_text ''NG''), (''reference'', js_text reference)]))) (\<lambda>quote.
     then_do (field_of (Some quote) ''id'') (\<lambda>qid.
     then_do (bitnob_request lib config (''/api/payouts/'' @ js_string_opt qid @ ''/initialize'') ''POST'' (Some (js_object
        [(''beneficiary'', Some (js_object
            [(''account_number'', js_text (ba_accountNumber bank)), (''bank_code'', js_text (ba_bankCode bank)),
             (''account_name'', js_text (ba_accountName bank)), (''country'', js_text ''NG'')])),
         (''reference'', js_text reference), (''payment_reason'', js_text ''Crypto offramp'')]))) (\<lambda>initialized.
     then_do (field_of (Some initialized) ''id'') (\<lambda>iid.
     then_do (bitnob_request lib config (''/api/payouts/'' @ js_string_opt iid @ ''/finalize'') ''POST'' (Some (js_object
        [(''reference'', js_text reference)]))) (\<lambda>finalized.
       let payout = JObject (spread initialized @ spread finalized)
       in Inr \<lparr>in_reference = reference, in_providerReference = as_string (field payout ''id''),
               in_status = mapPayoutStatus (as_string (field payout ''status'')), in_paymentInstructions = None\<rparr>)))))"

text \<open>\<open>items.find((p) => p.reference === reference) ?? null\<close>.\<close>

fun find_reference :: "string \<Rightarrow> json list \<Rightarrow> thrown + json option" where
  "find_reference reference [] = Inr None"
| "find_reference reference (p # ps) =
     then_do (field_of (Some p) ''reference'') (\<lambda>r.
       if r = Some (JString reference) then Inr (Some p) else find_reference reference ps)"

definition page_items :: "json \<Rightarrow> thrown + json list" where
  "page_items data =
     (case data of
        JArray items \<Rightarrow> Inr items
      | _ \<Rightarrow> (case js_nullish (field data ''data'') None of
                None \<Rightarrow> Inr []
              | Some (JArray items) \<Rightarrow> Inr items
              | Some _ \<Rightarrow> Inl (PlainError ''items.find is not a function'')))"

text \<open>The loop over the pages: \<open>n\<close> of them are left, the next is \<open>page\<close>.\<close>

fun searchPages :: "web_lib \<Rightarrow> bitnob_config \<Rightarrow> string \<Rightarrow> nat \<Rightarrow> nat \<Rightarrow> thrown + json option" where
  "searchPages lib config reference 0 page = Inr None"
| "searchPages lib config reference (Suc n) page =
     then_do (bitnob_request lib config (''/api/payouts?reference='' @ wl_encode lib reference @ ''&page='' @ show_nat page) ''GET'' None) (\<lambda>data.
     then_do (page_items data) (\<lambda>items.
     then_do (find_reference reference items) (\<lambda>found.
       if found \<noteq> None then Inr found else searchPages lib config reference n (page + 1))))"

definition bitnob_getStatus :: "web_lib \<Rightarrow> bitnob_config \<Rightarrow> string \<Rightarrow> thrown + ramp_result" where
  "bitnob_getStatus lib config reference =
     then_do (searchPages lib config reference 5 1) (\<lambda>result.
       case result of
         None \<Rightarrow> Inl (bitnob_error ''not_found'' (''No Bitnob payout found for reference '' @ reference) (Some 404))
       | Some payout \<Rightarrow>
           Inr \<lparr>rr_reference = reference, rr_providerReference = as_string (field payout ''id''),
                rr_status = mapPayoutStatus (as_string (field payout ''status'')),
                rr_amountNgn = (case js_nullish (field payout ''settlement_amount'') (js_nullish (field payout ''amount'') None) of
                                  None \<Rightarrow> ''0'' | Some v \<Rightarrow> js_string v),
                rr_failureReason = None\<rparr>)"

section \<open>Webhooks\<close>

definition bitnob_verifyWebhookSignature :: "web_lib \<Rightarrow> bitnob_config \<Rightarrow> string \<Rightarrow> string option \<Rightarrow> bool" where
  "bitnob_verifyWebhookSignature lib config rawBody signature =
     (if \<not> truthy signature then False
      else constantTimeEquals (signBitnobWebhook lib (bc_webhookSecret config) rawBody) (toLowerCase (js_trim (the signature))))"

definition bitnob_event_status :: "string \<Rightarrow> json \<Rightarrow> ramp_status" where
  "bitnob_event_status event data =
     (case PAYOUT_EVENT_MAP event of
        Some s \<Rightarrow> s
      | None \<Rightarrow> (case DEPOSIT_EVENT_MAP event of
                   Some s \<Rightarrow> s
                 | None \<Rightarrow> mapPayoutStatus (map_option toUpperCase (as_string (field data ''status'')))))"

definition bitnob_parseWebhook :: "web_lib \<Rightarrow> string \<Rightarrow> thrown + ramp_event" where
  "bitnob_parseWebhook lib rawBody =
     (case wl_parse lib rawBody of
        None \<Rightarrow> Inl (bitnob_error ''invalid_payload'' ''Bitnob webhook body is not valid JSON'' None)
      | Some parsed \<Rightarrow>
          then_do (field_of (Some parsed) ''event'') (\<lambda>ev.
            if \<not> js_truthy ev then Inl (bitnob_error ''invalid_payload'' ''Bitnob webhook is missing the `event` field'' None)
            else let event = js_string_opt ev;
                     data = (case js_nullish (field parsed ''data'') None of None \<Rightarrow> JObject [] | Some d \<Rightarrow> d);
                     status = bitnob_event_status event data;
                     reference = (case as_string (field data ''reference'') of
                                    Some r \<Rightarrow> if r \<noteq> [] then r else nullish (as_string (field data ''order_id'')) []
                                  | None \<Rightarrow> nullish (as_string (field data ''order_id'')) [])
                 in Inr \<lparr>re_type = event, re_reference = reference, re_status = status,
                         re_amountNgn = as_string (field data ''settlement_amount''), re_providerReference = as_string (field data ''id''),
                         re_failureReason =
                           (if as_string (field data ''payment_reason'') \<noteq> None \<and> status = FAILED then as_string (field data ''payment_reason'')
                            else as_string (field data ''failure_reason'')),
                         re_eventId = (case js_nullish (field parsed ''event_id'') None of
                                         Some v \<Rightarrow> js_string v | None \<Rightarrow> event @ '':'' @ reference),
                         re_raw = parsed\<rparr>))"

section \<open>The provider\<close>

definition bitnob_provider :: "web_lib \<Rightarrow> bitnob_config \<Rightarrow> ramp_provider" where
  "bitnob_provider lib config =
     \<lparr>rp_name = ''bitnob'', rp_createCustomer = bitnob_createCustomer lib config,
      rp_createDeposit = bitnob_createDeposit lib config, rp_createWithdrawal = bitnob_createWithdrawal lib config,
      rp_getStatus = bitnob_getStatus lib config, rp_verifyWebhookSignature = bitnob_verifyWebhookSignature lib config,
      rp_parseWebhook = bitnob_parseWebhook lib\<rparr>"

definition createBitnobProvider :: "web_lib \<Rightarrow> bitnob_config \<Rightarrow> thrown + ramp_provider" where
  "createBitnobProvider lib config =
     (if bc_clientId config = [] \<or> bc_clientSecret config = []
      then Inl (bitnob_error ''missing_credentials'' ''BITNOB_CLIENT_ID and BITNOB_CLIENT_SECRET are required'' None)
      else if bc_webhookSecret config = []
      then Inl (bitnob_error ''missing_webhook_secret'' ''BITNOB_WEBHOOK_SECRET is required to verify webhooks'' None)
      else Inr (bitnob_provider lib config))"

interpretation bitnob: ramp_contract "bitnob_provider lib config" "\<lambda>s. toLowerCase (js_trim s)"
    "\<lambda>raw. [signBitnobWebhook lib (bc_webhookSecret config) raw]"
proof
  fix ref amount c b i r raw sig
  show "rp_createDeposit (bitnob_provider lib config) ref amount c = Inr i \<Longrightarrow> in_reference i = ref"
    by (auto simp: bitnob_provider_def bitnob_createDeposit_def)
  show "rp_createWithdrawal (bitnob_provider lib config) ref amount c b = Inr i \<Longrightarrow> in_reference i = ref"
    by (auto simp: bitnob_provider_def bitnob_createWithdrawal_def Let_def)
  show "rr_reference r = ref" if "rp_getStatus (bitnob_provider lib config) ref = Inr r"
  proof -
    from that obtain result where "searchPages lib config ref 5 1 = Inr result" by (auto simp: bitnob_provider_def bitnob_getStatus_def)
    with that show ?thesis by (cases result) (auto simp: bitnob_provider_def bitnob_getStatus_def)
  qed
  show "rp_verifyWebhookSignature (bitnob_provider lib config) raw sig \<longleftrightarrow>
      truthy sig \<and> toLowerCase (js_trim (the sig)) \<in> set [signBitnobWebhook lib (bc_webhookSecret config) raw]"
    by (auto simp: bitnob_provider_def bitnob_verifyWebhookSignature_def)
qed

section \<open>Lemmas\<close>

text \<open>Only payouts are searched: when no page lists the reference, the answer is 404 \<open>not_found\<close>.\<close>

lemma searchPages_absent:
  assumes "\<And>page. bitnob_request lib config (''/api/payouts?reference='' @ wl_encode lib reference @ ''&page='' @ show_nat page) ''GET'' None = Inr (JArray [])"
  shows "searchPages lib config reference n page = Inr None"
  using assms by (induction n arbitrary: page) (simp_all add: page_items_def)

lemma bitnob_getStatus_absent:
  assumes "\<And>page. bitnob_request lib config (''/api/payouts?reference='' @ wl_encode lib reference @ ''&page='' @ show_nat page) ''GET'' None = Inr (JArray [])"
  shows "bitnob_getStatus lib config reference =
         Inl (RampProviderError ''bitnob'' ''not_found'' (''No Bitnob payout found for reference '' @ reference) (Some 404))"
  using searchPages_absent [OF assms] by (simp add: bitnob_getStatus_def bitnob_error_def)

end
