(* ===== verification/YellowCard.thy ===== *)
theory YellowCard
  imports RampTypes
begin

text \<open>
  The Yellow Card adapter (\<^verbatim>\<open>src/src/services/ramp/providers/yellowcard.provider.ts\<close>).  The time stamp of a
  request is an argument.
\<close>

section \<open>Statuses\<close>

definition STATUS_MAP :: "string \<Rightarrow> ramp_status option" where
  "STATUS_MAP = map_of
     [(''received'', COMPLETED), (''complete'', COMPLETED), (''success'', COMPLETED), (''succeeded'', COMPLETED), (''sent'', COMPLETED),
      (''pending'', PENDING), (''pending_approval'', PENDING), (''pending_provider'', PROCESSING), (''pending_liquidity'', PROCESSING),
      (''processing'', PROCESSING), (''failed'', FAILED), (''rejected'', FAILED), (''refused'', FAILED), (''cancelled'', FAILED),
      (''canceled'', FAILED), (''expired'', FAILED), (''expired_quote'', FAILED), (''denied'', FAILED), (''insufficient_funds'', FAILED)]"

definition mapStatus :: "string option \<Rightarrow> ramp_status" where
  "mapStatus raw = (if \<not> truthy raw then PENDING else nullish (STATUS_MAP (toLowerCase (the raw))) PENDING)"

section \<open>Requests\<close>

record yellowcard_config =
  yc_apiKey :: string
  yc_secretKey :: string
  yc_baseUrl :: string
  yc_timestamp :: string

definition YELLOWCARD_WEBHOOK_SIGNATURE_HEADER :: string where
  "YELLOWCARD_WEBHOOK_SIGNATURE_HEADER = ''x-yc-signature''"

definition buildYellowCardAuthHeaders :: "web_lib \<Rightarrow> yellowcard_config \<Rightarrow> string \<Rightarrow> string \<Rightarrow> json option \<Rightarrow> (string \<times> string) list" where
  "buildYellowCardAuthHeaders lib config path method body =
     (let hashed = (case js_nullish body None of None \<Rightarrow> [] | Some b \<Rightarrow> wl_sha256_base64 lib (wl_stringify lib b));
          signature = wl_hmac256_base64 lib (yc_secretKey config) (yc_timestamp config @ path @ toUpperCase method @ hashed)
      in [(''content-type'', ''application/json''), (''X-YC-Timestamp'', yc_timestamp config),
          (''Authorization'', ''YcHmacV1 '' @ yc_apiKey config @ '':'' @ signature)])"

definition signYellowCardWebhook :: "web_lib \<Rightarrow> string \<Rightarrow> string \<Rightarrow> string" where
  "signYellowCardWebhook lib secretKey rawBody = wl_hmac256_base64 lib secretKey rawBody"

definition yellowcard_error :: "string \<Rightarrow> string \<Rightarrow> nat option \<Rightarrow> thrown" where
  "yellowcard_error code message status = RampProviderError ''yellowcard'' code message status"

definition yellowcard_request :: "web_lib \<Rightarrow> yellowcard_config \<Rightarrow> string \<Rightarrow> string \<Rightarrow> json option \<Rightarrow> thrown + json" where
  "yellowcard_request lib config path method body =
     (let what = ''Yellow Card '' @ method @ '' '' @ path
      in case wl_fetch lib (drop_slash (yc_baseUrl config) @ path) method (buildYellowCardAuthHeaders lib config path method body)
                (map_option (wl_stringify lib) body) of
           Aborted \<Rightarrow> Inl (yellowcard_error ''timeout'' (what @ '' failed (timeout)'') None)
         | NetworkError \<Rightarrow> Inl (yellowcard_error ''network_error'' (what @ '' failed (network_error)'') None)
         | Reply ok status reply \<Rightarrow>
             (let parsed = (if reply = [] then None else wl_parse lib reply)
              in if \<not> ok
                 then Inl (yellowcard_error ''api_error'' (providerErrorMessage parsed (what @ '' failed with status '' @ show_nat status)) (Some status))
                 else (case js_nullish parsed None of None \<Rightarrow> Inr (JObject []) | Some v \<Rightarrow> Inr v)))"

definition yellowcard_createCustomer :: "string \<Rightarrow> string option \<Rightarrow> string \<Rightarrow> thrown + ramp_customer" where
  "yellowcard_createCustomer email name reference =
     Inr \<lparr>cu_providerCustomerId = Some reference, cu_email = email, cu_name = name\<rparr>"

text \<open>The properties of the two order bodies that are the same.\<close>

definition order_body :: "web_lib \<Rightarrow> string \<Rightarrow> string \<Rightarrow> string \<Rightarrow> ramp_customer \<Rightarrow> (string \<times> json option) list" where
  "order_body lib reference amountNgn reason customer =
     [(''sequenceId'', js_text reference), (''localAmount'', Some (JNumber (wl_number lib amountNgn))), (''localCurrency'', js_text ''NGN''),
      (''countryCode'', js_text ''NG''), (''reason'', js_text reason), (''endUserId'', map_option JString (cu_providerCustomerId customer))]"

definition yellowcard_createDeposit :: "web_lib \<Rightarrow> yellowcard_config \<Rightarrow> string \<Rightarrow> string \<Rightarrow> ramp_customer \<Rightarrow> thrown + ramp_instruction" where
  "yellowcard_createDeposit lib config reference amountNgn customer =
     then_do (yellowcard_request lib config ''/business/transactions'' ''POST'' (Some (js_object
        (order_body lib reference amountNgn ''Ulmara wallet top-up'' customer @ [(''type'', js_text ''receive'')])))) (\<lambda>data.
       let bankInfo = js_nullish (field data ''bankInfo'') None
       in Inr \<lparr>in_reference = reference, in_providerReference = as_string (field data ''id''),
               in_status = mapStatus (as_string (field data ''status'')),
               in_paymentInstructions = Some (instructions
                 [(''accountNumber'', as_string (field_opt bankInfo ''accountNumber'')), (''bankName'', as_string (field_opt bankInfo ''bankName'')),
                  (''accountName'', as_string (field_opt bankInfo ''accountName'')), (''amountNgn'', Some amountNgn),
                  (''checkoutUrl'', as_string (field data ''redirectUrl''))])\<rparr>)"

definition yellowcard_createWithdrawal ::
  "web_lib \<Rightarrow> yellowcard_config \<Rightarrow> string \<Rightarrow> string \<Rightarrow> ramp_customer \<Rightarrow> bank_account \<Rightarrow> thrown + ramp_instruction" where
  "yellowcard_createWithdrawal lib config reference amountNgn customer bank =
     then_do (yellowcard_request lib config ''/business/transactions/send'' ''POST'' (Some (js_object
        (order_body lib reference amountNgn ''Ulmara wallet withdrawal'' customer @
         [(''destination'', Some (js_object
            [(''type'', js_text ''bank''), (''accountNumber'', js_text (ba_accountNumber bank)), (''bankCode'', js_text (ba_bankCode bank)),
             (''accountName'', js_text (ba_accountName bank)), (''countryCode'', js_text ''NG'')]))])))) (\<lambda>data.
       Inr \<lparr>in_reference = reference, in_providerReference = as_string (field data ''id''),
            in_status = mapStatus (as_string (field data ''status'')), in_paymentInstructions = None\<rparr>)"

definition yellowcard_getStatus :: "web_lib \<Rightarrow> yellowcard_config \<Rightarrow> string \<Rightarrow> thrown + ramp_result" where
  "yellowcard_getStatus lib config reference =
     then_do (yellowcard_request lib config (''/business/transactions/sequence/'' @ wl_encode lib reference) ''GET'' None) (\<lambda>data.
       if \<not> js_truthy (field data ''id'')
       then Inl (yellowcard_error ''not_found'' (''No Yellow Card transaction for reference '' @ reference) (Some 404))
       else Inr \<lparr>rr_reference = reference, rr_providerReference = as_string (field data ''id''),
                 rr_status = mapStatus (as_string (field data ''status'')),
                 rr_amountNgn = (if field data ''localAmount'' \<noteq> None then js_string_opt (field data ''localAmount'')
                                 else if field data ''localCurrency'' = js_text ''NGN'' \<and> field data ''usdAmount'' \<noteq> None
                                 then js_string_opt (field data ''usdAmount'') else ''0''),
                 rr_failureReason = as_string (js_nullish (field data ''error'') (field data ''reason''))\<rparr>)"

section \<open>Webhooks\<close>

definition yellowcard_verifyWebhookSignature :: "web_lib \<Rightarrow> yellowcard_config \<Rightarrow> string \<Rightarrow> string option \<Rightarrow> bool" where
  "yellowcard_verifyWebhookSignature lib config rawBody signature =
     (if \<not> truthy signature then False
      else if constantTimeEquals (signYellowCardWebhook lib (yc_secretKey config) rawBody) (js_trim (the signature)) then True
      else (case wl_parse lib rawBody of
              None \<Rightarrow> False
            | Some v \<Rightarrow> constantTimeEquals (signYellowCardWebhook lib (yc_secretKey config) (wl_stringify lib v)) (js_trim (the signature))))"

text \<open>\<open>event.split(".")[1]\<close>.\<close>

definition event_suffix :: "string \<Rightarrow> string option" where
  "event_suffix event = (case js_split (CHR ''.'') event of _ # s # _ \<Rightarrow> Some s | _ \<Rightarrow> None)"

definition direction_of :: "string \<Rightarrow> string" where
  "direction_of event =
     (if startsWith event ''SEND.'' then ''WITHDRAWAL'' else if startsWith event ''RECEIVE.'' then ''DEPOSIT'' else ''UNKNOWN'')"

definition yellowcard_parseWebhook :: "web_lib \<Rightarrow> yellowcard_config \<Rightarrow> string \<Rightarrow> thrown + ramp_event" where
  "yellowcard_parseWebhook lib config rawBody =
     (case wl_parse lib rawBody of
        None \<Rightarrow> Inl (yellowcard_error ''invalid_payload'' ''Yellow Card webhook body is not valid JSON'' None)
      | Some parsed \<Rightarrow>
          then_do (field_of (Some parsed) ''apiKey'') (\<lambda>apiKey.
            if js_truthy apiKey \<and> apiKey \<noteq> js_text (yc_apiKey config)
            then Inl (yellowcard_error ''api_key_mismatch'' ''Yellow Card webhook apiKey does not match ours'' None)
            else if \<not> js_truthy (field parsed ''event'')
            then Inl (yellowcard_error ''invalid_payload'' ''Yellow Card webhook is missing the `event` field'' None)
            else (case as_string (field parsed ''event'') of
                    None \<Rightarrow> Inl (PlainError ''parsed.event.startsWith is not a function'')
                  | Some event \<Rightarrow>
                      Inr \<lparr>re_type = event, re_reference = nullish (as_string (field parsed ''sequenceId'')) [],
                           re_status = mapStatus (case js_nullish (field parsed ''status'') None of
                                                    Some v \<Rightarrow> as_string (Some v) | None \<Rightarrow> event_suffix event),
                           re_amountNgn = (if field parsed ''localAmount'' \<noteq> None then Some (js_string_opt (field parsed ''localAmount'')) else None),
                           re_providerReference = as_string (field parsed ''id''),
                           re_failureReason = (if mapStatus (as_string (field parsed ''status'')) = FAILED
                                               then as_string (js_nullish (field parsed ''errorCode'') (field parsed ''error'')) else None),
                           re_eventId = (case js_nullish (field parsed ''id'') (js_nullish (field parsed ''sequenceId'') None) of
                                           Some v \<Rightarrow> js_string v | None \<Rightarrow> event),
                           re_raw = (case parsed of JObject kvs \<Rightarrow> JObject (kvs @ [(''__direction'', JString (direction_of event))]) | v \<Rightarrow> v)\<rparr>)))"

section \<open>The provider\<close>

definition yellowcard_provider :: "web_lib \<Rightarrow> yellowcard_config \<Rightarrow> ramp_provider" where
  "yellowcard_provider lib config =
     \<lparr>rp_name = ''yellowcard'', rp_createCustomer = yellowcard_createCustomer,
      rp_createDeposit = yellowcard_createDeposit lib config, rp_createWithdrawal = yellowcard_createWithdrawal lib config,
      rp_getStatus = yellowcard_getStatus lib config, rp_verifyWebhookSignature = yellowcard_verifyWebhookSignature lib config,
      rp_parseWebhook = yellowcard_parseWebhook lib config\<rparr>"

definition createYellowCardProvider :: "web_lib \<Rightarrow> yellowcard_config \<Rightarrow> thrown + ramp_provider" where
  "createYellowCardProvider lib config =
     (if yc_apiKey config = [] \<or> yc_secretKey config = []
      then Inl (yellowcard_error ''missing_credentials'' ''YELLOW_CARD_API_KEY and YELLOW_CARD_API_SECRET are required'' None)
      else Inr (yellowcard_provider lib config))"

interpretation yellowcard: ramp_contract "yellowcard_provider lib config" js_trim
    "\<lambda>raw. signYellowCardWebhook lib (yc_secretKey config) raw #
       (case wl_parse lib raw of None \<Rightarrow> [] | Some v \<Rightarrow> [signYellowCardWebhook lib (yc_secretKey config) (wl_stringify lib v)])"
proof
  fix ref amount c b i r raw sig
  show "rp_createDeposit (yellowcard_provider lib config) ref amount c = Inr i \<Longrightarrow> in_reference i = ref"
    by (auto simp: yellowcard_provider_def yellowcard_createDeposit_def Let_def)
  show "rp_createWithdrawal (yellowcard_provider lib config) ref amount c b = Inr i \<Longrightarrow> in_reference i = ref"
    by (auto simp: yellowcard_provider_def yellowcard_createWithdrawal_def)
  show "rp_getStatus (yellowcard_provider lib config) ref = Inr r \<Longrightarrow> rr_reference r = ref"
    by (auto simp: yellowcard_provider_def yellowcard_getStatus_def split: if_splits)
  show "rp_verifyWebhookSignature (yellowcard_provider lib config) raw sig \<longleftrightarrow>
      truthy sig \<and> js_trim (the sig) \<in> set (signYellowCardWebhook lib (yc_secretKey config) raw #
        (case wl_parse lib raw of None \<Rightarrow> [] | Some v \<Rightarrow> [signYellowCardWebhook lib (yc_secretKey config) (wl_stringify lib v)]))"
    by (auto simp: yellowcard_provider_def yellowcard_verifyWebhookSignature_def split: option.splits)
qed

end
