(* ===== verification/RampService.thy ===== *)
theory RampService
  imports Bitnob YellowCard Sockets
begin

text \<open>
  The Naira ramp: the provider selection (\<^verbatim>\<open>src/src/services/ramp/providers/index.ts\<close>), the orchestration
  (\<^verbatim>\<open>src/src/services/ramp/ramp.service.ts\<close>), the queue processor (\<^verbatim>\<open>src/src/jobs/ramp.worker.ts\<close>) and the
  webhook endpoint (\<^verbatim>\<open>src/src/controllers/ramp.controller.ts\<close>).  \<open>mid n\<close> is what other requests do during
  the \<open>n\<close>-th await between a read and a write; a provider call is such an await.
\<close>

section \<open>Provider selection\<close>

datatype ramp_choice = UseBitnob | UseYellowCard

record ramp_config =
  rg_choice :: ramp_choice
  rg_lib :: web_lib
  rg_bitnob :: bitnob_config
  rg_yellowcard :: yellowcard_config

fun getRampProviderName :: "ramp_choice \<Rightarrow> string" where
  "getRampProviderName UseBitnob = ''bitnob''"
| "getRampProviderName UseYellowCard = ''yellowcard''"

fun getRampWebhookSignatureHeader :: "ramp_choice \<Rightarrow> string" where
  "getRampWebhookSignatureHeader UseBitnob = BITNOB_WEBHOOK_SIGNATURE_HEADER"
| "getRampWebhookSignatureHeader UseYellowCard = YELLOWCARD_WEBHOOK_SIGNATURE_HEADER"

definition getRampProvider :: "ramp_config \<Rightarrow> thrown + ramp_provider" where
  "getRampProvider config =
     (case rg_choice config of
        UseBitnob \<Rightarrow> createBitnobProvider (rg_lib config) (rg_bitnob config)
      | UseYellowCard \<Rightarrow> createYellowCardProvider (rg_lib config) (rg_yellowcard config))"

definition isRampProviderConfigured :: "ramp_config \<Rightarrow> bool" where
  "isRampProviderConfigured config = (case getRampProvider config of Inr _ \<Rightarrow> True | Inl _ \<Rightarrow> False)"

section \<open>Deposits and withdrawals\<close>

text \<open>What a request is served with: the configuration, the bounds, the clock, the text of a stored amount,
  the random reference and row id, the error of the queue, and the error of the update of the row.\<close>

record ramp_env =
  rv_config :: ramp_config
  rv_min :: nat
  rv_max :: nat
  rv_now :: int
  rv_canon :: "string \<Rightarrow> string"
  rv_uuid :: string
  rv_rowId :: string
  rv_enqueue :: "thrown option"
  rv_updateError :: "thrown option"

definition ramp_fail :: "nat \<Rightarrow> string \<Rightarrow> thrown" where
  "ramp_fail statusCode message = HttpError statusCode message"

definition loadUserCustomer :: "string \<Rightarrow> world \<Rightarrow> thrown + (string \<times> string option)" where
  "loadUserCustomer userId w =
     (case find_row (\<lambda>u. u_id u = userId) (users w) of
        None \<Rightarrow> Inl (ramp_fail 404 ''Account not found'')
      | Some u \<Rightarrow> Inr (u_email u, u_name u))"

fun describeError :: "thrown \<Rightarrow> string" where
  "describeError (RampProviderError p code message status) = p @ '' '' @ code @ '': '' @ message"
| "describeError NotAnError = ''Unknown provider error''"
| "describeError err = take 300 (message_of err)"

definition set_ramp :: "string \<Rightarrow> (ramp_row \<Rightarrow> ramp_row) \<Rightarrow> world \<Rightarrow> world" where
  "set_ramp rid f w = w\<lparr>rampTxs := update_rows (\<lambda>r. r_id r = rid) f (rampTxs w)\<rparr>"

definition markFailed :: "string \<Rightarrow> string \<Rightarrow> world \<Rightarrow> world" where
  "markFailed rid reason = set_ramp rid (\<lambda>r. r\<lparr>r_status := FAILED, r_failureReason := Some reason\<rparr>)"

definition new_ramp :: "ramp_env \<Rightarrow> string \<Rightarrow> ramp_type \<Rightarrow> string \<Rightarrow> string \<Rightarrow> string \<Rightarrow> ramp_row" where
  "new_ramp env userId kind amountNgn providerName reference =
     \<lparr>r_id = rv_rowId env, r_userId = userId, r_type = kind, r_amountNgn = rv_canon env amountNgn, r_provider = providerName,
      r_reference = reference, r_status = PENDING, r_providerReference = None, r_providerCustomerId = None,
      r_paymentInstructions = None, r_failureReason = None, r_providerAmountNgn = None, r_providerStatusRaw = None,
      r_lastSyncedAt = None, r_createdAt = rv_now env\<rparr>"

text \<open>\<open>a ?? undefined\<close> in an update: an absent value leaves the column as it is.\<close>

definition or_keep :: "'a option \<Rightarrow> 'a option \<Rightarrow> 'a option" where
  "or_keep a old = (case a of Some x \<Rightarrow> Some x | None \<Rightarrow> old)"

definition reconcile_job :: "string \<Rightarrow> ramp_job" where
  "reconcile_job rid = \<lparr>rj_rampTransactionId = Some rid, rj_reference = None, rj_delay = 30000, rj_attempts = 5\<rparr>"

text \<open>The columns an instruction sets; a withdrawal leaves the payment instructions alone.\<close>

definition apply_instruction :: "bool \<Rightarrow> ramp_customer \<Rightarrow> ramp_instruction \<Rightarrow> ramp_row \<Rightarrow> ramp_row" where
  "apply_instruction withInstructions customer i r =
     r\<lparr>r_providerReference := or_keep (in_providerReference i) (r_providerReference r),
       r_providerCustomerId := or_keep (cu_providerCustomerId customer) (r_providerCustomerId r),
       r_paymentInstructions := (if withInstructions then or_keep (in_paymentInstructions i) (r_paymentInstructions r) else r_paymentInstructions r),
       r_status := in_status i\<rparr>"

text \<open>The second \<open>try\<close> block of both operations, after the provider answered \<open>answer\<close>.\<close>

definition finishOrder :: "ramp_env \<Rightarrow> bool \<Rightarrow> string \<Rightarrow> ramp_customer \<Rightarrow> thrown + ramp_instruction \<Rightarrow> ramp_row op" where
  "finishOrder env withInstructions rid customer answer w =
     (case answer of
        Inl e \<Rightarrow> (Inl e, markFailed rid (describeError e) w)
      | Inr i \<Rightarrow>
          (case update_row (\<lambda>r. r_id r = rid) (apply_instruction withInstructions customer i) (rampTxs w) of
             Inl e \<Rightarrow> (Inl e, markFailed rid (describeError e) w)
           | Inr rows \<Rightarrow>
               (let w1 = w\<lparr>rampTxs := rows\<rparr>
                in case rv_enqueue env of
                     Some e \<Rightarrow> (Inl e, markFailed rid (describeError e) w1)
                   | None \<Rightarrow> (Inr (the (find_row (\<lambda>r. r_id r = rid) rows)), w1\<lparr>rampQueue := rampQueue w1 @ [reconcile_job rid]\<rparr>))))"

text \<open>From the row on: the customer, then the order \<open>ask\<close> places with the provider.\<close>

definition placeOrder :: "ramp_env \<Rightarrow> (nat \<Rightarrow> world \<Rightarrow> world) \<Rightarrow> ramp_provider \<Rightarrow> string \<Rightarrow> string option \<Rightarrow> bool \<Rightarrow>
    (ramp_customer \<Rightarrow> thrown + ramp_instruction) \<Rightarrow> ramp_row \<Rightarrow> ramp_row op" where
  "placeOrder env mid provider email name withInstructions ask row w =
     (case create_row (\<lambda>r. Some (r_reference r)) row (rampTxs w) of
        Inl e \<Rightarrow> (Inl e, w)
      | Inr rows \<Rightarrow>
          (let w1 = mid 0 (w\<lparr>rampTxs := rows\<rparr>)
           in case rp_createCustomer provider email name (''CUS-'' @ r_id row) of
                Inl e \<Rightarrow> (Inl e, markFailed (r_id row) (describeError e) w1)
              | Inr customer \<Rightarrow> finishOrder env withInstructions (r_id row) customer (ask customer) (mid 1 w1)))"

definition deposit :: "ramp_env \<Rightarrow> (nat \<Rightarrow> world \<Rightarrow> world) \<Rightarrow> string \<Rightarrow> string \<Rightarrow> ramp_row op" where
  "deposit env mid userId amountNgn w =
     (case assertValidNgnAmount amountNgn (rv_min env) (rv_max env) of
        Inl e \<Rightarrow> (Inl e, w)
      | Inr _ \<Rightarrow>
          (case getRampProvider (rv_config env) of
             Inl _ \<Rightarrow> (Inl (ramp_fail 503 ''Naira deposits are temporarily unavailable. Please try again shortly.''), w)
           | Inr provider \<Rightarrow>
               (case loadUserCustomer userId w of
                  Inl e \<Rightarrow> (Inl e, w)
                | Inr (email, name) \<Rightarrow>
                    (let reference = ''DEP-'' @ rv_uuid env
                     in case find_row (\<lambda>r. r_reference r = reference) (rampTxs w) of
                          Some existing \<Rightarrow> (Inr existing, w)
                        | None \<Rightarrow>
                            placeOrder env mid provider email name True
                              (\<lambda>customer. rp_createDeposit provider reference amountNgn customer)
                              (new_ramp env userId DEPOSIT amountNgn (rp_name provider) reference) w))))"

record withdraw_input =
  wi_amountNgn :: string
  wi_accountNumber :: string
  wi_bankCode :: string
  wi_accountName :: string

definition checkBankAccount :: "withdraw_input \<Rightarrow> thrown + unit" where
  "checkBankAccount input =
     (if \<not> (length (wi_accountNumber input) = 10 \<and> all_digits (wi_accountNumber input))
      then Inl (ramp_fail 400 ''Enter a valid 10-digit Nigerian account number'')
      else if js_trim (wi_bankCode input) = [] then Inl (ramp_fail 400 ''Select a bank'')
      else if js_trim (wi_accountName input) = [] then Inl (ramp_fail 400 ''Enter the account holder's name'')
      else Inr ())"

definition withdraw :: "ramp_env \<Rightarrow> (nat \<Rightarrow> world \<Rightarrow> world) \<Rightarrow> string \<Rightarrow> withdraw_input \<Rightarrow> ramp_row op" where
  "withdraw env mid userId input w =
     (case then_do (assertValidNgnAmount (wi_amountNgn input) (rv_min env) (rv_max env)) (\<lambda>_. checkBankAccount input) of
        Inl e \<Rightarrow> (Inl e, w)
      | Inr _ \<Rightarrow>
          (case getRampProvider (rv_config env) of
             Inl _ \<Rightarrow> (Inl (ramp_fail 503 ''Naira withdrawals are temporarily unavailable. Please try again shortly.''), w)
           | Inr provider \<Rightarrow>
               (case loadUserCustomer userId w of
                  Inl e \<Rightarrow> (Inl e, w)
                | Inr (email, name) \<Rightarrow>
                    (let reference = ''WDR-'' @ rv_uuid env
                     in placeOrder env mid provider email name False
                          (\<lambda>customer. rp_createWithdrawal provider reference (wi_amountNgn input) customer
                             \<lparr>ba_accountNumber = wi_accountNumber input, ba_bankCode = wi_bankCode input, ba_accountName = wi_accountName input\<rparr>)
                          (new_ramp env userId WITHDRAWAL (wi_amountNgn input) (rp_name provider) reference) w))))"

definition getRampStatus :: "string \<Rightarrow> string \<Rightarrow> world \<Rightarrow> thrown + ramp_row" where
  "getRampStatus userId reference w =
     (case find_row (\<lambda>r. r_reference r = reference \<and> r_userId r = userId) (rampTxs w) of
        None \<Rightarrow> Inl (ramp_fail 404 ''Ramp transaction not found'')
      | Some r \<Rightarrow> Inr r)"

section \<open>Webhooks\<close>

definition event_key :: "webhook_row \<Rightarrow> (string \<times> string) option" where
  "event_key h = Some (h_provider h, h_eventId h)"

definition new_webhook_row :: "ramp_env \<Rightarrow> string \<Rightarrow> ramp_event \<Rightarrow> bool \<Rightarrow> webhook_row" where
  "new_webhook_row env providerName event signatureValid =
     \<lparr>h_id = rv_rowId env, h_provider = providerName, h_eventId = re_eventId event, h_eventType = re_type event,
      h_reference = Some (re_reference event), h_signatureValid = signatureValid, h_status = Some (ramp_status_name (re_status event)),
      h_payload = wl_stringify (rg_lib (rv_config env)) (re_raw event), h_receivedAt = rv_now env, h_processedAt = None\<rparr>"

definition markProcessed :: "ramp_env \<Rightarrow> string \<Rightarrow> ramp_event \<Rightarrow> world \<Rightarrow> world" where
  "markProcessed env providerName event w =
     w\<lparr>webhookEvents := update_rows (\<lambda>h. h_provider h = providerName \<and> h_eventId h = re_eventId event)
         (\<lambda>h. h\<lparr>h_processedAt := Some (rv_now env)\<rparr>) (webhookEvents w)\<rparr>"

definition apply_event :: "ramp_env \<Rightarrow> ramp_event \<Rightarrow> ramp_row \<Rightarrow> ramp_row \<Rightarrow> ramp_row" where
  "apply_event env event read r =
     r\<lparr>r_status := re_status event, r_providerReference := or_keep (re_providerReference event) (r_providerReference read),
       r_failureReason := or_keep (re_failureReason event)
         (if re_status event = FAILED then Some ''The provider reported a failure'' else r_failureReason read),
       r_providerStatusRaw := Some (ramp_status_name (re_status event)), r_lastSyncedAt := Some (rv_now env),
       r_providerAmountNgn := (if truthy (re_amountNgn event) then map_option (rv_canon env) (re_amountNgn event) else r_providerAmountNgn r)\<rparr>"

definition handleWebhook :: "ramp_env \<Rightarrow> (nat \<Rightarrow> world \<Rightarrow> world) \<Rightarrow> string \<Rightarrow> ramp_event \<Rightarrow> bool \<Rightarrow> (bool \<times> string option) op" where
  "handleWebhook env mid providerName event signatureValid w =
     (if re_reference event = [] then (Inr (False, Some ''no_reference''), w)
      else (case create_row event_key (new_webhook_row env providerName event signatureValid) (webhookEvents w) of
              Inl err \<Rightarrow> if isUniqueConstraintViolation err then (Inr (False, Some ''duplicate''), w) else (Inl err, w)
            | Inr rows \<Rightarrow>
                (let w1 = mid 0 (w\<lparr>webhookEvents := rows\<rparr>)
                 in case find_row (\<lambda>r. r_reference r = re_reference event) (rampTxs w1) of
                      None \<Rightarrow> (Inr (False, Some ''unmatched_reference''), markProcessed env providerName event w1)
                    | Some rampTx \<Rightarrow>
                        if \<not> signatureValid then (Inr (False, Some ''invalid_signature''), w1)
                        else if RANK (r_status rampTx) \<ge> RANK (re_status event)
                        then (Inr (False, Some ''stale_status''), markProcessed env providerName event w1)
                        else (case rv_updateError env of
                                Some e \<Rightarrow> (Inl e, mid 1 w1)
                              | None \<Rightarrow>
                                  (case update_row (\<lambda>r. r_id r = r_id rampTx) (apply_event env event rampTx) (rampTxs (mid 1 w1)) of
                                     Inl e \<Rightarrow> (Inl e, mid 1 w1)
                                   | Inr rows' \<Rightarrow> (Inr (True, None), markProcessed env providerName event ((mid 1 w1)\<lparr>rampTxs := rows'\<rparr>)))))))"

text \<open>The endpoint: the status code, and \<open>applied\<close> and \<open>reason\<close> of a handled delivery.\<close>

definition webhook :: "ramp_env \<Rightarrow> (nat \<Rightarrow> world \<Rightarrow> world) \<Rightarrow> string \<Rightarrow> (string \<Rightarrow> string list) \<Rightarrow> world \<Rightarrow>
    (nat \<times> (bool \<times> string option) option) \<times> world" where
  "webhook env mid raw headers w =
     (let choice = rg_choice (rv_config env);
          signature = (case headers (getRampWebhookSignatureHeader choice) of [] \<Rightarrow> None | s # _ \<Rightarrow> Some s)
      in case getRampProvider (rv_config env) of
           Inl _ \<Rightarrow> ((401, None), w)
         | Inr provider \<Rightarrow>
             if \<not> rp_verifyWebhookSignature provider raw signature then ((401, None), w)
             else (case rp_parseWebhook provider raw of
                     Inl _ \<Rightarrow> ((400, None), w)
                   | Inr event \<Rightarrow>
                       (case handleWebhook env mid (getRampProviderName choice) event True w of
                          (Inr result, w1) \<Rightarrow> ((200, Some result), w1)
                        | (Inl _, w1) \<Rightarrow> ((500, None), w1))))"

section \<open>Reconciliation\<close>

definition apply_result :: "ramp_env \<Rightarrow> ramp_result \<Rightarrow> ramp_row \<Rightarrow> ramp_row" where
  "apply_result env result r =
     r\<lparr>r_status := rr_status result, r_failureReason := or_keep (rr_failureReason result) (r_failureReason r),
       r_providerStatusRaw := Some (ramp_status_name (rr_status result)), r_lastSyncedAt := Some (rv_now env)\<rparr>"

definition NO_RECORD :: string where
  "NO_RECORD = ''The provider has no record of this transaction''"

text \<open>The answer: the status' name and whether it was applied.  The update of the row can only fail if the
  row is gone.\<close>

definition reconcile :: "ramp_env \<Rightarrow> (nat \<Rightarrow> world \<Rightarrow> world) \<Rightarrow> string \<Rightarrow> world \<Rightarrow> (thrown + string \<times> bool) \<times> world" where
  "reconcile env mid reference w =
     (case find_row (\<lambda>r. r_reference r = reference) (rampTxs w) of
        None \<Rightarrow> (Inr (''UNKNOWN'', False), w)
      | Some rampTx \<Rightarrow>
          (let current = (Inr (ramp_status_name (r_status rampTx), False))
           in if r_status rampTx = COMPLETED \<or> r_status rampTx = FAILED then (current, w)
              else (case getRampProvider (rv_config env) of
                      Inl _ \<Rightarrow> (current, w)
                    | Inr provider \<Rightarrow>
                        (let w1 = mid 0 w
                         in case rp_getStatus provider reference of
                              Inr result \<Rightarrow>
                                if RANK (r_status rampTx) \<ge> RANK (rr_status result) then (current, w1)
                                else if find_row (\<lambda>r. r_id r = r_id rampTx) (rampTxs w1) = None then (current, w1)
                                else (Inr (ramp_status_name (rr_status result), True), set_ramp (r_id rampTx) (apply_result env result) w1)
                            | Inl (RampProviderError p code m status) \<Rightarrow>
                                if status \<noteq> Some 404 then (current, w1)
                                else if find_row (\<lambda>r. r_id r = r_id rampTx) (rampTxs w1) = None then (Inl record_not_found, w1)
                                else (current, set_ramp (r_id rampTx) (\<lambda>r. r\<lparr>r_status := FAILED, r_failureReason := Some NO_RECORD,
                                                 r_lastSyncedAt := Some (rv_now env)\<rparr>) w1)
                            | Inl _ \<Rightarrow> (current, w1)))))"

record ramp_job_result =
  jx_reference :: "string option"
  jx_status :: string
  jx_applied :: "bool option"

definition processRampJob :: "ramp_env \<Rightarrow> (nat \<Rightarrow> world \<Rightarrow> world) \<Rightarrow> bool \<Rightarrow> ramp_job \<Rightarrow> ramp_job_result op" where
  "processRampJob env mid publishes job w =
     (if \<not> truthy (rj_rampTransactionId job) \<and> \<not> truthy (rj_reference job)
      then (Inl (PlainError ''A ramp job requires rampTransactionId or reference''), w)
      else if \<not> isRampProviderConfigured (rv_config env) then (Inl (PlainError ''Ramp provider is not configured''), w)
      else (case find_row (\<lambda>r. if truthy (rj_rampTransactionId job) then Some (r_id r) = rj_rampTransactionId job
                              else Some (r_reference r) = rj_reference job) (rampTxs w) of
              None \<Rightarrow> (Inr \<lparr>jx_reference = None, jx_status = ''DELETED'', jx_applied = None\<rparr>, w)
            | Some rampTx \<Rightarrow>
                (case reconcile env mid (r_reference rampTx) w of
                   (Inl e, w1) \<Rightarrow> (Inl e, w1)
                 | (Inr (status, applied), w1) \<Rightarrow>
                     (Inr \<lparr>jx_reference = Some (r_reference rampTx), jx_status = status, jx_applied = Some applied\<rparr>,
                      if applied \<and> publishes
                      then publishUserEvent \<lparr>ev_userId = r_userId rampTx, ev_event = ''ramp:updated'',
                             ev_payload = [(''reference'', Some (r_reference rampTx)), (''status'', Some status),
                                           (''type'', Some (if r_type rampTx = DEPOSIT then ''DEPOSIT'' else ''WITHDRAWAL''))]\<rparr> w1
                      else w1))))"

end
