(* ===== verification/RampWebhooks.thy ===== *)
theory RampWebhooks
  imports RampService
begin

text \<open>
  What the ramp providers' webhooks do to the transactions (\<^verbatim>\<open>handleWebhook\<close> of
  \<^verbatim>\<open>src/src/services/ramp/ramp.service.ts\<close> and its endpoint): the run of deliveries about one reference, the
  authenticity of a delivery, and the keys of the events.
\<close>

section \<open>Lemmas on webhooks\<close>

text \<open>What the deliveries of a provider leave behind for a transaction: its status, and the events seen.\<close>

definition status_of_ref :: "string \<Rightarrow> world \<Rightarrow> ramp_status option" where
  "status_of_ref ref w = map_option r_status (find_row (\<lambda>r. r_reference r = ref) (rampTxs w))"

definition seen :: "string \<Rightarrow> world \<Rightarrow> string set" where
  "seen p w = {k. \<exists>h \<in> set (webhookEvents w). event_key h = Some (p, k)}"

abbreviation calm :: "nat \<Rightarrow> world \<Rightarrow> world" where
  "calm \<equiv> \<lambda>n w. w"

definition deliver :: "ramp_env \<Rightarrow> string \<Rightarrow> ramp_event \<Rightarrow> world \<Rightarrow> world" where
  "deliver env p e w = snd (handleWebhook env calm p e True w)"

lemma event_recorded:
  "create_row event_key (new_webhook_row env p e v) (webhookEvents w) =
     (if re_eventId e \<in> seen p w then Inl unique_violation else Inr (webhookEvents w @ [new_webhook_row env p e v]))"
  by (auto simp: create_row_def event_key_def new_webhook_row_def seen_def)

lemma event_key_row [simp]: "event_key (new_webhook_row env p e v) = Some (p, re_eventId e)"
  by (simp add: event_key_def new_webhook_row_def)

lemma seen_markProcessed: "seen p (markProcessed env p' e w) = seen p w"
proof -
  have "(\<exists>h \<in> set (update_rows Q (\<lambda>h. h\<lparr>h_processedAt := t\<rparr>) hs). event_key h = k) \<longleftrightarrow> (\<exists>h \<in> set hs. event_key h = k)" for Q t hs k
    by (induction hs) (simp_all add: event_key_def)
  then show ?thesis by (simp add: seen_def markProcessed_def)
qed

lemma seen_simps [simp]:
  "seen p (w\<lparr>webhookEvents := webhookEvents w @ [new_webhook_row env p e v]\<rparr>) = insert (re_eventId e) (seen p w)"
  "seen p (w\<lparr>rampTxs := rows\<rparr>) = seen p w"
  "seen p (markProcessed env p' e w) = seen p w"
  "rampTxs (markProcessed env p' e w) = rampTxs w"
  unfolding seen_markProcessed by (auto simp: seen_def markProcessed_def)

lemma duplicate_event:
  "re_reference e \<noteq> [] \<Longrightarrow> re_eventId e \<in> seen p w \<Longrightarrow> handleWebhook env mid p e v w = (Inr (False, Some ''duplicate''), w)"
  by (simp add: handleWebhook_def event_recorded UNIQUE_VIOLATION_CODE_def)

text \<open>A new event: the status becomes the greater of the two in the order of \<open>RANK\<close>.\<close>

lemma fresh_event:
  assumes "re_reference e = ref" "ref \<noteq> []" "re_eventId e \<notin> seen p w" "status_of_ref ref w = Some s" "rv_updateError env = None"
  shows "status_of_ref ref (deliver env p e w) = Some (max s (re_status e)) \<and> seen p (deliver env p e w) = insert (re_eventId e) (seen p w)"
proof -
  let ?w1 = "w\<lparr>webhookEvents := webhookEvents w @ [new_webhook_row env p e True]\<rparr>"
  obtain r where r: "find_row (\<lambda>r. r_reference r = ref) (rampTxs w) = Some r" "r_status r = s"
    using assms(4) by (auto simp: status_of_ref_def)
  show ?thesis
  proof (cases "RANK s \<ge> RANK (re_status e)")
    case True
    then have "deliver env p e w = markProcessed env p e ?w1"
      using assms r by (simp add: deliver_def handleWebhook_def event_recorded)
    moreover have "max s (re_status e) = s" using True by (simp add: max_def less_eq_ramp_status_def)
    ultimately show ?thesis using r by (simp add: status_of_ref_def)
  next
    case False
    let ?rows = "update_rows (\<lambda>x. r_id x = r_id r) (apply_event env e r) (rampTxs w)"
    have "find_row (\<lambda>x. r_id x = r_id r) (rampTxs w) \<noteq> None"
      using find_row_Some [OF r(1)] by (auto simp: find_row_None)
    then obtain y where "find_row (\<lambda>x. r_id x = r_id r) (rampTxs w) = Some y" by blast
    then have "deliver env p e w = markProcessed env p e (?w1\<lparr>rampTxs := ?rows\<rparr>)"
      using assms r False by (simp add: deliver_def handleWebhook_def event_recorded update_row_def)
    moreover have "find_row (\<lambda>x. r_reference x = ref) ?rows = Some (apply_event env e r r)"
      using find_row_update_rows [of "\<lambda>x. r_reference x = ref" "apply_event env e r" "\<lambda>x. r_id x = r_id r" "rampTxs w"] r(1)
      by (simp add: apply_event_def)
    moreover have "max s (re_status e) = re_status e" using False by (simp add: max_def less_eq_ramp_status_def)
    ultimately show ?thesis by (simp add: status_of_ref_def apply_event_def)
  qed
qed

text \<open>A run of deliveries, in any order and with redeliveries.\<close>

lemma deliveries:
  assumes "\<forall>e \<in> set es. re_reference e = ref" "ref \<noteq> []" "rv_updateError env = None"
    and "\<forall>e \<in> set es. \<forall>f \<in> set es. re_eventId e = re_eventId f \<longrightarrow> re_status e = re_status f"
    and "status_of_ref ref w = Some s" "\<forall>e \<in> set es. re_eventId e \<in> seen p w \<longrightarrow> re_status e \<le> s"
  shows "status_of_ref ref (fold (deliver env p) es w) = Some (Max (insert s (re_status ` set es)))"
  using assms
proof (induction es arbitrary: w s)
  case Nil
  then show ?case by simp
next
  case (Cons e es)
  let ?w = "deliver env p e w"
  have step: "status_of_ref ref ?w = Some (max s (re_status e)) \<and>
      (\<forall>f \<in> set es. re_eventId f \<in> seen p ?w \<longrightarrow> re_status f \<le> max s (re_status e))"
  proof (cases "re_eventId e \<in> seen p w")
    case True
    then have "?w = w" using Cons.prems(1,2) by (simp add: deliver_def duplicate_event)
    moreover have "re_status e \<le> s" using Cons.prems(6) True by simp
    ultimately show ?thesis using Cons.prems(5,6) by (auto simp: max_def)
  next
    case False
    have e: "re_reference e = ref" using Cons.prems(1) by simp
    have new: "status_of_ref ref ?w = Some (max s (re_status e))" "seen p ?w = insert (re_eventId e) (seen p w)"
      using fresh_event [OF e Cons.prems(2) False Cons.prems(5,3)] by simp_all
    have "re_status f \<le> max s (re_status e)" if f: "f \<in> set es" "re_eventId f \<in> seen p ?w" for f
    proof (cases "re_eventId f = re_eventId e")
      case True
      have "e \<in> set (e # es)" "f \<in> set (e # es)" using f(1) by simp_all
      then have "re_status f = re_status e" using Cons.prems(4) True by blast
      then show ?thesis by simp
    next
      case False
      have "f \<in> set (e # es)" "re_eventId f \<in> seen p w" using f False new(2) by simp_all
      then have "re_status f \<le> s" using Cons.prems(6) by blast
      then show ?thesis by (simp add: le_max_iff_disj)
    qed
    then show ?thesis using new(1) by blast
  qed
  have "status_of_ref ref (fold (deliver env p) es ?w) = Some (Max (insert (max s (re_status e)) (re_status ` set es)))"
  proof (rule Cons.IH)
    show "\<forall>f \<in> set es. re_reference f = ref" using Cons.prems(1) by simp
    show "\<forall>f \<in> set es. \<forall>g \<in> set es. re_eventId f = re_eventId g \<longrightarrow> re_status f = re_status g"
      using Cons.prems(4) by (meson list.set_intros(2))
  qed (use step Cons.prems(2,3) in blast)+
  moreover have "Max (insert (max s (re_status e)) (re_status ` set es)) = Max (insert s (re_status ` set (e # es)))"
    by (cases "set es = {}") (simp_all add: Max_insert max.assoc)
  ultimately show ?case by simp
qed

section \<open>Properties\<close>


section \<open>A small provider\<close>

definition demo_lib :: web_lib where
  "demo_lib = \<lparr>wl_fetch = (\<lambda>url method headers body. Reply True 200 ''empty''),
     wl_parse = (\<lambda>s. if s = ''empty'' then Some (JObject [(''data'', JArray [])])
                     else if s = ''pending'' then Some (JObject [(''id'', JString ''T1''), (''sequenceId'', JString ''DEP-1''), (''event'', JString ''RECEIVE.PENDING''), (''status'', JString ''pending'')])
                     else if s = ''complete'' then Some (JObject [(''id'', JString ''T1''), (''sequenceId'', JString ''DEP-1''), (''event'', JString ''RECEIVE.COMPLETE''), (''status'', JString ''complete'')])
                     else None),
     wl_stringify = (\<lambda>_. ''text''), wl_encode = (\<lambda>s. s), wl_number = (\<lambda>s. s), wl_hmac256_hex = (\<lambda>k m. k @ m), wl_hmac512_hex = (\<lambda>k m. k @ m),
     wl_hmac256_base64 = (\<lambda>k m. k @ m), wl_sha256_base64 = (\<lambda>m. m)\<rparr>"

definition demo_ramp :: "ramp_choice \<Rightarrow> ramp_env" where
  "demo_ramp choice = \<lparr>rv_config = \<lparr>rg_choice = choice, rg_lib = demo_lib,
       rg_bitnob = \<lparr>bc_clientId = ''c'', bc_clientSecret = ''s'', bc_webhookSecret = ''h'', bc_baseUrl = ''u'', bc_now = 0, bc_nonce = (\<lambda>_. [])\<rparr>,
       rg_yellowcard = \<lparr>yc_apiKey = ''a'', yc_secretKey = ''k'', yc_baseUrl = ''u'', yc_timestamp = ''t''\<rparr>\<rparr>,
     rv_min = 1000, rv_max = 5000000, rv_now = 0, rv_canon = (\<lambda>s. s), rv_uuid = ''1'', rv_rowId = ''r1'', rv_enqueue = None, rv_updateError = None\<rparr>"

definition demo_ramps :: "ramp_choice \<Rightarrow> world" where
  "demo_ramps choice = empty_world\<lparr>users := [new_user ''u2'' ''b@x'' None ''pw'' 0], rampTxs := [new_ramp (demo_ramp choice) ''u2'' DEPOSIT ''5000'' (getRampProviderName choice) ''DEP-1'']\<rparr>"

definition demo_event :: "string \<Rightarrow> ramp_status \<Rightarrow> ramp_event" where
  "demo_event eid st = \<lparr>re_type = ''t'', re_reference = ''DEP-1'', re_status = st, re_amountNgn = None, re_providerReference = None,
     re_failureReason = None, re_eventId = eid, re_raw = JNull\<rparr>"

lemma demo_ramp_facts:
  "getRampProvider (rv_config (demo_ramp UseBitnob)) = Inr (bitnob_provider demo_lib (rg_bitnob (rv_config (demo_ramp UseBitnob))))"
  "getRampProvider (rv_config (demo_ramp UseYellowCard)) = Inr (yellowcard_provider demo_lib (rg_yellowcard (rv_config (demo_ramp UseYellowCard))))"
  "status_of_ref ''DEP-1'' (demo_ramps choice) = Some PENDING" "seen p (demo_ramps choice) = {}" "rv_updateError (demo_ramp choice) = None"
  by (simp_all add: getRampProvider_def demo_ramp_def createBitnobProvider_def createYellowCardProvider_def status_of_ref_def demo_ramps_def
      new_ramp_def seen_def empty_world_def)


section \<open>The endpoint\<close>

text \<open>C7: a webhook without the provider's signature changes nothing.  Whichever provider is configured, and
  whatever the body says, a delivery whose signature header is missing or is not the authentication code
  of the raw body under the configured secret (for Yellow Card, or of the body written again) is answered
  401 and the world stays as it is.\<close>

theorem webhook_needs_signature:
  "(rg_choice (rv_config env) = UseBitnob \<and>
    (\<forall>s ss. headers BITNOB_WEBHOOK_SIGNATURE_HEADER = s # ss \<longrightarrow> toLowerCase (js_trim s) \<noteq>
       signBitnobWebhook (rg_lib (rv_config env)) (bc_webhookSecret (rg_bitnob (rv_config env))) raw) \<longrightarrow>
    webhook env mid raw headers w = ((401, None), w)) \<and>
   (rg_choice (rv_config env) = UseYellowCard \<and>
    (\<forall>s ss. headers YELLOWCARD_WEBHOOK_SIGNATURE_HEADER = s # ss \<longrightarrow>
       js_trim s \<noteq> signYellowCardWebhook (rg_lib (rv_config env)) (yc_secretKey (rg_yellowcard (rv_config env))) raw \<and>
       (\<forall>v. wl_parse (rg_lib (rv_config env)) raw = Some v \<longrightarrow>
          js_trim s \<noteq> signYellowCardWebhook (rg_lib (rv_config env)) (yc_secretKey (rg_yellowcard (rv_config env)))
            (wl_stringify (rg_lib (rv_config env)) v))) \<longrightarrow>
    webhook env mid raw headers w = ((401, None), w))"
proof (intro conjI impI)
  let ?lib = "rg_lib (rv_config env)"
  assume a: "rg_choice (rv_config env) = UseBitnob \<and>
    (\<forall>s ss. headers BITNOB_WEBHOOK_SIGNATURE_HEADER = s # ss \<longrightarrow> toLowerCase (js_trim s) \<noteq>
       signBitnobWebhook ?lib (bc_webhookSecret (rg_bitnob (rv_config env))) raw)"
  then have "\<not> rp_verifyWebhookSignature (bitnob_provider ?lib (rg_bitnob (rv_config env))) raw
      (case headers BITNOB_WEBHOOK_SIGNATURE_HEADER of [] \<Rightarrow> None | s # _ \<Rightarrow> Some s)"
    by (cases "headers BITNOB_WEBHOOK_SIGNATURE_HEADER") (auto simp: bitnob.verified)
  then show "webhook env mid raw headers w = ((401, None), w)"
    using a by (simp add: webhook_def getRampProvider_def createBitnobProvider_def)
next
  let ?lib = "rg_lib (rv_config env)"
  assume a: "rg_choice (rv_config env) = UseYellowCard \<and>
    (\<forall>s ss. headers YELLOWCARD_WEBHOOK_SIGNATURE_HEADER = s # ss \<longrightarrow>
       js_trim s \<noteq> signYellowCardWebhook ?lib (yc_secretKey (rg_yellowcard (rv_config env))) raw \<and>
       (\<forall>v. wl_parse ?lib raw = Some v \<longrightarrow>
          js_trim s \<noteq> signYellowCardWebhook ?lib (yc_secretKey (rg_yellowcard (rv_config env))) (wl_stringify ?lib v)))"
  then have "\<not> rp_verifyWebhookSignature (yellowcard_provider ?lib (rg_yellowcard (rv_config env))) raw
      (case headers YELLOWCARD_WEBHOOK_SIGNATURE_HEADER of [] \<Rightarrow> None | s # _ \<Rightarrow> Some s)"
    by (cases "headers YELLOWCARD_WEBHOOK_SIGNATURE_HEADER") (auto simp: yellowcard.verified split: option.splits)
  then show "webhook env mid raw headers w = ((401, None), w)"
    using a by (simp add: webhook_def getRampProvider_def createYellowCardProvider_def)
qed

lemma webhook_needs_signature_witness:
  "webhook (demo_ramp UseBitnob) calm ''empty'' (\<lambda>_. [''forged'']) (demo_ramps UseBitnob) = ((401, None), demo_ramps UseBitnob) \<and>
   webhook (demo_ramp UseYellowCard) calm ''complete'' (\<lambda>_. []) (demo_ramps UseYellowCard) = ((401, None), demo_ramps UseYellowCard)"
proof -
  have "toLowerCase (js_trim ''forged'') \<noteq> ''hempty''" by code_simp
  then show ?thesis
    using webhook_needs_signature [of "demo_ramp UseBitnob" "\<lambda>_. [''forged'']" "''empty''" calm "demo_ramps UseBitnob"]
      webhook_needs_signature [of "demo_ramp UseYellowCard" "\<lambda>_. []" "''complete''" calm "demo_ramps UseYellowCard"]
    by (simp add: demo_ramp_def demo_lib_def signBitnobWebhook_def)
qed

text \<open>The events of one Yellow Card transaction share its id, and so their key.\<close>

lemma yellowcard_event_id:
  assumes "yellowcard_parseWebhook lib config raw = Inr e" "wl_parse lib raw = Some v"
  shows "field v ''id'' = js_text i \<Longrightarrow> re_eventId e = i" "field v ''sequenceId'' = js_text r \<Longrightarrow> re_reference e = r"
  using assms by (auto simp: yellowcard_parseWebhook_def split: if_splits option.splits)

lemma handled_event_is_seen: "re_reference e \<noteq> [] \<Longrightarrow> re_eventId e \<in> seen p (snd (handleWebhook env calm p e v w))"
  by (auto simp: handleWebhook_def event_recorded Let_def UNIQUE_VIOLATION_CODE_def split: option.split sum.split)

lemma handled_event_answers:
  assumes "rv_updateError env = None"
  shows "\<exists>x. handleWebhook env calm p e v w = (Inr x, snd (handleWebhook env calm p e v w))"
proof -
  have "update_row (\<lambda>x. r_id x = r_id r) f (rampTxs w) = Inr (update_rows (\<lambda>x. r_id x = r_id r) f (rampTxs w))"
    if "find_row (\<lambda>x. r_reference x = re_reference e) (rampTxs w) = Some r" for r f
    using find_row_Some [OF that] by (auto simp: update_row_Inr)
  then show ?thesis
    using assms by (auto simp: handleWebhook_def event_recorded Let_def UNIQUE_VIOLATION_CODE_def split: option.split)
qed

lemma webhook_accepts:
  assumes "getRampProvider (rv_config env) = Inr provider" "rp_parseWebhook provider raw = Inr e"
    and "rp_verifyWebhookSignature provider raw (Some s)" "rv_updateError env = None"
  shows "\<exists>r. webhook env calm raw (\<lambda>_. [s]) w = ((200, r), deliver env (getRampProviderName (rg_choice (rv_config env))) e w)"
proof -
  obtain x where "handleWebhook env calm (getRampProviderName (rg_choice (rv_config env))) e True w =
      (Inr x, deliver env (getRampProviderName (rg_choice (rv_config env))) e w)"
    unfolding deliver_def using handled_event_answers [OF assms(4)] by blast
  then show ?thesis using assms(1-3) by (simp add: webhook_def)
qed

lemma webhook_200:
  assumes "webhook env mid raw headers w = ((200, r), w1)" "getRampProvider (rv_config env) = Inr provider"
  shows "\<exists>e result. rp_parseWebhook provider raw = Inr e \<and> r = Some result \<and>
    handleWebhook env mid (getRampProviderName (rg_choice (rv_config env))) e True w = (Inr result, w1)"
  using assms by (auto simp: webhook_def Let_def split: if_splits sum.splits prod.splits)

text \<open>C37: of a Yellow Card transaction only the first webhook counts.  The event id is the transaction's id, so
  once a delivery about it has been handled, every later delivery with that id -- with whatever status --
  is answered 200 as a duplicate and changes nothing: a deposit first reported as pending is not completed
  by the webhook that reports its completion.\<close>

theorem yellowcard_later_events_are_dropped:
  assumes config: "rg_choice (rv_config env) = UseYellowCard"
      "getRampProvider (rv_config env) = Inr (yellowcard_provider (rg_lib (rv_config env)) (rg_yellowcard (rv_config env)))"
    and first: "webhook env calm raw headers w = ((200, r), w1)"
    and later: "webhook env calm raw' headers' w1 = ((200, r'), w2)"
    and bodies: "wl_parse (rg_lib (rv_config env)) raw = Some v" "wl_parse (rg_lib (rv_config env)) raw' = Some v'"
    and fields: "field v ''id'' = js_text i" "field v' ''id'' = js_text i"
      "field v ''sequenceId'' = js_text ref" "field v' ''sequenceId'' = js_text ref" "ref \<noteq> []"
  shows "r' = Some (False, Some ''duplicate'') \<and> w2 = w1"
proof -
  obtain e result where e: "yellowcard_parseWebhook (rg_lib (rv_config env)) (rg_yellowcard (rv_config env)) raw = Inr e"
    "handleWebhook env calm ''yellowcard'' e True w = (Inr result, w1)"
    using webhook_200 [OF first config(2)] config(1) by (auto simp: yellowcard_provider_def)
  obtain e' result' where e': "yellowcard_parseWebhook (rg_lib (rv_config env)) (rg_yellowcard (rv_config env)) raw' = Inr e'"
    "handleWebhook env calm ''yellowcard'' e' True w1 = (Inr result', w2)" "r' = Some result'"
    using webhook_200 [OF later config(2)] config(1) by (auto simp: yellowcard_provider_def)
  have k: "re_eventId e = i" "re_reference e = ref" "re_eventId e' = i" "re_reference e' = ref"
    using yellowcard_event_id [OF e(1) bodies(1)] yellowcard_event_id [OF e'(1) bodies(2)] fields by blast+
  have "i \<in> seen ''yellowcard'' w1" using handled_event_is_seen [of e "''yellowcard''" env True w] e(2) k fields(5) by simp
  then have "handleWebhook env calm ''yellowcard'' e' True w1 = (Inr (False, Some ''duplicate''), w1)"
    using duplicate_event [of e' "''yellowcard''" w1 env calm True] k fields(5) by simp
  then show ?thesis using e'(2,3) by simp
qed

text \<open>Two bodies of one transaction, and a header that signs them.\<close>

lemma demo_yc_parse:
  "s = ''pending'' \<or> s = ''complete'' \<Longrightarrow>
   \<exists>e. yellowcard_parseWebhook demo_lib (rg_yellowcard (rv_config (demo_ramp UseYellowCard))) s = Inr e \<and> re_reference e = ''DEP-1'' \<and>
     re_status e = (if s = ''pending'' then PENDING else COMPLETED)"
proof -
  have m: "mapStatus (Some ''pending'') = PENDING" "mapStatus (Some ''complete'') = COMPLETED" by code_simp+
  show "s = ''pending'' \<or> s = ''complete'' \<Longrightarrow> ?thesis"
    by (elim disjE) (simp_all add: yellowcard_parseWebhook_def demo_lib_def m)
qed

lemma demo_yc_verify:
  "s = ''pending'' \<or> s = ''complete'' \<Longrightarrow>
   rp_verifyWebhookSignature (yellowcard_provider demo_lib (rg_yellowcard (rv_config (demo_ramp UseYellowCard)))) s (Some (''k'' @ s))"
proof -
  have "js_trim ''kpending'' = ''kpending''" "js_trim ''kcomplete'' = ''kcomplete''" by code_simp+
  then show "s = ''pending'' \<or> s = ''complete'' \<Longrightarrow> ?thesis"
    by (elim disjE) (simp_all add: yellowcard.verified signYellowCardWebhook_def demo_lib_def demo_ramp_def)
qed

lemma yellowcard_later_events_are_dropped_witness:
  "let env = demo_ramp UseYellowCard;
       w1 = snd (webhook env calm ''pending'' (\<lambda>_. [''kpending'']) (demo_ramps UseYellowCard));
       w2 = snd (webhook env calm ''complete'' (\<lambda>_. [''kcomplete'']) w1)
   in w2 = w1 \<and> status_of_ref ''DEP-1'' w1 = Some PENDING"
proof -
  let ?env = "demo_ramp UseYellowCard" and ?w = "demo_ramps UseYellowCard"
  let ?w1 = "snd (webhook ?env calm ''pending'' (\<lambda>_. [''kpending'']) ?w)"
  have c: "rg_lib (rv_config ?env) = demo_lib" "rg_choice (rv_config ?env) = UseYellowCard" by (simp_all add: demo_ramp_def)
  obtain e1 where e1: "yellowcard_parseWebhook demo_lib (rg_yellowcard (rv_config ?env)) ''pending'' = Inr e1"
    "re_reference e1 = ''DEP-1''" "re_status e1 = PENDING" using demo_yc_parse [of "''pending''"] by auto
  obtain e2 where e2: "yellowcard_parseWebhook demo_lib (rg_yellowcard (rv_config ?env)) ''complete'' = Inr e2"
    "re_reference e2 = ''DEP-1''" using demo_yc_parse [of "''complete''"] by auto
  have p: "rp_parseWebhook (yellowcard_provider demo_lib cfg) = yellowcard_parseWebhook demo_lib cfg" for cfg
    by (simp add: yellowcard_provider_def)
  note run = webhook_accepts [OF demo_ramp_facts(2) _ _ demo_ramp_facts(5), unfolded c getRampProviderName.simps]
  obtain r where r: "webhook ?env calm ''pending'' (\<lambda>_. [''kpending'']) ?w = ((200, r), deliver ?env ''yellowcard'' e1 ?w)"
    using run [of "''pending''" e1 "''kpending''" ?w] e1(1) demo_yc_verify [of "''pending''"] by (auto simp: p c)
  obtain r' where r': "webhook ?env calm ''complete'' (\<lambda>_. [''kcomplete'']) (deliver ?env ''yellowcard'' e1 ?w) =
      ((200, r'), deliver ?env ''yellowcard'' e2 (deliver ?env ''yellowcard'' e1 ?w))"
    using run [of "''complete''" e2 "''kcomplete''"] e2(1) demo_yc_verify [of "''complete''"] by (auto simp: p c)
  have "status_of_ref ''DEP-1'' (deliver ?env ''yellowcard'' e1 ?w) = Some PENDING"
    using fresh_event [of e1 "''DEP-1''" "''yellowcard''" ?w PENDING ?env] e1 demo_ramp_facts(3-5) by simp
  moreover have parsed: "wl_parse (rg_lib (rv_config ?env)) ''pending'' = Some (JObject [(''id'', JString ''T1''),
      (''sequenceId'', JString ''DEP-1''), (''event'', JString ''RECEIVE.PENDING''), (''status'', JString ''pending'')])"
    "wl_parse (rg_lib (rv_config ?env)) ''complete'' = Some (JObject [(''id'', JString ''T1''),
      (''sequenceId'', JString ''DEP-1''), (''event'', JString ''RECEIVE.COMPLETE''), (''status'', JString ''complete'')])"
    by (simp_all add: c demo_lib_def)
  ultimately have "status_of_ref ''DEP-1'' (deliver ?env ''yellowcard'' e1 ?w) = Some PENDING" by simp
  moreover have "r' = Some (False, Some ''duplicate'') \<and>
      deliver ?env ''yellowcard'' e2 (deliver ?env ''yellowcard'' e1 ?w) = deliver ?env ''yellowcard'' e1 ?w"
    by (rule yellowcard_later_events_are_dropped [OF c(2) _ r r' parsed, where i = "''T1''" and ref = "''DEP-1''"])
      (simp_all add: c demo_ramp_facts)
  ultimately show ?thesis using r r' by (simp add: Let_def)
qed

end
