(* ===== verification/RampOrders.thy ===== *)
theory RampOrders
  imports RampWebhooks
begin

text \<open>
  Deposits and withdrawals against the webhooks, and the reconciliation that follows them
  (\<^verbatim>\<open>src/src/services/ramp/ramp.service.ts\<close>, \<^verbatim>\<open>src/src/jobs/ramp.worker.ts\<close>).
\<close>

section \<open>Orders\<close>

text \<open>The order was placed, but its follow-up job could not be queued: the row is failed all the same.\<close>

lemma accepted_order_can_be_failed:
  assumes "rv_enqueue env = Some e" "find_row (\<lambda>r. r_id r = rid) (rampTxs w) = Some r"
  shows "fst (finishOrder env b rid c (Inr i) w) = Inl e \<and>
         map_option r_status (find_row (\<lambda>r. r_id r = rid) (rampTxs (snd (finishOrder env b rid c (Inr i) w)))) = Some FAILED"
  using assms find_row_Some [OF assms(2)]
  by (simp add: finishOrder_def update_row_def markFailed_def set_ramp_def find_row_update_rows apply_instruction_def)

lemma deposit_runs:
  assumes "assertValidNgnAmount amount (rv_min env) (rv_max env) = Inr ()" "getRampProvider (rv_config env) = Inr provider"
    and "loadUserCustomer userId w = Inr (email, name)" "find_row (\<lambda>r. r_reference r = ''DEP-'' @ rv_uuid env) (rampTxs w) = None"
    and "rp_createCustomer provider email name (''CUS-'' @ rv_rowId env) = Inr c"
    and "rp_createDeposit provider (''DEP-'' @ rv_uuid env) amount c = Inr i"
  shows "deposit env mid userId amount w = finishOrder env True (rv_rowId env) c (Inr i)
     (mid 1 (mid 0 (w\<lparr>rampTxs := rampTxs w @ [new_ramp env userId DEPOSIT amount (rp_name provider) (''DEP-'' @ rv_uuid env)]\<rparr>)))"
proof -
  let ?row = "new_ramp env userId DEPOSIT amount (rp_name provider) (''DEP-'' @ rv_uuid env)"
  have row: "r_id ?row = rv_rowId env" "r_reference ?row = ''DEP-'' @ rv_uuid env" by (simp_all add: new_ramp_def)
  have "create_row (\<lambda>r. Some (r_reference r)) ?row (rampTxs w) = Inr (rampTxs w @ [?row])"
    using assms(4) row by (simp add: create_row_def find_row_None)
  then show ?thesis using assms row by (simp add: deposit_def placeOrder_def Let_def)
qed


lemma demo_amount: "assertValidNgnAmount ''5000'' 1000 5000000 = Inr ()"
  by (simp add: assertValidNgnAmount_iff naira_pattern_def scaled_def scaled_nat_def amount_eval)

section \<open>Reconciliation\<close>




lemma reconcile_answers:
  "(\<exists>x. fst (reconcile env calm ref w) = Inr x) \<and> rampQueue (snd (reconcile env calm ref w)) = rampQueue w"
proof (cases "find_row (\<lambda>r. r_reference r = ref) (rampTxs w)")
  case None
  then show ?thesis by (auto simp: reconcile_def)
next
  case (Some r)
  then have "find_row (\<lambda>x. r_id x = r_id r) (rampTxs w) \<noteq> None" using find_row_Some [OF Some] by (auto simp: find_row_None)
  then show ?thesis using Some by (auto simp: reconcile_def Let_def set_ramp_def split: sum.split thrown.split)
qed

lemma reconcile_nothing_new:
  assumes "getRampProvider (rv_config env) = Inr provider" "find_row (\<lambda>x. r_reference x = ref) (rampTxs w) = Some r"
    and "\<And>res. rp_getStatus provider ref = Inr res \<Longrightarrow> rr_status res \<le> r_status r"
    and "\<And>e. rp_getStatus provider ref = Inl e \<Longrightarrow> status_of e \<noteq> Some 404"
  shows "reconcile env calm ref w = (Inr (ramp_status_name (r_status r), False), w)"
proof (cases "rp_getStatus provider ref")
  case (Inl e)
  then show ?thesis using assms(1,2) assms(4) [OF Inl] by (cases e) (auto simp: reconcile_def Let_def)
next
  case (Inr res)
  then have "RANK (r_status r) \<ge> RANK (rr_status res)" using assms(3) by (simp add: less_eq_ramp_status_def)
  then show ?thesis using assms(1,2) Inr by (simp add: reconcile_def Let_def)
qed

lemma publish_keeps_rampQueue [simp]: "rampQueue (publishUserEvent ev w) = rampQueue w"
  by (simp add: publishUserEvent_def)

text \<open>A pending transaction is reconciled once.  With a configured provider a reconciliation job always
  succeeds -- an error of the provider is caught and answered as a result -- and queues nothing, so the
  five attempts it is added with are never used.  If the provider cannot be reached or has nothing new,
  the world is unchanged: only a webhook can move the row from then on.\<close>

lemma ramp_job_succeeds_once:
  assumes config: "getRampProvider (rv_config env) = Inr provider" and job: "rj_rampTransactionId job = Some rid" "rid \<noteq> []"
  shows "(\<exists>x. fst (processRampJob env calm publishes job w) = Inr x) \<and>
         rampQueue (snd (processRampJob env calm publishes job w)) = rampQueue w \<and>
         (\<forall>r. find_row (\<lambda>r. r_id r = rid) (rampTxs w) = Some r \<and>
            (\<forall>res. rp_getStatus provider (r_reference r) = Inr res \<longrightarrow> rr_status res \<le> r_status r) \<and>
            (\<forall>e. rp_getStatus provider (r_reference r) = Inl e \<longrightarrow> status_of e \<noteq> Some 404) \<and>
            find_row (\<lambda>x. r_reference x = r_reference r) (rampTxs w) = Some r \<longrightarrow>
            snd (processRampJob env calm publishes job w) = w)"
proof -
  have ready: "isRampProviderConfigured (rv_config env)" using config by (simp add: isRampProviderConfigured_def)
  have run: "processRampJob env calm publishes job w =
      (case find_row (\<lambda>r. r_id r = rid) (rampTxs w) of
         None \<Rightarrow> (Inr \<lparr>jx_reference = None, jx_status = ''DELETED'', jx_applied = None\<rparr>, w)
       | Some r \<Rightarrow> (case reconcile env calm (r_reference r) w of
           (Inl e, w1) \<Rightarrow> (Inl e, w1)
         | (Inr (status, applied), w1) \<Rightarrow> (Inr \<lparr>jx_reference = Some (r_reference r), jx_status = status, jx_applied = Some applied\<rparr>,
             if applied \<and> publishes
             then publishUserEvent \<lparr>ev_userId = r_userId r, ev_event = ''ramp:updated'',
                    ev_payload = [(''reference'', Some (r_reference r)), (''status'', Some status),
                                  (''type'', Some (if r_type r = DEPOSIT then ''DEPOSIT'' else ''WITHDRAWAL''))]\<rparr> w1
             else w1)))"
    using ready by (simp add: processRampJob_def job)
  have total: "(\<exists>x. fst (processRampJob env calm publishes job w) = Inr x) \<and>
      rampQueue (snd (processRampJob env calm publishes job w)) = rampQueue w"
  proof (cases "find_row (\<lambda>r. r_id r = rid) (rampTxs w)")
    case None
    then show ?thesis by (simp add: run)
  next
    case (Some r)
    obtain st a w1 where "reconcile env calm (r_reference r) w = (Inr (st, a), w1)" "rampQueue w1 = rampQueue w"
      using reconcile_answers [of env "r_reference r" w] by (cases "reconcile env calm (r_reference r) w") auto
    then show ?thesis using Some by (simp add: run)
  qed
  have quiet: "snd (processRampJob env calm publishes job w) = w"
    if "find_row (\<lambda>r. r_id r = rid) (rampTxs w) = Some r" "find_row (\<lambda>x. r_reference x = r_reference r) (rampTxs w) = Some r"
      "\<And>res. rp_getStatus provider (r_reference r) = Inr res \<Longrightarrow> rr_status res \<le> r_status r"
      "\<And>e. rp_getStatus provider (r_reference r) = Inl e \<Longrightarrow> status_of e \<noteq> Some 404" for r
    using reconcile_nothing_new [OF config that(2-4)] that(1) by (simp add: run)
  show ?thesis using total quiet by blast
qed

end
