(* ===== verification/Email.thy ===== *)
theory Email
  imports RampTypes "HOL-Library.List_Lexorder" "HOL-Library.Char_ord"
begin

text \<open>
  The delivery of verification codes by email (\<^verbatim>\<open>src/src/services/email\<close>): the shared HTTP helper, the three
  provider adapters with the AWS request signature, the provider selection and the wrapper the code flow
  calls.  \<open>fetch\<close>, \<open>JSON\<close> and the digests are parameters; \<open>em_date\<close> is the time of the request as \<open>toISOString\<close>
  prints it and \<open>em_millis\<close> as \<open>Date.now()\<close> does.
\<close>

section \<open>Messages and errors\<close>

record email_message =
  ms_to :: string
  ms_subject :: string
  ms_html :: string
  ms_text :: string

text \<open>What sending can throw: the class of the module, or an error of the language.\<close>

datatype email_error = EmailDeliveryError string string string "nat option" | EmailOtherError string

record email_result =
  mr_messageId :: string
  mr_provider :: string

record email_provider =
  ep_name :: string
  ep_send :: "email_message \<Rightarrow> email_error + email_result"

text \<open>A digest is a string of bytes; \<open>em_hex\<close> prints one.\<close>

record email_lib =
  em_fetch :: "string \<Rightarrow> (string \<times> string) list \<Rightarrow> string \<Rightarrow> http_outcome"
  em_parse :: "string \<Rightarrow> json option"
  em_stringify :: "json \<Rightarrow> string"
  em_sha256 :: "string \<Rightarrow> string"
  em_hmac :: "string \<Rightarrow> string \<Rightarrow> string"
  em_hex :: "string \<Rightarrow> string"
  em_date :: string
  em_millis :: nat

record post_answer =
  pa_ok :: bool
  pa_status :: nat
  pa_json :: json
  pa_text :: string

text \<open>A failed exchange: the reason in the code and in the message.\<close>

fun exchange :: "string \<Rightarrow> string \<Rightarrow> http_outcome \<Rightarrow> email_error + (bool \<times> nat \<times> string)" where
  "exchange provider what Aborted = Inl (EmailDeliveryError provider ''timeout'' (what @ '' request failed (timeout)'') None)"
| "exchange provider what NetworkError = Inl (EmailDeliveryError provider ''network_error'' (what @ '' request failed (network_error)'') None)"
| "exchange provider what (Reply ok status text) = Inr (ok, status, text)"

definition postJson :: "email_lib \<Rightarrow> string \<Rightarrow> string \<Rightarrow> (string \<times> string) list \<Rightarrow> json \<Rightarrow> email_error + post_answer" where
  "postJson lib provider url headers body =
     then_do (exchange provider provider (em_fetch lib url ((''content-type'', ''application/json'') # headers) (em_stringify lib body)))
       (\<lambda>(ok, status, text).
         Inr \<lparr>pa_ok = ok, pa_status = status,
              pa_json = (if text = [] then JNull else case em_parse lib text of None \<Rightarrow> JNull | Some v \<Rightarrow> v),
              pa_text = take 500 text\<rparr>)"

section \<open>Templates\<close>

definition verificationEmailText :: "string \<Rightarrow> nat \<Rightarrow> string" where
  "verificationEmailText code ttlMinutes =
     ''Your Ulmara verification code is '' @ code @ ''\<newline>\<newline>'' @ ''It expires in '' @ show_nat ttlMinutes @
     '' minutes. If you did not request this code you can safely ignore this email.\<newline>\<newline>'' @
     ''Ulmara will never ask you for this code over a call or chat.''"

definition verificationEmailHtml :: "string \<Rightarrow> nat \<Rightarrow> string" where
  "verificationEmailHtml code ttlMinutes =
     ''<!doctype html>\<newline>'' @
     ''<html>\<newline>'' @
     ''  <body style=\"margin:0;padding:24px;background:#f4f5f7;font-family:-apple-system,Segoe UI,Roboto,Helvetica,Arial,sans-serif;color:#111827;\">\<newline>'' @
     ''    <table role=\"presentation\" style=\"max-width:480px;margin:0 auto;background:#ffffff;border-radius:12px;padding:32px;\">\<newline>'' @
     ''      <tr><td>\<newline>'' @
     ''        <h1 style=\"margin:0 0 4px;font-size:20px;\">Verify your email</h1>\<newline>'' @
     ''        <p style=\"margin:0 0 24px;color:#4b5563;font-size:14px;\">Enter this code to finish setting up your Ulmara account.</p>\<newline>'' @
     ''        <div style=\"font-size:32px;font-weight:700;letter-spacing:8px;background:#f4f5f7;border-radius:8px;padding:20px 0;text-align:center;margin:0 0 24px;\">'' @
     code @
     ''</div>\<newline>'' @
     ''        <p style=\"margin:0 0 8px;color:#4b5563;font-size:14px;\">This code expires in '' @
     show_nat ttlMinutes @
     '' minutes.</p>\<newline>'' @
     ''        <p style=\"margin:0 0 24px;color:#6b7280;font-size:13px;\">If you did not request this code, you can safely ignore this email.</p>\<newline>'' @
     ''        <p style=\"margin:0;color:#9ca3af;font-size:12px;\">Ulmara will never ask you for this code over a call or chat.</p>\<newline>'' @
     ''      </td></tr>\<newline>'' @
     ''    </table>\<newline>'' @
     ''  </body>\<newline>'' @
     ''</html>''"

definition verificationEmailBody :: "string \<Rightarrow> nat \<Rightarrow> string \<times> string" where
  "verificationEmailBody code ttlMinutes = (verificationEmailHtml code ttlMinutes, verificationEmailText code ttlMinutes)"

section \<open>Resend and SendGrid\<close>

record email_env =
  mv_provider :: string
  mv_from :: string
  mv_fromName :: string
  mv_resendKey :: "string option"
  mv_sendgridKey :: "string option"
  mv_sendgridFrom :: "string option"
  mv_sesRegion :: "string option"
  mv_sesAccessKeyId :: "string option"
  mv_sesSecretAccessKey :: "string option"

definition formatFrom :: "email_env \<Rightarrow> string" where
  "formatFrom env = (if mv_fromName env \<noteq> [] then mv_fromName env @ '' <'' @ mv_from env @ ''>'' else mv_from env)"

definition resend_send :: "email_lib \<Rightarrow> email_env \<Rightarrow> string \<Rightarrow> string \<Rightarrow> email_message \<Rightarrow> email_error + email_result" where
  "resend_send lib env apiKey baseUrl message =
     then_do (postJson lib ''resend'' (drop_slash baseUrl @ ''/emails'') [(''authorization'', ''Bearer '' @ apiKey)] (JObject
        [(''from'', JString (formatFrom env)), (''to'', JArray [JString (ms_to message)]), (''subject'', JString (ms_subject message)),
         (''html'', JString (ms_html message)), (''text'', JString (ms_text message))])) (\<lambda>result.
       if \<not> pa_ok result
       then Inl (EmailDeliveryError ''resend'' ''send_failed'' (''Resend rejected the message with status '' @ show_nat (pa_status result)) (Some (pa_status result)))
       else (let mid = field (pa_json result) ''id''
             in if \<not> js_truthy mid then Inl (EmailDeliveryError ''resend'' ''invalid_response'' ''Resend response did not include a message id'' None)
                else Inr \<lparr>mr_messageId = js_string_opt mid, mr_provider = ''resend''\<rparr>))"

definition createResendProvider :: "email_lib \<Rightarrow> email_env \<Rightarrow> string \<Rightarrow> email_error + email_provider" where
  "createResendProvider lib env apiKey =
     (if apiKey = [] then Inl (EmailDeliveryError ''resend'' ''missing_credentials'' ''RESEND_API_KEY is required for the Resend provider'' None)
      else Inr \<lparr>ep_name = ''resend'', ep_send = resend_send lib env apiKey ''https://api.resend.com''\<rparr>)"

definition sendgrid_send :: "email_lib \<Rightarrow> email_env \<Rightarrow> string \<Rightarrow> string \<Rightarrow> string option \<Rightarrow> email_message \<Rightarrow> email_error + email_result" where
  "sendgrid_send lib env apiKey baseUrl fromEmail message =
     (let sender = nullish fromEmail (mv_from env)
      in then_do (postJson lib ''sendgrid'' (drop_slash baseUrl @ ''/v3/mail/send'') [(''authorization'', ''Bearer '' @ apiKey)] (JObject
            [(''personalizations'', JArray [JObject [(''to'', JArray [JObject [(''email'', JString (ms_to message))]])]]),
             (''from'', JObject (if mv_fromName env \<noteq> [] then [(''name'', JString (mv_fromName env)), (''email'', JString sender)]
                                else [(''email'', JString sender)])),
             (''subject'', JString (ms_subject message)),
             (''content'', JArray [JObject [(''type'', JString ''text/plain''), (''value'', JString (ms_text message))],
                                   JObject [(''type'', JString ''text/html''), (''value'', JString (ms_html message))]])])) (\<lambda>result.
           if \<not> pa_ok result
           then Inl (EmailDeliveryError ''sendgrid'' ''send_failed'' (''SendGrid rejected the message with status '' @ show_nat (pa_status result)) (Some (pa_status result)))
           else Inr \<lparr>mr_messageId = (case js_nullish (field (pa_json result) ''message_id'') None of
                       Some v \<Rightarrow> js_string v | None \<Rightarrow> ''sendgrid-'' @ show_nat (em_millis lib)),
                     mr_provider = ''sendgrid''\<rparr>))"

definition createSendGridProvider :: "email_lib \<Rightarrow> email_env \<Rightarrow> string \<Rightarrow> string option \<Rightarrow> email_error + email_provider" where
  "createSendGridProvider lib env apiKey fromEmail =
     (if apiKey = [] then Inl (EmailDeliveryError ''sendgrid'' ''missing_credentials'' ''SENDGRID_API_KEY is required for the SendGrid provider'' None)
      else Inr \<lparr>ep_name = ''sendgrid'', ep_send = sendgrid_send lib env apiKey ''https://api.sendgrid.com'' fromEmail\<rparr>)"

section \<open>The AWS signature\<close>

record sigv4_input =
  sg_method :: string
  sg_path :: string
  sg_region :: string
  sg_service :: string
  sg_body :: string
  sg_accessKeyId :: string
  sg_secretAccessKey :: string
  sg_date :: "string option"
  sg_host :: "string option"
  sg_extraHeaders :: "(string \<times> string) list"
  sg_omitContentType :: bool

text \<open>\<open>iso.replace(/[:-]|\.\d{3}/g, "")\<close>.\<close>

fun compact_iso :: "string \<Rightarrow> string" where
  "compact_iso [] = []"
| "compact_iso (c # s) =
     (if c = CHR '':'' \<or> c = CHR ''-'' then compact_iso s
      else if c = CHR ''.'' \<and> 3 \<le> length s \<and> all_digits (take 3 s) then compact_iso (drop 3 s)
      else c # compact_iso s)"

definition amzTimestamp :: "string \<Rightarrow> string \<times> string" where
  "amzTimestamp date = (let iso = compact_iso date in (iso, take 8 iso))"

text \<open>An assignment to a property of an object keeps the place of an existing key.\<close>

fun put :: "'k \<Rightarrow> 'v \<Rightarrow> ('k \<times> 'v) list \<Rightarrow> ('k \<times> 'v) list" where
  "put k v [] = [(k, v)]"
| "put k v ((k', v') # kvs) = (if k' = k then (k, v) # kvs else (k', v') # put k v kvs)"

text \<open>\<open>s.replace(/\s+/g, " ")\<close>.\<close>

fun squeeze :: "string \<Rightarrow> string" where
  "squeeze [] = []"
| "squeeze (c # s) =
     (if \<not> is_space c then c # squeeze s
      else case squeeze s of
             d # t \<Rightarrow> if s \<noteq> [] \<and> is_space (hd s) then d # t else CHR '' '' # d # t
           | [] \<Rightarrow> '' '')"

definition canonicalHeaders :: "(string \<times> string) list \<Rightarrow> string \<times> string" where
  "canonicalHeaders headers =
     (let normalized = sort_key fst (map (\<lambda>(k, v). (toLowerCase k, squeeze (js_trim v))) headers)
      in (concat (map (\<lambda>(k, v). k @ '':'' @ v @ ''\<newline>'') normalized), js_join '';'' (map fst normalized)))"

record sigv4_result =
  sv4_authorization :: string
  sv4_amzDate :: string
  sv4_canonicalRequest :: string
  sv4_stringToSign :: string
  sv4_signature :: string

definition signAwsRequest :: "email_lib \<Rightarrow> sigv4_input \<Rightarrow> sigv4_result" where
  "signAwsRequest lib input =
     (let (amzDate, dateStamp) = amzTimestamp (nullish (sg_date input) (em_date lib));
          payloadHash = em_hex lib (em_sha256 lib (sg_body input));
          host = nullish (sg_host input) (''email.'' @ sg_region input @ ''.amazonaws.com'');
          headers = fold (\<lambda>(k, v). put k v) (sg_extraHeaders input)
            ((if sg_omitContentType input then [] else [(''content-type'', ''application/json'')]) @ [(''host'', host), (''x-amz-date'', amzDate)]);
          (canonicalHeaderBlock, signedHeaders) = canonicalHeaders headers;
          canonicalRequest = js_join ''\<newline>'' [sg_method input, sg_path input, [], canonicalHeaderBlock, signedHeaders, payloadHash];
          credentialScope = dateStamp @ ''/'' @ sg_region input @ ''/'' @ sg_service input @ ''/aws4_request'';
          stringToSign = js_join ''\<newline>'' [''AWS4-HMAC-SHA256'', amzDate, credentialScope, em_hex lib (em_sha256 lib canonicalRequest)];
          kDate = em_hmac lib (''AWS4'' @ sg_secretAccessKey input) dateStamp;
          kRegion = em_hmac lib kDate (sg_region input);
          kService = em_hmac lib kRegion (sg_service input);
          kSigning = em_hmac lib kService ''aws4_request'';
          signature = em_hex lib (em_hmac lib kSigning stringToSign)
      in \<lparr>sv4_authorization = ''AWS4-HMAC-SHA256 Credential='' @ sg_accessKeyId input @ ''/'' @ credentialScope @ '', SignedHeaders='' @ signedHeaders @
            '', Signature='' @ signature,
          sv4_amzDate = amzDate, sv4_canonicalRequest = canonicalRequest, sv4_stringToSign = stringToSign, sv4_signature = signature\<rparr>)"

section \<open>SES\<close>

record ses_config =
  sc_region :: string
  sc_accessKeyId :: string
  sc_secretAccessKey :: string
  sc_fromEmail :: "string option"
  sc_fromName :: "string option"

definition ses_body :: "email_lib \<Rightarrow> email_env \<Rightarrow> ses_config \<Rightarrow> email_message \<Rightarrow> string" where
  "ses_body lib env config message =
     (let sender = nullish (sc_fromEmail config) (mv_from env);
          content = (\<lambda>text. JObject [(''Data'', JString text), (''Charset'', JString ''UTF-8'')])
      in em_stringify lib (JObject
           [(''FromEmailAddress'', JString (if truthy (sc_fromName config) then the (sc_fromName config) @ '' <'' @ sender @ ''>'' else sender)),
            (''Destination'', JObject [(''ToAddresses'', JArray [JString (ms_to message)])]),
            (''Content'', JObject [(''Simple'', JObject
               [(''Subject'', content (ms_subject message)),
                (''Body'', JObject [(''Text'', content (ms_text message)), (''Html'', content (ms_html message))])])])]))"

definition ses_send :: "email_lib \<Rightarrow> email_env \<Rightarrow> ses_config \<Rightarrow> email_message \<Rightarrow> email_error + email_result" where
  "ses_send lib env config message =
     (let body = ses_body lib env config message;
          sig = signAwsRequest lib \<lparr>sg_method = ''POST'', sg_path = ''/v2/email'', sg_region = sc_region config, sg_service = ''ses'', sg_body = body,
                  sg_accessKeyId = sc_accessKeyId config, sg_secretAccessKey = sc_secretAccessKey config, sg_date = None, sg_host = None,
                  sg_extraHeaders = [], sg_omitContentType = False\<rparr>
      in then_do (exchange ''ses'' ''SES'' (em_fetch lib (''https://email.'' @ sc_region config @ ''.amazonaws.com/v2/email'')
             [(''content-type'', ''application/json''), (''x-amz-date'', sv4_amzDate sig), (''authorization'', sv4_authorization sig)] body))
           (\<lambda>(ok, status, text).
             if \<not> ok then Inl (EmailDeliveryError ''ses'' ''send_failed'' (''SES rejected the message with status '' @ show_nat status) (Some status))
             else (case (if text = [] then JObject [] else case em_parse lib text of None \<Rightarrow> JObject [] | Some v \<Rightarrow> v) of
                     JNull \<Rightarrow> Inl (EmailOtherError ''Cannot read properties of null (reading 'MessageId')'')
                   | v \<Rightarrow> if \<not> js_truthy (field v ''MessageId'')
                          then Inl (EmailDeliveryError ''ses'' ''invalid_response'' ''SES response did not include a MessageId'' None)
                          else Inr \<lparr>mr_messageId = js_string_opt (field v ''MessageId''), mr_provider = ''ses''\<rparr>)))"

definition createSesProvider :: "email_lib \<Rightarrow> email_env \<Rightarrow> ses_config \<Rightarrow> email_error + email_provider" where
  "createSesProvider lib env config =
     (let missing = map fst (filter (\<lambda>(_, v). v = [])
            [(''region'', sc_region config), (''accessKeyId'', sc_accessKeyId config), (''secretAccessKey'', sc_secretAccessKey config)])
      in if missing \<noteq> [] then Inl (EmailDeliveryError ''ses'' ''missing_credentials'' (''SES provider is missing: '' @ js_join '', '' missing) None)
         else Inr \<lparr>ep_name = ''ses'', ep_send = ses_send lib env config\<rparr>)"

section \<open>Selection\<close>

definition getEmailProvider :: "email_lib \<Rightarrow> email_env \<Rightarrow> email_error + email_provider" where
  "getEmailProvider lib env =
     (if mv_provider env = ''resend''
      then (if \<not> truthy (mv_resendKey env) then Inl (EmailDeliveryError ''resend'' ''missing_credentials'' ''RESEND_API_KEY is not set'' None)
            else createResendProvider lib env (the (mv_resendKey env)))
      else if mv_provider env = ''sendgrid''
      then (if \<not> truthy (mv_sendgridKey env) then Inl (EmailDeliveryError ''sendgrid'' ''missing_credentials'' ''SENDGRID_API_KEY is not set'' None)
            else createSendGridProvider lib env (the (mv_sendgridKey env)) (mv_sendgridFrom env))
      else if mv_provider env = ''ses''
      then (if \<not> truthy (mv_sesRegion env) \<or> \<not> truthy (mv_sesAccessKeyId env) \<or> \<not> truthy (mv_sesSecretAccessKey env)
            then Inl (EmailDeliveryError ''ses'' ''missing_credentials''
                   ''AWS_SES_REGION, AWS_SES_ACCESS_KEY_ID and AWS_SES_SECRET_ACCESS_KEY must all be set'' None)
            else createSesProvider lib env \<lparr>sc_region = the (mv_sesRegion env), sc_accessKeyId = the (mv_sesAccessKeyId env),
                   sc_secretAccessKey = the (mv_sesSecretAccessKey env), sc_fromEmail = mv_sendgridFrom env, sc_fromName = Some (mv_fromName env)\<rparr>)
      else Inl (EmailDeliveryError ''unknown'' ''unsupported_provider'' (''Unsupported EMAIL_PROVIDER: '' @ mv_provider env) None))"

definition isEmailProviderConfigured :: "email_lib \<Rightarrow> email_env \<Rightarrow> bool" where
  "isEmailProviderConfigured lib env = (case getEmailProvider lib env of Inr _ \<Rightarrow> True | Inl _ \<Rightarrow> False)"

definition trySendEmail :: "email_lib \<Rightarrow> email_env \<Rightarrow> string \<Rightarrow> string \<Rightarrow> string \<Rightarrow> string \<Rightarrow> bool" where
  "trySendEmail lib env to_address subject html text =
     (case then_do (getEmailProvider lib env) (\<lambda>provider.
             ep_send provider \<lparr>ms_to = to_address, ms_subject = subject, ms_html = html, ms_text = text\<rparr>) of
        Inr _ \<Rightarrow> True
      | Inl _ \<Rightarrow> False)"

section \<open>Lemmas and properties\<close>

lemma exchange_Inr: "exchange p what r = Inr (ok, status, text) \<longleftrightarrow> r = Reply ok status text"
  by (cases r) auto

lemma postJson_ok:
  "postJson lib p url headers body = Inr a \<Longrightarrow> pa_ok a \<Longrightarrow>
   \<exists>status text. em_fetch lib url ((''content-type'', ''application/json'') # headers) (em_stringify lib body) = Reply True status text"
  by (auto simp: postJson_def exchange_Inr)

lemma resend_accepted:
  "resend_send lib env k base m = Inr r \<Longrightarrow>
   \<exists>body status text. em_fetch lib (drop_slash base @ ''/emails'') [(''content-type'', ''application/json''), (''authorization'', ''Bearer '' @ k)] body =
     Reply True status text"
  by (auto simp: resend_send_def Let_def split: if_splits dest!: postJson_ok)

lemma sendgrid_accepted:
  "sendgrid_send lib env k base sender m = Inr r \<Longrightarrow>
   \<exists>body status text. em_fetch lib (drop_slash base @ ''/v3/mail/send'') [(''content-type'', ''application/json''), (''authorization'', ''Bearer '' @ k)] body =
     Reply True status text"
  by (auto simp: sendgrid_send_def Let_def split: if_splits dest!: postJson_ok)

lemma ses_accepted:
  "ses_send lib env config m = Inr r \<Longrightarrow>
   \<exists>headers body status text. em_fetch lib (''https://email.'' @ sc_region config @ ''.amazonaws.com/v2/email'') headers body = Reply True status text"
  by (auto simp: ses_send_def Let_def exchange_Inr split: if_splits)

text \<open>An email counts as sent only if the provider took it.  When the wrapper answers true, the selected provider
  has its credentials and its own endpoint answered the request with success -- for Resend and SendGrid with
  the configured key as the bearer token; every error on the way, and every missing credential, is
  answered false.\<close>

lemma email_sent_only_if_accepted:
  assumes "trySendEmail lib env to_address subject html text"
  shows "(\<exists>k body status reply. mv_provider env = ''resend'' \<and> mv_resendKey env = Some k \<and> k \<noteq> [] \<and>
            em_fetch lib ''https://api.resend.com/emails'' [(''content-type'', ''application/json''), (''authorization'', ''Bearer '' @ k)] body =
              Reply True status reply) \<or>
         (\<exists>k body status reply. mv_provider env = ''sendgrid'' \<and> mv_sendgridKey env = Some k \<and> k \<noteq> [] \<and>
            em_fetch lib ''https://api.sendgrid.com/v3/mail/send'' [(''content-type'', ''application/json''), (''authorization'', ''Bearer '' @ k)] body =
              Reply True status reply) \<or>
         (\<exists>region keyId secret headers body status reply. mv_provider env = ''ses'' \<and> mv_sesRegion env = Some region \<and>
            mv_sesAccessKeyId env = Some keyId \<and> mv_sesSecretAccessKey env = Some secret \<and> region \<noteq> [] \<and> keyId \<noteq> [] \<and> secret \<noteq> [] \<and>
            em_fetch lib (''https://email.'' @ region @ ''.amazonaws.com/v2/email'') headers body = Reply True status reply)"
proof -
  obtain provider m r where sent: "getEmailProvider lib env = Inr provider" "ep_send provider m = Inr r"
    using assms by (auto simp: trySendEmail_def split: sum.splits)
  have slash: "drop_slash ''https://api.resend.com'' = ''https://api.resend.com''" "drop_slash ''https://api.sendgrid.com'' = ''https://api.sendgrid.com''"
    by (simp_all add: drop_slash_def)
  consider (resend) k where "mv_provider env = ''resend''" "mv_resendKey env = Some k" "k \<noteq> []"
      "ep_send provider = resend_send lib env k ''https://api.resend.com''"
    | (sendgrid) k where "mv_provider env = ''sendgrid''" "mv_sendgridKey env = Some k" "k \<noteq> []"
      "ep_send provider = sendgrid_send lib env k ''https://api.sendgrid.com'' (mv_sendgridFrom env)"
    | (ses) region keyId secret config where "mv_provider env = ''ses''" "mv_sesRegion env = Some region" "mv_sesAccessKeyId env = Some keyId"
      "mv_sesSecretAccessKey env = Some secret" "region \<noteq> []" "keyId \<noteq> []" "secret \<noteq> []"
      "ep_send provider = ses_send lib env config" "sc_region config = region"
  proof -
    have t: "truthy v \<Longrightarrow> \<exists>s. v = Some s \<and> s \<noteq> []" for v by (cases v) auto
    show thesis
      using sent(1) that unfolding getEmailProvider_def createResendProvider_def createSendGridProvider_def createSesProvider_def Let_def
      by (fastforce dest!: t split: if_splits)
  qed
  then show ?thesis
  proof cases
    case resend
    then show ?thesis using resend_accepted [of lib env k "''https://api.resend.com''" m r] sent(2) by (auto simp: slash)
  next
    case sendgrid
    then show ?thesis using sendgrid_accepted [of lib env k "''https://api.sendgrid.com''" "mv_sendgridFrom env" m r] sent(2) by (auto simp: slash)
  next
    case ses
    then show ?thesis using ses_accepted [of lib env config m r] sent(2) by auto
  qed
qed

definition demo_mail_lib :: "nat \<Rightarrow> email_lib" where
  "demo_mail_lib status =
     \<lparr>em_fetch = (\<lambda>url headers body. Reply (status < 300) status ''id''), em_parse = (\<lambda>_. Some (JObject [(''id'', JString ''m1'')])),
      em_stringify = (\<lambda>_. ''body''), em_sha256 = (\<lambda>s. s), em_hmac = (\<lambda>k s. k @ s), em_hex = (\<lambda>s. s), em_date = ''2026-01-01T00:00:00.000Z'',
      em_millis = 0\<rparr>"

definition demo_mail_env :: email_env where
  "demo_mail_env = \<lparr>mv_provider = ''resend'', mv_from = ''a@b'', mv_fromName = ''U'', mv_resendKey = Some ''k'', mv_sendgridKey = None,
     mv_sendgridFrom = None, mv_sesRegion = None, mv_sesAccessKeyId = None, mv_sesSecretAccessKey = None\<rparr>"

text \<open>The timestamp of a request: the date without its punctuation and its milliseconds.\<close>

lemma amzTimestamp_example: "amzTimestamp ''2015-08-30T12:36:00.123Z'' = (''20150830T123600Z'', ''20150830'')"
  by code_simp

text \<open>The signed headers are a function of the headers as a map: without repeated keys their order does not matter.\<close>

lemma canonicalHeaders_order:
  assumes "set headers = set headers'" "distinct (map (toLowerCase \<circ> fst) headers)" "distinct (map (toLowerCase \<circ> fst) headers')"
  shows "canonicalHeaders headers = canonicalHeaders headers'"
proof -
  let ?f = "\<lambda>(k, v). (toLowerCase k, squeeze (js_trim v))"
  have keys: "map fst (map ?f xs) = map (toLowerCase \<circ> fst) xs" for xs by auto
  have d: "distinct (map fst (sort_key fst (map ?f xs)))" if "distinct (map (toLowerCase \<circ> fst) xs)" for xs
    using that unfolding keys [symmetric] by (auto simp: distinct_map inj_on_def)
  have "inj_on fst (set (map ?f headers))" using assms(2) unfolding keys [symmetric] by (simp only: distinct_map)
  then have "sort_key fst (map ?f headers) = sort_key fst (map ?f headers')"
    using d [OF assms(2)] d [OF assms(3)] assms(1) by (intro map_sorted_distinct_set_unique [where f = fst]) simp_all
  then show ?thesis by (simp only: canonicalHeaders_def)
qed

end
