(* ===== verification/Wallets.thy ===== *)
theory Wallets
  imports ExternalTransfer Accounts
begin

text \<open>
  The wallets of a user (\<^verbatim>\<open>src/src/services/wallet/wallet.service.ts\<close>): balances over the chain adapters,
  registration of the addresses the client generated.  The chain of a request is the string it carries;
  \<open>chain_of\<close> is its membership in \<open>CHAIN_NAMES\<close>.
\<close>

section \<open>Operations\<close>

definition CHAIN_NAMES :: "chain list" where
  "CHAIN_NAMES = [TON, BSC, ETH, SOL, BASE, POLYGON, TRON, BTC]"

definition chain_of :: "string \<Rightarrow> chain option" where
  "chain_of s = List.find (\<lambda>c. chain_name c = s) CHAIN_NAMES"

record token_balance =
  tb_token :: token_meta
  tb_balance :: "string option"

text \<open>The tokens of an adapter that can be listed and read: \<open>listTokens?.() ?? []\<close> with \<open>getTokenBalance\<close> present.\<close>

definition readable_tokens :: "chain_adapter \<Rightarrow> (token_meta \<times> (string \<Rightarrow> thrown + string)) list" where
  "readable_tokens adapter =
     (case ca_getTokenBalance adapter of
        None \<Rightarrow> []
      | Some read \<Rightarrow> map (\<lambda>token. (token, \<lambda>address. read address (fst token))) (nullish (ca_listTokens adapter) []))"

definition getTokenBalances :: "chain_adapter \<Rightarrow> string \<Rightarrow> token_balance list" where
  "getTokenBalances adapter address =
     map (\<lambda>(token, read). \<lparr>tb_token = token, tb_balance = (case read address of Inr balance \<Rightarrow> Some balance | Inl _ \<Rightarrow> None)\<rparr>)
       (readable_tokens adapter)"

record wallet_balance =
  wb_chain :: chain
  wb_address :: string
  wb_balance :: "string option"
  wb_tokens :: "token_balance list"

definition wallet_balances :: "chain_modules \<Rightarrow> wallet_row \<Rightarrow> wallet_balance" where
  "wallet_balances m wallet =
     (case then_do (getChainAdapter m (w_chain wallet)) (\<lambda>adapter.
             then_do (ca_getBalance adapter (w_address wallet) None) (\<lambda>native.
               Inr (native, getTokenBalances adapter (w_address wallet)))) of
        Inr (native, tokens) \<Rightarrow> \<lparr>wb_chain = w_chain wallet, wb_address = w_address wallet, wb_balance = Some native, wb_tokens = tokens\<rparr>
      | Inl _ \<Rightarrow> \<lparr>wb_chain = w_chain wallet, wb_address = w_address wallet, wb_balance = None, wb_tokens = []\<rparr>)"

definition getBalances :: "chain_modules \<Rightarrow> string \<Rightarrow> world \<Rightarrow> wallet_balance list" where
  "getBalances m userId w = map (wallet_balances m) (filter (\<lambda>x. w_userId x = userId) (wallets w))"

text \<open>A row of the answer for one chain and one address.\<close>

record token_row =
  tr_symbol :: string
  tr_name :: string
  tr_chain :: string
  tr_network :: string
  tr_decimals :: int
  tr_contractAddress :: string
  tr_balance :: string

definition getTokenBalancesForChain :: "chain_modules \<Rightarrow> chain \<Rightarrow> string \<Rightarrow> thrown + token_row list" where
  "getTokenBalancesForChain m c address =
     (case getChainAdapter m c of
        Inl _ \<Rightarrow> Inr []
      | Inr adapter \<Rightarrow>
          if \<not> ca_isValidAddress adapter address then Inl (StatusError 400 (''Invalid '' @ chain_name c @ '' address''))
          else Inr (map (\<lambda>((symbol, name, decimals, contract), read).
                 \<lparr>tr_symbol = symbol, tr_name = name, tr_chain = toLowerCase (chain_name c), tr_network = chain_name c, tr_decimals = decimals,
                  tr_contractAddress = contract,
                  tr_balance = nullish (case read address of Inr balance \<Rightarrow> Some balance | Inl _ \<Rightarrow> None) ''0''\<rparr>)
               (readable_tokens adapter)))"

definition listSupportedTokens :: "chain_modules \<Rightarrow> chain \<Rightarrow> thrown + token_meta list" where
  "listSupportedTokens m c = then_do (getChainAdapter m c) (\<lambda>adapter. Inr (nullish (ca_listTokens adapter) []))"

definition getAddresses :: "string \<Rightarrow> world \<Rightarrow> (chain \<times> string) list" where
  "getAddresses userId w = wallets_of userId w"

record resolved_account =
  ra_accountId :: string
  ra_name :: "string option"
  ra_photoUrl :: "string option"
  ra_wallets :: "(chain \<times> string) list"

text \<open>The account id's user exists: \<open>include\<close> follows a required relation.\<close>

definition resolveAccountId :: "string \<Rightarrow> world \<Rightarrow> thrown + resolved_account" where
  "resolveAccountId accountId w =
     (case find_row (\<lambda>a. a_accountId a = accountId) (accountIds w) of
        None \<Rightarrow> Inl (StatusError 404 ''Account ID not found'')
      | Some a \<Rightarrow>
          (case find_row (\<lambda>u. u_id u = a_userId a) (users w) of
             None \<Rightarrow> Inl record_not_found
           | Some u \<Rightarrow> Inr \<lparr>ra_accountId = a_accountId a, ra_name = u_name u, ra_photoUrl = u_photoUrl u, ra_wallets = wallets_of (u_id u) w\<rparr>))"

text \<open>The checks of a registration, in order; the result is the list of parsed chains with their addresses.\<close>

fun check_addresses :: "chain_modules \<Rightarrow> (chain \<times> string) list \<Rightarrow> thrown + unit" where
  "check_addresses m [] = Inr ()"
| "check_addresses m ((c, address) # rest) =
     then_do (getChainAdapter m c) (\<lambda>adapter.
       if \<not> ca_isValidAddress adapter address then Inl (StatusError 400 (''Invalid '' @ chain_name c @ '' wallet address''))
       else check_addresses m rest)"

definition checkRegistration :: "chain_modules \<Rightarrow> (string \<times> string) list \<Rightarrow> thrown + (chain \<times> string) list" where
  "checkRegistration m addresses =
     (let invalid = filter (\<lambda>(c, _). chain_of c = None) addresses;
          parsed = map (\<lambda>(c, address). (the (chain_of c), address)) addresses;
          missing = filter (\<lambda>c. c \<notin> fst ` set parsed) CHAIN_NAMES
      in if invalid \<noteq> [] then Inl (StatusError 400 (''Unsupported chain(s): '' @ js_join '', '' (map fst invalid)))
         else if \<not> distinct (map fst addresses) then Inl (StatusError 400 ''Only one wallet per chain may be registered'')
         else then_do (check_addresses m parsed) (\<lambda>_.
           if missing \<noteq> [] then Inl (StatusError 400 (''Missing address(es) for required chain(s): '' @ js_join '', '' (map chain_name missing)))
           else Inr parsed))"

text \<open>\<open>upsert\<close> on the unique pair of user and chain; \<open>fresh\<close> names the row if it is created.\<close>

definition upsert_wallet :: "(chain \<Rightarrow> string) \<Rightarrow> int \<Rightarrow> string \<Rightarrow> chain \<times> string \<Rightarrow> wallet_row list \<Rightarrow> wallet_row list" where
  "upsert_wallet fresh now userId = (\<lambda>(c, address) rows.
     if find_row (\<lambda>x. w_userId x = userId \<and> w_chain x = c) rows = None
     then rows @ [\<lparr>w_id = fresh c, w_userId = userId, w_chain = c, w_address = address, w_createdAt = now\<rparr>]
     else update_rows (\<lambda>x. w_userId x = userId \<and> w_chain x = c) (\<lambda>x. x\<lparr>w_address := address\<rparr>) rows)"

definition registerWallets :: "chain_modules \<Rightarrow> (chain \<Rightarrow> string) \<Rightarrow> int \<Rightarrow> string \<Rightarrow> (string \<times> string) list \<Rightarrow> (chain \<times> string) list op" where
  "registerWallets m fresh now userId addresses w =
     (case checkRegistration m addresses of
        Inl e \<Rightarrow> (Inl e, w)
      | Inr parsed \<Rightarrow> (Inr parsed, w\<lparr>wallets := fold (upsert_wallet fresh now userId) parsed (wallets w)\<rparr>))"

section \<open>Registration\<close>

text \<open>The address of a user's wallet on a chain, and the unique key of the table.\<close>

definition address_of :: "string \<Rightarrow> wallet_row list \<Rightarrow> chain \<Rightarrow> string option" where
  "address_of u rows c = map_option w_address (find_row (\<lambda>x. w_userId x = u \<and> w_chain x = c) rows)"

definition wallet_keys :: "wallet_row list \<Rightarrow> (string \<times> chain) list" where
  "wallet_keys rows = map (\<lambda>x. (w_userId x, w_chain x)) rows"

lemma chain_of_name: "chain_of s = Some c \<longleftrightarrow> s = chain_name c"
proof
  assume "chain_of s = Some c"
  then show "s = chain_name c" by (auto simp: chain_of_def find_Some_iff)
next
  assume "s = chain_name c"
  then show "chain_of s = Some c" by (cases c) (simp_all add: chain_of_def CHAIN_NAMES_def)
qed

lemma check_addresses_Inr: "check_addresses m ps = Inr () \<longleftrightarrow> (\<forall>(c, a) \<in> set ps. isValidAddress c a)"
  by (induction ps) (auto simp: getChainAdapter_eq adapter_isValidAddress split: if_splits)

lemma chain_of_chain_name [simp]: "chain_of (chain_name c) = Some c"
  by (simp add: chain_of_name)

lemma distinct_parsed:
  assumes "distinct (map fst xs)" "\<forall>(s, a) \<in> set xs. chain_of s \<noteq> None"
  shows "distinct (map fst (map (\<lambda>(s, a). (the (chain_of s), a)) xs))"
  using assms
proof (induction xs)
  case (Cons x xs)
  obtain c where c: "chain_of (fst x) = Some c" using Cons.prems(2) by (cases x) auto
  have "c \<notin> fst ` set (map (\<lambda>(s, a). (the (chain_of s), a)) xs)"
  proof
    assume "c \<in> fst ` set (map (\<lambda>(s, a). (the (chain_of s), a)) xs)"
    then obtain s a where s: "(s, a) \<in> set xs" "the (chain_of s) = c" by auto
    then have "chain_of s = Some c" using Cons.prems(2) by auto
    then have "s = fst x" using c by (simp add: chain_of_name)
    then show False using s(1) Cons.prems(1) by (auto simp: image_iff)
  qed
  then show ?case using Cons c by (cases x) auto
qed simp

text \<open>What passes the checks: each chain exactly once, with an address that is valid on it.\<close>

lemma checkRegistration_Inr:
  assumes "checkRegistration m addresses = Inr p"
  shows "distinct (map fst p)" "\<forall>(c, a) \<in> set p. isValidAddress c a" "fst ` set p = UNIV"
    "map (\<lambda>(c, a). (chain_name c, a)) p = addresses"
proof -
  let ?p = "map (\<lambda>(c, a). (the (chain_of c), a)) addresses"
  have p: "p = ?p" "\<forall>(s, a) \<in> set addresses. chain_of s \<noteq> None" "distinct (map fst addresses)"
    "check_addresses m ?p = Inr ()" "filter (\<lambda>c. c \<notin> fst ` set ?p) CHAIN_NAMES = []"
    using assms by (auto simp: checkRegistration_def Let_def filter_empty_conv split: if_splits)
  show "distinct (map fst p)" unfolding p(1) by (rule distinct_parsed [OF p(3,2)])
  show "\<forall>(c, a) \<in> set p. isValidAddress c a" using p(4) unfolding p(1) by (simp only: check_addresses_Inr)
  have "c \<in> set CHAIN_NAMES" for c by (cases c) (simp_all add: CHAIN_NAMES_def)
  then show "fst ` set p = UNIV" using p(5) unfolding p(1) filter_empty_conv by blast
  show "map (\<lambda>(c, a). (chain_name c, a)) p = addresses"
    unfolding p(1) using p(2) by (induction addresses) (auto simp: chain_of_name)
qed

subsection \<open>The upsert\<close>

lemma upsert_address:
  "address_of u (upsert_wallet fresh now u (c, a) rows) = (address_of u rows)(c \<mapsto> a)"
proof
  fix d
  let ?K = "\<lambda>x. w_userId x = u \<and> w_chain x = c"
  show "address_of u (upsert_wallet fresh now u (c, a) rows) d = ((address_of u rows)(c \<mapsto> a)) d"
  proof (cases "find_row ?K rows")
    case None
    then show ?thesis by (auto simp: upsert_wallet_def address_of_def find_row_append split: option.split)
  next
    case (Some r)
    have "find_row (\<lambda>x. w_userId x = u \<and> w_chain x = d) (update_rows ?K (\<lambda>x. x\<lparr>w_address := a\<rparr>) rows) =
        map_option (\<lambda>r. if ?K r then r\<lparr>w_address := a\<rparr> else r) (find_row (\<lambda>x. w_userId x = u \<and> w_chain x = d) rows)"
      by (rule find_row_update_rows) simp
    then have u: "address_of u (upsert_wallet fresh now u (c, a) rows) d =
        map_option (\<lambda>r. if ?K r then a else w_address r) (find_row (\<lambda>x. w_userId x = u \<and> w_chain x = d) rows)"
      using Some by (simp add: upsert_wallet_def address_of_def option.map_comp comp_def if_distrib cong: if_cong)
    show ?thesis
    proof (cases "d = c")
      case True
      then show ?thesis using u Some find_row_Some [OF Some] by simp
    next
      case False
      have "map_option (\<lambda>r. if ?K r then a else w_address r) (find_row (\<lambda>x. w_userId x = u \<and> w_chain x = d) rows) =
          map_option w_address (find_row (\<lambda>x. w_userId x = u \<and> w_chain x = d) rows)"
        using False find_row_Some by (intro option.map_cong0) force
      then show ?thesis using u False by (simp add: address_of_def)
    qed
  qed
qed

lemma upsert_keys: "distinct (wallet_keys rows) \<Longrightarrow> distinct (wallet_keys (upsert_wallet fresh now u ca rows))"
proof (cases ca)
  case (Pair c a)
  assume d: "distinct (wallet_keys rows)"
  have "map (\<lambda>x. (w_userId x, w_chain x)) (update_rows P (\<lambda>x. x\<lparr>w_address := a\<rparr>) rows) = map (\<lambda>x. (w_userId x, w_chain x)) rows" for P
    by (rule map_update_rows) simp
  then show ?thesis using d Pair by (auto simp: upsert_wallet_def wallet_keys_def find_row_None)
qed

lemma upsert_others: "filter (\<lambda>x. w_userId x \<noteq> u) (upsert_wallet fresh now u ca rows) = filter (\<lambda>x. w_userId x \<noteq> u) rows"
proof (cases ca)
  case (Pair c a)
  have "filter (\<lambda>x. w_userId x \<noteq> u) (update_rows (\<lambda>x. w_userId x = u \<and> w_chain x = c) f rows) = filter (\<lambda>x. w_userId x \<noteq> u) rows"
    if "\<And>x. w_userId (f x) = w_userId x" for f
    using that by (induction rows) auto
  then show ?thesis using Pair by (simp add: upsert_wallet_def)
qed

lemma upserts:
  "address_of u (fold (upsert_wallet fresh now u) ps rows) = address_of u rows ++ map_of (rev ps)"
  "distinct (wallet_keys rows) \<Longrightarrow> distinct (wallet_keys (fold (upsert_wallet fresh now u) ps rows))"
  "filter (\<lambda>x. w_userId x \<noteq> u) (fold (upsert_wallet fresh now u) ps rows) = filter (\<lambda>x. w_userId x \<noteq> u) rows"
proof (induction ps arbitrary: rows)
  case (Cons p ps)
  { case 1
    show ?case using Cons.IH(1) by (cases p) (simp add: upsert_address map_add_upd_left map_add_def fun_eq_iff split: option.split)
  next case 2
    then show ?case using Cons.IH(2) by (simp add: upsert_keys)
  next case 3
    show ?case using Cons.IH(3) by (simp add: upsert_others) }
qed simp_all

text \<open>Upserting what is there changes nothing.\<close>

lemma upsert_same:
  assumes "distinct (wallet_keys rows)" "address_of u rows c = Some a"
  shows "upsert_wallet fresh now u (c, a) rows = rows"
proof -
  let ?K = "\<lambda>x. w_userId x = u \<and> w_chain x = c"
  obtain r where r: "find_row ?K rows = Some r" "w_address r = a" using assms(2) by (auto simp: address_of_def)
  have "x = r" if "x \<in> set rows" "?K x" for x
    using find_row_Some [OF r(1)] that assms(1) by (auto simp: wallet_keys_def distinct_map inj_on_def)
  then have "update_rows ?K (\<lambda>x. x\<lparr>w_address := a\<rparr>) rows = rows" using r(2) by (intro update_rows_id) auto
  then show ?thesis using r(1) by (simp add: upsert_wallet_def)
qed

lemma upserts_same:
  assumes "distinct (wallet_keys rows)" "\<forall>(c, a) \<in> set ps. address_of u rows c = Some a"
  shows "fold (upsert_wallet fresh now u) ps rows = rows"
  using assms by (induction ps) (auto simp: upsert_same)

lemma map_of_rev_distinct: "distinct (map fst xs) \<Longrightarrow> map_of (rev xs) = map_of xs"
  by (simp add: map_of_inject_set rev_map [symmetric])

text \<open>C22: registration is all or nothing and can be repeated.  A request that is not answered with the
  wallets leaves the table alone.  An accepted one names every supported chain once, with an address valid
  on it; afterwards the user's wallets are exactly the requested ones, the pair of user and chain is still
  unique, no other user's row has changed, and sending it again changes nothing.\<close>

theorem registration_is_complete:
  assumes unique: "distinct (wallet_keys (wallets w))"
    and run: "registerWallets m fresh now userId addresses w = (r, w')"
  shows "(\<forall>e. r = Inl e \<longrightarrow> w' = w) \<and>
         (\<forall>p. r = Inr p \<longrightarrow>
            map (\<lambda>(c, a). (chain_name c, a)) p = addresses \<and> (\<forall>c. \<exists>a. address_of userId (wallets w') c = Some a \<and> isValidAddress c a) \<and>
            address_of userId (wallets w') = map_of p \<and> distinct (wallet_keys (wallets w')) \<and>
            filter (\<lambda>x. w_userId x \<noteq> userId) (wallets w') = filter (\<lambda>x. w_userId x \<noteq> userId) (wallets w) \<and>
            registerWallets m fresh' now' userId addresses w' = (Inr p, w'))"
proof (cases "checkRegistration m addresses")
  case (Inl e)
  then have "r = Inl e" "w' = w" using run by (simp_all add: registerWallets_def)
  then show ?thesis by simp
next
  case (Inr p)
  note ok = checkRegistration_Inr [OF Inr]
  have w': "r = Inr p" "w' = w\<lparr>wallets := fold (upsert_wallet fresh now userId) p (wallets w)\<rparr>"
    using run Inr by (simp_all add: registerWallets_def)
  have dom: "\<exists>a. map_of p c = Some a" for c
  proof -
    have "c \<in> fst ` set p" using ok(3) by simp
    then have "map_of p c \<noteq> None" by (simp add: map_of_eq_None_iff)
    then show ?thesis by blast
  qed
  have addr: "address_of userId (wallets w') = map_of p"
  proof
    fix c
    obtain a where "map_of p c = Some a" using dom by blast
    then show "address_of userId (wallets w') c = map_of p c"
      using map_of_rev_distinct [OF ok(1)] by (simp add: w'(2) upserts(1) map_add_def)
  qed
  have keys: "distinct (wallet_keys (wallets w'))" using upserts(2) [OF unique] by (simp add: w'(2))
  have "\<forall>(c, a) \<in> set p. address_of userId (wallets w') c = Some a" using ok(1) by (auto simp: addr)
  then have "fold (upsert_wallet fresh' now' userId) p (wallets w') = wallets w'" by (rule upserts_same [OF keys])
  then have again: "registerWallets m fresh' now' userId addresses w' = (Inr p, w')" using Inr by (simp add: registerWallets_def)
  have "\<exists>a. address_of userId (wallets w') c = Some a \<and> isValidAddress c a" for c
    using dom [of c] ok(2) map_of_SomeD [of p c] by (auto simp: addr)
  then show ?thesis using w'(1) ok(4) addr keys again upserts(3) by (simp add: w'(2))
qed

text \<open>A registration: one address for the EVM chains, and one each for the others.\<close>

definition demo_registration :: "string \<Rightarrow> (string \<times> string) list" where
  "demo_registration evm =
     [(''TON'', ''EQ'' @ replicate 46 (CHR ''A'')), (''BSC'', evm), (''ETH'', evm), (''SOL'', replicate 32 (CHR ''1'')), (''BASE'', evm),
      (''POLYGON'', evm), (''TRON'', ''T'' @ replicate 33 (CHR ''1'')), (''BTC'', ''bc1'' @ replicate 39 (CHR ''q''))]"

lemma demo_registration_ok:
  "checkRegistration m (demo_registration (''0x'' @ replicate 40 (CHR ''0''))) =
     Inr (map (\<lambda>(s, a). (the (chain_of s), a)) (demo_registration (''0x'' @ replicate 40 (CHR ''0''))))"
proof -
  have "list_all (\<lambda>(s, a). isValidAddress (the (chain_of s)) a) (demo_registration (''0x'' @ replicate 40 (CHR ''0'')))" by code_simp
  then have "check_addresses m (map (\<lambda>(s, a). (the (chain_of s), a)) (demo_registration (''0x'' @ replicate 40 (CHR ''0'')))) = Inr ()"
    by (auto simp: check_addresses_Inr list_all_iff)
  then show ?thesis
    by (simp add: checkRegistration_def Let_def demo_registration_def chain_of_def CHAIN_NAMES_def)
qed

section \<open>Unreachable chains\<close>

lemma no_provider_token: "ea_provider a = None \<Longrightarrow> \<exists>e. getTokenBalance a address asset = Inl e"
  by (cases "tokenFor a asset") (simp_all add: getTokenBalance_def requireProvider_def)

lemma no_provider_native: "ea_provider a = None \<Longrightarrow> \<exists>e. getNativeBalance a address = Inl e"
  by (simp add: getNativeBalance_def requireProvider_def)

text \<open>An unreachable chain shows its tokens with a zero balance.  If an EVM chain has no node, the list of
  token balances for a valid address names every configured token with the balance \<open>0\<close>, as if it had been
  read; the overview of the wallets answers \<open>null\<close> for the chain and lists none.\<close>

lemma unreachable_chain_shows_zero_tokens:
  assumes "isEvmChain c" "cm_provider m c = None" "evm_isValidAddress address"
  shows "(\<exists>rows. getTokenBalancesForChain m c address = Inr rows \<and>
            map tr_symbol rows = map tk_symbol (tokensForChain (evm_of m c)) \<and> (\<forall>row \<in> set rows. tr_balance row = ''0'')) \<and>
         (\<forall>x. w_chain x = c \<longrightarrow>
            wallet_balances m x = \<lparr>wb_chain = c, wb_address = w_address x, wb_balance = None, wb_tokens = []\<rparr>)"
proof -
  let ?a = "evm_of m c"
  have p: "ea_provider ?a = None" using assms(2) by (simp add: evm_of_def)
  have g: "getChainAdapter m c = Inr (of_evm ?a)" using assms(1) by (simp add: getChainAdapter_eq adapter_evm)
  have t: "readable_tokens (of_evm ?a) = map (\<lambda>t. (meta_of_token t, \<lambda>address. getTokenBalance ?a address (tk_symbol t))) (tokensForChain ?a)"
    by (simp add: readable_tokens_def of_evm_def meta_of_token_def)
  have v: "ca_isValidAddress (of_evm ?a) = evm_isValidAddress" by (simp add: of_evm_def)
  have z: "(case getTokenBalance ?a b s of Inr balance \<Rightarrow> Some balance | Inl _ \<Rightarrow> None) = None" for b s
    using no_provider_token [OF p, of b s] by auto
  have "getBalance ?a b None = getNativeBalance ?a b" for b by (simp add: getBalance_def)
  then have n: "\<exists>e. ca_getBalance (of_evm ?a) b None = Inl e" for b using no_provider_native [OF p] by (simp add: of_evm_def)
  have "wallet_balances m x = \<lparr>wb_chain = c, wb_address = w_address x, wb_balance = None, wb_tokens = []\<rparr>" if "w_chain x = c" for x
    using n [of "w_address x"] g that by (auto simp: wallet_balances_def)
  moreover have "getTokenBalancesForChain m c address = Inr (map (\<lambda>t. \<lparr>tr_symbol = tk_symbol t, tr_name = tk_name t,
      tr_chain = toLowerCase (chain_name c), tr_network = chain_name c, tr_decimals = int (tk_decimals t), tr_contractAddress = tk_address t,
      tr_balance = ''0''\<rparr>) (tokensForChain ?a))"
    using assms(3) by (simp add: getTokenBalancesForChain_def g v t z meta_of_token_def comp_def)
  ultimately show ?thesis by (simp add: comp_def)
qed

lemma registration_is_complete_witness:
  "let as = demo_registration (''0x'' @ replicate 40 (CHR ''0'')); w' = snd (registerWallets demo_modules (\<lambda>_. ''w'') 0 ''u1'' as empty_world)
   in address_of ''u1'' (wallets w') BTC = Some (''bc1'' @ replicate 39 (CHR ''q'')) \<and>
      registerWallets demo_modules (\<lambda>_. ''v'') 1 ''u1'' as w' = (fst (registerWallets demo_modules (\<lambda>_. ''w'') 0 ''u1'' as empty_world), w')"
proof -
  let ?as = "demo_registration (''0x'' @ replicate 40 (CHR ''0''))" and ?p = "\<lambda>as. map (\<lambda>(s, a). (the (chain_of s), a)) as"
  obtain w' where w': "registerWallets demo_modules (\<lambda>_. ''w'') 0 ''u1'' ?as empty_world = (Inr (?p ?as), w')"
    unfolding registerWallets_def demo_registration_ok by simp
  have "distinct (wallet_keys (wallets empty_world))" by (simp add: wallet_keys_def empty_world_def)
  note run = registration_is_complete [OF this w', of "\<lambda>_. ''v''" 1]
  have "address_of ''u1'' (wallets w') = map_of (?p ?as)" "registerWallets demo_modules (\<lambda>_. ''v'') 1 ''u1'' ?as w' = (Inr (?p ?as), w')"
    using run by blast+
  moreover have "map_of (?p ?as) BTC = Some (''bc1'' @ replicate 39 (CHR ''q''))"
    by (simp add: demo_registration_def chain_of_def CHAIN_NAMES_def)
  ultimately show ?thesis using w' by (simp add: Let_def)
qed

end
