(* ===== verification/RequestSchemas.thy ===== *)
theory RequestSchemas
  imports Wallets RampService Auth "HOL-Library.Monad_Syntax"
begin

text \<open>
  The request schemas (\<^verbatim>\<open>src/src/utils/requestSchemas.ts\<close>).  A schema maps the value a request carries --
  \<open>None\<close> for \<open>undefined\<close> -- to the parsed value, or to \<open>None\<close> when \<open>parse\<close> throws a \<open>ZodError\<close>, which every
  controller answers with 400.  The combinators state what zod documents; its patterns for UUIDs, email
  addresses, URLs and timestamps are parameters.
\<close>

section \<open>Combinators\<close>

type_synonym 'a schema = "json option \<Rightarrow> 'a option"

record zod =
  zd_uuid :: "string \<Rightarrow> bool"
  zd_email :: "string \<Rightarrow> bool"
  zd_url :: "string \<Rightarrow> bool"
  zd_datetime :: "string \<Rightarrow> bool"

definition string_schema :: "string schema" where
  "string_schema = as_string"

definition refine :: "('a \<Rightarrow> bool) \<Rightarrow> 'a schema \<Rightarrow> 'a schema" where
  "refine P s v = do { x \<leftarrow> s v; if P x then Some x else None }"

definition transform :: "('a \<Rightarrow> 'b) \<Rightarrow> 'a schema \<Rightarrow> 'b schema" where
  "transform f s v = map_option f (s v)"

definition optional :: "'a schema \<Rightarrow> 'a option schema" where
  "optional s v = (if v = None then Some None else map_option Some (s v))"

definition nullable :: "'a schema \<Rightarrow> 'a option schema" where
  "nullable s v = (if v = Some JNull then Some None else map_option Some (s v))"

definition default_to :: "string \<Rightarrow> 'a schema \<Rightarrow> 'a schema" where
  "default_to d s v = (if v = None then s (Some (JString d)) else s v)"

abbreviation between :: "nat \<Rightarrow> nat \<Rightarrow> string \<Rightarrow> bool" where
  "between lo hi s \<equiv> lo \<le> length s \<and> length s \<le> hi"

abbreviation trimmed :: "string schema" where
  "trimmed \<equiv> transform js_trim string_schema"

definition enum_chain :: "chain schema" where
  "enum_chain v = do { s \<leftarrow> string_schema v; chain_of s }"

text \<open>\<open>/^\d{n}$/\<close>.\<close>

definition digits_schema :: "nat \<Rightarrow> string schema" where
  "digits_schema n = refine (\<lambda>s. length s = n \<and> all_digits s) string_schema"

definition money :: "string schema" where
  "money = refine (\<lambda>s. moneyString None None None s = None) string_schema"

text \<open>\<open>strictObject\<close>: an object whose keys are all in the shape, as the lookup of its values.\<close>

definition strictObject :: "string list \<Rightarrow> (string \<Rightarrow> json option) schema" where
  "strictObject shape v =
     (case v of
        Some (JObject kvs) \<Rightarrow> if \<forall>k \<in> fst ` set kvs. k \<in> set shape then Some (field (JObject kvs)) else None
      | _ \<Rightarrow> None)"

section \<open>Path and query parameters\<close>

definition uuid_schema :: "zod \<Rightarrow> string schema" where
  "uuid_schema z = refine (zd_uuid z) string_schema"

definition idParamSchema :: "zod \<Rightarrow> string schema" where
  "idParamSchema z v = do { ob \<leftarrow> strictObject [''id''] v; uuid_schema z (ob ''id'') }"

definition accountIdParamSchema :: "string schema" where
  "accountIdParamSchema v = do { ob \<leftarrow> strictObject [''accountId''] v; digits_schema 10 (ob ''accountId'') }"

definition chainParamSchema :: "chain schema" where
  "chainParamSchema v = do { ob \<leftarrow> strictObject [''chain''] v; enum_chain (ob ''chain'') }"

definition referenceParamSchema :: "string schema" where
  "referenceParamSchema v = do { ob \<leftarrow> strictObject [''reference''] v; refine (between 1 191) trimmed (ob ''reference'') }"

definition tokenBalancesQuerySchema :: "(chain \<times> string) schema" where
  "tokenBalancesQuerySchema v = do {
     ob \<leftarrow> strictObject [''chain'', ''address''] v;
     chain \<leftarrow> enum_chain (ob ''chain'');
     address \<leftarrow> refine (between 1 140) trimmed (ob ''address'');
     Some (chain, address) }"

text \<open>\<open>/^[1-9]\d{0,n}$/\<close>.\<close>

definition positive_digits :: "nat \<Rightarrow> string \<Rightarrow> bool" where
  "positive_digits n s \<longleftrightarrow> s \<noteq> [] \<and> all_digits s \<and> hd s \<noteq> CHR ''0'' \<and> length s \<le> Suc n"

definition paginationQuerySchema :: "(nat \<times> nat) schema" where
  "paginationQuerySchema v = do {
     ob \<leftarrow> strictObject [''page'', ''limit''] v;
     page \<leftarrow> transform digits_val (default_to ''1'' (refine (positive_digits 8) string_schema)) (ob ''page'');
     limit \<leftarrow> refine (\<lambda>n. n \<le> 100) (transform digits_val (default_to ''20'' (refine (positive_digits 2) string_schema))) (ob ''limit'');
     Some (page, limit) }"

section \<open>Bodies\<close>

definition signedTxSchema :: "string schema" where
  "signedTxSchema v = do { ob \<leftarrow> strictObject [''signedTx''] v; refine (between 16 1000000) trimmed (ob ''signedTx'') }"

text \<open>A setting that is absent, cleared, or given.\<close>

definition settingsSchema :: "zod \<Rightarrow> settings_input schema" where
  "settingsSchema z v = do {
     ob \<leftarrow> strictObject [''name'', ''photoUrl'', ''defaultCurrency'', ''defaultLanguage'', ''defaultNetwork''] v;
     name \<leftarrow> optional (nullable (refine (between 1 100) trimmed)) (ob ''name'');
     photoUrl \<leftarrow> optional (nullable (refine (\<lambda>s. length s \<le> 500) (refine (zd_url z) string_schema))) (ob ''photoUrl'');
     currency \<leftarrow> optional (transform toUpperCase (refine (\<lambda>s. length s = 3) trimmed)) (ob ''defaultCurrency'');
     language \<leftarrow> optional (refine (between 2 10) trimmed) (ob ''defaultLanguage'');
     network \<leftarrow> optional (nullable enum_chain) (ob ''defaultNetwork'');
     Some \<lparr>st_name = name, st_photoUrl = photoUrl, st_defaultCurrency = currency, st_defaultLanguage = language, st_defaultNetwork = network\<rparr> }"

fun parse_all :: "'a schema \<Rightarrow> json list \<Rightarrow> 'a list option" where
  "parse_all s [] = Some []"
| "parse_all s (v # vs) = do { x \<leftarrow> s (Some v); xs \<leftarrow> parse_all s vs; Some (x # xs) }"

definition array_schema :: "nat \<Rightarrow> nat \<Rightarrow> 'a schema \<Rightarrow> 'a list schema" where
  "array_schema lo hi s v =
     (case v of Some (JArray vs) \<Rightarrow> if lo \<le> length vs \<and> length vs \<le> hi then parse_all s vs else None | _ \<Rightarrow> None)"

text \<open>An address to register; the chain is kept by its name, as the service reads it.\<close>

definition addressEntry :: "(string \<times> string) schema" where
  "addressEntry v = do {
     ob \<leftarrow> strictObject [''chain'', ''address''] v;
     chain \<leftarrow> enum_chain (ob ''chain'');
     address \<leftarrow> refine (between 1 120) trimmed (ob ''address'');
     Some (chain_name chain, address) }"

definition registerWalletsSchema :: "(string \<times> string) list schema" where
  "registerWalletsSchema v = do { ob \<leftarrow> strictObject [''addresses''] v; array_schema 1 20 addressEntry (ob ''addresses'') }"

definition email_schema :: "zod \<Rightarrow> string schema" where
  "email_schema z = refine (zd_email z) (transform toLowerCase trimmed)"

text \<open>\<open>/^\+?[0-9]{10,15}$/\<close>.\<close>

definition phone_pattern :: "string \<Rightarrow> bool" where
  "phone_pattern s = (let d = (if take 1 s = ''+'' then drop 1 s else s) in all_digits d \<and> between 10 15 d)"

text \<open>The body, with the two headers the controller adds.\<close>

definition signupSchema :: "zod \<Rightarrow> string option \<Rightarrow> string option \<Rightarrow> signup_input schema" where
  "signupSchema z userAgent ipAddress v = do {
     ob \<leftarrow> strictObject [''email'', ''phone'', ''password''] v;
     email \<leftarrow> email_schema z (ob ''email'');
     phone \<leftarrow> optional (refine phone_pattern trimmed) (ob ''phone'');
     password \<leftarrow> refine (between 8 128) string_schema (ob ''password'');
     Some \<lparr>si_email = email, si_phone = phone, si_password = password, si_userAgent = userAgent, si_ipAddress = ipAddress\<rparr> }"

definition loginSchema :: "zod \<Rightarrow> (string \<times> string) schema" where
  "loginSchema z v = do {
     ob \<leftarrow> strictObject [''email'', ''password''] v;
     email \<leftarrow> email_schema z (ob ''email'');
     password \<leftarrow> refine (\<lambda>s. 1 \<le> length s) string_schema (ob ''password'');
     Some (email, password) }"

definition verifySchema :: "string schema" where
  "verifySchema v = do { ob \<leftarrow> strictObject [''code''] v; digits_schema 6 (ob ''code'') }"

definition resendSchema :: "string schema" where
  "resendSchema v = do {
     ob \<leftarrow> strictObject [''channel''] v;
     refine (\<lambda>s. s = ''email'' \<or> s = ''phone'') string_schema (ob ''channel'') }"

definition pinSchema :: "string schema" where
  "pinSchema v = do { ob \<leftarrow> strictObject [''pin''] v; digits_schema 6 (ob ''pin'') }"

definition changePinSchema :: "(string \<times> string) schema" where
  "changePinSchema v = do {
     ob \<leftarrow> strictObject [''currentPin'', ''newPin''] v;
     currentPin \<leftarrow> digits_schema 6 (ob ''currentPin'');
     newPin \<leftarrow> digits_schema 6 (ob ''newPin'');
     Some (currentPin, newPin) }"

definition forgotPasswordSchema :: "zod \<Rightarrow> string schema" where
  "forgotPasswordSchema z v = do { ob \<leftarrow> strictObject [''email''] v; email_schema z (ob ''email'') }"

definition contactCreateSchema :: "contact_input schema" where
  "contactCreateSchema v = do {
     ob \<leftarrow> strictObject [''name'', ''accountId'', ''address'', ''chain''] v;
     name \<leftarrow> refine (between 1 100) trimmed (ob ''name'');
     accountId \<leftarrow> optional (digits_schema 10) (ob ''accountId'');
     address \<leftarrow> optional (refine (between 1 120) trimmed) (ob ''address'');
     chain \<leftarrow> optional enum_chain (ob ''chain'');
     Some \<lparr>ci_name = name, ci_accountId = accountId, ci_address = address, ci_chain = chain\<rparr> }"

definition contactParamsSchema :: "zod \<Rightarrow> string schema" where
  "contactParamsSchema z v = do { ob \<leftarrow> strictObject [''id''] v; uuid_schema z (ob ''id'') }"

definition contactUpdateSchema :: "(string option \<times> string option) schema" where
  "contactUpdateSchema v = do {
     ob \<leftarrow> strictObject [''name'', ''accountId''] v;
     name \<leftarrow> optional (refine (between 1 100) trimmed) (ob ''name'');
     accountId \<leftarrow> optional (digits_schema 10) (ob ''accountId'');
     if name \<noteq> None \<or> accountId \<noteq> None then Some (name, accountId) else None }"

definition externalPrepareSchema :: "string \<Rightarrow> prepare_input schema" where
  "externalPrepareSchema userId v = do {
     ob \<leftarrow> strictObject [''chain'', ''asset'', ''amount'', ''to'', ''pin''] v;
     chain \<leftarrow> enum_chain (ob ''chain'');
     asset \<leftarrow> refine (between 1 20) trimmed (ob ''asset'');
     amount \<leftarrow> money (ob ''amount'');
     recipient \<leftarrow> refine (between 1 120) trimmed (ob ''to'');
     pin \<leftarrow> digits_schema 6 (ob ''pin'');
     Some \<lparr>xi_userId = userId, xi_chain = chain, xi_asset = asset, xi_amount = amount, xi_to = recipient, xi_pin = pin\<rparr> }"

definition externalSubmitSchema :: "zod \<Rightarrow> (string \<times> string) schema" where
  "externalSubmitSchema z v = do {
     ob \<leftarrow> strictObject [''signedTransaction'', ''idempotencyKey''] v;
     signed_tx \<leftarrow> refine (between 16 1000000) trimmed (ob ''signedTransaction'');
     key \<leftarrow> uuid_schema z (ob ''idempotencyKey'');
     Some (signed_tx, key) }"

definition noteSchema :: "string option schema" where
  "noteSchema = transform (\<lambda>s. if s = [] then None else Some s) (refine (\<lambda>s. length s \<le> 140) trimmed)"

definition paymentRequestSchema :: "zod \<Rightarrow> payment_input schema" where
  "paymentRequestSchema z v = do {
     ob \<leftarrow> strictObject [''asset'', ''symbol'', ''amount'', ''expiresAt'', ''note''] v;
     asset \<leftarrow> optional (refine (between 1 20) trimmed) (ob ''asset'');
     symbol \<leftarrow> optional (refine (between 1 20) trimmed) (ob ''symbol'');
     amount \<leftarrow> optional money (ob ''amount'');
     expiresAt \<leftarrow> optional (refine (zd_datetime z) string_schema) (ob ''expiresAt'');
     note \<leftarrow> optional noteSchema (ob ''note'');
     if asset \<noteq> None \<or> symbol \<noteq> None
     then Some \<lparr>pi_asset = asset, pi_symbol = symbol, pi_amount = amount, pi_expiresAt = expiresAt, pi_note = Option.bind note (\<lambda>n. n)\<rparr>
     else None }"

definition paymentFulfillSchema :: "zod \<Rightarrow> string schema" where
  "paymentFulfillSchema z v = do { ob \<leftarrow> strictObject [''transactionId''] v; uuid_schema z (ob ''transactionId'') }"

text \<open>\<open>Number(v) > 0\<close> on a decimal of at most two places is the sign of its exact value.\<close>

definition naira_schema :: "string schema" where
  "naira_schema = refine (\<lambda>s. 0 < scaled s 2) (refine naira_pattern string_schema)"

definition rampDepositSchema :: "string schema" where
  "rampDepositSchema v = do { ob \<leftarrow> strictObject [''amountNgn''] v; naira_schema (ob ''amountNgn'') }"

definition rampWithdrawSchema :: "withdraw_input schema" where
  "rampWithdrawSchema v = do {
     ob \<leftarrow> strictObject [''amountNgn'', ''accountNumber'', ''bankCode'', ''accountName''] v;
     amount \<leftarrow> naira_schema (ob ''amountNgn'');
     accountNumber \<leftarrow> digits_schema 10 (ob ''accountNumber'');
     bankCode \<leftarrow> refine (\<lambda>s. 1 \<le> length s) trimmed (ob ''bankCode'');
     accountName \<leftarrow> refine (between 2 120) trimmed (ob ''accountName'');
     Some \<lparr>wi_amountNgn = amount, wi_accountNumber = accountNumber, wi_bankCode = bankCode, wi_accountName = accountName\<rparr> }"

text \<open>The body with the sender of the session.\<close>

definition transactionSendSchema :: "zod \<Rightarrow> string \<Rightarrow> send_input schema" where
  "transactionSendSchema z senderId v = do {
     ob \<leftarrow> strictObject [''recipientAccountId'', ''recipientAddress'', ''asset'', ''amount'', ''network'', ''pin'', ''idempotencyKey''] v;
     accountId \<leftarrow> optional (digits_schema 10) (ob ''recipientAccountId'');
     address \<leftarrow> optional (refine (between 1 120) trimmed) (ob ''recipientAddress'');
     asset \<leftarrow> refine (between 1 20) trimmed (ob ''asset'');
     amount \<leftarrow> money (ob ''amount'');
     network \<leftarrow> enum_chain (ob ''network'');
     pin \<leftarrow> digits_schema 6 (ob ''pin'');
     key \<leftarrow> uuid_schema z (ob ''idempotencyKey'');
     if truthy accountId \<noteq> truthy address
     then Some \<lparr>sn_senderId = senderId, sn_recipientAccountId = accountId, sn_recipientAddress = address, sn_asset = asset, sn_amount = amount,
                sn_network = network, sn_pin = pin, sn_idempotencyKey = key\<rparr>
     else None }"

record fee_input =
  fi_recipientAddress :: string
  fi_asset :: string
  fi_amount :: string
  fi_network :: chain

definition transactionFeeSchema :: "fee_input schema" where
  "transactionFeeSchema v = do {
     ob \<leftarrow> strictObject [''recipientAddress'', ''asset'', ''amount'', ''network''] v;
     address \<leftarrow> refine (between 1 120) trimmed (ob ''recipientAddress'');
     asset \<leftarrow> refine (between 1 20) trimmed (ob ''asset'');
     amount \<leftarrow> money (ob ''amount'');
     network \<leftarrow> enum_chain (ob ''network'');
     Some \<lparr>fi_recipientAddress = address, fi_asset = asset, fi_amount = amount, fi_network = network\<rparr> }"

definition addressValidationSchema :: "(string \<times> chain) schema" where
  "addressValidationSchema v = do {
     ob \<leftarrow> strictObject [''address'', ''chain''] v;
     address \<leftarrow> refine (between 1 120) trimmed (ob ''address'');
     chain \<leftarrow> enum_chain (ob ''chain'');
     Some (address, chain) }"

section \<open>Lemmas\<close>

named_theorems schema_simps

lemma schema_Some [schema_simps]:
  "refine P s v = Some x \<longleftrightarrow> s v = Some x \<and> P x"
  "transform f r v = Some b \<longleftrightarrow> (\<exists>a. r v = Some a \<and> b = f a)"
  "optional s v = Some y \<longleftrightarrow> (if v = None then y = None else (\<exists>x. s v = Some x \<and> y = Some x))"
  "nullable s v = Some y \<longleftrightarrow> (if v = Some JNull then y = None else (\<exists>x. s v = Some x \<and> y = Some x))"
  "string_schema v = Some t \<longleftrightarrow> v = Some (JString t)"
  "digits_schema n v = Some t \<longleftrightarrow> v = Some (JString t) \<and> length t = n \<and> all_digits t"
  "money v = Some t \<longleftrightarrow> v = Some (JString t) \<and> moneyString None None None t = None"
  "uuid_schema z v = Some t \<longleftrightarrow> v = Some (JString t) \<and> zd_uuid z t"
  "enum_chain v = Some c \<longleftrightarrow> v = Some (JString (chain_name c))"
  by (auto simp: refine_def transform_def optional_def nullable_def string_schema_def digits_schema_def money_def uuid_schema_def
      enum_chain_def as_string_Some chain_of_name bind_eq_Some_conv split: if_splits)

lemma strictObject_Some [schema_simps]:
  "strictObject shape v = Some ob \<longleftrightarrow> (\<exists>kvs. v = Some (JObject kvs) \<and> fst ` set kvs \<subseteq> set shape \<and> ob = field (JObject kvs))"
  by (auto simp: strictObject_def subset_iff split: option.splits json.splits if_splits)

lemma trim_ends: "js_trim s = [] \<or> (\<not> is_space (hd (js_trim s)) \<and> \<not> is_space (last (js_trim s)))"
proof (cases "js_trim s = []")
  case False
  let ?t = "dropWhile is_space s"
  have "\<not> is_space (last (js_trim s))"
    using hd_dropWhile [of is_space "rev ?t"] False by (simp add: js_trim_def last_rev)
  moreover have "?t = js_trim s @ rev (takeWhile is_space (rev ?t))"
    by (metis js_trim_def rev_append rev_rev_ident takeWhile_dropWhile_id)
  then have "hd ?t = hd (js_trim s)" "?t \<noteq> []" using False by (metis hd_append2, force)
  then have "\<not> is_space (hd (js_trim s))" using hd_dropWhile [of is_space s] by simp
  ultimately show ?thesis by blast
qed simp

lemma trim_id: "s = [] \<or> (\<not> is_space (hd s) \<and> \<not> is_space (last s)) \<Longrightarrow> js_trim s = s"
proof (cases s rule: rev_cases)
  case (snoc xs x)
  moreover assume "s = [] \<or> (\<not> is_space (hd s) \<and> \<not> is_space (last s))"
  ultimately have "\<not> is_space x" "dropWhile is_space s = s" by (auto simp: dropWhile_eq_self_iff)
  then show ?thesis using snoc by (simp add: js_trim_def)
qed (simp add: js_trim_def)

lemma trim_idem [simp]: "js_trim (js_trim s) = js_trim s"
  by (rule trim_id) (rule trim_ends)

lemma trimmed_Some [schema_simps]: "trimmed v = Some t \<longleftrightarrow> (\<exists>s. v = Some (JString s) \<and> t = js_trim s)"
  by (auto simp: schema_simps)

section \<open>Properties\<close>

text \<open>A transfer as the body that asks for it.\<close>

definition send_json :: "send_input \<Rightarrow> json" where
  "send_json i = js_object
     [(''recipientAccountId'', map_option JString (sn_recipientAccountId i)), (''recipientAddress'', map_option JString (sn_recipientAddress i)),
      (''asset'', js_text (sn_asset i)), (''amount'', js_text (sn_amount i)), (''network'', js_text (chain_name (sn_network i))),
      (''pin'', js_text (sn_pin i)), (''idempotencyKey'', js_text (sn_idempotencyKey i))]"

lemma field_send_json [simp]:
  "field (send_json i) ''recipientAccountId'' = map_option JString (sn_recipientAccountId i)"
  "field (send_json i) ''recipientAddress'' = map_option JString (sn_recipientAddress i)"
  "field (send_json i) ''asset'' = js_text (sn_asset i)" "field (send_json i) ''amount'' = js_text (sn_amount i)"
  "field (send_json i) ''network'' = js_text (chain_name (sn_network i))" "field (send_json i) ''pin'' = js_text (sn_pin i)"
  "field (send_json i) ''idempotencyKey'' = js_text (sn_idempotencyKey i)"
  by (cases "sn_recipientAccountId i"; cases "sn_recipientAddress i"; simp add: send_json_def js_object_def map_filter_simps)+

text \<open>C26: a transfer that passes the schema is well formed.  It names exactly one recipient, an account id of ten
  digits or a trimmed address; its PIN has six digits, its key is a UUID, its asset is trimmed and its
  amount passes the ledger's own check; it carries the sender of the session; and it is in normal form:
  sent as a body again, it is parsed to itself.\<close>

theorem parsed_transfer_is_well_typed:
  assumes "transactionSendSchema z senderId v = Some i"
  shows "(sn_recipientAccountId i = None) \<noteq> (sn_recipientAddress i = None) \<and> sn_senderId i = senderId \<and>
         (\<forall>a. sn_recipientAccountId i = Some a \<longrightarrow> length a = 10 \<and> all_digits a) \<and>
         (\<forall>a. sn_recipientAddress i = Some a \<longrightarrow> a \<noteq> [] \<and> js_trim a = a \<and> length a \<le> 120) \<and>
         six_digits (sn_pin i) \<and> zd_uuid z (sn_idempotencyKey i) \<and>
         sn_asset i \<noteq> [] \<and> js_trim (sn_asset i) = sn_asset i \<and> length (sn_asset i) \<le> 20 \<and>
         assertValidAmount None None None (sn_amount i) = Inr () \<and>
         transactionSendSchema z senderId (Some (send_json i)) = Some i"
proof -
  obtain ob accountId address asset amount network pin key where
    parsed: "optional (digits_schema 10) (ob ''recipientAccountId'') = Some accountId"
      "optional (refine (between 1 120) trimmed) (ob ''recipientAddress'') = Some address"
      "refine (between 1 20) trimmed (ob ''asset'') = Some asset" "money (ob ''amount'') = Some amount"
      "digits_schema 6 (ob ''pin'') = Some pin" "uuid_schema z (ob ''idempotencyKey'') = Some key"
    and last: "(if truthy accountId \<noteq> truthy address
        then Some \<lparr>sn_senderId = senderId, sn_recipientAccountId = accountId, sn_recipientAddress = address, sn_asset = asset, sn_amount = amount,
              sn_network = network, sn_pin = pin, sn_idempotencyKey = key\<rparr> else None) = Some i"
    using assms unfolding transactionSendSchema_def bind_eq_Some_conv by blast
  have one: "truthy accountId \<noteq> truthy address" using last by (metis option.distinct(1))
  then have i: "i = \<lparr>sn_senderId = senderId, sn_recipientAccountId = accountId, sn_recipientAddress = address, sn_asset = asset, sn_amount = amount,
              sn_network = network, sn_pin = pin, sn_idempotencyKey = key\<rparr>" using last by simp
  have accountId: "accountId = None \<or> (\<exists>a. accountId = Some a \<and> length a = 10 \<and> all_digits a)"
    using parsed(1) by (auto simp: schema_simps split: if_splits)
  have address: "address = None \<or> (\<exists>a. address = Some a \<and> js_trim a = a \<and> between 1 120 a)"
    using parsed(2) by (auto simp: schema_simps split: if_splits)
  have asset: "js_trim asset = asset" "between 1 20 asset" using parsed(3) by (auto simp: schema_simps)
  have amount: "moneyString None None None amount = None" using parsed(4) by (simp add: schema_simps)
  have pin: "length pin = 6" "all_digits pin" using parsed(5) by (simp_all add: schema_simps)
  have key: "zd_uuid z key" using parsed(6) by (simp add: schema_simps)
  have ne: "truthy accountId \<longleftrightarrow> accountId \<noteq> None" "truthy address \<longleftrightarrow> address \<noteq> None" using accountId address by auto
  have keys: "strictObject [''recipientAccountId'', ''recipientAddress'', ''asset'', ''amount'', ''network'', ''pin'', ''idempotencyKey'']
      (Some (send_json i)) = Some (field (send_json i))"
    by (cases accountId; cases address) (simp_all add: i strictObject_def send_json_def js_object_def map_filter_simps)
  have parts: "optional (digits_schema 10) (map_option JString accountId) = Some accountId"
    "optional (refine (between 1 120) trimmed) (map_option JString address) = Some address"
    "refine (between 1 20) trimmed (js_text asset) = Some asset" "money (js_text amount) = Some amount"
    "enum_chain (js_text (chain_name network)) = Some network" "digits_schema 6 (js_text pin) = Some pin" "uuid_schema z (js_text key) = Some key"
    using accountId address asset amount pin key by (auto simp: schema_simps)
  have "transactionSendSchema z senderId (Some (send_json i)) = Some i"
    unfolding transactionSendSchema_def keys using parts one by (simp add: i)
  moreover have "assertValidAmount None None None amount = Inr ()" using amount by (simp add: assertValidAmount_def)
  moreover have "(accountId = None) \<noteq> (address = None)" using one ne by blast
  ultimately show ?thesis using accountId address asset pin key by (auto simp: i six_digits_def)
qed

lemma demo_send_body:
  "transactionSendSchema \<lparr>zd_uuid = (\<lambda>s. s = ''key''), zd_email = (\<lambda>_. False), zd_url = (\<lambda>_. False), zd_datetime = (\<lambda>_. False)\<rparr> ''u1''
     (Some (JObject [(''recipientAddress'', JString '' 0xabc ''), (''asset'', JString ''ETH ''), (''amount'', JString ''1.50''),
        (''network'', JString ''ETH''), (''pin'', JString ''123456''), (''idempotencyKey'', JString ''key'')])) =
   Some \<lparr>sn_senderId = ''u1'', sn_recipientAccountId = None, sn_recipientAddress = Some ''0xabc'', sn_asset = ''ETH'', sn_amount = ''1.50'',
      sn_network = ETH, sn_pin = ''123456'', sn_idempotencyKey = ''key''\<rparr>"
  by code_simp

lemma parsed_transfer_is_well_typed_witness:
  "js_trim ''0xabc'' = ''0xabc'' \<and> assertValidAmount None None None ''1.50'' = Inr ()"
  using parsed_transfer_is_well_typed [OF demo_send_body] by simp

text \<open>A page is bounded.  Whatever the query string says, a parsed page number is at least 1, a parsed limit is
  between 1 and 100, and the page of transfers they select has at most 100 entries.\<close>

lemma pages_are_bounded:
  assumes "paginationQuerySchema v = Some (page, limit)"
  shows "1 \<le> page \<and> page < 10 ^ 9 \<and> 1 \<le> limit \<and> limit \<le> 100 \<and> length (pg_items (listTransactions userId page limit w)) \<le> 100"
proof -
  have pos: "1 \<le> digits_val s \<and> digits_val s < 10 ^ Suc n" if "positive_digits n s" for n s
  proof -
    have s: "all_digits s" "length s \<le> Suc n" "\<exists>c \<in> set s. c \<noteq> CHR ''0''"
      using that unfolding positive_digits_def by (blast, blast, metis hd_in_set)
    have "digits_val s < 10 ^ length s" using s(1) by (rule digits_val_lt)
    also have "\<dots> \<le> 10 ^ Suc n" using s(2) by (rule power_increasing) simp
    finally show ?thesis using digits_val_pos_iff [OF s(1)] s(3) by simp
  qed
  have one: "digits_val ''1'' = 1" "digits_val ''20'' = 20" by code_simp+
  have "positive_digits 8 ''1''" "positive_digits 2 ''20''" by code_simp+
  then have read: "transform digits_val (default_to d (refine (positive_digits n) string_schema)) x = Some k \<Longrightarrow> \<exists>t. positive_digits n t \<and> k = digits_val t"
    if "n = 8 \<and> d = ''1'' \<or> n = 2 \<and> d = ''20''" for x k n d
    using that unfolding default_to_def by (auto simp: schema_simps split: if_splits)
  obtain ob where "transform digits_val (default_to ''1'' (refine (positive_digits 8) string_schema)) (ob ''page'') = Some page"
    and l: "refine (\<lambda>n. n \<le> 100) (transform digits_val (default_to ''20'' (refine (positive_digits 2) string_schema))) (ob ''limit'') = Some limit"
    using assms unfolding paginationQuerySchema_def bind_eq_Some_conv option.inject prod.inject by blast
  then obtain p where p: "positive_digits 8 p" "page = digits_val p" using read [of 8 "''1''"] by blast
  have "transform digits_val (default_to ''20'' (refine (positive_digits 2) string_schema)) (ob ''limit'') = Some limit" "limit \<le> 100"
    using l by (simp_all only: schema_Some(1))
  then obtain t where t: "positive_digits 2 t" "limit = digits_val t" using read [of 2 "''20''"] by blast
  have "length (pg_items (listTransactions userId page limit w)) \<le> limit" by (simp add: listTransactions_def Let_def)
  moreover have "digits_val p < 10 ^ 9" using pos [OF p(1)] by simp
  ultimately show ?thesis using pos [OF p(1)] pos [OF t(1)] p(2) t(2) \<open>limit \<le> 100\<close> by linarith
qed

text \<open>The schema of a withdrawal has made the service's own checks of the bank account superfluous, and of the
  amount it leaves only the configured bounds: a parsed body is refused before the provider is asked exactly
  if its exact amount in kobo is outside them.\<close>

lemma parsed_withdrawal_needs_only_bounds:
  assumes "rampWithdrawSchema v = Some input"
  shows "checkBankAccount input = Inr () \<and>
         (assertValidNgnAmount (wi_amountNgn input) lo hi = Inr () \<longleftrightarrow>
            int lo * 100 \<le> scaled (wi_amountNgn input) 2 \<and> scaled (wi_amountNgn input) 2 \<le> int hi * 100)"
proof -
  have "naira_pattern (wi_amountNgn input)" "0 < scaled (wi_amountNgn input) 2" "length (wi_accountNumber input) = 10"
    "all_digits (wi_accountNumber input)" "js_trim (wi_bankCode input) \<noteq> []" "js_trim (wi_accountName input) \<noteq> []"
    using assms unfolding rampWithdrawSchema_def naira_schema_def by (auto simp: schema_simps bind_eq_Some_conv)
  then show ?thesis by (simp add: checkBankAccount_def assertValidNgnAmount_iff)
qed

end
