(* ===== verification/Controllers.thy ===== *)
theory Controllers
  imports RequestSchemas ExternalSubmit
begin

text \<open>
  The request handlers (\<^verbatim>\<open>src/src/controllers\<close>): parse what the request carries, call the service, and send
  the answer or what \<open>handleError\<close> makes of the error.  A body, the path parameters and the query string
  are JSON values; the caller's id, its token and its headers come from the request.
\<close>

section \<open>Replies\<close>

text \<open>\<open>Rejected\<close> is the 400 of a \<open>ZodError\<close>, whose message names its first issue.\<close>

datatype 'a reply = Sent nat 'a | Failed nat string | Rejected

definition reply_of :: "nat \<Rightarrow> thrown + 'a \<Rightarrow> 'a reply" where
  "reply_of code r = (case r of Inr x \<Rightarrow> Sent code x | Inl e \<Rightarrow> (case handleError e of (c, m) \<Rightarrow> Failed c m))"

text \<open>The \<open>try\<close> block of a handler, with the status of its success.\<close>

definition respond :: "nat \<Rightarrow> 'b option \<Rightarrow> ('b \<Rightarrow> 'a op) \<Rightarrow> world \<Rightarrow> 'a reply \<times> world" where
  "respond code parsed run w =
     (case parsed of
        None \<Rightarrow> (Rejected, w)
      | Some x \<Rightarrow> (case run x w of (r, w1) \<Rightarrow> (reply_of code r, w1)))"

definition reading :: "(world \<Rightarrow> thrown + 'a) \<Rightarrow> 'a op" where
  "reading f w = (f w, w)"

definition viewing :: "(world \<Rightarrow> 'a) \<Rightarrow> 'a op" where
  "viewing f w = (Inr (f w), w)"

text \<open>Both parsers must succeed, the first one first.\<close>

definition both :: "'a option \<Rightarrow> 'b option \<Rightarrow> ('a \<times> 'b) option" where
  "both a b = do { x \<leftarrow> a; y \<leftarrow> b; Some (x, y) }"

section \<open>Authentication\<close>

text \<open>The channel of a resend.\<close>

definition channel_of :: "string \<Rightarrow> channel" where
  "channel_of s = (if s = ''phone'' then PhoneChannel else EmailChannel)"

record auth_request =
  ax_body :: "json option"
  ax_params :: "json option"
  ax_userId :: string
  ax_authorization :: string
  ax_userAgent :: "string option"
  ax_ip :: "string option"

text \<open>\<open>authHeader.slice(7)\<close>.\<close>

definition currentToken :: "auth_request \<Rightarrow> string" where
  "currentToken rq = drop 7 (ax_authorization rq)"

definition signupHandler ::
  "zod \<Rightarrow> hmac \<Rightarrow> (string \<Rightarrow> string \<Rightarrow> bool) \<Rightarrow> (string \<Rightarrow> string) \<Rightarrow> auth_env \<Rightarrow> int \<Rightarrow> (world \<Rightarrow> world) \<Rightarrow> fresh \<Rightarrow> auth_request \<Rightarrow>
   world \<Rightarrow> signup_result reply \<times> world" where
  "signupHandler z hm deliver hash env now mid fr rq =
     respond 201 (signupSchema z (ax_userAgent rq) (ax_ip rq) (ax_body rq)) (signup hm deliver hash env now mid fr)"

definition loginHandler ::
  "zod \<Rightarrow> (string \<Rightarrow> string \<Rightarrow> bool) \<Rightarrow> auth_env \<Rightarrow> int \<Rightarrow> fresh \<Rightarrow> auth_request \<Rightarrow> world \<Rightarrow> (user_view \<times> string) reply \<times> world" where
  "loginHandler z compare env now fr rq =
     respond 200 (loginSchema z (ax_body rq)) (\<lambda>(email, password). login compare env now fr email password (ax_userAgent rq) (ax_ip rq))"

definition verifyEmailHandler :: "hmac \<Rightarrow> auth_env \<Rightarrow> int \<Rightarrow> (world \<Rightarrow> world) \<Rightarrow> auth_request \<Rightarrow> world \<Rightarrow> user_view reply \<times> world" where
  "verifyEmailHandler hm env now mid rq = respond 200 (verifySchema (ax_body rq)) (verifyEmail hm env now mid (ax_userId rq))"

definition verifyPhoneHandler :: "hmac \<Rightarrow> auth_env \<Rightarrow> int \<Rightarrow> (world \<Rightarrow> world) \<Rightarrow> auth_request \<Rightarrow> world \<Rightarrow> user_view reply \<times> world" where
  "verifyPhoneHandler hm env now mid rq = respond 200 (verifySchema (ax_body rq)) (verifyPhone hm env now mid (ax_userId rq))"

definition resendCodeHandler ::
  "hmac \<Rightarrow> (string \<Rightarrow> string \<Rightarrow> bool) \<Rightarrow> auth_env \<Rightarrow> int \<Rightarrow> fresh \<Rightarrow> auth_request \<Rightarrow> world \<Rightarrow> string option reply \<times> world" where
  "resendCodeHandler hm deliver env now fr rq =
     respond 200 (resendSchema (ax_body rq)) (\<lambda>ch. resendVerificationCode hm deliver env now fr (ax_userId rq) (channel_of ch))"

definition forgotPasswordHandler :: "zod \<Rightarrow> auth_request \<Rightarrow> world \<Rightarrow> bool reply \<times> world" where
  "forgotPasswordHandler z rq = respond 200 (forgotPasswordSchema z (ax_body rq)) requestPasswordReset"

definition setPinHandler :: "(string \<Rightarrow> string) \<Rightarrow> (world \<Rightarrow> world) \<Rightarrow> auth_request \<Rightarrow> world \<Rightarrow> unit reply \<times> world" where
  "setPinHandler hash mid rq = respond 200 (pinSchema (ax_body rq)) (setPin hash mid (ax_userId rq))"

definition verifyPinHandler :: "(string \<Rightarrow> string \<Rightarrow> bool) \<Rightarrow> int \<Rightarrow> auth_request \<Rightarrow> world \<Rightarrow> unit reply \<times> world" where
  "verifyPinHandler compare now rq = respond 200 (pinSchema (ax_body rq)) (verifyPin compare now (ax_userId rq))"

definition changePinHandler :: "(string \<Rightarrow> string) \<Rightarrow> (string \<Rightarrow> string \<Rightarrow> bool) \<Rightarrow> int \<Rightarrow> auth_request \<Rightarrow> world \<Rightarrow> unit reply \<times> world" where
  "changePinHandler hash compare now rq =
     respond 200 (changePinSchema (ax_body rq)) (\<lambda>(currentPin, newPin). changePin hash compare now (ax_userId rq) currentPin newPin)"

definition listSessionsHandler :: "int \<Rightarrow> auth_request \<Rightarrow> world \<Rightarrow> session_view list reply \<times> world" where
  "listSessionsHandler now rq = respond 200 (Some ()) (\<lambda>_. viewing (listSessions now (ax_userId rq) (currentToken rq)))"

definition revokeSessionHandler :: "zod \<Rightarrow> auth_request \<Rightarrow> world \<Rightarrow> unit reply \<times> world" where
  "revokeSessionHandler z rq =
     respond 200 (idParamSchema z (ax_params rq)) (\<lambda>sessionId. revokeSession (ax_userId rq) sessionId (currentToken rq))"

definition logoutHandler :: "auth_request \<Rightarrow> world \<Rightarrow> unit reply \<times> world" where
  "logoutHandler rq = respond 200 (Some ()) (\<lambda>_. logout (currentToken rq))"

definition deleteAccountHandler :: "auth_request \<Rightarrow> world \<Rightarrow> unit reply \<times> world" where
  "deleteAccountHandler rq = respond 200 (Some ()) (\<lambda>_. deleteAccount (ax_userId rq))"

section \<open>Accounts, contacts and payment requests\<close>

definition meHandler :: "string \<Rightarrow> world \<Rightarrow> (user_view \<times> account_row option) reply \<times> world" where
  "meHandler userId = respond 200 (Some ()) (\<lambda>_. reading (me userId))"

definition createAccountIdHandler ::
  "int \<Rightarrow> (world \<Rightarrow> world) \<Rightarrow> string \<Rightarrow> nat list list \<Rightarrow> string \<Rightarrow> world \<Rightarrow> account_row reply \<times> world" where
  "createAccountIdHandler now mid rowId draws userId = respond 201 (Some ()) (\<lambda>_. createAccountId now mid rowId draws userId)"

definition getByAccountIdHandler ::
  "json option \<Rightarrow> world \<Rightarrow> (string \<times> string \<times> string option \<times> string option \<times> chain list) reply \<times> world" where
  "getByAccountIdHandler params = respond 200 (accountIdParamSchema params) (\<lambda>accountId. reading (getByAccountId accountId))"

definition resolveForTransferHandler :: "string \<Rightarrow> json option \<Rightarrow> world \<Rightarrow> (string \<times> profile) reply \<times> world" where
  "resolveForTransferHandler userId params =
     respond 200 (accountIdParamSchema params) (\<lambda>accountId. reading (resolveForTransfer userId accountId))"

definition updateSettingsHandler :: "zod \<Rightarrow> string \<Rightarrow> json option \<Rightarrow> world \<Rightarrow> settings_view reply \<times> world" where
  "updateSettingsHandler z userId body = respond 200 (settingsSchema z body) (updateSettings userId)"

definition listContactsHandler :: "(string \<Rightarrow> nat) \<Rightarrow> string \<Rightarrow> world \<Rightarrow> contact_row list reply \<times> world" where
  "listContactsHandler rank userId = respond 200 (Some ()) (\<lambda>_. viewing (listContacts rank userId))"

definition createContactHandler :: "int \<Rightarrow> string \<Rightarrow> string \<Rightarrow> json option \<Rightarrow> world \<Rightarrow> contact_row reply \<times> world" where
  "createContactHandler now cid userId body = respond 201 (contactCreateSchema body) (createContact now cid userId)"

definition updateContactHandler :: "zod \<Rightarrow> string \<Rightarrow> json option \<Rightarrow> json option \<Rightarrow> world \<Rightarrow> contact_row reply \<times> world" where
  "updateContactHandler z userId params body =
     respond 200 (both (contactParamsSchema z params) (contactUpdateSchema body)) (\<lambda>(cid, name, accountId). updateContact userId cid name accountId)"

definition removeContactHandler :: "zod \<Rightarrow> string \<Rightarrow> json option \<Rightarrow> world \<Rightarrow> bool reply \<times> world" where
  "removeContactHandler z userId params = respond 200 (contactParamsSchema z params) (removeContact userId)"

definition createRequestHandler ::
  "zod \<Rightarrow> (string \<Rightarrow> int option) \<Rightarrow> (string \<Rightarrow> string) \<Rightarrow> int \<Rightarrow> string \<Rightarrow> string \<Rightarrow> json option \<Rightarrow> world \<Rightarrow> (string \<times> string) reply \<times> world" where
  "createRequestHandler z parse_date canon now rid userId body =
     respond 201 (paymentRequestSchema z body) (createRequest parse_date canon now rid userId)"

definition getRequestHandler :: "zod \<Rightarrow> int \<Rightarrow> json option \<Rightarrow> world \<Rightarrow> request_view reply \<times> world" where
  "getRequestHandler z now params = respond 200 (idParamSchema z params) (getRequest now)"

definition fulfillRequestHandler ::
  "zod \<Rightarrow> int \<Rightarrow> (world \<Rightarrow> world) \<Rightarrow> string \<Rightarrow> json option \<Rightarrow> json option \<Rightarrow> world \<Rightarrow> payreq_row reply \<times> world" where
  "fulfillRequestHandler z now mid userId params body =
     respond 200 (both (idParamSchema z params) (paymentFulfillSchema z body)) (\<lambda>(rid, tid). fulfillRequest now mid rid userId tid)"

section \<open>Wallets and transfers\<close>

definition getBalancesHandler :: "chain_modules \<Rightarrow> string \<Rightarrow> world \<Rightarrow> wallet_balance list reply \<times> world" where
  "getBalancesHandler m userId = respond 200 (Some ()) (\<lambda>_. viewing (getBalances m userId))"

definition getAddressesHandler :: "string \<Rightarrow> world \<Rightarrow> (chain \<times> string) list reply \<times> world" where
  "getAddressesHandler userId = respond 200 (Some ()) (\<lambda>_. viewing (getAddresses userId))"

definition resolveAccountIdHandler :: "json option \<Rightarrow> world \<Rightarrow> resolved_account reply \<times> world" where
  "resolveAccountIdHandler params = respond 200 (accountIdParamSchema params) (\<lambda>accountId. reading (resolveAccountId accountId))"

definition registerWalletsHandler ::
  "chain_modules \<Rightarrow> (chain \<Rightarrow> string) \<Rightarrow> int \<Rightarrow> string \<Rightarrow> json option \<Rightarrow> world \<Rightarrow> (chain \<times> string) list reply \<times> world" where
  "registerWalletsHandler m fresh now userId body = respond 200 (registerWalletsSchema body) (registerWallets m fresh now userId)"

definition listTokensHandler :: "chain_modules \<Rightarrow> json option \<Rightarrow> world \<Rightarrow> token_meta list reply \<times> world" where
  "listTokensHandler m params = respond 200 (chainParamSchema params) (\<lambda>c. reading (\<lambda>_. listSupportedTokens m c))"

definition tokenBalancesHandler :: "chain_modules \<Rightarrow> json option \<Rightarrow> world \<Rightarrow> token_row list reply \<times> world" where
  "tokenBalancesHandler m query =
     respond 200 (tokenBalancesQuerySchema query) (\<lambda>(c, address). reading (\<lambda>_. getTokenBalancesForChain m c address))"

definition estimateFeeHandler ::
  "(chain \<Rightarrow> transfer_input \<Rightarrow> thrown + string) \<Rightarrow> string \<Rightarrow> json option \<Rightarrow> world \<Rightarrow> (chain \<times> string \<times> string) reply \<times> world" where
  "estimateFeeHandler adapterFee userId body =
     respond 200 (transactionFeeSchema body)
       (\<lambda>b. reading (estimateSendFee adapterFee userId (fi_recipientAddress b) (fi_asset b) (fi_amount b) (fi_network b)))"

definition sendHandler :: "zod \<Rightarrow> send_env \<Rightarrow> (nat \<Rightarrow> world \<Rightarrow> world) \<Rightarrow> string \<Rightarrow> json option \<Rightarrow> world \<Rightarrow> tx_view reply \<times> world" where
  "sendHandler z env mid userId body = respond 201 (transactionSendSchema z userId body) (send env mid)"

definition listTransactionsHandler :: "string \<Rightarrow> json option \<Rightarrow> world \<Rightarrow> tx_page reply \<times> world" where
  "listTransactionsHandler userId query = respond 200 (paginationQuerySchema query) (\<lambda>(page, limit). viewing (listTransactions userId page limit))"

definition getByIdHandler :: "zod \<Rightarrow> string \<Rightarrow> json option \<Rightarrow> world \<Rightarrow> tx_view reply \<times> world" where
  "getByIdHandler z userId params = respond 200 (idParamSchema z params) (\<lambda>tid. reading (getById userId tid))"

definition getStatusHandler :: "zod \<Rightarrow> string \<Rightarrow> json option \<Rightarrow> world \<Rightarrow> (string \<times> tx_status \<times> string option) reply \<times> world" where
  "getStatusHandler z userId params = respond 200 (idParamSchema z params) (\<lambda>tid. reading (getStatus userId tid))"

definition broadcastHandler ::
  "zod \<Rightarrow> thrown option \<Rightarrow> (nat \<Rightarrow> world \<Rightarrow> world) \<Rightarrow> string \<Rightarrow> json option \<Rightarrow> json option \<Rightarrow> world \<Rightarrow> tx_view reply \<times> world" where
  "broadcastHandler z enqueue mid userId params body =
     respond 200 (both (idParamSchema z params) (signedTxSchema body)) (\<lambda>(tid, signed_tx). broadcast enqueue mid userId tid signed_tx)"

definition prepareHandler :: "ext_env \<Rightarrow> (nat \<Rightarrow> world \<Rightarrow> world) \<Rightarrow> string \<Rightarrow> json option \<Rightarrow> world \<Rightarrow> prepared_transfer reply \<times> world" where
  "prepareHandler env mid userId body = respond 201 (externalPrepareSchema userId body) (prepare env mid)"

text \<open>\<open>/^[0-9a-fA-F-]{36}$/\<close>.\<close>

definition intent_id_pattern :: "string \<Rightarrow> bool" where
  "intent_id_pattern s \<longleftrightarrow> length s = 36 \<and> list_all (\<lambda>c. is_hex c \<or> c = CHR ''-'') s"

definition submitHandler ::
  "zod \<Rightarrow> ext_env \<Rightarrow> (nat \<Rightarrow> world \<Rightarrow> world) \<Rightarrow> string \<Rightarrow> json option \<Rightarrow> json option \<Rightarrow> world \<Rightarrow> tx_view reply \<times> world" where
  "submitHandler z env mid userId params body w =
     (case idParamSchema z params of
        None \<Rightarrow> (Rejected, w)
      | Some iid \<Rightarrow>
          if \<not> intent_id_pattern iid then (Failed 400 ''Invalid transfer intent id'', w)
          else respond 201 (externalSubmitSchema z body) (\<lambda>(signed_tx, key). submit env mid userId iid signed_tx key) w)"

section \<open>Ramp and address validation\<close>

definition depositHandler :: "ramp_env \<Rightarrow> (nat \<Rightarrow> world \<Rightarrow> world) \<Rightarrow> string \<Rightarrow> json option \<Rightarrow> world \<Rightarrow> ramp_row reply \<times> world" where
  "depositHandler env mid userId body = respond 201 (rampDepositSchema body) (deposit env mid userId)"

definition withdrawHandler :: "ramp_env \<Rightarrow> (nat \<Rightarrow> world \<Rightarrow> world) \<Rightarrow> string \<Rightarrow> json option \<Rightarrow> world \<Rightarrow> ramp_row reply \<times> world" where
  "withdrawHandler env mid userId body = respond 201 (rampWithdrawSchema body) (withdraw env mid userId)"

definition rampStatusHandler :: "string \<Rightarrow> json option \<Rightarrow> world \<Rightarrow> ramp_row reply \<times> world" where
  "rampStatusHandler userId params = respond 200 (referenceParamSchema params) (\<lambda>reference. reading (getRampStatus userId reference))"

text \<open>This handler does not use \<open>handleError\<close>: without a status it answers 400, always with the error's own message.\<close>

definition validateAddressHandler ::
  "(string \<Rightarrow> chain \<Rightarrow> thrown + verify_answer) \<Rightarrow> json option \<Rightarrow> (string \<times> chain \<times> bool \<times> bool) reply" where
  "validateAddressHandler onChain body =
     (case addressValidationSchema body of
        None \<Rightarrow> Rejected
      | Some (address, c) \<Rightarrow>
          (case verifyAddressExists onChain address c of
             Inr v \<Rightarrow> Sent 200 (address, c, av_formatValid v, av_existsOnChain v)
           | Inl e \<Rightarrow> Failed (nullish (status_of e) 400) (if e = NotAnError then ''Address validation failed'' else message_of e)))"

section \<open>Properties\<close>

lemma handleError_hides: "handleError e = (c, m) \<Longrightarrow> 500 \<le> c \<Longrightarrow> m = GENERIC_MESSAGE \<or> e = HttpError c m"
  by (cases e) (auto simp: Let_def split: if_splits)

text \<open>What a request learns from an error.  A handler that rejects its input leaves the world alone; a reply
  of 500 or more carries the generic text, or the text of an error written for the user.  Address validation
  is the exception: an unexpected error of the chain lookup is answered as 400 with its own text.\<close>

lemma internal_errors_are_hidden_but_one:
  shows "(fst (respond code parsed run w) = Rejected \<longrightarrow> snd (respond code parsed run w) = w) \<and>
         (\<forall>c m. fst (respond code parsed run w) = Failed c m \<and> 500 \<le> c \<longrightarrow>
            m = GENERIC_MESSAGE \<or> (\<exists>x. parsed = Some x \<and> fst (run x w) = Inl (HttpError c m))) \<and>
         (\<forall>address c m. addressValidationSchema body = Some (address, c) \<and> isValidAddress c address \<and> onChain address c = Inl (PlainError m) \<longrightarrow>
            validateAddressHandler onChain body = Failed 400 m \<and> reply_of 200 (onChain address c) = Failed 500 GENERIC_MESSAGE)"
proof (intro conjI allI impI)
  show "snd (respond code parsed run w) = w" if "fst (respond code parsed run w) = Rejected"
    using that by (auto simp: respond_def reply_of_def split: option.splits prod.splits sum.splits)
next
  fix c m
  assume a: "fst (respond code parsed run w) = Failed c m \<and> 500 \<le> c"
  then obtain x where x: "parsed = Some x" by (cases parsed) (auto simp: respond_def)
  then have "reply_of code (fst (run x w)) = Failed c m" using a by (simp add: respond_def split_beta)
  then obtain e where "fst (run x w) = Inl e" "handleError e = (c, m)"
    by (cases "fst (run x w)") (auto simp: reply_of_def split: prod.splits)
  then show "m = GENERIC_MESSAGE \<or> (\<exists>x. parsed = Some x \<and> fst (run x w) = Inl (HttpError c m))"
    using handleError_hides a x by blast
next
  fix address c m
  assume a: "addressValidationSchema body = Some (address, c) \<and> isValidAddress c address \<and> onChain address c = Inl (PlainError m)"
  then show "validateAddressHandler onChain body = Failed 400 m" by (simp add: validateAddressHandler_def verifyAddressExists_def)
  show "reply_of 200 (onChain address c) = Failed 500 GENERIC_MESSAGE" using a by (simp add: reply_of_def)
qed

end
