(* ===== verification/RateLimit.thy ===== *)
theory RateLimit
  imports Controllers
begin

text \<open>
  The tightened rate limits of security-sensitive routes (\<^verbatim>\<open>src/src/middleware/rateLimit.middleware.ts\<close>).
  The limiter of the framework plugin is a parameter: it maps the key of a request to its verdict.
\<close>

record limited_request =
  lq_ip :: string
  lq_userId :: "string option"

record limit_verdict =
  lv_isAllowed :: bool
  lv_isExceeded :: bool
  lv_ttlInSeconds :: nat

definition ipKey :: "limited_request \<Rightarrow> string" where
  "ipKey request = lq_ip request"

definition userOrIpKey :: "limited_request \<Rightarrow> string" where
  "userOrIpKey request = nullish (lq_userId request) (lq_ip request)"

definition RATE_LIMITED_MESSAGE :: string where
  "RATE_LIMITED_MESSAGE = ''Too many requests. Please slow down and try again later.''"

definition rejectWith429 :: thrown where
  "rejectWith429 = StatusError 429 RATE_LIMITED_MESSAGE"

text \<open>A pre-handler: the header \<open>retry-after\<close> it sets with the error it throws, or nothing.\<close>

definition limitHandler :: "(limited_request \<Rightarrow> string) \<Rightarrow> (string \<Rightarrow> limit_verdict) \<Rightarrow> limited_request \<Rightarrow> (nat \<times> thrown) option" where
  "limitHandler key check request =
     (let result = check (key request)
      in if \<not> lv_isAllowed result \<and> lv_isExceeded result then Some (lv_ttlInSeconds result, rejectWith429) else None)"

definition createTightenedRateLimit :: "(string \<Rightarrow> limit_verdict) \<Rightarrow> limited_request \<Rightarrow> (nat \<times> thrown) option" where
  "createTightenedRateLimit = limitHandler userOrIpKey"

definition createIpRateLimit :: "(string \<Rightarrow> limit_verdict) \<Rightarrow> limited_request \<Rightarrow> (nat \<times> thrown) option" where
  "createIpRateLimit = limitHandler ipKey"

section \<open>Lemmas\<close>

text \<open>An authenticated user spends one budget wherever the requests come from; the reply names neither.\<close>

lemma one_budget_per_user:
  "lq_userId r = Some u \<Longrightarrow> lq_userId r' = Some u \<Longrightarrow> createTightenedRateLimit check r = createTightenedRateLimit check r'"
  by (simp add: createTightenedRateLimit_def limitHandler_def userOrIpKey_def)

lemma limited_reply: "limitHandler key check r = Some (ttl, e) \<Longrightarrow> errorHandler e = (429, RATE_LIMITED_MESSAGE)"
  by (auto simp: limitHandler_def Let_def rejectWith429_def errorHandler_def RATE_LIMITED_MESSAGE_def split: if_splits)

end
