(* ===== verification/Startup.thy ===== *)
theory Startup
  imports Email RampService RateLimit
begin

text \<open>
  The start of the API process: the checks of the configuration (\<^verbatim>\<open>src/src/config/env.ts\<close>), and the parts of
  \<^verbatim>\<open>src/src/server/app.ts\<close> with logic of their own -- the CORS allowlist, the trust in proxies, the JSON
  parser, the raw body of the webhook and the answer to unknown routes -- with the route inventory of
  \<^verbatim>\<open>src/src/utils/routeInventory.ts\<close>.  The parse of \<open>process.env\<close> is in
  \<open>EnvSchema\<close>, the composition of the server in \<open>Lifecycle\<close>.
\<close>

section \<open>Checks of the configuration\<close>

record boot_env =
  bt_production :: bool
  bt_devVerificationMode :: bool
  bt_email :: email_env
  bt_rampChoice :: ramp_choice
  bt_bitnobApiKey :: "string option"
  bt_bitnobClientSecret :: "string option"
  bt_bitnobWebhookSecret :: "string option"
  bt_bitnobBaseUrl :: string
  bt_yellowCardApiKey :: "string option"
  bt_yellowCardApiSecret :: "string option"
  bt_yellowCardBaseUrl :: string

definition missing_keys :: "(string \<times> string option) list \<Rightarrow> string list" where
  "missing_keys keys = map fst (filter (\<lambda>(_, v). \<not> truthy v) keys)"

definition missing_email_keys :: "email_env \<Rightarrow> string list" where
  "missing_email_keys env =
     (if mv_provider env = ''resend'' then missing_keys [(''RESEND_API_KEY'', mv_resendKey env)]
      else if mv_provider env = ''sendgrid'' then missing_keys [(''SENDGRID_API_KEY'', mv_sendgridKey env)]
      else if mv_provider env = ''ses''
      then missing_keys [(''AWS_SES_REGION'', mv_sesRegion env), (''AWS_SES_ACCESS_KEY_ID'', mv_sesAccessKeyId env),
                         (''AWS_SES_SECRET_ACCESS_KEY'', mv_sesSecretAccessKey env)]
      else [])"

text \<open>\<open>None\<close>: the check returns; otherwise what it throws.\<close>

definition assertEmailProviderConfigured :: "boot_env \<Rightarrow> thrown option" where
  "assertEmailProviderConfigured env =
     (if bt_production env \<and> bt_devVerificationMode env
      then Some (PlainError (''DEV_VERIFICATION_MODE=true is not permitted when NODE_ENV=production. '' @
             ''It bypasses the email provider and returns verification codes in the API response. '' @
             ''Unset it for production.''))
      else if \<not> bt_production env then None
      else (let missing = missing_email_keys (bt_email env)
            in if missing \<noteq> []
               then Some (PlainError (''EMAIL_PROVIDER='' @ mv_provider (bt_email env) @ '' is selected for production but is missing required '' @
                      ''credentials: '' @ js_join '', '' missing @ ''. Set them in the environment, switch EMAIL_PROVIDER, '' @
                      ''or set DEV_VERIFICATION_MODE=true only for a non-production environment.''))
               else None))"

definition assertRampProviderConfigured :: "boot_env \<Rightarrow> thrown option" where
  "assertRampProviderConfigured env =
     (if \<not> bt_production env then None
      else (let missing = (case bt_rampChoice env of
                  UseBitnob \<Rightarrow> missing_keys [(''BITNOB_API_KEY'', bt_bitnobApiKey env), (''BITNOB_CLIENT_SECRET'', bt_bitnobClientSecret env),
                                             (''BITNOB_WEBHOOK_SECRET'', bt_bitnobWebhookSecret env)]
                | UseYellowCard \<Rightarrow> missing_keys [(''YELLOW_CARD_API_KEY'', bt_yellowCardApiKey env), (''YELLOW_CARD_API_SECRET'', bt_yellowCardApiSecret env)])
            in if missing \<noteq> []
               then Some (PlainError (''RAMP_PROVIDER='' @ getRampProviderName (bt_rampChoice env) @
                      '' is selected for production but is missing required '' @ ''credentials: '' @ js_join '', '' missing @
                      ''. Set them in the environment or switch RAMP_PROVIDER.''))
               else None))"

text \<open>The configuration \<open>getRampProvider\<close> passes to the adapters; the library, the clock and the nonces are parameters.\<close>

definition ramp_config_of :: "web_lib \<Rightarrow> int \<Rightarrow> (string \<Rightarrow> string) \<Rightarrow> string \<Rightarrow> boot_env \<Rightarrow> ramp_config" where
  "ramp_config_of lib now nonce timestamp env =
     \<lparr>rg_choice = bt_rampChoice env, rg_lib = lib,
      rg_bitnob = \<lparr>bc_clientId = nullish (bt_bitnobApiKey env) [], bc_clientSecret = nullish (bt_bitnobClientSecret env) [],
                   bc_webhookSecret = nullish (bt_bitnobWebhookSecret env) [], bc_baseUrl = bt_bitnobBaseUrl env, bc_now = now, bc_nonce = nonce\<rparr>,
      rg_yellowcard = \<lparr>yc_apiKey = nullish (bt_yellowCardApiKey env) [], yc_secretKey = nullish (bt_yellowCardApiSecret env) [],
                       yc_baseUrl = bt_yellowCardBaseUrl env, yc_timestamp = timestamp\<rparr>\<rparr>"

section \<open>Origins and proxies\<close>

text \<open>\<open>[...new Set(xs)]\<close>: the first occurrence of each.\<close>

definition js_unique :: "'a list \<Rightarrow> 'a list" where
  "js_unique xs = rev (remdups (rev xs))"

definition parseAllowedOrigins :: "bool \<Rightarrow> string \<Rightarrow> thrown + string list" where
  "parseAllowedOrigins production raw =
     (let origins = js_unique (filter (\<lambda>origin. 0 < length origin) (map js_trim (js_split (CHR '','') raw)))
      in if length origins = 0 then Inl (PlainError ''ALLOWED_ORIGINS must list at least one origin'')
         else if production \<and> \<not> list_all (\<lambda>origin. startsWith origin ''https://'') origins
         then Inl (PlainError ''ALLOWED_ORIGINS must contain only https:// origins in production'')
         else Inr origins)"

datatype trust_proxy = TrustAll | TrustNone | TrustAddresses "string list" | TrustFunction "string \<Rightarrow> nat \<Rightarrow> bool"

definition resolveTrustProxy :: "string option \<Rightarrow> nat option \<Rightarrow> trust_proxy" where
  "resolveTrustProxy trustedProxies trustedProxyCount =
     (let addresses = filter (\<lambda>entry. entry \<noteq> []) (map js_trim (js_split (CHR '','') (nullish trustedProxies [])))
      in if ''*'' \<in> set addresses then TrustAll
         else if 0 < length addresses then TrustAddresses addresses
         else (case trustedProxyCount of
                 Some count \<Rightarrow> if 0 < count then TrustFunction (\<lambda>_ hop. hop \<le> count) else TrustNone
               | None \<Rightarrow> TrustNone))"

section \<open>Bodies and unknown routes\<close>

text \<open>The parser of \<open>application/json\<close> bodies; \<open>parse\<close> is \<open>JSON.parse\<close>, with \<open>None\<close> where it throws.\<close>

definition parseJsonBody :: "(string \<Rightarrow> json option) \<Rightarrow> string \<Rightarrow> thrown + json" where
  "parseJsonBody parse body =
     (if js_trim body = [] then Inr (JObject [])
      else (case parse body of Some v \<Rightarrow> Inr v | None \<Rightarrow> Inl (StatusError 400 ''Body is not valid JSON'')))"

definition RAW_BODY_PATHS :: "string list" where
  "RAW_BODY_PATHS = [''/api/ramp/webhook'']"

text \<open>
  The \<open>preParsing\<close> hook: the raw body it stores.  \<open>body\<close> is \<open>request.body\<close> as an asynchronous iterable of
  chunks; iterating over \<open>undefined\<close> throws.
\<close>

definition preParsing :: "string \<Rightarrow> string list option \<Rightarrow> thrown + string option" where
  "preParsing url body =
     (if hd (js_split (CHR ''?'') url) \<notin> set RAW_BODY_PATHS then Inr None
      else (case body of
              None \<Rightarrow> Inl (PlainError ''request.body is not async iterable'')
            | Some chunks \<Rightarrow> Inr (Some (concat chunks))))"

definition notFoundHandler :: "(string \<Rightarrow> limit_verdict) \<Rightarrow> limited_request \<Rightarrow> string \<Rightarrow> string \<Rightarrow> nat \<times> string" where
  "notFoundHandler check request method url =
     (case createIpRateLimit check request of
        Some _ \<Rightarrow> (429, RATE_LIMITED_MESSAGE)
      | None \<Rightarrow> (404, ''Route '' @ method @ '':'' @ url @ '' not found''))"

section \<open>The route inventory\<close>

type_synonym live_route = "string \<times> string"

definition isSynthesised :: "string \<Rightarrow> string \<Rightarrow> bool" where
  "isSynthesised method url \<longleftrightarrow> method = ''HEAD'' \<or> method = ''OPTIONS'' \<or> url = ''/ws'' \<or> url = ''/docs'' \<or> url = ''/docs/json''"

text \<open>The \<open>onRoute\<close> hook, for a registration of some methods at a path; \<open>None\<close> before the capture has started.\<close>

definition captureRoute :: "string list \<Rightarrow> string option \<Rightarrow> live_route list option \<Rightarrow> live_route list option" where
  "captureRoute methods url captured =
     (case (url, captured) of
        (Some u, Some routes) \<Rightarrow>
          if u = [] then captured
          else Some (routes @ map (\<lambda>m. (m, u)) (filter (\<lambda>m. \<not> isSynthesised m u) (map toUpperCase methods)))
      | _ \<Rightarrow> captured)"

definition capturedRoutes :: "live_route list option \<Rightarrow> live_route list" where
  "capturedRoutes captured = nullish captured []"

definition shouldServeApiDocs :: "bool \<Rightarrow> bool \<Rightarrow> bool" where
  "shouldServeApiDocs enabled production \<longleftrightarrow> enabled \<and> \<not> production"

section \<open>Lemmas\<close>

lemma missing_keys_Nil: "missing_keys keys = [] \<longleftrightarrow> list_all (\<lambda>(_, v). truthy v) keys"
  by (induction keys) (auto simp: missing_keys_def)

lemma truthy_value: "truthy v \<longleftrightarrow> (\<exists>s. v = Some s \<and> s \<noteq> [])"
  by (cases v) auto

lemma js_unique_set [simp]: "set (js_unique xs) = set xs" "distinct (js_unique xs)" "js_unique xs = [] \<longleftrightarrow> xs = []"
  by (simp_all add: js_unique_def)

lemma allowed_origins:
  "parseAllowedOrigins production raw = Inr origins \<Longrightarrow>
   origins \<noteq> [] \<and> distinct origins \<and> [] \<notin> set origins \<and> (production \<longrightarrow> (\<forall>origin \<in> set origins. startsWith origin ''https://''))"
  by (auto simp: parseAllowedOrigins_def Let_def list_all_iff split: if_splits)

text \<open>The default allowlist of the environment does not start a production process.\<close>

lemma default_origins_rejected:
  "parseAllowedOrigins True ''http://localhost:8081,http://localhost:3000'' =
     Inl (PlainError ''ALLOWED_ORIGINS must contain only https:// origins in production'')"
  by code_simp

text \<open>The framework hands \<open>undefined\<close> to the hook, which then fails on every webhook.\<close>

lemma webhook_body_is_lost: "preParsing ''/api/ramp/webhook?x=1'' None = Inl (PlainError ''request.body is not async iterable'')"
  by code_simp

lemma docs_never_in_production: "\<not> shouldServeApiDocs enabled True"
  by (simp add: shouldServeApiDocs_def)

lemma captured_routes_documented:
  "(m, u) \<in> set (capturedRoutes (captureRoute methods url captured)) \<Longrightarrow>
   (m, u) \<in> set (capturedRoutes captured) \<or> \<not> isSynthesised m u \<and> m \<in> toUpperCase ` set methods"
  by (auto simp: captureRoute_def capturedRoutes_def split: option.splits if_splits)

text \<open>When a provider can be built from the environment.\<close>

lemma resend_created: "truthy v \<Longrightarrow> \<exists>p. createResendProvider lib env (the v) = Inr p"
  by (cases v) (auto simp: createResendProvider_def)

lemma sendgrid_created: "truthy v \<Longrightarrow> \<exists>p. createSendGridProvider lib env (the v) f = Inr p"
  by (cases v) (auto simp: createSendGridProvider_def)

lemma email_configured_iff:
  "isEmailProviderConfigured lib env \<longleftrightarrow>
     (mv_provider env = ''resend'' \<and> truthy (mv_resendKey env)) \<or> (mv_provider env = ''sendgrid'' \<and> truthy (mv_sendgridKey env)) \<or>
     (mv_provider env = ''ses'' \<and> truthy (mv_sesRegion env) \<and> truthy (mv_sesAccessKeyId env) \<and> truthy (mv_sesSecretAccessKey env))"
proof -
  consider "mv_provider env = ''resend''" | "mv_provider env = ''sendgrid''" | "mv_provider env = ''ses''"
    | "mv_provider env \<notin> {''resend'', ''sendgrid'', ''ses''}" by blast
  then show ?thesis
  proof cases
    case 1
    then show ?thesis using resend_created [of "mv_resendKey env" lib env]
      by (cases "truthy (mv_resendKey env)") (auto simp: isEmailProviderConfigured_def getEmailProvider_def)
  next
    case 2
    then show ?thesis using sendgrid_created [of "mv_sendgridKey env" lib env "mv_sendgridFrom env"]
      by (cases "truthy (mv_sendgridKey env)") (auto simp: isEmailProviderConfigured_def getEmailProvider_def)
  next
    case 3
    have the_set: "the v \<noteq> []" if "truthy v" for v using that by (cases v) auto
    show ?thesis using 3 the_set
      by (cases "truthy (mv_sesRegion env) \<and> truthy (mv_sesAccessKeyId env) \<and> truthy (mv_sesSecretAccessKey env)")
        (simp_all add: isEmailProviderConfigured_def getEmailProvider_def createSesProvider_def)
  next
    case 4
    then show ?thesis by (simp add: isEmailProviderConfigured_def getEmailProvider_def)
  qed
qed

lemma missing_email_iff: 
  "mv_provider env \<in> {''resend'', ''sendgrid'', ''ses''} \<Longrightarrow> missing_email_keys env = [] \<longleftrightarrow> isEmailProviderConfigured mail env"
  unfolding email_configured_iff by (elim insertE emptyE) (simp_all add: missing_email_keys_def missing_keys_Nil)

lemma ramp_configured_iff:
  "isRampProviderConfigured (ramp_config_of lib now nonce timestamp env) \<longleftrightarrow>
     (case bt_rampChoice env of
        UseBitnob \<Rightarrow> truthy (bt_bitnobApiKey env) \<and> truthy (bt_bitnobClientSecret env) \<and> truthy (bt_bitnobWebhookSecret env)
      | UseYellowCard \<Rightarrow> truthy (bt_yellowCardApiKey env) \<and> truthy (bt_yellowCardApiSecret env))"
proof -
  have nonempty: "nullish v [] = [] \<longleftrightarrow> \<not> truthy v" for v by (cases v) auto
  show ?thesis
    by (cases "bt_rampChoice env", simp_all add: isRampProviderConfigured_def getRampProvider_def ramp_config_of_def
        createBitnobProvider_def createYellowCardProvider_def nonempty) blast
qed

text \<open>A production process starts exactly if it can work: the two checks pass if and only if codes are not handed out in responses,
  the selected email provider and the selected ramp provider can be built from the environment.
\<close>

lemma production_starts_iff_configured:
  assumes "bt_production env" "mv_provider (bt_email env) \<in> {''resend'', ''sendgrid'', ''ses''}"
  shows "assertEmailProviderConfigured env = None \<and> assertRampProviderConfigured env = None \<longleftrightarrow>
    \<not> bt_devVerificationMode env \<and> isEmailProviderConfigured mail (bt_email env) \<and>
    isRampProviderConfigured (ramp_config_of lib now nonce timestamp env)"
proof -
  have email: "assertEmailProviderConfigured env = None \<longleftrightarrow>
      \<not> bt_devVerificationMode env \<and> isEmailProviderConfigured mail (bt_email env)"
    using assms(1) missing_email_iff [OF assms(2)] by (auto simp: assertEmailProviderConfigured_def Let_def)
  have "assertRampProviderConfigured env = None \<longleftrightarrow> isRampProviderConfigured (ramp_config_of lib now nonce timestamp env)"
    using assms(1) unfolding ramp_configured_iff
    by (cases "bt_rampChoice env") (simp_all add: assertRampProviderConfigured_def missing_keys_Nil)
  then show ?thesis using email by blast
qed

definition demo_boot :: boot_env where
  "demo_boot = \<lparr>bt_production = True, bt_devVerificationMode = False, bt_email = demo_mail_env, bt_rampChoice = UseYellowCard,
     bt_bitnobApiKey = None, bt_bitnobClientSecret = None, bt_bitnobWebhookSecret = None, bt_bitnobBaseUrl = ''b'',
     bt_yellowCardApiKey = Some ''k'', bt_yellowCardApiSecret = Some ''s'', bt_yellowCardBaseUrl = ''y''\<rparr>"

text \<open>
  What the framework's trust function does, as its documentation has it: the addresses start at the socket, hop 0;
  the address of a request is the first that is not trusted, or the last.
\<close>

definition documented_address :: "((string \<Rightarrow> nat \<Rightarrow> bool) \<Rightarrow> string list \<Rightarrow> string) \<Rightarrow> bool" where
  "documented_address ip \<longleftrightarrow>
     (\<forall>trust trusted a rest. (\<forall>i < length trusted. trust (trusted ! i) i) \<longrightarrow> \<not> trust a (length trusted) \<or> rest = [] \<longrightarrow>
        ip trust (trusted @ a # rest) = a)"

text \<open>C35: A proxy count of \<open>n\<close> trusts one hop too many.  Behind \<open>n\<close> proxies, the client's own address is trusted as well, so the address of
  the request is whatever the client wrote into the forwarding header, and the per-address limiters count that.
\<close>

theorem proxy_count_trusts_the_client:
  assumes "documented_address ip" "length proxies = n" "0 < n"
  shows "\<exists>trust. resolveTrustProxy None (Some n) = TrustFunction trust \<and>
    ipKey \<lparr>lq_ip = ip trust (proxies @ client # forged # rest), lq_userId = u\<rparr> = forged"
proof -
  let ?trust = "\<lambda>(_ :: string) hop. hop \<le> n"
  have "resolveTrustProxy None (Some n) = TrustFunction ?trust"
    using assms(3) by (simp add: resolveTrustProxy_def js_split_no_sep js_trim_def Let_def)
  moreover have "ip ?trust ((proxies @ [client]) @ forged # rest) = forged"
    using assms(1) [unfolded documented_address_def, rule_format, of "proxies @ [client]" ?trust forged rest] assms(2) by simp
  ultimately show ?thesis by (simp add: ipKey_def)
qed

fun first_untrusted :: "nat \<Rightarrow> (string \<Rightarrow> nat \<Rightarrow> bool) \<Rightarrow> string list \<Rightarrow> string" where
  "first_untrusted i trust [] = []"
| "first_untrusted i trust [a] = a"
| "first_untrusted i trust (a # b # rest) = (if trust a i then first_untrusted (Suc i) trust (b # rest) else a)"

lemma first_untrusted_documented: "documented_address (first_untrusted 0)"
proof -
  have "first_untrusted k trust (trusted @ a # rest) = a"
    if "\<forall>i < length trusted. trust (trusted ! i) (k + i)" "\<not> trust a (k + length trusted) \<or> rest = []" for k trust trusted a rest
    using that
  proof (induction trusted arbitrary: k)
    case Nil
    then show ?case by (cases rest) auto
  next
    case (Cons t ts)
    have "trust t k" using Cons.prems(1) by auto
    moreover have "\<forall>i < length ts. trust (ts ! i) (Suc k + i)" using Cons.prems(1) by fastforce
    ultimately show ?case using Cons.IH [of "Suc k"] Cons.prems(2) by (cases ts) auto
  qed
  from this [where k = 0] show ?thesis unfolding documented_address_def by simp
qed

lemma proxy_count_trusts_the_client_witness:
  "\<exists>trust. resolveTrustProxy None (Some 1) = TrustFunction trust \<and>
    ipKey \<lparr>lq_ip = first_untrusted 0 trust ([''10.0.0.1''] @ ''203.0.113.9'' # ''1.2.3.4'' # []), lq_userId = None\<rparr> = ''1.2.3.4''"
  by (rule proxy_count_trusts_the_client [OF first_untrusted_documented]) simp_all

end
