(* ===== verification/Routes.thy ===== *)
theory Routes
  imports Startup
begin

text \<open>
  The routes of the API and the pre-handlers in front of them (\<^verbatim>\<open>src/src/routes/\<close>), with the prefixes
  \<^verbatim>\<open>src/src/server/app.ts\<close> registers them under.  A limiter is named after its variable: every one has its own
  counters.  The framework runs the pre-handlers in order and stops at the first that replies or throws.
\<close>

section \<open>Routes\<close>

datatype guard = RequireAuth | UserLimit string nat | IpLimit string nat

datatype http_method = GET | POST | PATCH | DELETE

record route =
  rt_method :: http_method
  rt_path :: string
  rt_guards :: "guard list"
  rt_handler :: string

definition mk_route :: "http_method \<Rightarrow> string \<Rightarrow> guard list \<Rightarrow> string \<Rightarrow> route" where
  "mk_route m path guards handler = \<lparr>rt_method = m, rt_path = path, rt_guards = guards, rt_handler = handler\<rparr>"

definition authRoutes :: "route list" where
  "authRoutes =
     [mk_route POST ''/signup'' [IpLimit ''signupLimit'' 5] ''auth.signup'',
      mk_route POST ''/login'' [IpLimit ''loginLimit'' 10] ''auth.login'',
      mk_route POST ''/verify-email'' [RequireAuth, UserLimit ''verifyEmailLimit'' 10] ''auth.verifyEmail'',
      mk_route POST ''/verify-phone'' [RequireAuth, UserLimit ''verifyPhoneLimit'' 10] ''auth.verifyPhone'',
      mk_route POST ''/resend-code'' [RequireAuth, UserLimit ''resendLimit'' 3] ''auth.resendCode'',
      mk_route POST ''/forgot-password'' [IpLimit ''forgotPasswordLimit'' 5] ''auth.forgotPassword'',
      mk_route POST ''/set-pin'' [RequireAuth, UserLimit ''changePinLimit'' 5] ''auth.setPin'',
      mk_route POST ''/verify-pin'' [RequireAuth, UserLimit ''verifyPinLimit'' 10] ''auth.verifyPin'',
      mk_route POST ''/change-pin'' [RequireAuth, UserLimit ''changePinLimit'' 5] ''auth.changePin'',
      mk_route GET ''/sessions'' [RequireAuth, UserLimit ''sessionListLimit'' 20] ''auth.listSessions'',
      mk_route DELETE ''/sessions/:id'' [RequireAuth] ''auth.revokeSession'',
      mk_route POST ''/logout'' [RequireAuth] ''auth.logout'',
      mk_route DELETE ''/me'' [RequireAuth] ''auth.deleteAccount'']"

definition accountRoutes :: "route list" where
  "accountRoutes =
     [mk_route GET ''/me'' [RequireAuth] ''account.me'',
      mk_route POST ''/create-account-id'' [RequireAuth] ''account.createAccountId'',
      mk_route GET ''/resolve/:accountId'' [RequireAuth] ''account.resolveForTransfer'',
      mk_route GET ''/:accountId'' [] ''account.getByAccountId'',
      mk_route PATCH ''/settings'' [RequireAuth] ''account.updateSettings'']"

definition walletRoutes :: "route list" where
  "walletRoutes =
     [mk_route GET ''/balances'' [RequireAuth] ''wallet.getBalances'',
      mk_route GET ''/addresses'' [RequireAuth] ''wallet.getAddresses'',
      mk_route POST ''/resolve/:accountId'' [RequireAuth] ''wallet.resolveAccountId'',
      mk_route POST ''/register'' [RequireAuth] ''wallet.registerWallets'',
      mk_route GET ''/tokens/:chain'' [RequireAuth] ''wallet.listTokens'',
      mk_route GET ''/token-balances'' [RequireAuth] ''wallet.tokenBalances'']"

definition transactionRoutes :: "route list" where
  "transactionRoutes =
     [mk_route POST ''/send'' [RequireAuth, UserLimit ''sendLimit'' 10] ''transaction.send'',
      mk_route POST ''/fee'' [RequireAuth] ''transaction.estimateFee'',
      mk_route GET ''/'' [RequireAuth] ''transaction.list'',
      mk_route GET ''/:id'' [RequireAuth] ''transaction.getById'',
      mk_route GET ''/:id/status'' [RequireAuth] ''transaction.getStatus'',
      mk_route POST ''/:id/broadcast'' [RequireAuth] ''transaction.broadcast'',
      mk_route POST ''/external/prepare'' [RequireAuth, UserLimit ''externalPrepareLimit'' 10] ''externalTransfer.prepare'',
      mk_route POST ''/external/:id/submit'' [RequireAuth, UserLimit ''externalSubmitLimit'' 10] ''externalTransfer.submit'']"

definition paymentRoutes :: "route list" where
  "paymentRoutes =
     [mk_route POST ''/request'' [RequireAuth] ''payment.createRequest'',
      mk_route GET ''/request/:id'' [] ''payment.getRequest'',
      mk_route POST ''/request/:id/fulfill'' [RequireAuth] ''payment.fulfillRequest'']"

definition rampRoutes :: "route list" where
  "rampRoutes =
     [mk_route POST ''/deposit'' [RequireAuth, UserLimit ''depositLimit'' 5] ''ramp.deposit'',
      mk_route POST ''/withdraw'' [RequireAuth, UserLimit ''withdrawLimit'' 5] ''ramp.withdraw'',
      mk_route GET ''/status/:reference'' [RequireAuth] ''ramp.getStatus'',
      mk_route POST ''/webhook'' [] ''ramp.webhook'']"

definition validationRoutes :: "route list" where
  "validationRoutes = [mk_route POST ''/address'' [RequireAuth] ''validation.address'']"

definition contactRoutes :: "route list" where
  "contactRoutes =
     [mk_route GET ''/'' [RequireAuth] ''contact.list'',
      mk_route POST ''/'' [RequireAuth] ''contact.create'',
      mk_route PATCH ''/:id'' [RequireAuth] ''contact.update'',
      mk_route DELETE ''/:id'' [RequireAuth] ''contact.remove'']"

definition apiRoutes :: "(string \<times> route) list" where
  "apiRoutes =
     map (Pair ''/api/auth'') authRoutes @ map (Pair ''/api/account'') accountRoutes @ map (Pair ''/api/wallet'') walletRoutes @
     map (Pair ''/api/transaction'') transactionRoutes @ map (Pair ''/api/payment'') paymentRoutes @ map (Pair ''/api/ramp'') rampRoutes @
     map (Pair ''/api/validation'') validationRoutes @ map (Pair ''/api/contact'') contactRoutes"

section \<open>The pre-handlers of a request\<close>

text \<open>\<open>auth\<close> is the verdict of \<open>requireAuth\<close> on the request, \<open>check\<close> the verdict of a limiter on a key.\<close>

fun runGuards :: "auth_reply \<Rightarrow> (string \<Rightarrow> string \<Rightarrow> limit_verdict) \<Rightarrow> limited_request \<Rightarrow> guard list \<Rightarrow> (nat \<times> string) + limited_request" where
  "runGuards auth check request [] = Inr request"
| "runGuards auth check request (RequireAuth # guards) =
     (case auth of
        Unauthorized message \<Rightarrow> Inl (401, message)
      | Authorized userId \<Rightarrow> runGuards auth check (request\<lparr>lq_userId := Some userId\<rparr>) guards)"
| "runGuards auth check request (UserLimit name _ # guards) =
     (case createTightenedRateLimit (check name) request of
        Some (_, e) \<Rightarrow> Inl (errorHandler e)
      | None \<Rightarrow> runGuards auth check request guards)"
| "runGuards auth check request (IpLimit name _ # guards) =
     (case createIpRateLimit (check name) request of
        Some (_, e) \<Rightarrow> Inl (errorHandler e)
      | None \<Rightarrow> runGuards auth check request guards)"

definition PUBLIC_HANDLERS :: "string list" where
  "PUBLIC_HANDLERS = [''auth.signup'', ''auth.login'', ''auth.forgotPassword'', ''account.getByAccountId'', ''payment.getRequest'', ''ramp.webhook'']"

section \<open>Lemmas\<close>

fun user_guards :: "guard list \<Rightarrow> bool" where
  "user_guards [] = True"
| "user_guards (UserLimit _ _ # guards) = user_guards guards"
| "user_guards _ = False"

definition guarded :: "route \<Rightarrow> bool" where
  "guarded r = (case rt_guards r of RequireAuth # guards \<Rightarrow> user_guards guards | _ \<Rightarrow> False)"

lemma routes_guarded: "list_all (\<lambda>(_, r). rt_handler r \<in> set PUBLIC_HANDLERS \<or> guarded r) apiRoutes"
  by (simp add: apiRoutes_def authRoutes_def accountRoutes_def walletRoutes_def transactionRoutes_def paymentRoutes_def rampRoutes_def
      validationRoutes_def contactRoutes_def mk_route_def guarded_def PUBLIC_HANDLERS_def)

text \<open>Behind the authentication, what the limiters decide depends on the user alone.\<close>

lemma user_guards_run:
  "user_guards guards \<Longrightarrow> lq_userId request = Some u \<Longrightarrow>
   runGuards auth check request guards = map_sum id (\<lambda>_. request) (runGuards auth check \<lparr>lq_ip = [], lq_userId = Some u\<rparr> guards)"
  by (induction guards rule: user_guards.induct) (auto simp: createTightenedRateLimit_def limitHandler_def userOrIpKey_def Let_def)



end
