(* ===== verification/Networks.thy ===== *)
theory Networks
  imports Wallets Tokens
begin

text \<open>
  The network profiles and the check of the configuration against them (\<^verbatim>\<open>src/src/chains/networks.ts\<close>).  A
  profile keeps the columns the code reads; the reference endpoint, the faucet, the \<open>supported\<close> flag and the
  notes are documentation.
\<close>

section \<open>Profiles\<close>

datatype network_kind = Mainnet | Testnet

record network_profile =
  np_chain :: chain
  np_network :: string
  np_kind :: network_kind
  np_chainId :: int
  np_rpcEnvVar :: string
  np_chainIdEnvVar :: "string option"

definition net_profile :: "chain \<Rightarrow> string \<Rightarrow> network_kind \<Rightarrow> int \<Rightarrow> string \<Rightarrow> string option \<Rightarrow> network_profile" where
  "net_profile c network kind chainId rpc var =
     \<lparr>np_chain = c, np_network = network, np_kind = kind, np_chainId = chainId, np_rpcEnvVar = rpc, np_chainIdEnvVar = var\<rparr>"

definition NETWORK_PROFILES :: "network_profile list" where
  "NETWORK_PROFILES =
     [net_profile ETH ''Ethereum Sepolia'' Testnet 11155111 ''ETHEREUM_RPC_URL'' (Some ''ETHEREUM_CHAIN_ID''),
      net_profile ETH ''Ethereum'' Mainnet 1 ''ETHEREUM_RPC_URL'' (Some ''ETHEREUM_CHAIN_ID''),
      net_profile BSC ''BNB Smart Chain Testnet'' Testnet 97 ''BSC_RPC_URL'' (Some ''BSC_CHAIN_ID''),
      net_profile BSC ''BNB Smart Chain'' Mainnet 56 ''BSC_RPC_URL'' (Some ''BSC_CHAIN_ID''),
      net_profile BASE ''Base Sepolia'' Testnet 84532 ''BASE_RPC_URL'' (Some ''BASE_CHAIN_ID''),
      net_profile BASE ''Base'' Mainnet 8453 ''BASE_RPC_URL'' (Some ''BASE_CHAIN_ID''),
      net_profile POLYGON ''Polygon PoS Amoy'' Testnet 80002 ''POLYGON_RPC_URL'' (Some ''POLYGON_CHAIN_ID''),
      net_profile POLYGON ''Polygon PoS'' Mainnet 137 ''POLYGON_RPC_URL'' (Some ''POLYGON_CHAIN_ID''),
      net_profile SOL ''Solana Devnet'' Testnet 0 ''SOLANA_RPC_URL'' None,
      net_profile SOL ''Solana Mainnet'' Mainnet 0 ''SOLANA_RPC_URL'' None,
      net_profile TRON ''TRON Shasta (testnet) / Nile'' Testnet 0 ''TRON_RPC_URL'' None,
      net_profile TON ''TON Testnet'' Testnet 0 ''TON_RPC_URL'' None,
      net_profile BTC ''Bitcoin (signet/testnet via configured node)'' Testnet 0 ''BTC_RPC_URL'' None]"

definition testnetProfiles :: "network_profile list" where
  "testnetProfiles = filter (\<lambda>p. np_kind p = Testnet) NETWORK_PROFILES"

text \<open>The keys in the order of the object literal.\<close>

definition RPC_ENV_VAR_BY_CHAIN :: "(chain \<times> string) list" where
  "RPC_ENV_VAR_BY_CHAIN =
     [(ETH, ''ETHEREUM_RPC_URL''), (BSC, ''BSC_RPC_URL''), (BASE, ''BASE_RPC_URL''), (POLYGON, ''POLYGON_RPC_URL''),
      (SOL, ''SOLANA_RPC_URL''), (TRON, ''TRON_RPC_URL''), (TON, ''TON_RPC_URL''), (BTC, ''BTC_RPC_URL'')]"

section \<open>The configuration\<close>

text \<open>The variables of the environment: the URLs, and the chain ids as numbers.\<close>

record net_env =
  ne_text :: "string \<Rightarrow> string option"
  ne_number :: "string \<Rightarrow> int option"

definition rpcConfiguredFor :: "net_env \<Rightarrow> chain \<Rightarrow> bool" where
  "rpcConfiguredFor env c = (case map_of RPC_ENV_VAR_BY_CHAIN c of None \<Rightarrow> False | Some key \<Rightarrow> truthy (ne_text env key))"

definition known_profiles :: "string \<Rightarrow> network_profile list" where
  "known_profiles var = filter (\<lambda>p. np_chainIdEnvVar p = Some var) NETWORK_PROFILES"

definition unknown_id_text :: "string \<Rightarrow> int \<Rightarrow> chain \<Rightarrow> string" where
  "unknown_id_text var configured c =
     var @ ''='' @ show_int configured @ '' matches no known '' @ chain_name c @ '' network (known: '' @
     js_join '', '' (map (\<lambda>p. show_int (np_chainId p) @ '' ('' @ np_network p @ '')'') (known_profiles var)) @ '').''"

text \<open>The body of the loop over the profiles.\<close>

definition profile_problems :: "net_env \<Rightarrow> network_profile \<Rightarrow> string list" where
  "profile_problems env p =
     (case np_chainIdEnvVar p of
        None \<Rightarrow> []
      | Some var \<Rightarrow>
          if \<not> rpcConfiguredFor env (np_chain p) then []
          else (case ne_number env var of
                  None \<Rightarrow> []
                | Some configured \<Rightarrow>
                    if configured \<le> 0 then []
                    else if configured = np_chainId p then []
                    else if list_ex (\<lambda>q. np_chainId q = configured) (known_profiles var) then []
                    else [unknown_id_text var configured (np_chain p)]))"

definition rpc_problems :: "net_env \<Rightarrow> string list" where
  "rpc_problems env = concat (map (\<lambda>(c, var).
     if rpcConfiguredFor env c then []
     else [var @ '' is not set: '' @ chain_name c @ '' balance, fee and broadcast operations will fail.'']) RPC_ENV_VAR_BY_CHAIN)"

definition validateNetworkConfiguration :: "net_env \<Rightarrow> string list" where
  "validateNetworkConfiguration env = concat (map (profile_problems env) NETWORK_PROFILES) @ rpc_problems env"

section \<open>Lemmas\<close>

fun chain_id_var :: "chain \<Rightarrow> string" where
  "chain_id_var ETH = ''ETHEREUM_CHAIN_ID''"
| "chain_id_var BSC = ''BSC_CHAIN_ID''"
| "chain_id_var BASE = ''BASE_CHAIN_ID''"
| "chain_id_var _ = ''POLYGON_CHAIN_ID''"

lemma evm_profiles:
  assumes "isEvmChain c"
  shows "\<exists>a b. filter (\<lambda>q. np_chain q = c) NETWORK_PROFILES = [a, b] \<and> known_profiles (chain_id_var c) = [a, b] \<and>
    np_chain a = c \<and> np_chain b = c \<and> np_chainIdEnvVar a = Some (chain_id_var c) \<and> np_chainIdEnvVar b = Some (chain_id_var c)"
  using assms by (cases c) (simp_all add: NETWORK_PROFILES_def net_profile_def known_profiles_def isEvmChain_def EVM_CHAINS_def)

text \<open>A mistyped chain id is reported once per profile of the chain, so twice.\<close>

lemma mistyped_chain_id:
  assumes "isEvmChain c" "rpcConfiguredFor env c" "ne_number env (chain_id_var c) = Some i" "0 < i"
  shows "concat (map (profile_problems env) (filter (\<lambda>q. np_chain q = c) NETWORK_PROFILES)) =
    (if i \<in> np_chainId ` set (known_profiles (chain_id_var c)) then []
     else [unknown_id_text (chain_id_var c) i c, unknown_id_text (chain_id_var c) i c])"
proof -
  obtain a b where "filter (\<lambda>q. np_chain q = c) NETWORK_PROFILES = [a, b]" "known_profiles (chain_id_var c) = [a, b]"
    "np_chain a = c" "np_chain b = c" "np_chainIdEnvVar a = Some (chain_id_var c)" "np_chainIdEnvVar b = Some (chain_id_var c)"
    using evm_profiles [OF assms(1)] by blast
  then show ?thesis using assms(2-4) by (simp add: profile_problems_def)
qed

text \<open>A configuration without problems has a node for every chain, and on every EVM chain a known network or none.\<close>

lemma no_problems:
  assumes "validateNetworkConfiguration env = []"
  shows "rpcConfiguredFor env c"
    and "p \<in> set NETWORK_PROFILES \<Longrightarrow> np_chainIdEnvVar p = Some var \<Longrightarrow> ne_number env var = Some i \<Longrightarrow> 0 < i \<Longrightarrow>
      \<exists>q \<in> set NETWORK_PROFILES. np_chainIdEnvVar q = Some var \<and> np_chainId q = i"
proof -
  have r: "\<forall>(c, var) \<in> set RPC_ENV_VAR_BY_CHAIN. rpcConfiguredFor env c"
    using assms by (auto simp: validateNetworkConfiguration_def rpc_problems_def split: if_splits)
  have "c \<in> fst ` set RPC_ENV_VAR_BY_CHAIN" for c by (cases c) (simp_all add: RPC_ENV_VAR_BY_CHAIN_def)
  then show all: "rpcConfiguredFor env c" for c using r by force
  assume p: "p \<in> set NETWORK_PROFILES" "np_chainIdEnvVar p = Some var" "ne_number env var = Some i" "0 < i"
  have "profile_problems env p = []" using assms p(1) by (simp add: validateNetworkConfiguration_def)
  then have "i = np_chainId p \<or> list_ex (\<lambda>q. np_chainId q = i) (known_profiles var)"
    using p(2-4) all by (auto simp: profile_problems_def split: if_splits)
  then show "\<exists>q \<in> set NETWORK_PROFILES. np_chainIdEnvVar q = Some var \<and> np_chainId q = i"
    using p(1,2) by (auto simp: list_ex_iff known_profiles_def)
qed

text \<open>The chain ids that have seed tokens belong to profiles of the chain.\<close>

lemma seeds_have_profiles:
  assumes "t \<in> set SEEDS"
  shows "\<exists>p \<in> set NETWORK_PROFILES. np_chain p = tk_chain t \<and> np_chainId p = tk_chainId t"
proof -
  have "set (map (\<lambda>t. (tk_chain t, tk_chainId t)) SEEDS) \<subseteq> set (map (\<lambda>p. (np_chain p, np_chainId p)) NETWORK_PROFILES)"
    by (simp add: SEEDS_def seed_def NETWORK_PROFILES_def net_profile_def)
  moreover have "(tk_chain t, tk_chainId t) \<in> set (map (\<lambda>t. (tk_chain t, tk_chainId t)) SEEDS)" using assms by force
  ultimately have "(tk_chain t, tk_chainId t) \<in> set (map (\<lambda>p. (np_chain p, np_chainId p)) NETWORK_PROFILES)" by blast
  then show ?thesis by force
qed

end
