(* ===== verification/Health.thy ===== *)
theory Health
  imports Networks Email
begin

text \<open>
  Liveness, readiness and the guarded operational endpoints (\<^verbatim>\<open>src/src/routes/health.routes.ts\<close>).  The
  database, Redis and the queues answer through parameters; the configuration snapshot is not modelled.
\<close>

section \<open>The guard of the internal endpoints\<close>

record internal_env =
  hx_token :: "string option"
  hx_production :: bool

text \<open>\<open>None\<close>: the request goes on; otherwise the status and the message of the reply.\<close>

definition requireInternalToken :: "internal_env \<Rightarrow> string option \<Rightarrow> string option \<Rightarrow> (nat \<times> string) option" where
  "requireInternalToken env authorization queryToken =
     (if \<not> truthy (hx_token env)
      then (if hx_production env then Some (404, ''Not found'') else None)
      else (let provided = (case authorization of
                              Some header \<Rightarrow> if startsWith header ''Bearer '' then Some (drop 7 header) else queryToken
                            | None \<Rightarrow> queryToken)
            in if provided \<noteq> hx_token env then Some (401, ''Unauthorized'') else None))"

lemma requireInternalToken_admits:
  "requireInternalToken env authorization queryToken = None \<longleftrightarrow>
     (if truthy (hx_token env)
      then (\<exists>s. authorization = Some (''Bearer '' @ s) \<and> hx_token env = Some s) \<or>
           ((\<forall>s. authorization \<noteq> Some (''Bearer '' @ s)) \<and> queryToken = hx_token env)
      else \<not> hx_production env)"
proof (cases authorization)
  case (Some h)
  show ?thesis
  proof (cases "startsWith h ''Bearer ''")
    case True
    then obtain s where "h = ''Bearer '' @ s" unfolding startsWith_iff by blast
    then show ?thesis using Some by (auto simp: requireInternalToken_def startsWith_def)
  next
    case False
    then have "\<forall>s. h \<noteq> ''Bearer '' @ s" unfolding startsWith_iff by blast
    then show ?thesis using Some False by (auto simp: requireInternalToken_def)
  qed
qed (auto simp: requireInternalToken_def)

section \<open>Queue depths\<close>

text \<open>A queue: the counts by job state, whether it is paused, and the timestamps of its delayed jobs.\<close>

record queue_client =
  qc_name :: string
  qc_counts :: "thrown + (string \<Rightarrow> nat option)"
  qc_isPaused :: "thrown + bool"
  qc_getDelayed :: "thrown + int option list"

record queue_depth =
  qd_name :: string
  qd_waiting :: int
  qd_active :: int
  qd_delayed :: int
  qd_failed :: int
  qd_completed :: int
  qd_paused :: int
  qd_backlogSeconds :: "int option"

text \<open>\<open>Math.round(n / 1000)\<close>.\<close>

definition round_seconds :: "int \<Rightarrow> int" where
  "round_seconds n = (n + 500) div 1000"

definition backlog :: "int \<Rightarrow> int option list \<Rightarrow> int option" where
  "backlog now delayed =
     (case delayed of Some earliest # _ \<Rightarrow> Some (max 0 (round_seconds (now - earliest))) | _ \<Rightarrow> None)"

definition unreadable :: "string \<Rightarrow> queue_depth" where
  "unreadable name = \<lparr>qd_name = name, qd_waiting = -1, qd_active = -1, qd_delayed = -1, qd_failed = -1, qd_completed = -1, qd_paused = -1,
     qd_backlogSeconds = None\<rparr>"

definition readQueueDepth :: "int \<Rightarrow> queue_client \<Rightarrow> queue_depth" where
  "readQueueDepth now queue =
     (case then_do (qc_counts queue) (\<lambda>counts.
             let n = (\<lambda>state. int (nullish (counts state) 0));
                 paused = (case qc_isPaused queue of Inr p \<Rightarrow> p | Inl _ \<Rightarrow> False)
             in then_do (if n ''delayed'' > 0 then then_do (qc_getDelayed queue) (\<lambda>js. Inr (backlog now js)) else Inr None) (\<lambda>lag.
                  Inr \<lparr>qd_name = qc_name queue, qd_waiting = n ''waiting'', qd_active = n ''active'', qd_delayed = n ''delayed'',
                       qd_failed = n ''failed'', qd_completed = n ''completed'', qd_paused = (if paused then 1 else 0), qd_backlogSeconds = lag\<rparr>)) of
        Inr depth \<Rightarrow> depth
      | Inl _ \<Rightarrow> unreadable (qc_name queue))"

definition readQueueDepths :: "int \<Rightarrow> queue_client list \<Rightarrow> queue_depth list" where
  "readQueueDepths now queues = map (readQueueDepth now) queues"

text \<open>A job delayed by half a minute, twenty seconds after it was added: a backlog of twenty seconds, although
  it is not due yet.\<close>

lemma undue_job_is_backlog:
  assumes "qc_counts q = Inr (\<lambda>s. if s = ''delayed'' then Some 1 else None)" "qc_getDelayed q = Inr [Some added]"
  shows "qd_backlogSeconds (readQueueDepth (added + 20000) q) = Some 20"
  using assms by (simp add: readQueueDepth_def backlog_def round_seconds_def Let_def)

section \<open>Readiness\<close>

record dependencies =
  dp_select1 :: "thrown + unit"
  dp_finishedMigrations :: "thrown + nat option"
  dp_ping :: "thrown + string"

type_synonym check = "bool \<times> string option"

definition databaseCheck :: "dependencies \<Rightarrow> check" where
  "databaseCheck d = (case dp_select1 d of Inr _ \<Rightarrow> (True, None) | Inl e \<Rightarrow> (False, Some (message_of e)))"

definition schemaCheck :: "dependencies \<Rightarrow> check" where
  "schemaCheck d =
     (case dp_finishedMigrations d of
        Inr rows \<Rightarrow> if nullish rows 0 > 0 then (True, None)
                    else (False, Some (''no applied migrations '' @ map char_of [226 :: nat, 128, 148] @ '' run prisma migrate deploy''))
      | Inl e \<Rightarrow> (False, Some (message_of e)))"

definition redisCheck :: "dependencies \<Rightarrow> check" where
  "redisCheck d = (case dp_ping d of Inr pong \<Rightarrow> (pong = ''PONG'', None) | Inl e \<Rightarrow> (False, Some (message_of e)))"

definition ready :: "dependencies \<Rightarrow> nat \<times> string \<times> check list" where
  "ready d =
     (let checks = [databaseCheck d, schemaCheck d, redisCheck d]; ok = list_all fst checks
      in (if ok then 200 else 503, if ok then ''ok'' else ''degraded'', checks))"

lemma ready_200:
  "fst (ready d) = 200 \<longleftrightarrow> (\<exists>u. dp_select1 d = Inr u) \<and> (\<exists>n > 0. dp_finishedMigrations d = Inr (Some n)) \<and> dp_ping d = Inr ''PONG''"
proof -
  have "fst (databaseCheck d) \<longleftrightarrow> (\<exists>u. dp_select1 d = Inr u)" by (auto simp: databaseCheck_def split: sum.split)
  moreover have "fst (schemaCheck d) \<longleftrightarrow> (\<exists>n > 0. dp_finishedMigrations d = Inr (Some n))"
  proof (cases "dp_finishedMigrations d")
    case (Inr rows)
    then show ?thesis by (cases rows) (auto simp: schemaCheck_def)
  qed (simp add: schemaCheck_def)
  moreover have "fst (redisCheck d) \<longleftrightarrow> dp_ping d = Inr ''PONG''" by (auto simp: redisCheck_def split: sum.split)
  ultimately show ?thesis by (simp add: ready_def Let_def)
qed

end
