(* ===== verification/EnvSchema.thy ===== *)
theory EnvSchema
  imports Complex_Main Startup
begin

text \<open>
  The parse of \<open>process.env\<close> (\<open>envSchema\<close> of \<^verbatim>\<open>src/src/config/env.ts\<close>): a table of the variables with
  the zod rule of each, and the parse that either rejects the whole environment or gives every variable a value.
  The rules of the library -- \<open>Number\<close> of a string and the formats -- are parameters.
\<close>

section \<open>Rules\<close>

datatype env_value = EnvText string | EnvNumber rat | EnvFlag bool | EnvAbsent

text \<open>\<open>ez_number\<close> is \<open>Number\<close> of a string, \<open>None\<close> where that is not a finite number.\<close>

record env_zod =
  ez_number :: "string \<Rightarrow> rat option"
  ez_url :: "string \<Rightarrow> bool"
  ez_email :: "string \<Rightarrow> bool"
  ez_datetime :: "string \<Rightarrow> bool"

datatype text_check = MinLength nat | OneOf "string list" | IsUrl | IsEmail | IsDatetime

datatype number_check = AnyNumber | PositiveInt | IntRange int "int option" | NumberRange int int

datatype env_rule =
  TextRequired text_check
| TextDefault text_check string
| TextOptional text_check
| FlagDefaultFalse
| NumberDefault number_check int
| NumberOptional number_check

fun text_ok :: "env_zod \<Rightarrow> text_check \<Rightarrow> string \<Rightarrow> bool" where
  "text_ok z (MinLength n) s = (n \<le> length s)"
| "text_ok z (OneOf options) s = (s \<in> set options)"
| "text_ok z IsUrl s = ez_url z s"
| "text_ok z IsEmail s = ez_email z s"
| "text_ok z IsDatetime s = ez_datetime z s"

text \<open>\<open>int()\<close> admits the integers a double holds exactly.\<close>

definition safe_int :: "rat \<Rightarrow> bool" where
  "safe_int q \<longleftrightarrow> of_int \<lfloor>q\<rfloor> = q \<and> \<bar>q\<bar> \<le> 9007199254740991"

fun number_ok :: "number_check \<Rightarrow> rat \<Rightarrow> bool" where
  "number_ok AnyNumber q = True"
| "number_ok PositiveInt q = (safe_int q \<and> 0 < q)"
| "number_ok (IntRange a b) q = (safe_int q \<and> of_int a \<le> q \<and> (case b of None \<Rightarrow> True | Some m \<Rightarrow> q \<le> of_int m))"
| "number_ok (NumberRange a b) q = (of_int a \<le> q \<and> q \<le> of_int b)"

definition coerced :: "env_zod \<Rightarrow> number_check \<Rightarrow> string \<Rightarrow> env_value option" where
  "coerced z c s = (case ez_number z s of Some q \<Rightarrow> if number_ok c q then Some (EnvNumber q) else None | None \<Rightarrow> None)"

definition checked :: "env_zod \<Rightarrow> text_check \<Rightarrow> string \<Rightarrow> env_value option" where
  "checked z c s = (if text_ok z c s then Some (EnvText s) else None)"

fun parse_field :: "env_zod \<Rightarrow> env_rule \<Rightarrow> string option \<Rightarrow> env_value option" where
  "parse_field z (TextRequired c) v = (case v of None \<Rightarrow> None | Some s \<Rightarrow> checked z c s)"
| "parse_field z (TextDefault c d) v = (case v of None \<Rightarrow> Some (EnvText d) | Some s \<Rightarrow> checked z c s)"
| "parse_field z (TextOptional c) v = (case v of None \<Rightarrow> Some EnvAbsent | Some s \<Rightarrow> checked z c s)"
| "parse_field z FlagDefaultFalse v =
     (case v of
        None \<Rightarrow> Some (EnvFlag False)
      | Some s \<Rightarrow> if text_ok z (OneOf [''true'', ''false'']) s then Some (EnvFlag (s = ''true'')) else None)"
| "parse_field z (NumberDefault c d) v = (case v of None \<Rightarrow> Some (EnvNumber (of_int d)) | Some s \<Rightarrow> coerced z c s)"
| "parse_field z (NumberOptional c) v = (case v of None \<Rightarrow> Some EnvAbsent | Some s \<Rightarrow> coerced z c s)"

section \<open>The variables\<close>

definition EMAIL_PROVIDERS :: "string list" where
  "EMAIL_PROVIDERS = [''resend'', ''sendgrid'', ''ses'']"

definition RAMP_PROVIDERS :: "string list" where
  "RAMP_PROVIDERS = [''bitnob'', ''yellowcard'']"

definition envSchema :: "(string \<times> env_rule) list" where
  "envSchema =
     [(''NODE_ENV'', TextDefault (OneOf [''development'', ''test'', ''production'']) ''development''),
      (''DEV_VERIFICATION_MODE'', FlagDefaultFalse),
      (''PORT'', NumberDefault AnyNumber 4000),
      (''DATABASE_URL'', TextRequired (MinLength 1)),
      (''DIRECT_URL'', TextOptional (MinLength 1)),
      (''REDIS_URL'', TextRequired (MinLength 1)),
      (''JWT_SECRET'', TextRequired (MinLength 32)),
      (''JWT_PREVIOUS_SECRET'', TextOptional (MinLength 32)),
      (''JWT_PREVIOUS_SECRET_RETIRE_AT'', TextOptional IsDatetime),
      (''JWT_EXPIRES_IN'', TextDefault (MinLength 0) ''7d''),
      (''LOG_LEVEL'', TextDefault (OneOf [''fatal'', ''error'', ''warn'', ''info'', ''debug'', ''trace'']) ''info''),
      (''ALLOWED_ORIGINS'', TextDefault (MinLength 0)
         ''http://localhost:8081,http://localhost:19006,http://localhost:19000,http://localhost:3000''),
      (''TRUSTED_PROXIES'', TextDefault (MinLength 0) []),
      (''TRUSTED_PROXY_COUNT'', NumberOptional (IntRange 0 (Some 10))),
      (''ETHEREUM_RPC_URL'', TextOptional IsUrl),
      (''ETHEREUM_CHAIN_ID'', NumberDefault PositiveInt 11155111),
      (''BSC_CHAIN_ID'', NumberOptional PositiveInt),
      (''BASE_CHAIN_ID'', NumberOptional PositiveInt),
      (''POLYGON_CHAIN_ID'', NumberOptional PositiveInt),
      (''BSC_RPC_URL'', TextOptional IsUrl),
      (''BASE_RPC_URL'', TextOptional IsUrl),
      (''POLYGON_RPC_URL'', TextOptional IsUrl),
      (''SOLANA_RPC_URL'', TextOptional IsUrl),
      (''SOLANA_CLUSTER'', TextOptional (OneOf [''devnet'', ''mainnet''])),
      (''SOLANA_SPL_TOKENS'', TextOptional (MinLength 0)),
      (''TRON_RPC_URL'', TextOptional IsUrl),
      (''TON_RPC_URL'', TextOptional IsUrl),
      (''BTC_RPC_URL'', TextOptional IsUrl),
      (''BTC_RPC_USER'', TextOptional (MinLength 0)),
      (''BTC_RPC_PASSWORD'', TextOptional (MinLength 0)),
      (''TRIVERIFY_API_KEY'', TextOptional (MinLength 1)),
      (''ERC20_TOKEN_CONFIG'', TextOptional (MinLength 0)),
      (''EMAIL_PROVIDER'', TextDefault (OneOf EMAIL_PROVIDERS) ''resend''),
      (''EMAIL_FROM'', TextDefault (MinLength 3) ''no-reply@ulmara.app''),
      (''EMAIL_FROM_NAME'', TextDefault (MinLength 0) ''Ulmara''),
      (''RESEND_API_KEY'', TextOptional (MinLength 1)),
      (''SENDGRID_API_KEY'', TextOptional (MinLength 1)),
      (''SENDGRID_FROM_EMAIL'', TextOptional IsEmail),
      (''AWS_SES_REGION'', TextOptional (MinLength 1)),
      (''AWS_SES_ACCESS_KEY_ID'', TextOptional (MinLength 1)),
      (''AWS_SES_SECRET_ACCESS_KEY'', TextOptional (MinLength 1)),
      (''OTP_TTL_SECONDS'', NumberDefault PositiveInt 600),
      (''OTP_EXPIRY_GRACE_SECONDS'', NumberDefault PositiveInt 3600),
      (''OTP_MAX_ATTEMPTS'', NumberDefault PositiveInt 5),
      (''SENTRY_DSN'', TextOptional IsUrl),
      (''SENTRY_ENVIRONMENT'', TextOptional (MinLength 0)),
      (''SENTRY_TRACES_SAMPLE_RATE'', NumberDefault (NumberRange 0 1) 0),
      (''SENTRY_PROFILES_SAMPLE_RATE'', NumberDefault (NumberRange 0 1) 0),
      (''SENTRY_RELEASE'', TextOptional (MinLength 0)),
      (''SENTRY_DEBUG'', FlagDefaultFalse),
      (''INTERNAL_API_TOKEN'', TextOptional (MinLength 16)),
      (''ENABLE_API_DOCS'', FlagDefaultFalse),
      (''QUEUE_DEPTH_LOG_INTERVAL_MS'', NumberDefault (IntRange 0 None) 300000),
      (''RAMP_PROVIDER'', TextDefault (OneOf RAMP_PROVIDERS) ''bitnob''),
      (''BITNOB_BASE_URL'', TextDefault IsUrl ''https://api.bitnob.com''),
      (''BITNOB_API_KEY'', TextOptional (MinLength 1)),
      (''BITNOB_CLIENT_SECRET'', TextOptional (MinLength 1)),
      (''BITNOB_WEBHOOK_SECRET'', TextOptional (MinLength 1)),
      (''YELLOW_CARD_BASE_URL'', TextDefault IsUrl ''https://api.yellowcard.io''),
      (''YELLOW_CARD_API_KEY'', TextOptional (MinLength 1)),
      (''YELLOW_CARD_API_SECRET'', TextOptional (MinLength 1)),
      (''RAMP_MIN_NGN'', NumberDefault PositiveInt 1000),
      (''RAMP_MAX_NGN'', NumberDefault PositiveInt 5000000)]"

text \<open>\<open>safeParse\<close>: the variables that fail, or the parsed environment.\<close>

definition parse_env :: "env_zod \<Rightarrow> (string \<Rightarrow> string option) \<Rightarrow> string list + (string \<Rightarrow> env_value)" where
  "parse_env z raw =
     (let failing = map fst (filter (\<lambda>(key, rule). parse_field z rule (raw key) = None) envSchema)
      in if failing \<noteq> [] then Inl failing
         else Inr (\<lambda>key. case map_of envSchema key of None \<Rightarrow> EnvAbsent | Some rule \<Rightarrow> the (parse_field z rule (raw key))))"

definition load_env :: "env_zod \<Rightarrow> (string \<Rightarrow> string option) \<Rightarrow> thrown + (string \<Rightarrow> env_value)" where
  "load_env z raw = (case parse_env z raw of Inl _ \<Rightarrow> Inl (PlainError ''Invalid environment variables'') | Inr env \<Rightarrow> Inr env)"

section \<open>The environment the components read\<close>

fun env_text :: "env_value \<Rightarrow> string option" where
  "env_text (EnvText s) = Some s"
| "env_text _ = None"

fun env_number :: "env_value \<Rightarrow> rat option" where
  "env_number (EnvNumber q) = Some q"
| "env_number _ = None"

definition email_env_of :: "(string \<Rightarrow> env_value) \<Rightarrow> email_env" where
  "email_env_of env =
     \<lparr>mv_provider = nullish (env_text (env ''EMAIL_PROVIDER'')) [], mv_from = nullish (env_text (env ''EMAIL_FROM'')) [],
      mv_fromName = nullish (env_text (env ''EMAIL_FROM_NAME'')) [], mv_resendKey = env_text (env ''RESEND_API_KEY''),
      mv_sendgridKey = env_text (env ''SENDGRID_API_KEY''), mv_sendgridFrom = env_text (env ''SENDGRID_FROM_EMAIL''),
      mv_sesRegion = env_text (env ''AWS_SES_REGION''), mv_sesAccessKeyId = env_text (env ''AWS_SES_ACCESS_KEY_ID''),
      mv_sesSecretAccessKey = env_text (env ''AWS_SES_SECRET_ACCESS_KEY'')\<rparr>"

definition boot_env_of :: "(string \<Rightarrow> env_value) \<Rightarrow> boot_env" where
  "boot_env_of env =
     \<lparr>bt_production = (env ''NODE_ENV'' = EnvText ''production''), bt_devVerificationMode = (env ''DEV_VERIFICATION_MODE'' = EnvFlag True),
      bt_email = email_env_of env, bt_rampChoice = (if env ''RAMP_PROVIDER'' = EnvText ''bitnob'' then UseBitnob else UseYellowCard),
      bt_bitnobApiKey = env_text (env ''BITNOB_API_KEY''), bt_bitnobClientSecret = env_text (env ''BITNOB_CLIENT_SECRET''),
      bt_bitnobWebhookSecret = env_text (env ''BITNOB_WEBHOOK_SECRET''), bt_bitnobBaseUrl = nullish (env_text (env ''BITNOB_BASE_URL'')) [],
      bt_yellowCardApiKey = env_text (env ''YELLOW_CARD_API_KEY''), bt_yellowCardApiSecret = env_text (env ''YELLOW_CARD_API_SECRET''),
      bt_yellowCardBaseUrl = nullish (env_text (env ''YELLOW_CARD_BASE_URL'')) []\<rparr>"

definition jwt_env_of :: "(string \<Rightarrow> env_value) \<Rightarrow> jwt_env" where
  "jwt_env_of env =
     \<lparr>JWT_SECRET = nullish (env_text (env ''JWT_SECRET'')) [], JWT_PREVIOUS_SECRET = env_text (env ''JWT_PREVIOUS_SECRET''),
      JWT_PREVIOUS_SECRET_RETIRE_AT = env_text (env ''JWT_PREVIOUS_SECRET_RETIRE_AT''), JWT_EXPIRES_IN = nullish (env_text (env ''JWT_EXPIRES_IN'')) []\<rparr>"

section \<open>Lemmas\<close>

lemma env_keys_distinct: "distinct (map fst envSchema)"
  by (simp only: envSchema_def list.map fst_conv distinct.simps set_simps insert_iff empty_iff literal_eq)

lemma parsed_field:
  assumes "load_env z raw = Inr env" "map_of envSchema key = Some rule"
  shows "parse_field z rule (raw key) = Some (env key)"
proof -
  have "(key, rule) \<in> set envSchema" using assms(2) by (rule map_of_SomeD)
  moreover have "\<forall>(key, rule) \<in> set envSchema. parse_field z rule (raw key) \<noteq> None"
    using assms(1) by (auto simp: load_env_def parse_env_def Let_def filter_empty_conv split: sum.splits if_splits)
  ultimately have "parse_field z rule (raw key) \<noteq> None" by blast
  moreover have "env = (\<lambda>key. case map_of envSchema key of None \<Rightarrow> EnvAbsent | Some rule \<Rightarrow> the (parse_field z rule (raw key)))"
    using assms(1) by (auto simp: load_env_def parse_env_def Let_def split: sum.splits if_splits)
  ultimately show ?thesis using assms(2) by simp
qed

lemma checked_Some [simp]: "checked z c s = Some v \<longleftrightarrow> text_ok z c s \<and> v = EnvText s"
  by (auto simp: checked_def)

lemma coerced_Some: "coerced z c s = Some v \<longleftrightarrow> (\<exists>q. ez_number z s = Some q \<and> number_ok c q \<and> v = EnvNumber q)"
  by (auto simp: coerced_def split: option.splits if_splits)

lemma safe_int_pos: "safe_int q \<Longrightarrow> 0 < q \<Longrightarrow> \<exists>n. q = of_nat n \<and> 1 \<le> n"
proof -
  assume q: "safe_int q" "0 < q"
  then have i: "of_int \<lfloor>q\<rfloor> = q" by (simp add: safe_int_def)
  then have "0 < \<lfloor>q\<rfloor>" using q(2) by (metis of_int_0_less_iff)
  then have "q = of_nat (nat \<lfloor>q\<rfloor>) \<and> 1 \<le> nat \<lfloor>q\<rfloor>" using i by auto
  then show ?thesis by blast
qed

lemma text_values:
  "parse_field z (TextRequired c) v = Some w \<Longrightarrow> \<exists>s. v = Some s \<and> w = EnvText s \<and> text_ok z c s"
  "parse_field z (TextDefault c d) v = Some w \<Longrightarrow> text_ok z c d \<Longrightarrow> \<exists>s. w = EnvText s \<and> text_ok z c s"
  "parse_field z (TextOptional c) v = Some w \<Longrightarrow> w = EnvAbsent \<or> (\<exists>s. w = EnvText s \<and> text_ok z c s)"
  "parse_field z FlagDefaultFalse v = Some w \<Longrightarrow> w = EnvFlag (v = Some ''true'')"
  by (auto split: option.splits if_splits)

lemma positive_value:
  "parse_field z (NumberDefault PositiveInt d) v = Some w \<Longrightarrow> 0 < d \<Longrightarrow> \<exists>n. w = EnvNumber (of_nat n) \<and> 1 \<le> n"
proof (cases v)
  case None
  assume "parse_field z (NumberDefault PositiveInt d) v = Some w" "0 < d"
  then have "w = EnvNumber (of_nat (nat d)) \<and> 1 \<le> nat d" using None by simp
  then show ?thesis by blast
next
  case (Some s)
  assume "parse_field z (NumberDefault PositiveInt d) v = Some w"
  then obtain q where "w = EnvNumber q" "safe_int q" "0 < q" using Some by (auto simp: coerced_Some)
  then show ?thesis using safe_int_pos by blast
qed

lemma unit_value:
  "parse_field z (NumberDefault (NumberRange 0 1) 0) v = Some w \<Longrightarrow> \<exists>q. w = EnvNumber q \<and> 0 \<le> q \<and> q \<le> 1"
  by (auto simp: coerced_Some split: option.splits)

text \<open>The counts and bounds the program divides by, compares with or counts to.\<close>

definition POSITIVE_KEYS :: "string list" where
  "POSITIVE_KEYS = [''ETHEREUM_CHAIN_ID'', ''OTP_TTL_SECONDS'', ''OTP_EXPIRY_GRACE_SECONDS'', ''OTP_MAX_ATTEMPTS'', ''RAMP_MIN_NGN'', ''RAMP_MAX_NGN'']"

lemma positive_rule:
  "(case r of Some (NumberDefault PositiveInt d) \<Rightarrow> 0 < d | _ \<Rightarrow> False) \<Longrightarrow> \<exists>d > 0. r = Some (NumberDefault PositiveInt d)"
  by (auto split: option.splits env_rule.splits number_check.splits)

lemma positive_keys:
  "key \<in> set POSITIVE_KEYS \<Longrightarrow> \<exists>d > 0. map_of envSchema key = Some (NumberDefault PositiveInt d)"
proof -
  have "list_all (\<lambda>key. case map_of envSchema key of Some (NumberDefault PositiveInt d) \<Rightarrow> 0 < d | _ \<Rightarrow> False) POSITIVE_KEYS"
    by (simp only: POSITIVE_KEYS_def list.pred_inject envSchema_def map_of.simps fun_upd_apply fst_conv snd_conv literal_eq
        option.case env_rule.case number_check.case) simp
  then show "key \<in> set POSITIVE_KEYS \<Longrightarrow> ?thesis"
    unfolding list_all_iff using positive_rule by blast
qed

text \<open>Each bound of the ramp is checked for itself; if the lower one is above the upper one, every amount is refused.\<close>

lemma crossed_bounds_accept_nothing: "hi < lo \<Longrightarrow> assertValidNgnAmount amount lo hi \<noteq> Inr ()"
  by (simp add: assertValidNgnAmount_iff)


definition demo_raw :: "string \<Rightarrow> string option" where
  "demo_raw = map_of [(''DATABASE_URL'', ''postgresql://db''), (''REDIS_URL'', ''redis://cache''),
     (''JWT_SECRET'', ''0123456789abcdef0123456789abcdef''), (''OTP_MAX_ATTEMPTS'', ''3'')]"

definition demo_env_zod :: env_zod where
  "demo_env_zod = \<lparr>ez_number = (\<lambda>s. if all_digits s then Some (of_nat (digits_val s)) else None), ez_url = startsWith ''https://'',
     ez_email = (\<lambda>_. True), ez_datetime = (\<lambda>_. True)\<rparr>"


end
