(* ===== verification/Sentry.thy ===== *)
theory Sentry
  imports ApiErrors
begin

text \<open>
  Error tracking (\<^verbatim>\<open>src/src/config/sentry.ts\<close>): what the scrubbing of an event removes, and what
  \<open>captureError\<close> and \<open>reportError\<close> hand over.  The Sentry client is outside the repository; its
  initialisation, the crash handlers and the flush are not modelled.  A value is a finite tree, so a cyclic
  object stands for its unfolding to the depth the walk reads.
\<close>

section \<open>Credentials in a string\<close>

definition is_letter :: "char \<Rightarrow> bool" where
  "is_letter c \<longleftrightarrow> is_upper c \<or> is_lower c"

definition scheme_char :: "char \<Rightarrow> bool" where
  "scheme_char c \<longleftrightarrow> is_letter c \<or> is_digit c \<or> c \<in> set ''+.-''"

definition user_char :: "char \<Rightarrow> bool" where
  "user_char c \<longleftrightarrow> \<not> is_space c \<and> c \<notin> set '':@/''"

definition pw_char :: "char \<Rightarrow> bool" where
  "pw_char c \<longleftrightarrow> \<not> is_space c \<and> c \<notin> set ''@/''"

definition REDACTED :: string where
  "REDACTED = ''[redacted]''"

text \<open>
  A match of \<open>CREDENTIAL_IN_VALUE\<close> at the start of a string: the scheme, the user, the password and what
  follows the \<open>@\<close>.  No class contains the character that ends its run, so the greedy runs are the only
  candidates and the expression never backtracks into a match.
\<close>

definition credential_tail :: "string \<Rightarrow> (string \<times> string \<times> string) option" where
  "credential_tail t =
     (if \<not> startsWith t ''://'' then None
      else (let user = takeWhile user_char (drop 3 t); r = dropWhile user_char (drop 3 t)
            in if user = [] \<or> \<not> startsWith r '':'' then None
               else (let pw = takeWhile pw_char (drop 1 r); q = dropWhile pw_char (drop 1 r)
                     in if startsWith q ''@'' then Some (user, pw, drop 1 q) else None)))"

definition credential_at :: "string \<Rightarrow> (string \<times> string \<times> string \<times> string) option" where
  "credential_at s =
     (case s of
        [] \<Rightarrow> None
      | c # _ \<Rightarrow> if is_letter c then map_option (Pair (takeWhile scheme_char s)) (credential_tail (dropWhile scheme_char s)) else None)"

lemma slash_at_classes [simp]:
  "\<not> scheme_char (CHR ''/'')" "\<not> scheme_char (CHR ''@'')" "\<not> scheme_char (CHR '':'')"
  "\<not> user_char (CHR ''/'')" "\<not> user_char (CHR ''@'')" "\<not> user_char (CHR '':'')"
  "\<not> pw_char (CHR ''/'')" "\<not> pw_char (CHR ''@'')"
  "\<not> is_letter (CHR ''/'')" "\<not> is_letter (CHR ''@'')" "\<not> is_letter (CHR '':'')"
  by (simp_all add: scheme_char_def user_char_def pw_char_def is_letter_def is_upper_def is_lower_def is_digit_def code_of_def)

lemma letter_classes: "is_letter c \<Longrightarrow> scheme_char c \<and> user_char c \<and> pw_char c"
  by (auto simp: scheme_char_def user_char_def pw_char_def is_letter_def is_upper_def is_lower_def is_space_def code_of_def)

lemma takeWhile_run: "list_all P xs \<Longrightarrow> \<not> P c \<Longrightarrow> takeWhile P (xs @ c # ys) = xs \<and> dropWhile P (xs @ c # ys) = c # ys"
  by (induction xs) auto

lemma credential_tail_Some:
  "credential_tail t = Some (user, pw, rest) \<longleftrightarrow>
     t = ''://'' @ user @ '':'' @ pw @ ''@'' @ rest \<and> user \<noteq> [] \<and> list_all user_char user \<and> list_all pw_char pw"
  (is "?l \<longleftrightarrow> ?r")
proof
  assume l: ?l
  define u where "u = drop 3 t"
  define r where "r = dropWhile user_char u"
  define w where "w = drop 1 r"
  define q where "q = dropWhile pw_char w"
  have facts: "startsWith t ''://''" "takeWhile user_char u = user" "user \<noteq> []" "startsWith r '':''" "takeWhile pw_char w = pw"
    "startsWith q ''@''" "drop 1 q = rest"
    using l by (simp_all add: credential_tail_def Let_def u_def r_def w_def q_def split: if_splits)
  have t: "t = ''://'' @ u" using facts(1) by (auto simp: startsWith_iff u_def)
  have u: "u = user @ r" using facts(2) unfolding r_def by (metis takeWhile_dropWhile_id)
  have r: "r = '':'' @ w" using facts(4) by (auto simp: startsWith_iff w_def)
  have w: "w = pw @ q" using facts(5) unfolding q_def by (metis takeWhile_dropWhile_id)
  have q: "q = ''@'' @ rest" using facts(6,7) by (auto simp: startsWith_iff)
  have "list_all user_char user" "list_all pw_char pw"
    using facts(2,5) by (auto simp: list_all_iff dest: set_takeWhileD)
  then show ?r using facts(3) unfolding t u r w q by simp
next
  assume r: ?r
  then have "takeWhile user_char (user @ CHR '':'' # pw @ CHR ''@'' # rest) = user \<and>
      dropWhile user_char (user @ CHR '':'' # pw @ CHR ''@'' # rest) = CHR '':'' # pw @ CHR ''@'' # rest"
    by (intro takeWhile_run) simp_all
  moreover have "takeWhile pw_char (pw @ CHR ''@'' # rest) = pw \<and> dropWhile pw_char (pw @ CHR ''@'' # rest) = CHR ''@'' # rest"
    using r by (intro takeWhile_run) simp_all
  ultimately show ?l using r by (simp add: credential_tail_def startsWith_def Let_def)
qed

lemma credential_at_simps [simp]:
  "credential_at [] = None"
  "\<not> is_letter c \<Longrightarrow> credential_at (c # cs) = None"
  by (simp_all add: credential_at_def)

lemma credential_at_shorter: "credential_at s = Some (scheme, user, pw, rest) \<Longrightarrow> length rest < length s"
proof -
  assume a: "credential_at s = Some (scheme, user, pw, rest)"
  then have t: "credential_tail (dropWhile scheme_char s) = Some (user, pw, rest)"
    by (auto simp: credential_at_def split: list.splits if_splits)
  have "length (dropWhile scheme_char s) \<le> length s" by (rule length_dropWhile_le)
  with t show ?thesis unfolding credential_tail_Some by (elim conjE) simp
qed

function redactCredentialsInString :: "string \<Rightarrow> string" where
  "redactCredentialsInString [] = []"
| "redactCredentialsInString (c # cs) =
     (case credential_at (c # cs) of
        None \<Rightarrow> c # redactCredentialsInString cs
      | Some (scheme, user, pw, rest) \<Rightarrow> scheme @ ''://'' @ user @ '':'' @ REDACTED @ ''@'' @ redactCredentialsInString rest)"
  by pat_completeness auto
termination
  by (relation "measure length") (auto dest!: credential_at_shorter)

text \<open>\<open>SENSITIVE_KEY\<close>: one of these words, in any case, anywhere in the key.\<close>

definition SENSITIVE_WORDS :: "string list" where
  "SENSITIVE_WORDS =
     [''pin'', ''password'', ''passcode'', ''secret'', ''token'', ''authorization'', ''cookie'', ''mnemonic'', ''seed'', ''privatekey'',
      ''private_key'', ''jwt'', ''session'', ''apikey'', ''api_key'', ''dsn'', ''databaseurl'', ''database_url'', ''connectionstring'',
      ''connection_string'', ''credential'']"

definition SENSITIVE_KEY :: "string \<Rightarrow> bool" where
  "SENSITIVE_KEY key \<longleftrightarrow> list_ex (\<lambda>word. js_includes (toLowerCase key) word) SENSITIVE_WORDS"

section \<open>The scrubbing\<close>

text \<open>
  A JavaScript value as the walk sees it: \<open>VNothing\<close> is null and undefined, \<open>VOther\<close> a number, a boolean
  or anything else that is handed through, \<open>VError\<close> an \<open>Error\<close> with its name, message and stack.
\<close>

datatype scrub_value =
  VNothing
| VOther string
| VString string
| VArray "scrub_value list"
| VError string string "string option"
| VObject "(string \<times> scrub_value) list"

definition scrub_string :: "string \<Rightarrow> string" where
  "scrub_string s =
     (let redacted = redactCredentialsInString s
      in if 512 < length redacted then take 512 redacted @ ''...[truncated]'' else redacted)"

function scrub_walk :: "scrub_value \<Rightarrow> nat \<Rightarrow> scrub_value" where
  "scrub_walk v depth =
     (if 6 < depth then VString ''[truncated]''
      else (case v of
              VNothing \<Rightarrow> VNothing
            | VString s \<Rightarrow> VString (scrub_string s)
            | VArray items \<Rightarrow> VArray (map (\<lambda>item. scrub_walk item (Suc depth)) (take 50 items))
            | VError name message stack \<Rightarrow>
                VObject [(''name'', VString (redactCredentialsInString name)), (''message'', VString (redactCredentialsInString message)),
                         (''stack'', case stack of None \<Rightarrow> VNothing | Some trace \<Rightarrow> VString (redactCredentialsInString trace))]
            | VObject entries \<Rightarrow>
                VObject (map (\<lambda>(key, val). (key, if SENSITIVE_KEY key then VString REDACTED else scrub_walk val (Suc depth))) entries)
            | VOther x \<Rightarrow> VOther x))"
  by pat_completeness auto
termination
  by (relation "measure (\<lambda>(v, depth). 7 - depth)") auto

declare scrub_walk.simps [simp del]

definition scrubSentryEvent :: "scrub_value \<Rightarrow> scrub_value" where
  "scrubSentryEvent event = scrub_walk event 0"

section \<open>What is sent\<close>

definition isSentryEnabled :: "string option \<Rightarrow> bool" where
  "isSentryEnabled dsn = truthy dsn"

text \<open>A capture: the exception or the message, and the extra context.\<close>

datatype capture = CaptureException scrub_value scrub_value | CaptureMessage string scrub_value

text \<open>\<open>text\<close> is \<open>String(err)\<close>.\<close>

definition captureError :: "string option \<Rightarrow> scrub_value \<Rightarrow> string \<Rightarrow> (string \<times> scrub_value) list \<Rightarrow> capture list" where
  "captureError dsn err text context =
     (if \<not> isSentryEnabled dsn then []
      else (let safeContext = scrubSentryEvent (VObject context)
            in case err of
                 VError _ _ _ \<Rightarrow> [CaptureException err safeContext]
               | _ \<Rightarrow> [CaptureMessage text safeContext]))"

definition entries_of :: "scrub_value \<Rightarrow> (string \<times> scrub_value) list" where
  "entries_of v = (case v of VObject entries \<Rightarrow> entries | _ \<Rightarrow> [])"

text \<open>\<open>{ ...entries, key: val }\<close>.\<close>

definition with_entry :: "(string \<times> scrub_value) list \<Rightarrow> string \<Rightarrow> scrub_value \<Rightarrow> (string \<times> scrub_value) list" where
  "with_entry entries key val =
     (if key \<in> fst ` set entries then map (\<lambda>(k, v). (k, if k = key then val else v)) entries else entries @ [(key, val)])"

text \<open>The fields of the log line, and the captures.\<close>

definition reportError ::
  "string option \<Rightarrow> scrub_value \<Rightarrow> string \<Rightarrow> string \<Rightarrow> (string \<times> scrub_value) list \<Rightarrow> (string \<times> scrub_value) list \<times> capture list" where
  "reportError dsn err text message context =
     (let safeContext = entries_of (scrubSentryEvent (VObject context));
          extra = VObject (with_entry safeContext ''message'' (VString message))
      in ([(''err'', err)] @ safeContext,
          if \<not> isSentryEnabled dsn then []
          else (case err of
                  VError _ _ _ \<Rightarrow> [CaptureException err extra]
                | _ \<Rightarrow> [CaptureMessage text extra])))"

section \<open>Lemmas\<close>

text \<open>A string that still shows the password of a URL with a user name.\<close>

definition shows_password :: "string \<Rightarrow> bool" where
  "shows_password s \<longleftrightarrow> (\<exists>before scheme user pw rest.
     s = before @ scheme @ ''://'' @ user @ '':'' @ pw @ ''@'' @ rest \<and> scheme \<noteq> [] \<and> is_letter (hd scheme) \<and> list_all scheme_char scheme \<and>
     user \<noteq> [] \<and> list_all user_char user \<and> list_all pw_char pw \<and> pw \<noteq> REDACTED)"

definition shows_at :: "string \<Rightarrow> bool" where
  "shows_at s \<longleftrightarrow> (\<exists>scheme user pw rest. credential_at s = Some (scheme, user, pw, rest) \<and> pw \<noteq> REDACTED)"

fun shows_somewhere :: "string \<Rightarrow> bool" where
  "shows_somewhere [] = False"
| "shows_somewhere (c # cs) = (shows_at (c # cs) \<or> shows_somewhere cs)"

lemma credential_at_Some:
  "credential_at s = Some (scheme, user, pw, rest) \<longleftrightarrow>
     s = scheme @ ''://'' @ user @ '':'' @ pw @ ''@'' @ rest \<and> scheme \<noteq> [] \<and> is_letter (hd scheme) \<and> list_all scheme_char scheme \<and>
     user \<noteq> [] \<and> list_all user_char user \<and> list_all pw_char pw"
  (is "?l \<longleftrightarrow> ?r")
proof
  assume ?l
  then obtain c cs where s: "s = c # cs" "is_letter c" "scheme = takeWhile scheme_char s"
    and t: "credential_tail (dropWhile scheme_char s) = Some (user, pw, rest)"
    by (auto simp: credential_at_def split: list.splits if_splits)
  have "s = scheme @ dropWhile scheme_char s" "list_all scheme_char scheme"
    unfolding s(3) by (auto simp: list_all_iff dest: set_takeWhileD)
  moreover have "scheme \<noteq> []" "hd scheme = c" using s letter_classes by auto
  ultimately show ?r using t s(2) unfolding credential_tail_Some by (metis append.assoc)
next
  assume r: ?r
  then have "takeWhile scheme_char s = scheme \<and> dropWhile scheme_char s = ''://'' @ user @ '':'' @ pw @ ''@'' @ rest"
    using takeWhile_run [of scheme_char scheme "CHR '':''" "''//'' @ user @ '':'' @ pw @ ''@'' @ rest"] by simp
  moreover have "credential_tail (''://'' @ user @ '':'' @ pw @ ''@'' @ rest) = Some (user, pw, rest)"
    using r unfolding credential_tail_Some by (intro conjI) simp_all
  moreover obtain c cs where "scheme = c # cs" "is_letter c" using r by (cases scheme) auto
  then obtain ds where "s = c # ds" "is_letter c" using r by simp
  ultimately show ?l unfolding credential_at_def by simp
qed

lemma shows_somewhere_append: "shows_somewhere t \<Longrightarrow> shows_somewhere (s @ t)"
  by (induction s) simp_all

lemma shows_at_somewhere: "shows_at s \<Longrightarrow> shows_somewhere s"
  by (cases s) (simp_all add: shows_at_def)

lemma shows_password_iff: "shows_password s \<longleftrightarrow> shows_somewhere s"
proof
  assume "shows_password s"
  then obtain before t where "s = before @ t" "shows_at t" unfolding shows_password_def shows_at_def credential_at_Some by metis
  then show "shows_somewhere s" using shows_at_somewhere shows_somewhere_append by metis
next
  show "shows_somewhere s \<Longrightarrow> shows_password s"
  proof (induction s)
    case (Cons c cs)
    show ?case
    proof (cases "shows_at (c # cs)")
      case True
      then show ?thesis unfolding shows_at_def credential_at_Some shows_password_def by (metis append_Nil)
    next
      case False
      then have "shows_password cs" using Cons by simp
      then show ?thesis unfolding shows_password_def by (metis append_Cons)
    qed
  qed simp
qed


lemma safe_head: "\<not> shows_at (c # cs) \<Longrightarrow> \<not> shows_somewhere cs \<Longrightarrow> \<not> shows_somewhere (c # cs)"
  by simp

lemma not_letter_safe: "\<not> is_letter c \<Longrightarrow> \<not> shows_at (c # cs)"
  by (simp add: shows_at_def)

lemma no_colon_slashes:
  "list_all user_char user \<Longrightarrow> \<not> startsWith (dropWhile scheme_char (user @ CHR '':'' # CHR ''['' # rest)) ''://''"
  by (induction user) (auto simp: startsWith_def)

lemma user_safe:
  assumes "list_all user_char user" "\<not> shows_somewhere (CHR '':'' # CHR ''['' # rest)"
  shows "\<not> shows_somewhere (user @ CHR '':'' # CHR ''['' # rest)"
  using assms(1)
proof (induction user)
  case (Cons u us)
  have "\<not> startsWith (dropWhile scheme_char ((u # us) @ CHR '':'' # CHR ''['' # rest)) ''://''"
    using no_colon_slashes [OF Cons.prems] .
  then have "credential_tail (dropWhile scheme_char ((u # us) @ CHR '':'' # CHR ''['' # rest)) = None"
    by (simp add: credential_tail_def)
  then have "\<not> shows_at ((u # us) @ CHR '':'' # CHR ''['' # rest)"
    by (simp add: shows_at_def credential_at_def)
  moreover have "\<not> shows_somewhere (us @ CHR '':'' # CHR ''['' # rest)" using Cons by simp
  ultimately show ?case by simp
qed (use assms(2) in simp)

lemma redacted_safe: "\<not> shows_somewhere rest \<Longrightarrow> \<not> shows_somewhere (REDACTED @ ''@'' @ rest)"
proof -
  assume r: "\<not> shows_somewhere rest"
  have bracket: "\<not> scheme_char (CHR '']'')" "\<not> is_letter (CHR ''['')" "\<not> is_letter (CHR '']'')"
    by (simp_all add: scheme_char_def is_letter_def is_upper_def is_lower_def is_digit_def code_of_def)
  have "\<not> shows_at (ws @ CHR '']'' # t)" if "list_all scheme_char ws" for ws t
    using takeWhile_run [OF that bracket(1), of t]
    by (simp add: shows_at_def credential_at_def credential_tail_def startsWith_def split: list.split)
  note inside = this [of "''redacted''"] this [of "''edacted''"] this [of "''dacted''"] this [of "''acted''"]
    this [of "''cted''"] this [of "''ted''"] this [of "''ed''"] this [of "''d''"]
  have "list_all scheme_char ''redacted''"
    by (simp add: scheme_char_def is_letter_def is_lower_def code_of_def)
  then show ?thesis using r inside not_letter_safe bracket(2,3)
    by (simp add: REDACTED_def)
qed

lemma scheme_safe:
  assumes "list_all scheme_char scheme" "list_all user_char user" "user \<noteq> []" "\<not> shows_somewhere rest"
  shows "\<not> shows_somewhere (scheme @ ''://'' @ user @ '':'' @ REDACTED @ ''@'' @ rest)"
  using assms(1)
proof (induction scheme)
  case Nil
  have "\<not> shows_somewhere (REDACTED @ ''@'' @ rest)" by (rule redacted_safe [OF assms(4)])
  then have "\<not> shows_somewhere (user @ '':'' @ REDACTED @ ''@'' @ rest)"
    using user_safe [OF assms(2), of "tl REDACTED @ ''@'' @ rest"] not_letter_safe by (simp add: REDACTED_def)
  then show ?case using not_letter_safe by simp
next
  case (Cons c cs)
  have "\<not> shows_at ((c # cs) @ ''://'' @ user @ '':'' @ REDACTED @ ''@'' @ rest)"
  proof (cases "is_letter c")
    case True
    have "list_all pw_char REDACTED"
      by (simp add: REDACTED_def pw_char_def is_space_def code_of_def)
    then have "credential_at ((c # cs) @ ''://'' @ user @ '':'' @ REDACTED @ ''@'' @ rest) = Some (c # cs, user, REDACTED, rest)"
      using True Cons.prems assms(2,3) unfolding credential_at_Some by (intro conjI) simp_all
    then show ?thesis by (simp add: shows_at_def)
  qed (simp add: not_letter_safe)
  then show ?case using Cons by simp
qed

text \<open>The scan either leaves a run of a class alone, or it finds a match in it, whose \<open>://\<close> comes before any \<open>@\<close>.\<close>

lemma redact_head: "redactCredentialsInString s = x # y \<Longrightarrow> \<not> is_letter x \<Longrightarrow> \<exists>s'. s = x # s' \<and> redactCredentialsInString s' = y"
proof (cases s)
  case (Cons c cs)
  assume a: "redactCredentialsInString s = x # y" "\<not> is_letter x"
  show ?thesis
  proof (cases "credential_at (c # cs)")
    case None
    then show ?thesis using a Cons by simp
  next
    case (Some m)
    obtain scheme user pw rest where m: "m = (scheme, user, pw, rest)" by (cases m)
    then have "scheme \<noteq> []" "is_letter (hd scheme)" using Some unfolding m credential_at_Some by simp_all
    then show ?thesis using a Cons Some m by (cases scheme) auto
  qed
qed simp

lemma redact_run:
  assumes "\<not> Q (CHR ''/'')" "\<not> Q (CHR ''@'')"
  shows "redactCredentialsInString s = takeWhile Q s @ redactCredentialsInString (dropWhile Q s) \<or>
    (\<exists>a b. redactCredentialsInString s = a @ ''://'' @ b \<and> CHR ''/'' \<notin> set a \<and> CHR ''@'' \<notin> set a)"
proof (induction s)
  case (Cons c cs)
  show ?case
  proof (cases "Q c")
    case True
    show ?thesis
    proof (cases "credential_at (c # cs)")
      case None
      then have r: "redactCredentialsInString (c # cs) = c # redactCredentialsInString cs" by simp
      from Cons show ?thesis
      proof
        assume "redactCredentialsInString cs = takeWhile Q cs @ redactCredentialsInString (dropWhile Q cs)"
        then show ?thesis using r True by simp
      next
        assume "\<exists>a b. redactCredentialsInString cs = a @ ''://'' @ b \<and> CHR ''/'' \<notin> set a \<and> CHR ''@'' \<notin> set a"
        then obtain a b where "redactCredentialsInString (c # cs) = (c # a) @ ''://'' @ b" "CHR ''/'' \<notin> set (c # a)" "CHR ''@'' \<notin> set (c # a)"
          using r True assms by auto
        then show ?thesis by blast
      qed
    next
      case (Some m)
      obtain scheme user pw rest where m: "m = (scheme, user, pw, rest)" by (cases m)
      then have "list_all scheme_char scheme" using Some unfolding m credential_at_Some by simp
      then have "CHR ''/'' \<notin> set scheme" "CHR ''@'' \<notin> set scheme" using slash_at_classes by (auto simp: list_all_iff)
      moreover have "redactCredentialsInString (c # cs) = scheme @ ''://'' @ user @ '':'' @ REDACTED @ ''@'' @ redactCredentialsInString rest"
        using Some m by simp
      ultimately show ?thesis by blast
    qed
  qed simp
qed simp

lemma first_stop:
  assumes "a @ ''://'' @ b = x @ CHR ''@'' # y" "CHR ''/'' \<notin> set a" "CHR ''@'' \<notin> set a" "CHR ''/'' \<notin> set x" "CHR ''@'' \<notin> set x"
  shows False
proof -
  let ?P = "\<lambda>c. c \<noteq> CHR ''/'' \<and> c \<noteq> CHR ''@''"
  have "dropWhile ?P (x @ CHR ''@'' # y) = CHR ''@'' # y"
    using assms(4,5) by (subst dropWhile_append2) auto
  moreover have "dropWhile ?P (a @ ''://'' @ b) = CHR ''/'' # CHR ''/'' # b"
    using assms(2,3) by (subst dropWhile_append2) auto
  ultimately show False using assms(1) by simp
qed

lemma redact_run_exact:
  assumes Q: "\<not> Q (CHR ''/'')" "\<not> Q (CHR ''@'')" "\<And>c. is_letter c \<Longrightarrow> Q c"
    and r: "redactCredentialsInString s = run @ x # y" "list_all Q run" "\<not> Q x"
    and no: "x # y = n @ CHR ''@'' # z" "CHR ''/'' \<notin> set n" "CHR ''@'' \<notin> set n"
  shows "\<exists>s'. s = run @ x # s' \<and> redactCredentialsInString s' = y"
proof -
  have run: "CHR ''/'' \<notin> set run" "CHR ''@'' \<notin> set run" using r(2) Q(1,2) by (auto simp: list_all_iff)
  have "redactCredentialsInString s = takeWhile Q s @ redactCredentialsInString (dropWhile Q s)"
  proof (rule ccontr)
    assume "\<not> ?thesis"
    then obtain a b where "redactCredentialsInString s = a @ ''://'' @ b" "CHR ''/'' \<notin> set a" "CHR ''@'' \<notin> set a"
      using redact_run [of Q s, OF Q(1,2)] by blast
    then show False using first_stop [of a b "run @ n" z] r(1) run no by simp
  qed
  moreover define d where "d = dropWhile Q s"
  ultimately have split: "redactCredentialsInString s = takeWhile Q s @ redactCredentialsInString d" by simp
  have hd: "redactCredentialsInString d = [] \<or> (\<exists>c e. redactCredentialsInString d = c # e \<and> \<not> Q c)"
  proof (cases d)
    case (Cons c e)
    then have "\<not> Q c" using d_def by (metis hd_dropWhile list.distinct(1) list.sel(1))
    then have "\<not> is_letter c" using Q(3) by blast
    then have "credential_at (c # e) = None" by simp
    then show ?thesis using Cons \<open>\<not> Q c\<close> by simp
  qed simp
  have tw: "takeWhile Q (redactCredentialsInString s) = takeWhile Q s" "dropWhile Q (redactCredentialsInString s) = redactCredentialsInString d"
    using hd unfolding split by (auto simp: takeWhile_append dropWhile_append dest: set_takeWhileD)
  moreover have "takeWhile Q (run @ x # y) = run \<and> dropWhile Q (run @ x # y) = x # y"
    by (rule takeWhile_run [OF r(2,3)])
  ultimately have eq: "takeWhile Q s = run" "redactCredentialsInString d = x # y" using r(1) by simp_all
  obtain s' where "d = x # s'" "redactCredentialsInString s' = y"
    using redact_head [OF eq(2)] Q(3) r(3) by blast
  then show ?thesis using eq(1) d_def by (metis takeWhile_dropWhile_id)
qed


text \<open>Where the expression does not match, the scan does not create a match.\<close>

lemma no_match_created:
  assumes "is_letter c" "credential_at (c # cs) = None"
  shows "credential_at (c # redactCredentialsInString cs) = None"
proof (rule ccontr)
  define t where "t = dropWhile scheme_char cs"
  have tail: "credential_tail t = None" using assms letter_classes by (simp add: credential_at_def t_def)
  have run: "redactCredentialsInString (r @ t) = r @ redactCredentialsInString t" if "list_all scheme_char r" for r
    using that
  proof (induction r)
    case (Cons d ds)
    have "dropWhile scheme_char ((d # ds) @ t) = t" using Cons.prems t_def
      by (simp add: dropWhile_append2 list_all_iff)
    then have "credential_at ((d # ds) @ t) = None" using tail by (simp add: credential_at_def)
    then show ?case using Cons by simp
  qed simp
  define r where "r = takeWhile scheme_char cs"
  have r: "list_all scheme_char r" by (auto simp: r_def list_all_iff dest: set_takeWhileD)
  have cs: "cs = r @ t" by (simp add: r_def t_def)
  assume "credential_at (c # redactCredentialsInString cs) \<noteq> None"
  then obtain scheme user pw rest where m: "credential_at (c # r @ redactCredentialsInString t) = Some (scheme, user, pw, rest)"
    using run [OF r] unfolding cs by auto
  have "dropWhile scheme_char (redactCredentialsInString t) = redactCredentialsInString t"
  proof (cases t)
    case (Cons d ds)
    then have "\<not> scheme_char d" using t_def by (metis hd_dropWhile list.distinct(1) list.sel(1))
    moreover then have "\<not> is_letter d" using letter_classes by blast
    ultimately show ?thesis using Cons by simp
  qed simp
  then have "dropWhile scheme_char (c # r @ redactCredentialsInString t) = redactCredentialsInString t"
    using assms(1) letter_classes r by (simp add: dropWhile_append2 list_all_iff)
  then have "credential_tail (redactCredentialsInString t) = Some (user, pw, rest)"
    using m assms(1) by (simp add: credential_at_def)
  then have p: "redactCredentialsInString t = CHR '':'' # CHR ''/'' # CHR ''/'' # user @ CHR '':'' # pw @ CHR ''@'' # rest"
      "user \<noteq> []" "list_all user_char user" "list_all pw_char pw"
    unfolding credential_tail_Some by simp_all
  obtain u where u: "t = ''://'' @ u" "redactCredentialsInString u = user @ CHR '':'' # pw @ CHR ''@'' # rest"
  proof -
    obtain t1 where t1: "t = CHR '':'' # t1" "redactCredentialsInString t1 = CHR ''/'' # CHR ''/'' # user @ CHR '':'' # pw @ CHR ''@'' # rest"
      using redact_head [OF p(1)] slash_at_classes by blast
    obtain t2 where t2: "t1 = CHR ''/'' # t2" "redactCredentialsInString t2 = CHR ''/'' # user @ CHR '':'' # pw @ CHR ''@'' # rest"
      using redact_head [OF t1(2)] slash_at_classes by blast
    obtain u where "t2 = CHR ''/'' # u" "redactCredentialsInString u = user @ CHR '':'' # pw @ CHR ''@'' # rest"
      using redact_head [OF t2(2)] slash_at_classes by blast
    then show thesis using that t1(1) t2(1) by simp
  qed
  have no: "CHR ''/'' \<notin> set (CHR '':'' # pw)" "CHR ''@'' \<notin> set (CHR '':'' # pw)"
    using p(4) slash_at_classes by (auto simp: list_all_iff)
  have "\<exists>s'. u = user @ CHR '':'' # s' \<and> redactCredentialsInString s' = pw @ CHR ''@'' # rest"
    by (rule redact_run_exact [where Q = user_char and n = "CHR '':'' # pw" and z = rest])
      (use u(2) p(3) no letter_classes in simp_all)
  then obtain w where w: "u = user @ CHR '':'' # w" "redactCredentialsInString w = pw @ CHR ''@'' # rest" by blast
  have "\<exists>s'. w = pw @ CHR ''@'' # s' \<and> redactCredentialsInString s' = rest"
    by (rule redact_run_exact [where Q = pw_char and n = "[]" and z = rest])
      (use w(2) p(4) letter_classes in simp_all)
  then obtain z where z: "w = pw @ CHR ''@'' # z" by blast
  have "credential_tail t = Some (user, pw, z)" unfolding credential_tail_Some u(1) w(1) z using p(2-4) by simp
  then show False using tail by simp
qed

lemma redacted_shows_nothing: "\<not> shows_password (redactCredentialsInString s)"
  unfolding shows_password_iff
proof (induction s rule: redactCredentialsInString.induct)
  case (2 c cs)
  show ?case
  proof (cases "credential_at (c # cs)")
    case None
    then have "\<not> shows_at (c # redactCredentialsInString cs)"
      using no_match_created by (cases "is_letter c") (auto simp: shows_at_def)
    then show ?thesis using None 2(1) by simp
  next
    case (Some m)
    obtain scheme user pw rest where m: "m = (scheme, user, pw, rest)" by (cases m)
    have c: "list_all scheme_char scheme" "list_all user_char user" "user \<noteq> []" using Some unfolding m credential_at_Some by simp_all
    have "\<not> shows_somewhere (redactCredentialsInString rest)" using 2(2) Some m by simp
    then have "\<not> shows_somewhere (scheme @ ''://'' @ user @ '':'' @ REDACTED @ ''@'' @ redactCredentialsInString rest)"
      by (rule scheme_safe [OF c])
    then show ?thesis using Some m by simp
  qed
qed simp

text \<open>
  What a scrubbed value may hold: no string that shows a password, the marker in place of every value under a
  sensitive key, no array of more than fifty items and no \<open>Error\<close> with fields of its own.
\<close>

fun scrubbed :: "scrub_value \<Rightarrow> bool" where
  "scrubbed VNothing = True"
| "scrubbed (VOther x) = True"
| "scrubbed (VString s) = (\<not> shows_password s)"
| "scrubbed (VArray items) = (length items \<le> 50 \<and> (\<forall>item \<in> set items. scrubbed item))"
| "scrubbed (VError name message stack) = False"
| "scrubbed (VObject entries) = (\<forall>(key, val) \<in> set entries. if SENSITIVE_KEY key then val = VString REDACTED else scrubbed val)"

lemma truncated_shows_nothing:
  assumes "\<not> shows_password s" "CHR ''@'' \<notin> set tail"
  shows "\<not> shows_password (take n s @ tail)"
proof
  assume "shows_password (take n s @ tail)"
  then obtain before scheme user pw rest where e: "take n s @ tail = (before @ scheme @ ''://'' @ user @ '':'' @ pw) @ CHR ''@'' # rest"
    and c: "scheme \<noteq> []" "is_letter (hd scheme)" "list_all scheme_char scheme" "user \<noteq> []" "list_all user_char user" "list_all pw_char pw" "pw \<noteq> REDACTED"
    unfolding shows_password_def by auto
  let ?p = "before @ scheme @ ''://'' @ user @ '':'' @ pw"
  have at: "us @ tail = CHR ''@'' # rest \<Longrightarrow> \<exists>rest'. us = CHR ''@'' # rest'" for us
    using assms(2) by (cases us) auto
  have "\<exists>rest'. take n s = ?p @ CHR ''@'' # rest'"
    using e assms(2) unfolding append_eq_append_conv2 by (auto dest: at)
  then obtain rest' where "take n s = ?p @ CHR ''@'' # rest'" by blast
  then have "s = before @ scheme @ ''://'' @ user @ '':'' @ pw @ ''@'' @ (rest' @ drop n s)"
    using append_take_drop_id [of n s] by simp
  then have "shows_password s" unfolding shows_password_def using c by blast
  then show False using assms(1) by blast
qed

lemma scrub_string_shows_nothing: "\<not> shows_password (scrub_string s)"
  by (simp add: scrub_string_def Let_def redacted_shows_nothing truncated_shows_nothing)

lemma at_needed: "shows_password s \<Longrightarrow> CHR ''@'' \<in> set s"
  by (auto simp: shows_password_def)

lemma walk_scrubs: "scrubbed (scrub_walk v depth)"
proof (induction v depth rule: scrub_walk.induct)
  case (1 v depth)
  show ?case
  proof (cases "6 < depth")
    case True
    then have "scrub_walk v depth = VString ''[truncated]''" by (simp add: scrub_walk.simps [of v])
    then show ?thesis using at_needed [of "''[truncated]''"] by auto
  next
    case False
    have keys: "\<not> SENSITIVE_KEY ''name''" "\<not> SENSITIVE_KEY ''message''" "\<not> SENSITIVE_KEY ''stack''"
      by code_simp+
    show ?thesis
    proof (cases v)
      case (VArray items)
      then show ?thesis using 1(1) False by (subst scrub_walk.simps) auto
    next
      case (VObject entries)
      have "scrubbed (scrub_walk val (Suc depth))" if "(key, val) \<in> set entries" "\<not> SENSITIVE_KEY key" for key val
        using 1(2) False VObject that by blast
      then show ?thesis using False VObject by (subst scrub_walk.simps) auto
    next
      case (VString s)
      then show ?thesis using False by (subst scrub_walk.simps) (simp add: scrub_string_shows_nothing)
    next
      case (VError name message stack)
      then show ?thesis using False keys
        by (subst scrub_walk.simps) (auto simp: redacted_shows_nothing split: option.split)
    qed (use False in \<open>subst scrub_walk.simps, simp\<close>)+
  qed
qed

text \<open>C21: Nothing the scrubbing hands on shows a secret it knows: under a sensitive key there is only the marker, no string at any depth
  still holds the password of a URL with a user name, and arrays and \<open>Error\<close> objects are cut down; so the context of every
  capture is clean.  A URL with an empty user name, which is how a Redis URL carries its password, passes unchanged.
\<close>

theorem scrubbed_events_show_no_password:
  "scrubbed (scrubSentryEvent event) \<and>
   list_all (\<lambda>c. case c of CaptureException _ extra \<Rightarrow> scrubbed extra | CaptureMessage _ extra \<Rightarrow> scrubbed extra) (captureError dsn err text context) \<and>
   scrubSentryEvent (VString ''redis://:hunter2@cache:6379'') = VString ''redis://:hunter2@cache:6379''"
proof (intro conjI)
  show all: "scrubbed (scrubSentryEvent v)" for v by (simp add: scrubSentryEvent_def walk_scrubs)
  show "list_all (\<lambda>c. case c of CaptureException _ extra \<Rightarrow> scrubbed extra | CaptureMessage _ extra \<Rightarrow> scrubbed extra) (captureError dsn err text context)"
    using all by (simp add: captureError_def Let_def split: scrub_value.split)
  show "scrubSentryEvent (VString ''redis://:hunter2@cache:6379'') = VString ''redis://:hunter2@cache:6379''"
    by code_simp
qed

end
