(* ===== verification/Operations.thy ===== *)
theory Operations
  imports Health EnvSchema Sentry
begin

text \<open>
  The operational endpoints (\<^verbatim>\<open>src/src/routes/health.routes.ts\<close>): liveness, the guarded snapshot of the
  configuration with what it shows of the environment, the guarded queue depths and the periodic log.
\<close>

section \<open>The snapshot of the configuration\<close>

definition net_env_of :: "(string \<Rightarrow> env_value) \<Rightarrow> net_env" where
  "net_env_of env = \<lparr>ne_text = (\<lambda>key. env_text (env key)), ne_number = (\<lambda>key. map_option floor (env_number (env key)))\<rparr>"

definition internal_env_of :: "(string \<Rightarrow> env_value) \<Rightarrow> internal_env" where
  "internal_env_of env = \<lparr>hx_token = env_text (env ''INTERNAL_API_TOKEN''), hx_production = (env ''NODE_ENV'' = EnvText ''production'')\<rparr>"

text \<open>What the providers are built with besides the environment: their libraries, the clock, the nonces.\<close>

record snapshot_lib =
  sl_mail :: email_lib
  sl_web :: web_lib
  sl_now :: int
  sl_nonce :: "string \<Rightarrow> string"
  sl_timestamp :: string
  sl_parseDate :: "string \<Rightarrow> int option"

record config_snapshot =
  cf_nodeEnv :: env_value
  cf_port :: env_value
  cf_logLevel :: env_value
  cf_emailProvider :: env_value
  cf_emailConfigured :: bool
  cf_emailFrom :: env_value
  cf_otpTtlSeconds :: env_value
  cf_rampProvider :: string
  cf_rampConfigured :: bool
  cf_sentry :: bool
  cf_environment :: env_value
  cf_jwt :: rotation_state
  cf_chainIds :: "env_value list"
  cf_rpcConfigured :: "(chain \<times> bool) list"
  cf_problems :: "string list"

definition configSnapshot :: "snapshot_lib \<Rightarrow> (string \<Rightarrow> env_value) \<Rightarrow> config_snapshot" where
  "configSnapshot lib env =
     \<lparr>cf_nodeEnv = env ''NODE_ENV'', cf_port = env ''PORT'', cf_logLevel = env ''LOG_LEVEL'',
      cf_emailProvider = env ''EMAIL_PROVIDER'', cf_emailConfigured = isEmailProviderConfigured (sl_mail lib) (email_env_of env),
      cf_emailFrom = env ''EMAIL_FROM'', cf_otpTtlSeconds = env ''OTP_TTL_SECONDS'',
      cf_rampProvider = getRampProviderName (bt_rampChoice (boot_env_of env)),
      cf_rampConfigured = isRampProviderConfigured
        (ramp_config_of (sl_web lib) (sl_now lib) (sl_nonce lib) (sl_timestamp lib) (boot_env_of env)),
      cf_sentry = isSentryEnabled (env_text (env ''SENTRY_DSN'')),
      cf_environment = (if env ''SENTRY_ENVIRONMENT'' = EnvAbsent then env ''NODE_ENV'' else env ''SENTRY_ENVIRONMENT''),
      cf_jwt = jwtRotationState (sl_parseDate lib) (jwt_env_of env) (sl_now lib),
      cf_chainIds = map env [''ETHEREUM_CHAIN_ID'', ''BSC_CHAIN_ID'', ''BASE_CHAIN_ID'', ''POLYGON_CHAIN_ID''],
      cf_rpcConfigured = map (\<lambda>(c, _). (c, rpcConfiguredFor (net_env_of env) c)) RPC_ENV_VAR_BY_CHAIN,
      cf_problems = validateNetworkConfiguration (net_env_of env)\<rparr>"

text \<open>\<open>Inl\<close>: the reply of the guard.\<close>

definition getConfig ::
  "snapshot_lib \<Rightarrow> (string \<Rightarrow> env_value) \<Rightarrow> string option \<Rightarrow> string option \<Rightarrow> (nat \<times> string) + config_snapshot" where
  "getConfig lib env authorization queryToken =
     (case requireInternalToken (internal_env_of env) authorization queryToken of
        Some reply \<Rightarrow> Inl reply
      | None \<Rightarrow> Inr (configSnapshot lib env))"

definition getQueues ::
  "(string \<Rightarrow> env_value) \<Rightarrow> int \<Rightarrow> queue_client list \<Rightarrow> string option \<Rightarrow> string option \<Rightarrow> (nat \<times> string) + queue_depth list" where
  "getQueues env now queues authorization queryToken =
     (case requireInternalToken (internal_env_of env) authorization queryToken of
        Some reply \<Rightarrow> Inl reply
      | None \<Rightarrow> Inr (readQueueDepths now queues))"

text \<open>The answer of \<open>/health\<close>: the status and the seconds since the start.\<close>

definition liveness :: "int \<Rightarrow> int \<Rightarrow> string \<times> int" where
  "liveness startedAt now = (''ok'', round_seconds (now - startedAt))"

text \<open>The interval of the periodic log, if it runs.\<close>

definition startQueueDepthLogger :: "rat \<Rightarrow> rat option" where
  "startQueueDepthLogger interval = (if interval \<le> 0 then None else Some interval)"

section \<open>Lemmas\<close>

text \<open>The variables that carry keys, passwords or URLs with keys in them.\<close>

definition SECRET_KEYS :: "string list" where
  "SECRET_KEYS =
     [''DATABASE_URL'', ''DIRECT_URL'', ''REDIS_URL'', ''JWT_SECRET'', ''JWT_PREVIOUS_SECRET'', ''ETHEREUM_RPC_URL'', ''BSC_RPC_URL'',
      ''BASE_RPC_URL'', ''POLYGON_RPC_URL'', ''SOLANA_RPC_URL'', ''TRON_RPC_URL'', ''TON_RPC_URL'', ''BTC_RPC_URL'', ''BTC_RPC_USER'',
      ''BTC_RPC_PASSWORD'', ''TRIVERIFY_API_KEY'', ''RESEND_API_KEY'', ''SENDGRID_API_KEY'', ''AWS_SES_REGION'', ''AWS_SES_ACCESS_KEY_ID'',
      ''AWS_SES_SECRET_ACCESS_KEY'', ''SENTRY_DSN'', ''INTERNAL_API_TOKEN'', ''BITNOB_API_KEY'', ''BITNOB_CLIENT_SECRET'',
      ''BITNOB_WEBHOOK_SECRET'', ''YELLOW_CARD_API_KEY'', ''YELLOW_CARD_API_SECRET'']"

text \<open>Two environments that differ in the values of secrets only, not in which of them are set.\<close>

definition same_but_secrets :: "(string \<Rightarrow> env_value) \<Rightarrow> (string \<Rightarrow> env_value) \<Rightarrow> bool" where
  "same_but_secrets env env' \<longleftrightarrow>
     (\<forall>key. if key \<in> set SECRET_KEYS then truthy (env_text (env key)) = truthy (env_text (env' key)) else env key = env' key)"

lemma same_public: "same_but_secrets env env' \<Longrightarrow> key \<notin> set SECRET_KEYS \<Longrightarrow> env key = env' key"
  by (auto simp: same_but_secrets_def split: if_splits)

lemma same_set: "same_but_secrets env env' \<Longrightarrow> truthy (env_text (env key)) = truthy (env_text (env' key))"
  by (auto simp: same_but_secrets_def split: if_splits)

lemma rpc_public:
  assumes "same_but_secrets env env'"
  shows "rpcConfiguredFor (net_env_of env) = rpcConfiguredFor (net_env_of env')"
  using same_set [OF assms] by (intro ext) (simp add: rpcConfiguredFor_def net_env_of_def split: option.split)

lemma chain_ids_public:
  "list_all (\<lambda>p. case np_chainIdEnvVar p of None \<Rightarrow> True | Some var \<Rightarrow> var \<notin> set SECRET_KEYS) NETWORK_PROFILES"
  by (simp add: NETWORK_PROFILES_def net_profile_def SECRET_KEYS_def)

lemma chain_id_public:
  "p \<in> set NETWORK_PROFILES \<Longrightarrow> np_chainIdEnvVar p = Some var \<Longrightarrow> var \<notin> set SECRET_KEYS"
  using chain_ids_public by (fastforce simp: list_all_iff)

lemma problems_public:
  assumes s: "same_but_secrets env env'"
  shows "validateNetworkConfiguration (net_env_of env) = validateNetworkConfiguration (net_env_of env')"
proof -
  have "profile_problems (net_env_of env) p = profile_problems (net_env_of env') p" if p: "p \<in> set NETWORK_PROFILES" for p
  proof (cases "np_chainIdEnvVar p")
    case (Some var)
    then have "ne_number (net_env_of env) var = ne_number (net_env_of env') var"
      using same_public [OF s chain_id_public [OF p]] by (simp add: net_env_of_def)
    then show ?thesis using Some rpc_public [OF s] by (simp add: profile_problems_def)
  qed (simp add: profile_problems_def)
  then have "concat (map (profile_problems (net_env_of env)) NETWORK_PROFILES) = concat (map (profile_problems (net_env_of env')) NETWORK_PROFILES)"
    by (metis map_cong)
  then show ?thesis using rpc_public [OF s] by (simp add: validateNetworkConfiguration_def rpc_problems_def)
qed

lemma rotation_public:
  assumes s: "same_but_secrets env env'"
  shows "jwtRotationState parse (jwt_env_of env) now = jwtRotationState parse (jwt_env_of env') now"
proof -
  have pub: "env ''JWT_PREVIOUS_SECRET_RETIRE_AT'' = env' ''JWT_PREVIOUS_SECRET_RETIRE_AT''"
    by (rule same_public [OF s]) (simp add: SECRET_KEYS_def)
  have "nullish v [] = [] \<longleftrightarrow> \<not> truthy v" for v by (cases v) auto
  then show ?thesis
    using pub same_set [OF s, of "''JWT_SECRET''"] same_set [OF s, of "''JWT_PREVIOUS_SECRET''"]
    by (simp add: jwtRotationState_def jwt_env_of_def previousSecretActive_def Let_def cong: if_cong)
qed

text \<open>C32: The snapshot of the configuration shows no secret: two deployments whose environments differ only in the values of keys,
  passwords and node URLs, not in which of them are set, answer \<open>/internal/config\<close> with the same snapshot, and without the
  internal token configured a production process does not answer it at all.\<close>

theorem config_snapshot_hides_secrets:
  assumes "same_but_secrets env env'"
  shows "configSnapshot lib env = configSnapshot lib env' \<and>
    (env ''NODE_ENV'' = EnvText ''production'' \<and> env ''INTERNAL_API_TOKEN'' = EnvAbsent \<longrightarrow>
       getConfig lib env' authorization queryToken = Inl (404, ''Not found''))"
proof (intro conjI impI)
  note set = same_set [OF assms]
  have public: "env key = env' key" if "key \<notin> set SECRET_KEYS" for key using same_public [OF assms that] .
  have "isEmailProviderConfigured (sl_mail lib) (email_env_of env) = isEmailProviderConfigured (sl_mail lib) (email_env_of env')"
    using set public [of "''EMAIL_PROVIDER''"] by (simp add: email_configured_iff email_env_of_def SECRET_KEYS_def)
  moreover have "bt_rampChoice (boot_env_of env) = bt_rampChoice (boot_env_of env')"
    using public [of "''RAMP_PROVIDER''"] by (simp add: boot_env_of_def SECRET_KEYS_def)
  moreover then have "isRampProviderConfigured (ramp_config_of w n f t (boot_env_of env)) = isRampProviderConfigured (ramp_config_of w n f t (boot_env_of env'))" for w n f t
    using set unfolding ramp_configured_iff by (simp add: boot_env_of_def split: ramp_choice.split)
  moreover have "isSentryEnabled (env_text (env ''SENTRY_DSN'')) = isSentryEnabled (env_text (env' ''SENTRY_DSN''))"
    using set by (simp add: isSentryEnabled_def)
  ultimately show "configSnapshot lib env = configSnapshot lib env'"
    unfolding configSnapshot_def using rotation_public [OF assms] rpc_public [OF assms] problems_public [OF assms]
    by (simp add: public SECRET_KEYS_def)
  assume p: "env ''NODE_ENV'' = EnvText ''production'' \<and> env ''INTERNAL_API_TOKEN'' = EnvAbsent"
  then have "\<not> truthy (env_text (env' ''INTERNAL_API_TOKEN''))" using set [of "''INTERNAL_API_TOKEN''"] by simp
  moreover have "env' ''NODE_ENV'' = EnvText ''production''" using p public [of "''NODE_ENV''"] by (simp add: SECRET_KEYS_def)
  ultimately show "getConfig lib env' authorization queryToken = Inl (404, ''Not found'')"
    by (simp add: getConfig_def internal_env_of_def requireInternalToken_def)
qed

lemma config_snapshot_hides_secrets_witness:
  "\<forall>lib. configSnapshot lib ((\<lambda>_. EnvAbsent)(''JWT_SECRET'' := EnvText ''one'', ''NODE_ENV'' := EnvText ''production'')) =
     configSnapshot lib ((\<lambda>_. EnvAbsent)(''JWT_SECRET'' := EnvText ''another'', ''NODE_ENV'' := EnvText ''production''))"
proof -
  have "same_but_secrets ((\<lambda>_. EnvAbsent)(''JWT_SECRET'' := EnvText ''one'', ''NODE_ENV'' := EnvText ''production''))
      ((\<lambda>_. EnvAbsent)(''JWT_SECRET'' := EnvText ''another'', ''NODE_ENV'' := EnvText ''production''))"
    by (simp add: same_but_secrets_def SECRET_KEYS_def)
  from config_snapshot_hides_secrets [OF this] show ?thesis by blast
qed

end
