(* ===== verification/OpenApi.thy ===== *)
theory OpenApi
  imports Routes Operations Wallets
begin

text \<open>
  The OpenAPI document (\<^verbatim>\<open>src/src/utils/openapi.ts\<close>, \<^verbatim>\<open>openapiRoutes.ts\<close>): the table of documented routes, the
  document built from the live routes and the checks that the two agree.  A zod schema is its name; its JSON
  schema and its fields are parameters, as the conversion is the library's.  The page that lists the routes is
  not modelled.
\<close>

section \<open>The documented routes\<close>

text \<open>A dash of the prose, in UTF-8.\<close>

definition EM_DASH :: string where
  "EM_DASH = map char_of [226 :: nat, 128, 148]"

record route_doc =
  rd_summary :: string
  rd_tags :: "string list"
  rd_description :: "string option"
  rd_auth :: bool
  rd_body :: "(string \<times> string) option"
  rd_query :: "(string \<times> string) option"
  rd_params :: "(string \<times> string \<times> string) list"
  rd_response :: "string option"

definition mk_doc ::
  "string \<Rightarrow> string \<Rightarrow> string option \<Rightarrow> bool \<Rightarrow> (string \<times> string) option \<Rightarrow> (string \<times> string) option \<Rightarrow>
   (string \<times> string \<times> string) list \<Rightarrow> route_doc" where
  "mk_doc summary tag description auth body query params =
     \<lparr>rd_summary = summary, rd_tags = [tag], rd_description = description, rd_auth = auth, rd_body = body, rd_query = query,
      rd_params = params, rd_response = None\<rparr>"

definition healthDocs :: "(string \<times> route_doc) list" where
  "healthDocs =
     [(''GET /health'', mk_doc ''Liveness probe'' ''health''
         (Some ''Dependency-free by design, so a database blip does not get the process killed by a restart loop. Use /health/ready for dependency checks.'') False
         None
         None
         []),
      (''GET /health/ready'', mk_doc ''Readiness probe'' ''health''
         (Some ''Verifies Postgres and Redis. Responds 503 when either is unavailable.'') False
         None
         None
         []),
      (''GET /internal/queues'', mk_doc ''Queue depth and backlog age'' ''internal''
         (Some ''Requires the INTERNAL_API_TOKEN bearer token; 404s in production when the token is unset.'') False
         None
         None
         []),
      (''GET /internal/config'', mk_doc ''Resolved configuration (credential-free)'' ''internal''
         (Some ''Reports which providers and chains are configured and any configuration problems worth alerting on. Never returns a secret value.'') False
         None
         None
         [])]"

definition authDocs :: "(string \<times> route_doc) list" where
  "authDocs =
     [(''POST /api/auth/signup'', mk_doc ''Create an account'' ''auth''
         (Some ''Sends a verification code to the supplied email address.'') False
         (Some (''signupSchema'', ''email, an optional phone, and a password of 8-128 characters.''))
         None
         []),
      (''POST /api/auth/login'', mk_doc ''Exchange credentials for a session token'' ''auth''
         (Some ''Rate limited per IP. The returned token is a JWT bound to a server-side session row.'') False
         (Some (''loginSchema'', ''email and password.''))
         None
         []),
      (''POST /api/auth/verify-email'', mk_doc ''Submit the email verification code'' ''auth''
         (Some (''The account is taken from the session, never from the body '' @ EM_DASH @ '' a caller cannot complete verification for another account.'')) True
         (Some (''verifySchema'', (''The 6-digit code only '' @ EM_DASH @ '' no userId; identity comes from the session token.'')))
         None
         []),
      (''POST /api/auth/verify-phone'', mk_doc ''Submit the phone verification code'' ''auth''
         None True
         (Some (''verifySchema'', (''The 6-digit code only '' @ EM_DASH @ '' no userId; identity comes from the session token.'')))
         None
         []),
      (''POST /api/auth/resend-code'', mk_doc ''Resend a verification code'' ''auth''
         (Some ''The account is taken from the session.'') True
         (Some (''resendSchema'', ''Which channel to resend to.''))
         None
         []),
      (''POST /api/auth/forgot-password'', mk_doc ''Request a password reset email'' ''auth''
         None False
         (Some (''forgotPasswordSchema'', ''email only.''))
         None
         []),
      (''POST /api/auth/set-pin'', mk_doc ''Set the transaction authorization PIN'' ''auth''
         None True
         (Some (''pinSchema'', (''The PIN to set. First-time only: returns 409 once a PIN exists '' @ EM_DASH @ '' use /change-pin to replace one.'')))
         None
         []),
      (''POST /api/auth/verify-pin'', mk_doc ''Verify the PIN for a sensitive operation'' ''auth''
         (Some ''Failures count towards a lockout shared with login and transfer.'') True
         (Some (''pinSchema'', ''The PIN to check against the stored hash.''))
         None
         []),
      (''POST /api/auth/change-pin'', mk_doc ''Change the PIN'' ''auth''
         None True
         (Some (''changePinSchema'', ''The current PIN and the new one. Proves knowledge of the PIN being replaced.''))
         None
         []),
      (''GET /api/auth/sessions'', mk_doc ''List active sessions'' ''auth''
         None True
         None
         None
         []),
      (''DELETE /api/auth/sessions/:id'', mk_doc ''Revoke a session'' ''auth''
         None True
         None
         None
         [(''id'', ''idParamSchema.id'', ''Session id (UUID).'')]),
      (''POST /api/auth/logout'', mk_doc ''End the current session'' ''auth''
         (Some (''Revokes only the session that made the request, so signing out on one device leaves the others alone. Idempotent, and takes no body: the session is identified by the bearer token. Clients MUST call this on sign-out '' @ EM_DASH @ '' deleting the token from the device alone leaves it valid on the server until it expires.'')) True
         None
         None
         []),
      (''DELETE /api/auth/me'', mk_doc ''Permanently delete the account'' ''auth''
         None True
         None
         None
         [])]"

definition accountDocs :: "(string \<times> route_doc) list" where
  "accountDocs =
     [(''GET /api/account/me'', mk_doc ''Current user profile'' ''account''
         None True
         None
         None
         []),
      (''POST /api/account/create-account-id'', mk_doc ''Create the caller's Ulmara Account ID'' ''account''
         None True
         None
         None
         []),
      (''GET /api/account/resolve/:accountId'', mk_doc ''Resolve an Account ID for a transfer'' ''account''
         None True
         None
         None
         [(''accountId'', ''accountIdParamSchema.accountId'', ''10-digit Account ID.'')]),
      (''GET /api/account/:accountId'', mk_doc ''Public Account ID lookup'' ''account''
         (Some (''Unauthenticated by design '' @ EM_DASH @ '' the Send flow resolves the recipient before a session exists.'')) False
         None
         None
         [(''accountId'', ''accountIdParamSchema.accountId'', ''10-digit Account ID.'')]),
      (''PATCH /api/account/settings'', mk_doc ''Update profile settings'' ''account''
         (Some (''Accepts name, photoUrl, defaultCurrency, defaultLanguage and defaultNetwork. Omit a key to leave that setting untouched. name, photoUrl and defaultNetwork are nullable: send an explicit null to clear one back to NULL, matching what GET /api/account/me returns for an unset value. defaultCurrency and defaultLanguage are not nullable '' @ EM_DASH @ '' they always hold a value.'')) True
         (Some (''settingsSchema'', ''Omit a key to leave it untouched; send an explicit null to clear name, photoUrl or defaultNetwork.''))
         None
         [])]"

definition walletDocs :: "(string \<times> route_doc) list" where
  "walletDocs =
     [(''GET /api/wallet/balances'', mk_doc ''Native and token balances for every registered wallet'' ''wallet''
         (Some ''A failing chain or token is reported as unavailable; it never hides the other balances.'') True
         None
         None
         []),
      (''GET /api/wallet/token-balances'', mk_doc ''Token balances for one chain and one address'' ''wallet''
         (Some (''One row per token configured for that chain, each carrying symbol, name, chain (lower-case ChainId), network (UPPERCASE wire id), decimals, contractAddress and balance. Balances are exact decimal strings '' @ EM_DASH @ '' no float conversion. A chain that cannot be reached yields an empty list rather than an error, and one unreadable token does not hide the others.'')) True
         None
         (Some (''tokenBalancesQuerySchema'', ''chain (UPPERCASE wire id) and the address to read. Both required.''))
         []),
      (''GET /api/wallet/addresses'', mk_doc ''Registered wallet addresses'' ''wallet''
         None True
         None
         None
         []),
      (''POST /api/wallet/resolve/:accountId'', mk_doc ''Resolve an Account ID to wallet addresses'' ''wallet''
         None True
         None
         None
         [(''accountId'', ''accountIdParamSchema.accountId'', ''10-digit Account ID.'')]),
      (''POST /api/wallet/register'', mk_doc ''Register wallets for this user'' ''wallet''
         None True
         (Some (''registerWalletsSchema'', ''1-20 addresses, each with its chain.''))
         None
         []),
      (''GET /api/wallet/tokens/:chain'', mk_doc ''ERC-20 tokens configured for a chain's current network'' ''wallet''
         None True
         None
         None
         [(''chain'', ''chainParamSchema.chain'', ''UPPERCASE chain identifier.'')])]"

definition transactionDocs :: "(string \<times> route_doc) list" where
  "transactionDocs =
     [(''GET /api/transaction'', mk_doc ''List the caller's transactions'' ''transaction''
         None True
         None
         (Some (''paginationQuerySchema'', ''page (>=1) and limit (1-100, default 20).''))
         []),
      (''POST /api/transaction/send'', mk_doc ''Send to another Ulmara account'' ''transaction''
         (Some (''Answers with the created row plus `direction` and `counterpartyAccountId`, the same two derived fields `GET /api/transaction` and `GET /api/transaction/{id}` return, so all three endpoints describe a transfer identically. `direction` is always '' @ [CHR 0x22] @ ''sent'' @ [CHR 0x22] @ '' here: the row is by definition outgoing from the caller. `counterpartyAccountId` is the recipient's Account ID for an internal transfer, or the resolved raw address for an external one. Replaying the same idempotencyKey returns the original row with this same shape.'')) True
         (Some (''transactionSendSchema'', ''Exactly one of recipientAccountId or recipientAddress. Note the field is `network`, not `chain`. idempotencyKey is required.''))
         None
         []),
      (''POST /api/transaction/fee'', mk_doc ''Estimate the network fee'' ''transaction''
         None True
         (Some (''transactionFeeSchema'', ''recipientAddress, asset, amount and network.''))
         None
         []),
      (''GET /api/transaction/:id'', mk_doc ''Transaction detail'' ''transaction''
         None True
         None
         None
         [(''id'', ''idParamSchema.id'', ''Transaction id (UUID).'')]),
      (''GET /api/transaction/:id/status'', mk_doc ''Transaction status'' ''transaction''
         None True
         None
         None
         [(''id'', ''idParamSchema.id'', ''Transaction id (UUID).'')]),
      (''POST /api/transaction/:id/broadcast'', mk_doc ''Broadcast a pre-signed transaction'' ''transaction''
         None True
         (Some (''signedTxSchema'', ''The serialized signed transaction.''))
         None
         [(''id'', ''idParamSchema.id'', ''Transaction id (UUID).'')]),
      (''POST /api/transaction/external/prepare'', mk_doc ''Prepare an external-wallet transfer'' ''transaction''
         (Some ''Returns the exact transaction the client must sign, on-device. The intent is server-persisted, single-use and expiring.'') True
         (Some (''externalPrepareSchema'', ''chain, asset, amount, destination address and the authorising PIN.''))
         None
         []),
      (''POST /api/transaction/external/:id/submit'', mk_doc ''Submit a signed external-wallet transfer'' ''transaction''
         (Some (''Re-verifies the signed transaction against the stored intent '' @ EM_DASH @ '' recipient, amount, target contract, value and chain '' @ EM_DASH @ '' before broadcasting.'')) True
         (Some (''externalSubmitSchema'', ''The serialized signed transaction plus a per-attempt idempotencyKey.''))
         None
         [(''id'', ''idParamSchema.id'', ''Transfer intent id (UUID).'')])]"

definition contactDocs :: "(string \<times> route_doc) list" where
  "contactDocs =
     [(''GET /api/contact'', mk_doc ''List saved contacts'' ''contact''
         None True
         None
         None
         []),
      (''POST /api/contact'', mk_doc ''Save a contact'' ''contact''
         None True
         (Some (''contactCreateSchema'', ''name, plus an optional Account ID, address and chain.''))
         None
         []),
      (''DELETE /api/contact/:id'', mk_doc ''Delete a contact'' ''contact''
         None True
         None
         None
         [(''id'', ''idParamSchema.id'', ''Contact id (UUID).'')]),
      (''PATCH /api/contact/:id'', mk_doc ''Rename or re-point a saved contact'' ''contact''
         (Some (''Body is { name?, accountId? } with at least one field present. Updates in place, so the contact id is preserved '' @ EM_DASH @ '' the client previously had to DELETE and re-POST, which changed the id and lost the contact if the second call failed. 404 if the contact is missing or is not the caller's, 404 '' @ [CHR 0x22] @ ''Account ID not found'' @ [CHR 0x22] @ '' for an unknown Account ID, and 409 for a name this owner already uses on another contact.'')) True
         (Some (''contactUpdateSchema'', ''At least one of name or accountId. The contact id comes from the path and is preserved.''))
         None
         [(''id'', ''idParamSchema.id'', ''Contact id (UUID).'')])]"

definition paymentDocs :: "(string \<times> route_doc) list" where
  "paymentDocs =
     [(''POST /api/payment/request'', mk_doc ''Create a payment request'' ''payment''
         None True
         (Some (''paymentRequestSchema'', ''asset or symbol, optional amount and expiry, and an optional note of 140 characters or fewer.''))
         None
         []),
      (''GET /api/payment/request/:id'', mk_doc ''Fetch a payment request'' ''payment''
         (Some (''Unauthenticated by design '' @ EM_DASH @ '' the request is shared via link or QR code.'')) False
         None
         None
         [(''id'', ''idParamSchema.id'', ''Payment request id (UUID).'')]),
      (''POST /api/payment/request/:id/fulfill'', mk_doc ''Fulfil a payment request with a completed transaction'' ''payment''
         None True
         (Some (''paymentFulfillSchema'', ''The transaction that settles the request.''))
         None
         [(''id'', ''idParamSchema.id'', ''Payment request id (UUID).'')])]"

definition rampDocs :: "(string \<times> route_doc) list" where
  "rampDocs =
     [(''POST /api/ramp/deposit'', mk_doc ''Start an NGN to crypto deposit'' ''ramp''
         None True
         (Some (''rampDepositSchema'', ''amountNgn, in Naira. Not `amount`.''))
         None
         []),
      (''POST /api/ramp/withdraw'', mk_doc ''Start a crypto to NGN withdrawal'' ''ramp''
         None True
         (Some (''rampWithdrawSchema'', ''amountNgn plus the destination account number, bank code and holder name.''))
         None
         []),
      (''GET /api/ramp/status/:reference'', mk_doc ''Ramp transaction status'' ''ramp''
         None True
         None
         None
         [(''reference'', ''referenceParamSchema.reference'', ''Provider reference.'')]),
      (''POST /api/ramp/webhook'', mk_doc ''Provider webhook (signature-verified)'' ''ramp''
         (Some ''Called by the ramp provider, not by clients. The HMAC signature is verified before the body is parsed or acted on, and processing is idempotent on (provider, eventId).'') False
         None
         None
         [])]"

definition validationDocs :: "(string \<times> route_doc) list" where
  "validationDocs =
     [(''POST /api/validation/address'', mk_doc ''Check whether an address is valid and in use on a chain'' ''validation''
         None True
         (Some (''addressValidationSchema'', ''The address and the UPPERCASE chain id to verify it on.''))
         None
         [])]"

definition ROUTE_DOCS :: "(string \<times> route_doc) list" where
  "ROUTE_DOCS = healthDocs @ authDocs @ accountDocs @ walletDocs @ transactionDocs @ contactDocs @ paymentDocs @ rampDocs @ validationDocs"

section \<open>The document\<close>

text \<open>\<open>oa_schema\<close> is the JSON schema of a schema by name, \<open>oa_shape\<close> the fields of an object schema.\<close>

record doc_lib =
  oa_schema :: "string \<Rightarrow> json"
  oa_shape :: "string \<Rightarrow> string list option"

definition word_char :: "char \<Rightarrow> bool" where
  "word_char c \<longleftrightarrow> is_letter c \<or> is_digit c \<or> c = CHR ''_''"

text \<open>\<open>url.replace(/:([A-Za-z0-9_]+)/g, "{$1}")\<close>: \<open>open_name\<close> is set inside a name.\<close>

fun to_path :: "bool \<Rightarrow> string \<Rightarrow> string" where
  "to_path open_name [] = (if open_name then ''}'' else [])"
| "to_path open_name (c # cs) =
     (if open_name
      then (if word_char c then c # to_path True cs
            else CHR ''}'' # (if c = CHR '':'' \<and> cs \<noteq> [] \<and> word_char (hd cs) then CHR ''{'' # to_path True cs else c # to_path False cs))
      else if c = CHR '':'' \<and> cs \<noteq> [] \<and> word_char (hd cs) then CHR ''{'' # to_path True cs
      else c # to_path False cs)"

definition toOpenApiPath :: "string \<Rightarrow> string" where
  "toOpenApiPath url = to_path False url"

definition put_entry :: "string \<Rightarrow> 'a \<Rightarrow> (string \<times> 'a) list \<Rightarrow> (string \<times> 'a) list" where
  "put_entry key v entries =
     (if key \<in> fst ` set entries then map (\<lambda>(k, w). (k, if k = key then v else w)) entries else entries @ [(key, v)])"

definition ERROR_REF :: json where
  "ERROR_REF = JObject [(''application/json'', JObject [(''schema'', JObject [(''$ref'', JString ''#/components/schemas/ErrorResponse'')])])]"

definition doc_parameters :: "doc_lib \<Rightarrow> route_doc \<Rightarrow> json list" where
  "doc_parameters lib doc =
     map (\<lambda>(name, schema, description). JObject [(''name'', JString name), (''in'', JString ''path''), (''required'', JBool True),
            (''description'', JString description), (''schema'', oa_schema lib schema)]) (rd_params doc) @
     (case rd_query doc of
        None \<Rightarrow> []
      | Some (schema, description) \<Rightarrow>
          map (\<lambda>name. JObject [(''name'', JString name), (''in'', JString ''query''), (''required'', JBool False),
                 (''description'', JString description), (''schema'', oa_schema lib (schema @ ''.'' @ name))]) (nullish (oa_shape lib schema) []))"

definition doc_responses :: "route_doc \<Rightarrow> json" where
  "doc_responses doc =
     JObject ([(''200'', JObject [(''description'', JString (nullish (rd_response doc) ''Success'')),
                 (''content'', JObject [(''application/json'', JObject [(''schema'', JObject [(''type'', JString ''object'')])])])]),
               (''400'', JObject [(''description'', JString ''Validation failed''), (''content'', ERROR_REF)])] @
              (if rd_auth doc then [(''401'', JObject [(''description'', JString ''Missing, invalid, or expired session''), (''content'', ERROR_REF)])] else []) @
              [(''429'', JObject [(''description'', JString ''Rate limited''), (''content'', ERROR_REF)])])"

definition doc_operation :: "doc_lib \<Rightarrow> route_doc \<Rightarrow> json" where
  "doc_operation lib doc =
     (let parameters = doc_parameters lib doc
      in JObject ([(''summary'', JString (rd_summary doc)), (''tags'', JArray (map JString (rd_tags doc)))] @
           (if truthy (rd_description doc) then [(''description'', JString (the (rd_description doc)))] else []) @
           (if rd_auth doc then [(''security'', JArray [JObject [(''bearerAuth'', JArray [])]])] else []) @
           (if parameters \<noteq> [] then [(''parameters'', JArray parameters)] else []) @
           (case rd_body doc of
              None \<Rightarrow> []
            | Some (schema, description) \<Rightarrow>
                [(''requestBody'', JObject [(''required'', JBool True), (''description'', JString description),
                   (''content'', JObject [(''application/json'', JObject [(''schema'', oa_schema lib schema)])])])]) @
           [(''responses'', doc_responses doc)]))"

definition route_key :: "live_route \<Rightarrow> string" where
  "route_key r = fst r @ '' '' @ snd r"

definition buildOpenApiPaths :: "doc_lib \<Rightarrow> live_route list \<Rightarrow> (string \<times> (string \<times> json) list) list" where
  "buildOpenApiPaths lib routes =
     fold (\<lambda>r paths.
       case map_of ROUTE_DOCS (route_key r) of
         None \<Rightarrow> paths
       | Some doc \<Rightarrow>
           (let path = toOpenApiPath (snd r)
            in put_entry path (put_entry (toLowerCase (fst r)) (doc_operation lib doc) (nullish (map_of paths path) [])) paths)) routes []"

definition buildOpenApiDocument :: "doc_lib \<Rightarrow> live_route list \<Rightarrow> json" where
  "buildOpenApiDocument lib routes =
     JObject
       [(''openapi'', JString ''3.1.0''),
        (''info'', JObject [(''title'', JString ''Ulmara Backend API''), (''version'', JString ''1.0.0''),
           (''description'', JString (''Generated from the live Fastify route table, so it cannot describe a route that does not exist. '' @
              ''Request and parameter schemas are the same zod objects the handlers validate with. '' @
              ''See src/utils/openapi.ts for exactly what is and is not introspected.''))]),
        (''components'', JObject
           [(''securitySchemes'', JObject [(''bearerAuth'', JObject [(''type'', JString ''http''), (''scheme'', JString ''bearer''), (''bearerFormat'', JString ''JWT'')])]),
            (''schemas'', JObject [(''ErrorResponse'', JObject
               [(''type'', JString ''object''),
                (''properties'', JObject [(''success'', JObject [(''type'', JString ''boolean''), (''const'', JBool False)]), (''message'', JObject [(''type'', JString ''string'')])]),
                (''required'', JArray [JString ''success'', JString ''message''])])])]),
        (''paths'', JObject (map (\<lambda>(path, operations). (path, JObject operations)) (buildOpenApiPaths lib routes)))]"

section \<open>The checks\<close>

definition assertSpecCoversEveryRoute :: "live_route list \<Rightarrow> string list" where
  "assertSpecCoversEveryRoute routes = filter (\<lambda>key. key \<notin> fst ` set ROUTE_DOCS) (map route_key routes)"

definition assertEveryDocumentedRouteExists :: "live_route list \<Rightarrow> string list" where
  "assertEveryDocumentedRouteExists routes = filter (\<lambda>key. key \<notin> route_key ` set routes) (map fst ROUTE_DOCS)"

definition documentTags :: "string list" where
  "documentTags = sort (js_unique (concat (map (\<lambda>(_, d). rd_tags d) ROUTE_DOCS)))"

definition verifySpecMatchesRoutes :: "live_route list \<Rightarrow> thrown option" where
  "verifySpecMatchesRoutes routes =
     (let undocumented = assertSpecCoversEveryRoute routes;
          removed = assertEveryDocumentedRouteExists routes
      in if undocumented = [] \<and> removed = [] then None
         else Some (PlainError (''OpenAPI drift: '' @ js_join '' | ''
                ((if undocumented \<noteq> [] then [''routes missing from the OpenAPI document: '' @ js_join '', '' undocumented] else []) @
                 (if removed \<noteq> [] then [''documented routes that no longer exist: '' @ js_join '', '' removed] else [])))))"

text \<open>The document that is served, or the error of the check outside production.\<close>

definition registerApiDocs :: "doc_lib \<Rightarrow> bool \<Rightarrow> live_route list \<Rightarrow> thrown + json" where
  "registerApiDocs lib production routes =
     (case (if production then None else verifySpecMatchesRoutes routes) of
        Some e \<Rightarrow> Inl e
      | None \<Rightarrow> Inr (buildOpenApiDocument lib routes))"

section \<open>The live routes\<close>

definition HEALTH_ROUTES :: "(string \<times> string) list" where
  "HEALTH_ROUTES = [(''GET'', ''/health''), (''GET'', ''/health/ready''), (''GET'', ''/internal/queues''), (''GET'', ''/internal/config'')]"

fun method_name :: "http_method \<Rightarrow> string" where
  "method_name GET = ''GET''"
| "method_name POST = ''POST''"
| "method_name PATCH = ''PATCH''"
| "method_name DELETE = ''DELETE''"

text \<open>The path the inventory sees: the framework reports the root of a prefix as the prefix alone.\<close>

definition live_url :: "string \<times> route \<Rightarrow> string" where
  "live_url = (\<lambda>(prefix, r). if rt_path r = ''/'' then prefix else prefix @ rt_path r)"

definition registered :: "(string list \<times> string) list" where
  "registered = map (\<lambda>(m, u). ([m], u)) ((''GET'', ''/ws'') # HEALTH_ROUTES) @ map (\<lambda>pr. ([method_name (rt_method (snd pr))], live_url pr)) apiRoutes"

definition liveRoutes :: "live_route list" where
  "liveRoutes = capturedRoutes (fold (\<lambda>(methods, url). captureRoute methods (Some url)) registered (Some []))"

section \<open>Lemmas\<close>

lemma map_of_put_entry [simp]: "map_of (put_entry k v entries) = (map_of entries)(k \<mapsto> v)"
proof (cases "k \<in> fst ` set entries")
  case True
  have "map_of (map (\<lambda>(k', w). (k', if k' = k then v else w)) entries) x = (if x = k then map_option (\<lambda>_. v) (map_of entries k) else map_of entries x)" for x
    by (induction entries) auto
  moreover obtain w where "map_of entries k = Some w" using True by (metis map_of_eq_None_iff not_None_eq)
  ultimately show ?thesis using True by (intro ext) (simp add: put_entry_def)
next
  case False
  then have "map_of entries k = None" by (simp add: map_of_eq_None_iff)
  then show ?thesis using False by (intro ext) (simp add: put_entry_def map_add_def split: option.split)
qed

text \<open>The operation the document describes for a method of a path.\<close>

definition described :: "(string \<times> (string \<times> json) list) list \<Rightarrow> string \<Rightarrow> string \<Rightarrow> json option" where
  "described paths path m = (case map_of paths path of None \<Rightarrow> None | Some operations \<Rightarrow> map_of operations m)"

lemma described_put:
  "described (put_entry path (put_entry m op (nullish (map_of paths path) [])) paths) path' m' =
     (if path' = path \<and> m' = m then Some op else described paths path' m')"
  by (auto simp: described_def split: option.split)

lemma described_iff:
  "(\<exists>op. described (buildOpenApiPaths lib routes) path m = Some op) \<longleftrightarrow>
     (\<exists>r \<in> set routes. route_key r \<in> fst ` set ROUTE_DOCS \<and> toOpenApiPath (snd r) = path \<and> toLowerCase (fst r) = m)"
proof (induction routes rule: rev_induct)
  case Nil
  then show ?case by (simp add: buildOpenApiPaths_def described_def)
next
  case (snoc r routes)
  show ?case
  proof (cases "map_of ROUTE_DOCS (route_key r)")
    case None
    then have "route_key r \<notin> fst ` set ROUTE_DOCS" by (simp add: map_of_eq_None_iff)
    then show ?thesis using snoc None by (auto simp: buildOpenApiPaths_def)
  next
    case (Some doc)
    then have k: "route_key r \<in> fst ` set ROUTE_DOCS" by (metis map_of_eq_None_iff option.distinct(1))
    have "buildOpenApiPaths lib (routes @ [r]) =
        put_entry (toOpenApiPath (snd r)) (put_entry (toLowerCase (fst r)) (doc_operation lib doc)
          (nullish (map_of (buildOpenApiPaths lib routes) (toOpenApiPath (snd r))) [])) (buildOpenApiPaths lib routes)"
      using Some by (simp add: buildOpenApiPaths_def Let_def)
    then show ?thesis using snoc k by (auto simp: described_put)
  qed
qed

text \<open>The names after a colon in a path, and what a document and a route say of authentication and of the path.\<close>

fun path_names :: "string list \<Rightarrow> string list" where
  "path_names [] = []"
| "path_names (part # parts) =
     (case part of [] \<Rightarrow> path_names parts | c # name \<Rightarrow> if c = CHR '':'' then name # path_names parts else path_names parts)"

definition doc_fact :: "string \<times> route_doc \<Rightarrow> string \<times> bool \<times> string list" where
  "doc_fact d = (fst d, rd_auth (snd d), map fst (rd_params (snd d)))"

definition route_fact :: "string \<times> route \<Rightarrow> string \<times> bool \<times> string list" where
  "route_fact pr =
     (route_key (method_name (rt_method (snd pr)), live_url pr), RequireAuth \<in> set (rt_guards (snd pr)),
      path_names (js_split (CHR ''/'') (live_url pr)))"

definition DOC_FACTS :: "(string \<times> bool \<times> string list) list" where
  "DOC_FACTS =
     [(''GET /health'', False, []), (''GET /health/ready'', False, []), (''GET /internal/queues'', False, []),
      (''GET /internal/config'', False, []), (''POST /api/auth/signup'', False, []), (''POST /api/auth/login'', False, []),
      (''POST /api/auth/verify-email'', True, []), (''POST /api/auth/verify-phone'', True, []), (''POST /api/auth/resend-code'', True, []),
      (''POST /api/auth/forgot-password'', False, []), (''POST /api/auth/set-pin'', True, []), (''POST /api/auth/verify-pin'', True, []),
      (''POST /api/auth/change-pin'', True, []), (''GET /api/auth/sessions'', True, []), (''DELETE /api/auth/sessions/:id'', True, [''id'']),
      (''POST /api/auth/logout'', True, []), (''DELETE /api/auth/me'', True, []), (''GET /api/account/me'', True, []),
      (''POST /api/account/create-account-id'', True, []), (''GET /api/account/resolve/:accountId'', True, [''accountId'']),
      (''GET /api/account/:accountId'', False, [''accountId'']), (''PATCH /api/account/settings'', True, []),
      (''GET /api/wallet/balances'', True, []), (''GET /api/wallet/token-balances'', True, []), (''GET /api/wallet/addresses'', True, []),
      (''POST /api/wallet/resolve/:accountId'', True, [''accountId'']), (''POST /api/wallet/register'', True, []),
      (''GET /api/wallet/tokens/:chain'', True, [''chain'']), (''GET /api/transaction'', True, []), (''POST /api/transaction/send'', True, []),
      (''POST /api/transaction/fee'', True, []), (''GET /api/transaction/:id'', True, [''id'']),
      (''GET /api/transaction/:id/status'', True, [''id'']), (''POST /api/transaction/:id/broadcast'', True, [''id'']),
      (''POST /api/transaction/external/prepare'', True, []), (''POST /api/transaction/external/:id/submit'', True, [''id'']),
      (''GET /api/contact'', True, []), (''POST /api/contact'', True, []), (''DELETE /api/contact/:id'', True, [''id'']),
      (''PATCH /api/contact/:id'', True, [''id'']), (''POST /api/payment/request'', True, []),
      (''GET /api/payment/request/:id'', False, [''id'']), (''POST /api/payment/request/:id/fulfill'', True, [''id'']),
      (''POST /api/ramp/deposit'', True, []), (''POST /api/ramp/withdraw'', True, []),
      (''GET /api/ramp/status/:reference'', True, [''reference'']), (''POST /api/ramp/webhook'', False, []),
      (''POST /api/validation/address'', True, [])]"

lemma doc_facts: "map doc_fact ROUTE_DOCS = DOC_FACTS"
  by (simp only: ROUTE_DOCS_def healthDocs_def authDocs_def accountDocs_def walletDocs_def transactionDocs_def contactDocs_def paymentDocs_def
    rampDocs_def validationDocs_def mk_doc_def
      DOC_FACTS_def doc_fact_def list.map append.simps fst_conv snd_conv route_doc.simps)

lemma route_facts: "map route_fact apiRoutes = map ((!) DOC_FACTS) [4, 5, 6, 7, 8, 9, 10, 11, 12, 13, 14, 15, 16, 17, 18, 19, 20, 21, 22, 24, 25, 26, 27, 23, 29, 30, 28, 31, 32, 33, 34, 35, 40, 41, 42, 43, 44, 45, 46, 47, 36, 37, 39, 38]"
  by (simp add: apiRoutes_def authRoutes_def accountRoutes_def walletRoutes_def transactionRoutes_def paymentRoutes_def rampRoutes_def
    validationRoutes_def contactRoutes_def mk_route_def
      DOC_FACTS_def route_fact_def route_key_def live_url_def)

lemma capture_plain:
  "list_all (\<lambda>(m, u). u \<noteq> [] \<and> \<not> isSynthesised m u \<and> toUpperCase m = m) rs \<Longrightarrow>
   fold (\<lambda>(methods, url). captureRoute methods (Some url)) (map (\<lambda>(m, u). ([m], u)) rs) (Some acc) = Some (acc @ rs)"
  by (induction rs arbitrary: acc) (auto simp: captureRoute_def)

lemma upper_method [simp]: "toUpperCase (method_name m) = method_name m"
  by (cases m; simp only: method_name.simps; code_simp)

lemma method_synthesised: "isSynthesised (method_name m) u \<longleftrightarrow> u = ''/ws'' \<or> u = ''/docs'' \<or> u = ''/docs/json''"
  by (cases m) (simp_all add: isSynthesised_def)

lemmas route_table_defs =
  apiRoutes_def authRoutes_def accountRoutes_def walletRoutes_def transactionRoutes_def paymentRoutes_def rampRoutes_def
  validationRoutes_def contactRoutes_def mk_route_def

definition route_pair :: "string \<times> route \<Rightarrow> live_route" where
  "route_pair pr = (method_name (rt_method (snd pr)), live_url pr)"

lemma api_urls: "list_all (\<lambda>pr. take 4 (live_url pr) = ''/api'') apiRoutes"
  by (simp add: route_table_defs live_url_def)

lemma live_routes: "liveRoutes = HEALTH_ROUTES @ map route_pair apiRoutes"
proof -
  have health: "list_all (\<lambda>(m, u). u \<noteq> [] \<and> \<not> isSynthesised m u \<and> toUpperCase m = m) HEALTH_ROUTES"
    using upper_method [of GET] by (simp add: HEALTH_ROUTES_def isSynthesised_def)
  have api: "list_all (\<lambda>(m, u). u \<noteq> [] \<and> \<not> isSynthesised m u \<and> toUpperCase m = m) (map route_pair apiRoutes)"
    using api_urls by (auto simp: list_all_iff route_pair_def method_synthesised)
  have "map (\<lambda>pr. ([method_name (rt_method (snd pr))], live_url pr)) apiRoutes = map (\<lambda>(m, u). ([m], u)) (map route_pair apiRoutes)"
    by (simp add: route_pair_def)
  moreover have "captureRoute [''GET''] (Some ''/ws'') (Some []) = Some []"
    by (simp add: captureRoute_def isSynthesised_def)
  ultimately show ?thesis
    using capture_plain [OF health] capture_plain [OF api]
    by (simp add: liveRoutes_def registered_def capturedRoutes_def del: map_map)
qed

lemma api_keys: "map route_key (map route_pair apiRoutes) = map fst (map route_fact apiRoutes)"
  by (simp add: route_fact_def route_pair_def comp_def)

lemma live_keys:
  "map route_key liveRoutes = map ((!) (map fst DOC_FACTS))
     [0, 1, 2, 3, 4, 5, 6, 7, 8, 9, 10, 11, 12, 13, 14, 15, 16, 17, 18, 19, 20, 21, 22, 24, 25, 26, 27, 23, 29, 30, 28, 31, 32, 33, 34, 35,
      40, 41, 42, 43, 44, 45, 46, 47, 36, 37, 39, 38]"
  unfolding live_routes map_append api_keys route_facts by (simp add: HEALTH_ROUTES_def DOC_FACTS_def route_key_def)

lemma doc_keys: "map fst ROUTE_DOCS = map fst DOC_FACTS"
  by (simp add: doc_facts [symmetric] doc_fact_def comp_def)

lemma documented_positions: "map fst DOC_FACTS = map ((!) (map route_key liveRoutes)) [0, 1, 2, 3, 4, 5, 6, 7, 8, 9, 10, 11, 12, 13, 14, 15, 16, 17, 18, 19, 20, 21, 22, 27, 23, 24, 25, 26, 30, 28, 29, 31, 32, 33, 34, 35, 44, 45, 47, 46, 36, 37, 38, 39, 40, 41, 42, 43]"
  unfolding live_keys by (simp add: DOC_FACTS_def)


lemma positions_subset: "xs = map ((!) ys) ps \<Longrightarrow> list_all (\<lambda>i. i < length ys) ps \<Longrightarrow> set xs \<subseteq> set ys"
  by (auto simp: list_all_iff)

lemma live_and_documented: "route_key ` set liveRoutes = fst ` set ROUTE_DOCS"
proof -
  have "length (map fst DOC_FACTS) = 48" by (simp add: DOC_FACTS_def)
  then have "set (map route_key liveRoutes) \<subseteq> set (map fst DOC_FACTS)"
    by (intro positions_subset [OF live_keys]) simp
  moreover have "length (map route_key liveRoutes) = 48" by (simp add: live_keys)
  then have "set (map fst DOC_FACTS) \<subseteq> set (map route_key liveRoutes)"
    by (intro positions_subset [OF documented_positions]) simp
  ultimately show ?thesis by (metis doc_keys list.set_map subset_antisym)
qed

lemma verify_iff: "verifySpecMatchesRoutes routes = None \<longleftrightarrow> route_key ` set routes = fst ` set ROUTE_DOCS"
  by (auto simp: verifySpecMatchesRoutes_def assertSpecCoversEveryRoute_def assertEveryDocumentedRouteExists_def Let_def filter_empty_conv)

lemma described_operation:
  assumes "distinct (map (\<lambda>r. (toOpenApiPath (snd r), toLowerCase (fst r))) routes)" "r \<in> set routes"
    "map_of ROUTE_DOCS (route_key r) = Some doc"
  shows "described (buildOpenApiPaths lib routes) (toOpenApiPath (snd r)) (toLowerCase (fst r)) = Some (doc_operation lib doc)"
  using assms
proof (induction routes rule: rev_induct)
  case Nil
  then show ?case by simp
next
  case (snoc s routes)
  then show ?case
    by (cases "map_of ROUTE_DOCS (route_key s)") (auto simp: buildOpenApiPaths_def Let_def described_put rev_image_eqI)
qed

text \<open>The path of the document determines the path of the route.\<close>

definition from_path :: "string \<Rightarrow> string" where
  "from_path path = map (\<lambda>c. if c = CHR ''{'' then CHR '':'' else c) (filter (\<lambda>c. c \<noteq> CHR ''}'') path)"

definition no_braces :: "string \<Rightarrow> bool" where
  "no_braces s \<longleftrightarrow> CHR ''{'' \<notin> set s \<and> CHR ''}'' \<notin> set s"

lemma from_to_path: "no_braces s \<Longrightarrow> from_path (to_path open_name s) = s"
  by (induction open_name s rule: to_path.induct) (auto simp: from_path_def no_braces_def)

lemma api_no_braces: "list_all (\<lambda>pr. no_braces (live_url pr)) apiRoutes"
  by (simp add: route_table_defs live_url_def no_braces_def)

lemma lower_name: "toLowerCase (method_name m) = (case m of GET \<Rightarrow> ''get'' | POST \<Rightarrow> ''post'' | PATCH \<Rightarrow> ''patch'' | DELETE \<Rightarrow> ''delete'')"
  by (cases m; simp only: method_name.simps http_method.case; code_simp)

lemma lower_method: "toLowerCase (method_name m) = toLowerCase (method_name m') \<longleftrightarrow> m = m'"
  unfolding lower_name by (cases m; cases m') simp_all

lemma doc_keys_distinct: "distinct (map fst DOC_FACTS)"
  by (simp only: DOC_FACTS_def list.map fst_conv distinct.simps set_simps insert_iff empty_iff literal_eq)

lemma distinct_nth_map: "distinct ys \<Longrightarrow> distinct ps \<Longrightarrow> list_all (\<lambda>i. i < length ys) ps \<Longrightarrow> distinct (map ((!) ys) ps)"
  by (auto simp: distinct_map list_all_iff inj_on_def nth_eq_iff_index_eq)

lemma live_keys_distinct: "distinct (map route_key liveRoutes)"
proof -
  have "length (map fst DOC_FACTS) = 48" by (simp add: DOC_FACTS_def)
  then show ?thesis unfolding live_keys by (intro distinct_nth_map doc_keys_distinct) simp_all
qed

lemma health_methods: "list_all (\<lambda>r. no_braces (snd r) \<and> fst r = ''GET'') HEALTH_ROUTES"
  by (simp add: HEALTH_ROUTES_def no_braces_def)

lemma live_methods: "r \<in> set liveRoutes \<Longrightarrow> no_braces (snd r) \<and> (\<exists>m. fst r = method_name m)"
proof -
  assume "r \<in> set liveRoutes"
  then consider "r \<in> set HEALTH_ROUTES" | pr where "pr \<in> set apiRoutes" "r = route_pair pr"
    by (auto simp: live_routes)
  then show ?thesis
  proof cases
    case 1
    then have "no_braces (snd r)" "fst r = method_name GET" using health_methods by (simp_all add: list_all_iff)
    then show ?thesis by blast
  next
    case 2
    then show ?thesis using api_no_braces by (auto simp: list_all_iff route_pair_def)
  qed
qed

lemma live_operations_distinct: "distinct (map (\<lambda>r. (toOpenApiPath (snd r), toLowerCase (fst r))) liveRoutes)"
proof -
  have "inj_on (\<lambda>r. (toOpenApiPath (snd r), toLowerCase (fst r))) (set liveRoutes)"
  proof (rule inj_onI)
    fix r s
    assume r: "r \<in> set liveRoutes" and s: "s \<in> set liveRoutes"
      and eq: "(toOpenApiPath (snd r), toLowerCase (fst r)) = (toOpenApiPath (snd s), toLowerCase (fst s))"
    have "snd r = snd s"
      using eq live_methods [OF r] live_methods [OF s] by (metis Pair_inject from_to_path toOpenApiPath_def)
    moreover have "fst r = fst s"
      using eq live_methods [OF r] live_methods [OF s] lower_method by auto
    ultimately show "r = s" by (simp add: prod_eq_iff)
  qed
  then show ?thesis using live_keys_distinct by (simp add: distinct_map)
qed

lemma route_documented:
  assumes "pr \<in> set apiRoutes"
  shows "\<exists>doc. map_of ROUTE_DOCS (route_key (route_pair pr)) = Some doc \<and> doc_fact (route_key (route_pair pr), doc) = route_fact pr"
proof -
  have "length DOC_FACTS = 48" by (simp add: DOC_FACTS_def)
  then have "set (map route_fact apiRoutes) \<subseteq> set DOC_FACTS"
    by (intro positions_subset [OF route_facts]) simp
  then obtain kd where kd: "kd \<in> set ROUTE_DOCS" "doc_fact kd = route_fact pr"
    using assms by (metis (no_types, lifting) doc_facts image_eqI image_iff list.set_map subsetD)
  then have "fst kd = route_key (route_pair pr)" by (simp add: doc_fact_def route_fact_def route_pair_def)
  moreover have "distinct (map fst ROUTE_DOCS)" by (simp add: doc_keys doc_keys_distinct)
  ultimately show ?thesis using kd by (metis map_of_is_SomeI prod.collapse)
qed

text \<open>What the document says of a route: it is there, behind the bearer token exactly if the handler is, with the names of the path.\<close>

definition documented :: "doc_lib \<Rightarrow> string \<times> route \<Rightarrow> bool" where
  "documented lib pr =
     (case map_of ROUTE_DOCS (route_key (route_pair pr)) of
        None \<Rightarrow> False
      | Some doc \<Rightarrow>
          described (buildOpenApiPaths lib liveRoutes) (toOpenApiPath (live_url pr)) (toLowerCase (method_name (rt_method (snd pr))))
            = Some (doc_operation lib doc) \<and>
          rd_auth doc = (RequireAuth \<in> set (rt_guards (snd pr))) \<and>
          map fst (rd_params doc) = path_names (js_split (CHR ''/'') (live_url pr)))"

lemma routes_documented: "pr \<in> set apiRoutes \<Longrightarrow> documented lib pr"
proof -
  assume pr: "pr \<in> set apiRoutes"
  then have live: "route_pair pr \<in> set liveRoutes" by (auto simp: live_routes)
  obtain doc where "map_of ROUTE_DOCS (route_key (route_pair pr)) = Some doc"
      "doc_fact (route_key (route_pair pr), doc) = route_fact pr"
    using route_documented [OF pr] by blast
  then show ?thesis
    using described_operation [OF live_operations_distinct live]
    by (auto simp: documented_def route_pair_def doc_fact_def route_fact_def)
qed


end
