(* ===== verification/Lifecycle.thy ===== *)
theory Lifecycle
  imports OpenApi Sockets
begin

text \<open>
  The two processes: the composition of the API server (\<open>buildApp\<close> of \<^verbatim>\<open>src/src/server/app.ts\<close>), its
  start and shutdown (\<^verbatim>\<open>src/src/server/server.ts\<close>), the start and shutdown of the worker process
  (\<^verbatim>\<open>src/src/worker/index.ts\<close>), the shared Redis client (\<^verbatim>\<open>src/src/queues/redis.client.ts\<close>) and the
  options the error tracker is initialised with (\<^verbatim>\<open>src/src/config/sentry.ts\<close>).  What a connection, a listener or
  a flush does is a parameter: it succeeds, fails or never ends.
\<close>

section \<open>The API server\<close>

record app_config =
  ac_trustProxy :: trust_proxy
  ac_bodyLimit :: nat
  ac_origins :: "string list"
  ac_methods :: "string list"
  ac_globalMax :: nat
  ac_notFoundMax :: nat
  ac_bridgeLive :: bool
  ac_queueLog :: "rat option"
  ac_routes :: "live_route list"
  ac_docs :: "json option"

definition env_flag :: "env_value \<Rightarrow> bool" where
  "env_flag v = (v = EnvFlag True)"

definition is_production :: "(string \<Rightarrow> env_value) \<Rightarrow> bool" where
  "is_production env = (env ''NODE_ENV'' = EnvText ''production'')"

definition must :: "thrown option \<Rightarrow> thrown + unit" where
  "must check = (case check of Some e \<Rightarrow> Inl e | None \<Rightarrow> Inr ())"

text \<open>\<open>outcome\<close> is what the subscription of the event bridge does.\<close>

definition buildApp :: "doc_lib \<Rightarrow> subscription \<Rightarrow> (string \<Rightarrow> env_value) \<Rightarrow> thrown + app_config" where
  "buildApp docs outcome env =
     then_do (must (assertEmailProviderConfigured (boot_env_of env))) (\<lambda>_.
     then_do (must (assertRampProviderConfigured (boot_env_of env))) (\<lambda>_.
     then_do (parseAllowedOrigins (is_production env) (nullish (env_text (env ''ALLOWED_ORIGINS'')) [])) (\<lambda>origins.
     then_do (if shouldServeApiDocs (env_flag (env ''ENABLE_API_DOCS'')) (is_production env)
              then then_do (registerApiDocs docs (is_production env) liveRoutes) (\<lambda>document. Inr (Some document))
              else Inr None) (\<lambda>document.
     Inr \<lparr>ac_trustProxy = resolveTrustProxy (env_text (env ''TRUSTED_PROXIES''))
             (map_option (\<lambda>q. nat \<lfloor>q\<rfloor>) (env_number (env ''TRUSTED_PROXY_COUNT''))),
          ac_bodyLimit = 1048576, ac_origins = origins, ac_methods = [''GET'', ''HEAD'', ''POST'', ''PATCH'', ''DELETE'', ''OPTIONS''],
          ac_globalMax = 100, ac_notFoundMax = 60,
          ac_bridgeLive = fst (startUserEventBridge 0 outcome \<lparr>br_started = False, br_subscriber = None, br_up = []\<rparr>),
          ac_queueLog = startQueueDepthLogger (nullish (env_number (env ''QUEUE_DEPTH_LOG_INTERVAL_MS'')) 0),
          ac_routes = liveRoutes, ac_docs = document\<rparr>))))"

section \<open>Steps of a process\<close>

datatype step =
  InitSentry | CheckEmail | CheckRamp | ConnectDatabase | BuildApp | Listen | CreateWorkers | DrainWorkers
| CloseApp | StopBridge | CloseRedisClient | DisconnectDatabase | QuitQueueConnection | DropQueueConnection | FlushSentry

datatype outcome = Succeeds | Fails | Hangs

datatype process_state = Starting | Serving | Waiting | Exited nat | Rejected

text \<open>
  A sequence of awaited steps: one that fails ends it unless its failure is caught, with what the handler does; one
  that never ends stops it.
\<close>

fun attempt :: "(step \<Rightarrow> outcome) \<Rightarrow> (step \<times> step list option) list \<Rightarrow> step list \<times> outcome" where
  "attempt run [] = ([], Succeeds)"
| "attempt run ((s, caught) # steps) =
     (case (run s, caught) of
        (Hangs, _) \<Rightarrow> ([s], Hangs)
      | (Fails, None) \<Rightarrow> ([s], Fails)
      | (Fails, Some handler) \<Rightarrow> map_prod (\<lambda>log. s # handler @ log) id (attempt run steps)
      | (Succeeds, _) \<Rightarrow> map_prod (\<lambda>log. s # log) id (attempt run steps))"

section \<open>The API process\<close>

record api_process =
  ap_state :: process_state
  ap_shuttingDown :: bool
  ap_log :: "step list"

definition api_run :: "doc_lib \<Rightarrow> subscription \<Rightarrow> (string \<Rightarrow> env_value) \<Rightarrow> (step \<Rightarrow> outcome) \<Rightarrow> step \<Rightarrow> outcome" where
  "api_run docs outcome env io s =
     (case s of
        CheckEmail \<Rightarrow> if assertEmailProviderConfigured (boot_env_of env) = None then Succeeds else Fails
      | CheckRamp \<Rightarrow> if assertRampProviderConfigured (boot_env_of env) = None then Succeeds else Fails
      | BuildApp \<Rightarrow> (case buildApp docs outcome env of Inr _ \<Rightarrow> Succeeds | Inl _ \<Rightarrow> Fails)
      | _ \<Rightarrow> io s)"

text \<open>The end of a start that failed: the flush, then the exit; a flush that fails rejects the promise of \<open>start\<close>.\<close>

definition failed_start :: "(step \<Rightarrow> outcome) \<Rightarrow> process_state" where
  "failed_start run = (case run FlushSentry of Succeeds \<Rightarrow> Exited 1 | Fails \<Rightarrow> Rejected | Hangs \<Rightarrow> Waiting)"

definition apiStart :: "(step \<Rightarrow> outcome) \<Rightarrow> api_process" where
  "apiStart run =
     (let (log, result) = attempt run [(CheckEmail, None), (CheckRamp, None), (ConnectDatabase, None), (BuildApp, None), (Listen, None)]
      in case result of
           Succeeds \<Rightarrow> \<lparr>ap_state = Serving, ap_shuttingDown = False, ap_log = InitSentry # log\<rparr>
         | Fails \<Rightarrow> \<lparr>ap_state = failed_start run, ap_shuttingDown = False, ap_log = InitSentry # log @ [FlushSentry]\<rparr>
         | Hangs \<Rightarrow> \<lparr>ap_state = Waiting, ap_shuttingDown = False, ap_log = InitSentry # log\<rparr>)"

definition API_CLEANUP :: "(step \<times> step list option) list" where
  "API_CLEANUP =
     [(CloseApp, None), (StopBridge, None), (CloseRedisClient, None), (DisconnectDatabase, None),
      (QuitQueueConnection, Some [DropQueueConnection]), (FlushSentry, None)]"

text \<open>A signal to a serving process.\<close>

definition apiShutdown :: "(step \<Rightarrow> outcome) \<Rightarrow> api_process \<Rightarrow> api_process" where
  "apiShutdown run p =
     (if ap_shuttingDown p then p
      else (let (log, result) = attempt run API_CLEANUP
            in \<lparr>ap_state = (if result = Hangs then Waiting else Exited 0), ap_shuttingDown = True, ap_log = ap_log p @ log\<rparr>))"

section \<open>The worker process\<close>

text \<open>The promise of \<open>worker.close()\<close>: when it settles, in milliseconds after the signal, and whether it is fulfilled.\<close>

record closing =
  cg_at :: "nat option"
  cg_ok :: bool

text \<open>\<open>Promise.all\<close>: rejected with the first rejection, fulfilled with the last fulfilment.\<close>

definition promiseAll :: "closing list \<Rightarrow> (nat \<times> bool) option" where
  "promiseAll cs =
     (let failures = map (the \<circ> cg_at) (filter (\<lambda>c. \<not> cg_ok c \<and> cg_at c \<noteq> None) cs)
      in if failures \<noteq> [] then Some (Min (set failures), False)
         else if list_all (\<lambda>c. cg_at c \<noteq> None) cs then Some (Max (set (0 # map (the \<circ> cg_at) cs)), True)
         else None)"

record worker_process =
  wp_state :: process_state
  wp_shuttingDown :: bool
  wp_workers :: "closing list"
  wp_log :: "step list"
  wp_cleanupAt :: "nat option"

definition workerStart :: "(step \<Rightarrow> outcome) \<Rightarrow> closing list \<Rightarrow> worker_process" where
  "workerStart run workers =
     (let (log, result) = attempt run [(ConnectDatabase, None), (CreateWorkers, None)]
      in case result of
           Succeeds \<Rightarrow> \<lparr>wp_state = Serving, wp_shuttingDown = False, wp_workers = workers, wp_log = InitSentry # log, wp_cleanupAt = None\<rparr>
         | Fails \<Rightarrow> \<lparr>wp_state = failed_start run, wp_shuttingDown = False, wp_workers = [], wp_log = InitSentry # log @ [FlushSentry],
                      wp_cleanupAt = None\<rparr>
         | Hangs \<Rightarrow> \<lparr>wp_state = Waiting, wp_shuttingDown = False, wp_workers = [], wp_log = InitSentry # log, wp_cleanupAt = None\<rparr>)"

definition WORKER_CLEANUP :: "(step \<times> step list option) list" where
  "WORKER_CLEANUP =
     [(DisconnectDatabase, Some []), (CloseRedisClient, Some []), (QuitQueueConnection, Some [DropQueueConnection]), (FlushSentry, None)]"

definition DRAIN_TIMEOUT :: nat where
  "DRAIN_TIMEOUT = 30000"

definition workerShutdown :: "(step \<Rightarrow> outcome) \<Rightarrow> worker_process \<Rightarrow> worker_process" where
  "workerShutdown run p =
     (if wp_shuttingDown p then p
      else (case promiseAll (wp_workers p) of
              Some (t, _) \<Rightarrow>
                if t < DRAIN_TIMEOUT
                then (let (log, result) = attempt run WORKER_CLEANUP
                      in p\<lparr>wp_state := (case result of Succeeds \<Rightarrow> Exited 0 | Fails \<Rightarrow> Rejected | Hangs \<Rightarrow> Waiting),
                           wp_shuttingDown := True, wp_log := wp_log p @ DrainWorkers # log, wp_cleanupAt := Some t\<rparr>)
                else p\<lparr>wp_state := Exited 1, wp_shuttingDown := True, wp_log := wp_log p @ [DrainWorkers]\<rparr>
            | None \<Rightarrow> p\<lparr>wp_state := Exited 1, wp_shuttingDown := True, wp_log := wp_log p @ [DrainWorkers]\<rparr>))"

section \<open>The shared Redis client\<close>

text \<open>The client in use, how many were constructed, and the ones that were given up.\<close>

record redis_pool =
  rp_client :: "nat option"
  rp_made :: nat
  rp_closed :: "nat list"

definition getRedis :: "redis_pool \<Rightarrow> nat \<times> redis_pool" where
  "getRedis p =
     (case rp_client p of
        Some c \<Rightarrow> (c, p)
      | None \<Rightarrow> (rp_made p, p\<lparr>rp_client := Some (rp_made p), rp_made := Suc (rp_made p)\<rparr>))"

definition closeRedis :: "redis_pool \<Rightarrow> redis_pool" where
  "closeRedis p =
     (case rp_client p of
        None \<Rightarrow> p
      | Some c \<Rightarrow> p\<lparr>rp_client := None, rp_closed := c # rp_closed p\<rparr>)"

section \<open>The error tracker\<close>

record sentry_options =
  so_dsn :: string
  so_environment :: env_value
  so_release :: env_value
  so_debug :: bool
  so_tracesSampleRate :: env_value
  so_profileSessionSampleRate :: env_value
  so_collected :: "(string \<times> bool) list"
  so_includeServerName :: bool

definition SENTRY_COLLECTORS :: "(string \<times> bool) list" where
  "SENTRY_COLLECTORS =
     [(''userInfo'', False), (''cookies'', False), (''httpHeaders.request'', False), (''httpHeaders.response'', False),
      (''httpBodies'', False), (''urlQueryParams'', False), (''databaseQueryData'', False), (''queues'', False),
      (''stackFrameVariables'', False), (''graphQL.document'', False), (''graphQL.variables'', False), (''genAI.inputs'', False),
      (''genAI.outputs'', False)]"

text \<open>\<open>initialised\<close> before and after, and the options of the call of the library, if there is one.\<close>

definition initSentry :: "(string \<Rightarrow> env_value) \<Rightarrow> bool \<Rightarrow> sentry_options option \<times> bool" where
  "initSentry env initialised =
     (if initialised \<or> \<not> truthy (env_text (env ''SENTRY_DSN'')) then (None, initialised)
      else (Some \<lparr>so_dsn = the (env_text (env ''SENTRY_DSN'')),
              so_environment = (if env ''SENTRY_ENVIRONMENT'' = EnvAbsent then env ''NODE_ENV'' else env ''SENTRY_ENVIRONMENT''),
              so_release = env ''SENTRY_RELEASE'', so_debug = env_flag (env ''SENTRY_DEBUG''),
              so_tracesSampleRate = env ''SENTRY_TRACES_SAMPLE_RATE'', so_profileSessionSampleRate = env ''SENTRY_PROFILES_SAMPLE_RATE'',
              so_collected = SENTRY_COLLECTORS, so_includeServerName = False\<rparr>, True))"

text \<open>The call of \<open>Sentry.flush\<close>, with its timeout.\<close>

definition flushSentry :: "bool \<Rightarrow> nat option" where
  "flushSentry initialised = (if \<not> initialised then None else Some 2000)"

text \<open>
  The two handlers of crashes: what is captured, and the code the process exits with once the flush has settled.
  A reason that is not an error becomes one with the reason as its text; \<open>stack\<close> is the stack it gets.
\<close>

definition onUncaughtException :: "scrub_value \<Rightarrow> capture \<times> nat option" where
  "onUncaughtException err = (CaptureException err (VObject []), Some 1)"

definition onUnhandledRejection :: "(scrub_value \<Rightarrow> string) \<Rightarrow> string option \<Rightarrow> scrub_value \<Rightarrow> capture \<times> nat option" where
  "onUnhandledRejection string_of stack reason =
     (case reason of
        VError _ _ _ \<Rightarrow> (CaptureException reason (VObject []), None)
      | _ \<Rightarrow> (CaptureException (VError ''Error'' (string_of reason) stack) (VObject []), None))"

section \<open>Lemmas\<close>

lemma then_do_Inr: "then_do m f = Inr y \<longleftrightarrow> (\<exists>x. m = Inr x \<and> f x = Inr y)"
  by (cases m) simp_all

lemma must_Inr [simp]: "must check = Inr u \<longleftrightarrow> check = None"
  by (simp add: must_def split: option.split)

text \<open>A sequence that succeeds has made every step, and none of them hung.\<close>

lemma attempt_Succeeds:
  "attempt run steps = (made, Succeeds) \<Longrightarrow> (s, None) \<in> set steps \<Longrightarrow> run s = Succeeds"
proof (induction steps arbitrary: made)
  case (Cons step steps)
  obtain s' caught where "step = (s', caught)" by (cases step)
  with Cons show ?case by (cases "run s'"; cases caught) (auto simp: map_prod_def split: prod.splits)
qed simp

lemma Serving_steps:
  assumes "ap_state (apiStart run) = Serving"
  shows "run CheckEmail = Succeeds \<and> run CheckRamp = Succeeds \<and> run ConnectDatabase = Succeeds \<and> run BuildApp = Succeeds \<and> run Listen = Succeeds"
proof -
  let ?steps = "[(CheckEmail, None), (CheckRamp, None), (ConnectDatabase, None), (BuildApp, None), (Listen, None)]"
  obtain made result where a: "attempt run ?steps = (made, result)" by (cases "attempt run ?steps")
  then have "result = Succeeds"
    using assms unfolding apiStart_def a
    by (cases result) (simp_all add: failed_start_def split: outcome.splits)
  from attempt_Succeeds [OF a [unfolded this]] show ?thesis by simp
qed

lemma buildApp_Inr:
  assumes "buildApp docs outcome env = Inr app"
  shows "assertEmailProviderConfigured (boot_env_of env) = None" "assertRampProviderConfigured (boot_env_of env) = None"
    "parseAllowedOrigins (is_production env) (nullish (env_text (env ''ALLOWED_ORIGINS'')) []) = Inr (ac_origins app)"
    "ac_routes app = liveRoutes" "is_production env \<Longrightarrow> ac_docs app = None"
  using assms by (auto simp: buildApp_def then_do_Inr shouldServeApiDocs_def split: if_splits)

lemma parsed_origins:
  "parseAllowedOrigins production raw = Inr origins \<Longrightarrow>
   origins \<noteq> [] \<and> (production \<longrightarrow> list_all (\<lambda>origin. startsWith origin ''https://'') origins)"
  by (auto simp: parseAllowedOrigins_def Let_def split: if_splits)

lemma loaded_email_provider:
  assumes "load_env z raw = Inr env"
  shows "mv_provider (bt_email (boot_env_of env)) \<in> {''resend'', ''sendgrid'', ''ses''}"
proof -
  have "\<exists>s. env ''EMAIL_PROVIDER'' = EnvText s \<and> text_ok z (OneOf EMAIL_PROVIDERS) s"
    by (rule text_values(2) [where d = "''resend''", OF parsed_field [OF assms]])
      (simp_all add: envSchema_def EMAIL_PROVIDERS_def)
  then show ?thesis by (auto simp: boot_env_of_def email_env_of_def EMAIL_PROVIDERS_def)
qed

section \<open>Properties\<close>

text \<open>C29: What the API process listens with is whole: a process that reaches the listener was built from the checked environment, serves
  exactly the routes of the program and an explicit list of origins, and in production it hands out no codes in responses, both of its
  providers can be built, every origin is an https one and the documentation is not served.
\<close>

theorem listening_server_is_configured:
  assumes "load_env z raw = Inr env" "ap_state (apiStart (api_run docs outcome env io)) = Serving"
  shows "\<exists>app. buildApp docs outcome env = Inr app \<and> ac_routes app = liveRoutes \<and> ac_origins app \<noteq> [] \<and>
    (is_production env \<longrightarrow>
       env ''DEV_VERIFICATION_MODE'' \<noteq> EnvFlag True \<and> isEmailProviderConfigured mail (email_env_of env) \<and>
       isRampProviderConfigured (ramp_config_of lib now nonce timestamp (boot_env_of env)) \<and>
       list_all (\<lambda>origin. startsWith origin ''https://'') (ac_origins app) \<and> ac_docs app = None)"
proof -
  have run: "api_run docs outcome env io BuildApp = Succeeds" using Serving_steps [OF assms(2)] by blast
  then obtain app where app: "buildApp docs outcome env = Inr app"
    by (auto simp: api_run_def split: sum.splits)
  note built = buildApp_Inr [OF app]
  have production: "env ''DEV_VERIFICATION_MODE'' \<noteq> EnvFlag True \<and> isEmailProviderConfigured mail (email_env_of env) \<and>
       isRampProviderConfigured (ramp_config_of lib now nonce timestamp (boot_env_of env))" if "is_production env"
  proof -
    have boot: "bt_production (boot_env_of env)" using that by (simp add: is_production_def boot_env_of_def)
    have "\<not> bt_devVerificationMode (boot_env_of env)" and mail: "isEmailProviderConfigured mail (bt_email (boot_env_of env))"
      using built(1) boot missing_email_iff [OF loaded_email_provider [OF assms(1)], of mail]
      by (auto simp: assertEmailProviderConfigured_def Let_def split: if_splits)
    moreover have "isRampProviderConfigured (ramp_config_of lib now nonce timestamp (boot_env_of env))"
      using built(2) boot unfolding ramp_configured_iff
      by (cases "bt_rampChoice (boot_env_of env)") (simp_all add: assertRampProviderConfigured_def missing_keys_Nil Let_def split: if_splits)
    ultimately show ?thesis by (simp add: boot_env_of_def)
  qed
  show ?thesis using app built production parsed_origins [OF built(3)] by blast
qed

definition demo_production :: "string \<Rightarrow> string option" where
  "demo_production = map_of [(''NODE_ENV'', ''production''), (''DATABASE_URL'', ''postgresql://db''), (''REDIS_URL'', ''redis://cache''),
     (''JWT_SECRET'', ''0123456789abcdef0123456789abcdef''), (''RESEND_API_KEY'', ''k''), (''RAMP_PROVIDER'', ''yellowcard''),
     (''YELLOW_CARD_API_KEY'', ''k''), (''YELLOW_CARD_API_SECRET'', ''s''), (''ALLOWED_ORIGINS'', ''https://a'')]"

lemma demo_production_loads: "\<exists>env. load_env demo_env_zod demo_production = Inr env"
proof -
  have "list_all (\<lambda>(key, rule). parse_field demo_env_zod rule (demo_production key) \<noteq> None) envSchema"
    by (simp add: envSchema_def demo_production_def demo_env_zod_def checked_def coerced_def EMAIL_PROVIDERS_def RAMP_PROVIDERS_def)
  then show ?thesis
    by (auto simp: load_env_def parse_env_def Let_def filter_empty_conv list_all_iff)
qed

lemmas env_lookup = envSchema_def map_of.simps fun_upd_apply fst_conv snd_conv literal_eq

lemma demo_production_values:
  assumes "load_env demo_env_zod demo_production = Inr env"
  shows "env ''NODE_ENV'' = EnvText ''production''" "env ''DEV_VERIFICATION_MODE'' = EnvFlag False"
    "env ''EMAIL_PROVIDER'' = EnvText ''resend''" "env ''RESEND_API_KEY'' = EnvText ''k''" "env ''RAMP_PROVIDER'' = EnvText ''yellowcard''"
    "env ''YELLOW_CARD_API_KEY'' = EnvText ''k''" "env ''YELLOW_CARD_API_SECRET'' = EnvText ''s''"
    "env ''ALLOWED_ORIGINS'' = EnvText ''https://a''"
proof -
  note field = parsed_field [OF assms]
  have rules: "map_of envSchema ''NODE_ENV'' = Some (TextDefault (OneOf [''development'', ''test'', ''production'']) ''development'')"
     "map_of envSchema ''DEV_VERIFICATION_MODE'' = Some FlagDefaultFalse" 
     "map_of envSchema ''EMAIL_PROVIDER'' = Some (TextDefault (OneOf EMAIL_PROVIDERS) ''resend'')"
     "map_of envSchema ''RESEND_API_KEY'' = Some (TextOptional (MinLength 1))"
     "map_of envSchema ''RAMP_PROVIDER'' = Some (TextDefault (OneOf RAMP_PROVIDERS) ''bitnob'')"
     "map_of envSchema ''YELLOW_CARD_API_KEY'' = Some (TextOptional (MinLength 1))"
     "map_of envSchema ''YELLOW_CARD_API_SECRET'' = Some (TextOptional (MinLength 1))"
    by (simp_all only: env_lookup)
  show "env ''NODE_ENV'' = EnvText ''production''" "env ''DEV_VERIFICATION_MODE'' = EnvFlag False"
    "env ''EMAIL_PROVIDER'' = EnvText ''resend''" "env ''RESEND_API_KEY'' = EnvText ''k''" "env ''RAMP_PROVIDER'' = EnvText ''yellowcard''"
    "env ''YELLOW_CARD_API_KEY'' = EnvText ''k''" "env ''YELLOW_CARD_API_SECRET'' = EnvText ''s''"
    using field [OF rules(1)] field [OF rules(2)] field [OF rules(3)] field [OF rules(4)] field [OF rules(5)] field [OF rules(6)] field [OF rules(7)]
    by (simp_all add: demo_production_def checked_def RAMP_PROVIDERS_def EMAIL_PROVIDERS_def)
  have "\<exists>c d. map_of envSchema ''ALLOWED_ORIGINS'' = Some (TextDefault c d)"
    by (simp only: env_lookup) blast
  then obtain c d where "map_of envSchema ''ALLOWED_ORIGINS'' = Some (TextDefault c d)" by blast
  from field [OF this] show "env ''ALLOWED_ORIGINS'' = EnvText ''https://a''"
    by (simp add: demo_production_def checked_def split: if_splits)
qed

definition demo_docs :: doc_lib where
  "demo_docs = \<lparr>oa_schema = (\<lambda>_. JObject []), oa_shape = (\<lambda>_. None)\<rparr>"

lemma demo_origins: "parseAllowedOrigins True ''https://a'' = Inr [''https://a'']"
  by code_simp

lemma listening_server_is_configured_witness:
  "\<exists>env app. load_env demo_env_zod demo_production = Inr env \<and> is_production env \<and> buildApp demo_docs Subscribed env = Inr app \<and>
     list_all (\<lambda>origin. startsWith origin ''https://'') (ac_origins app)"
proof -
  obtain env where env: "load_env demo_env_zod demo_production = Inr env" using demo_production_loads by blast
  note v = demo_production_values [OF env]
  have p: "is_production env" using v by (simp add: is_production_def)
  have "assertEmailProviderConfigured (boot_env_of env) = None" "assertRampProviderConfigured (boot_env_of env) = None"
    using v by (simp_all add: assertEmailProviderConfigured_def assertRampProviderConfigured_def boot_env_of_def email_env_of_def
        missing_email_keys_def missing_keys_def)
  moreover from this have "\<exists>app. buildApp demo_docs Subscribed env = Inr app"
    using v p demo_origins by (simp add: buildApp_def must_def shouldServeApiDocs_def)
  ultimately have "ap_state (apiStart (api_run demo_docs Subscribed env (\<lambda>_. Succeeds))) = Serving"
    by (auto simp: apiStart_def api_run_def)
  from listening_server_is_configured [OF env this] env p show ?thesis by blast
qed

section \<open>Shutdown\<close>

text \<open>A second signal changes nothing, also when the first shutdown hangs.\<close>

lemma apiShutdown_once: "apiShutdown run' (apiShutdown run p) = apiShutdown run p"
  by (simp add: apiShutdown_def Let_def split: prod.split)

lemma workerShutdown_once: "workerShutdown run' (workerShutdown run p) = workerShutdown run p"
  by (simp add: workerShutdown_def Let_def split: prod.split option.split)

text \<open>
  The API process ends with 0 whatever fails, but the first step that fails ends its cleanup: the database stays
  connected and what the error tracker holds is lost.  It has no deadline: a step that never ends keeps it alive.
\<close>

lemma api_failure_skips_the_rest:
  assumes "\<not> ap_shuttingDown p" "run CloseApp = Fails"
  shows "ap_state (apiShutdown run p) = Exited 0" "ap_log (apiShutdown run p) = ap_log p @ [CloseApp]"
  using assms by (simp_all add: apiShutdown_def API_CLEANUP_def)

lemma api_hang_never_exits:
  assumes "\<not> ap_shuttingDown p" "run CloseApp = Hangs"
  shows "ap_state (apiShutdown run p) = Waiting"
  using assms by (simp add: apiShutdown_def API_CLEANUP_def)

text \<open>The cleanup of the worker: nothing that fails before the flush keeps it from the flush.\<close>

lemma worker_cleanup_reaches_flush:
  assumes "\<And>s. run s \<noteq> Hangs"
  shows "\<exists>made result. attempt run WORKER_CLEANUP = (made @ [FlushSentry], result) \<and>
    {DisconnectDatabase, CloseRedisClient, QuitQueueConnection} \<subseteq> set made \<and> (run FlushSentry = Succeeds \<longrightarrow> result = Succeeds)"
  using assms [of DisconnectDatabase] assms [of CloseRedisClient] assms [of QuitQueueConnection] assms [of FlushSentry]
  by (cases "run DisconnectDatabase"; cases "run CloseRedisClient"; cases "run QuitQueueConnection"; cases "run FlushSentry")
    (simp_all add: WORKER_CLEANUP_def)

text \<open>\<open>Promise.all\<close> fulfilled: every promise has settled by then.\<close>

lemma promiseAll_fulfilled:
  assumes "promiseAll cs = Some (t, True)" "c \<in> set cs"
  shows "\<exists>e \<le> t. cg_at c = Some e"
proof -
  have all: "list_all (\<lambda>c. cg_at c \<noteq> None) cs" and t: "t = Max (set (0 # map (the \<circ> cg_at) cs))"
    using assms(1) by (auto simp: promiseAll_def Let_def split: if_splits)
  obtain e where "cg_at c = Some e" using all assms(2) by (auto simp: list_all_iff)
  moreover have "the (cg_at c) \<le> t" unfolding t using assms(2) by (intro Max_ge) auto
  ultimately show ?thesis by auto
qed

text \<open>\<open>Promise.all\<close> rejected: with the first failure, whether or not the others have settled.\<close>

lemma first_rejection_does_not_wait:
  "promiseAll [\<lparr>cg_at = Some 5, cg_ok = False\<rparr>, \<lparr>cg_at = Some 20000, cg_ok = True\<rparr>] = Some (5, False)"
  by (simp add: promiseAll_def)

text \<open>A worker whose job runs on is not waited for once the other one has failed to close.\<close>

definition running_at :: "nat \<Rightarrow> closing \<Rightarrow> bool" where
  "running_at t c = (case cg_at c of None \<Rightarrow> True | Some e \<Rightarrow> t < e)"

lemma cleanup_under_a_running_job:
  fixes p :: worker_process
  assumes "\<not> wp_shuttingDown p" "wp_workers p = [\<lparr>cg_at = Some 5, cg_ok = False\<rparr>, \<lparr>cg_at = Some 20000, cg_ok = True\<rparr>]"
  shows "wp_cleanupAt (workerShutdown run p) = Some 5 \<and> list_ex (running_at 5) (wp_workers (workerShutdown run p)) \<and>
    DisconnectDatabase \<in> set (wp_log (workerShutdown run p))"
  using assms first_rejection_does_not_wait
  by (simp add: workerShutdown_def DRAIN_TIMEOUT_def running_at_def WORKER_CLEANUP_def Let_def split: prod.split outcome.split)



section \<open>The shared client\<close>

text \<open>Every client that was constructed is the one in use or was given up, and none is both.\<close>

inductive pool_reachable :: "redis_pool \<Rightarrow> bool" where
  fresh: "pool_reachable \<lparr>rp_client = None, rp_made = 0, rp_closed = []\<rparr>"
| used: "pool_reachable p \<Longrightarrow> pool_reachable (snd (getRedis p))"
| closed: "pool_reachable p \<Longrightarrow> pool_reachable (closeRedis p)"

lemma one_client_in_use:
  "pool_reachable p \<Longrightarrow> distinct (rp_closed p) \<and> (\<forall>c. c < rp_made p \<longleftrightarrow> c \<in> set (rp_closed p) \<or> rp_client p = Some c) \<and>
     (\<forall>c. rp_client p = Some c \<longrightarrow> c \<notin> set (rp_closed p))"
proof (induction rule: pool_reachable.induct)
  case (used p)
  show ?case
  proof (cases "rp_client p")
    case None
    then have "rp_made p \<notin> set (rp_closed p)" using used.IH by (metis less_irrefl)
    then show ?thesis using None used.IH by (simp add: getRedis_def less_Suc_eq) blast
  qed (use used.IH in \<open>simp add: getRedis_def\<close>)
next
  case (closed p)
  then show ?case by (cases "rp_client p") (simp_all add: closeRedis_def, blast)
qed simp

section \<open>The error tracker\<close>

text \<open>The library is initialised at most once, only with a key, and collects nothing by itself; without it nothing is flushed.\<close>

lemma initSentry_once: "initSentry env (snd (initSentry env initialised)) = (None, snd (initSentry env initialised))"
  by (simp add: initSentry_def)

lemma nothing_collected: "initSentry env initialised = (Some options, b) \<Longrightarrow> list_all (\<lambda>(_, on). \<not> on) (so_collected options)"
  by (auto simp: initSentry_def SENTRY_COLLECTORS_def split: if_splits)

end
