(* ===== verification/TokenCheck.thy ===== *)
theory TokenCheck
  imports Tokens
begin

text \<open>
  The check of the token registry against the live networks (\<^verbatim>\<open>src/scripts/verify-token-registry.ts\<close>): one row
  per configured token with what the contract answers, and the exit code that gates a deployment.  The node, the
  ABI decoder and the address test are parameters; the printed report is not modelled.
\<close>

section \<open>What the contract answers\<close>

text \<open>The value the decoder returns for a symbol, taken out of its array.\<close>

datatype symbol_value = SymbolText string | SymbolObject string | SymbolNothing

record token_reply =
  rl_code :: string
  rl_decimals :: string
  rl_symbol :: string

text \<open>
  \<open>tl_network\<close> is the chain id the node reports, \<open>tl_read\<close> the three reads of an address, \<open>tl_bigint\<close> is
  \<open>BigInt\<close>, \<open>tl_decode\<close> the decoder of a symbol with \<open>None\<close> where it throws, \<open>tl_text\<close> the text of a
  sequence of hexadecimal bytes.
\<close>

record token_lib =
  tl_rpcUrl :: "chain \<Rightarrow> string option"
  tl_isAddress :: "string \<Rightarrow> bool"
  tl_network :: "chain \<Rightarrow> thrown + int"
  tl_read :: "chain \<Rightarrow> string \<Rightarrow> thrown + token_reply"
  tl_bigint :: "string \<Rightarrow> thrown + nat"
  tl_decode :: "string \<Rightarrow> symbol_value option"
  tl_text :: "string \<Rightarrow> string"

definition nonempty :: "string \<Rightarrow> string option" where
  "nonempty s = (if s = [] then None else Some s)"

definition NUL :: char where
  "NUL = char_of (0 :: nat)"

definition drop_nuls :: "string \<Rightarrow> string" where
  "drop_nuls s = rev (dropWhile (\<lambda>c. c = NUL) (rev s))"

definition printable :: "char \<Rightarrow> bool" where
  "printable c \<longleftrightarrow> 32 \<le> code_of c \<and> code_of c \<le> 126"

definition decodeSymbol :: "token_lib \<Rightarrow> string \<Rightarrow> string option" where
  "decodeSymbol lib hex =
     (if hex = [] \<or> hex = ''0x'' then None
      else (case tl_decode lib hex of
              Some (SymbolText s) \<Rightarrow> nonempty (js_trim (drop_nuls s))
            | Some (SymbolObject s) \<Rightarrow> nonempty (js_trim (filter printable s))
            | Some SymbolNothing \<Rightarrow> None
            | None \<Rightarrow>
                (let body = drop 2 hex
                 in if 128 \<le> length body then nonempty (js_trim (filter (\<lambda>c. c \<noteq> NUL) (tl_text lib (take 64 body)))) else None)))"

section \<open>Rows\<close>

datatype row_status = RowOk | NoCode | DecimalsMismatch | SymbolMismatch | BadAddress | NoRpc | RpcError

record check_row =
  rw_chain :: chain
  rw_chainId :: int
  rw_symbol :: string
  rw_address :: string
  rw_configuredDecimals :: nat
  rw_onchainDecimals :: "nat option"
  rw_onchainSymbol :: "string option"
  rw_hasCode :: bool
  rw_status :: row_status
  rw_detail :: "string option"

definition fresh_row :: "chain \<Rightarrow> int \<Rightarrow> token_config \<Rightarrow> check_row" where
  "fresh_row c chainId token =
     \<lparr>rw_chain = c, rw_chainId = chainId, rw_symbol = tk_symbol token, rw_address = tk_address token,
      rw_configuredDecimals = tk_decimals token, rw_onchainDecimals = None, rw_onchainSymbol = None, rw_hasCode = False,
      rw_status = RowOk, rw_detail = None\<rparr>"

definition rpc_error :: "thrown \<Rightarrow> check_row \<Rightarrow> check_row" where
  "rpc_error e row = row\<lparr>rw_status := RpcError, rw_detail := Some (take 120 (message_of e))\<rparr>"

text \<open>The status of a row whose reads succeeded.\<close>

definition judge :: "check_row \<Rightarrow> check_row" where
  "judge row =
     (if \<not> rw_hasCode row
      then row\<lparr>rw_status := NoCode, rw_detail := Some (''no contract at this address on chain id '' @ show_int (rw_chainId row))\<rparr>
      else if rw_onchainDecimals row \<noteq> None \<and> rw_onchainDecimals row \<noteq> Some (rw_configuredDecimals row)
      then row\<lparr>rw_status := DecimalsMismatch,
               rw_detail := Some (''configured '' @ show_nat (rw_configuredDecimals row) @ '', on-chain '' @ show_nat (the (rw_onchainDecimals row)))\<rparr>
      else if rw_onchainSymbol row \<noteq> None \<and> toUpperCase (the (rw_onchainSymbol row)) \<noteq> toUpperCase (rw_symbol row)
      then row\<lparr>rw_status := SymbolMismatch, rw_detail := Some (''configured '' @ rw_symbol row @ '', on-chain '' @ the (rw_onchainSymbol row))\<rparr>
      else row)"

definition checkToken :: "token_lib \<Rightarrow> chain \<Rightarrow> int \<Rightarrow> token_config \<Rightarrow> check_row" where
  "checkToken lib c chainId token =
     (let row = fresh_row c chainId token
      in if \<not> tl_isAddress lib (tk_address token)
         then row\<lparr>rw_status := BadAddress, rw_detail := Some ''not a valid EVM address''\<rparr>
         else (case tl_read lib c (tk_address token) of
                 Inl e \<Rightarrow> rpc_error e row
               | Inr reply \<Rightarrow>
                   (let row = row\<lparr>rw_hasCode := (rl_code reply \<noteq> ''0x'')\<rparr>
                    in case (if rl_decimals reply \<noteq> ''0x'' then map_sum id Some (tl_bigint lib (rl_decimals reply)) else Inr None) of
                         Inl e \<Rightarrow> rpc_error e row
                       | Inr decimals \<Rightarrow>
                           judge (row\<lparr>rw_onchainDecimals := decimals, rw_onchainSymbol := decodeSymbol lib (rl_symbol reply)\<rparr>))))"

text \<open>The rows of a chain; \<open>Inl\<close> where the node cannot be asked for its network, which ends the script.\<close>

definition checkChain :: "token_lib \<Rightarrow> chain_env \<Rightarrow> chain \<Rightarrow> thrown + check_row list" where
  "checkChain lib env c =
     (case getEvmChainId env c of
        Inl _ \<Rightarrow> Inr []
      | Inr chainId \<Rightarrow>
          (let tokens = listTokens env c (Some chainId)
           in if tokens = [] then Inr []
              else if \<not> truthy (tl_rpcUrl lib c)
              then Inr (map (\<lambda>token. (fresh_row c chainId token)\<lparr>rw_status := NoRpc, rw_detail := Some ''set the chain's RPC URL to verify''\<rparr>) tokens)
              else then_do (tl_network lib c) (\<lambda>actualChainId. Inr (map (checkToken lib c chainId) tokens))))"

fun checkChains :: "token_lib \<Rightarrow> chain_env \<Rightarrow> chain list \<Rightarrow> thrown + check_row list" where
  "checkChains lib env [] = Inr []"
| "checkChains lib env (c # cs) =
     then_do (checkChain lib env c) (\<lambda>rows. then_do (checkChains lib env cs) (\<lambda>others. Inr (rows @ others)))"

definition REGISTRY_CHAINS :: "chain list" where
  "REGISTRY_CHAINS = [ETH, BSC, BASE, POLYGON]"

definition registry_exit :: "token_lib \<Rightarrow> chain_env \<Rightarrow> nat" where
  "registry_exit lib env =
     (case checkChains lib env REGISTRY_CHAINS of
        Inl _ \<Rightarrow> 1
      | Inr rows \<Rightarrow> (let failures = filter (\<lambda>r. rw_status r \<noteq> RowOk) rows in if 0 < length failures then 1 else 0))"

section \<open>Lemmas\<close>

text \<open>What the check asks of a token: a contract at its address that does not contradict the configuration.\<close>

definition confirmed_token :: "token_lib \<Rightarrow> chain \<Rightarrow> token_config \<Rightarrow> bool" where
  "confirmed_token lib c token \<longleftrightarrow>
     tl_isAddress lib (tk_address token) \<and>
     (case tl_read lib c (tk_address token) of
        Inl _ \<Rightarrow> False
      | Inr reply \<Rightarrow>
          rl_code reply \<noteq> ''0x'' \<and>
          (rl_decimals reply = ''0x'' \<or> tl_bigint lib (rl_decimals reply) = Inr (tk_decimals token)) \<and>
          (case decodeSymbol lib (rl_symbol reply) of None \<Rightarrow> True | Some s \<Rightarrow> toUpperCase s = toUpperCase (tk_symbol token)))"

lemma judge_RowOk:
  "rw_status row = RowOk \<Longrightarrow> rw_status (judge row) = RowOk \<longleftrightarrow>
     rw_hasCode row \<and> (case rw_onchainDecimals row of None \<Rightarrow> True | Some d \<Rightarrow> d = rw_configuredDecimals row) \<and>
     (case rw_onchainSymbol row of None \<Rightarrow> True | Some s \<Rightarrow> toUpperCase s = toUpperCase (rw_symbol row))"
  by (cases "rw_onchainDecimals row"; cases "rw_onchainSymbol row") (simp_all add: judge_def)

lemma checkToken_RowOk: "rw_status (checkToken lib c chainId token) = RowOk \<longleftrightarrow> confirmed_token lib c token"
proof (cases "tl_isAddress lib (tk_address token)")
  case False
  then show ?thesis by (simp add: checkToken_def confirmed_token_def)
next
  case True
  show ?thesis
  proof (cases "tl_read lib c (tk_address token)")
    case (Inl e)
    then show ?thesis using True by (simp add: checkToken_def confirmed_token_def rpc_error_def)
  next
    case (Inr reply)
    show ?thesis
      using True Inr
      by (cases "rl_decimals reply = ''0x''"; cases "tl_bigint lib (rl_decimals reply)"; cases "decodeSymbol lib (rl_symbol reply)")
        (auto simp: checkToken_def confirmed_token_def rpc_error_def judge_RowOk fresh_row_def Let_def)
  qed
qed

text \<open>The rows of a chain are all right exactly if it has no tokens or its node confirms every one.\<close>

definition confirmed_chain :: "token_lib \<Rightarrow> chain_env \<Rightarrow> chain \<Rightarrow> bool" where
  "confirmed_chain lib env c \<longleftrightarrow>
     (case getEvmChainId env c of
        Inl _ \<Rightarrow> True
      | Inr chainId \<Rightarrow>
          listTokens env c (Some chainId) = [] \<or>
          truthy (tl_rpcUrl lib c) \<and> (case tl_network lib c of Inl _ \<Rightarrow> False | Inr _ \<Rightarrow> True) \<and>
          list_all (confirmed_token lib c) (listTokens env c (Some chainId)))"

lemma checkChain_confirmed:
  "(\<exists>rows. checkChain lib env c = Inr rows \<and> list_all (\<lambda>r. rw_status r = RowOk) rows) \<longleftrightarrow> confirmed_chain lib env c"
proof (cases "getEvmChainId env c")
  case (Inr chainId)
  show ?thesis
  proof (cases "listTokens env c (Some chainId)")
    case (Cons t ts)
    then show ?thesis using Inr
      by (cases "tl_network lib c") (auto simp: checkChain_def confirmed_chain_def checkToken_RowOk list_all_iff Let_def)
  qed (simp add: checkChain_def confirmed_chain_def Inr)
qed (simp add: checkChain_def confirmed_chain_def)

lemma checkChains_confirmed:
  "(\<exists>rows. checkChains lib env cs = Inr rows \<and> list_all (\<lambda>r. rw_status r = RowOk) rows) \<longleftrightarrow> list_all (confirmed_chain lib env) cs"
proof (induction cs)
  case (Cons c cs)
  show ?case
  proof (cases "checkChain lib env c")
    case (Inl e)
    then show ?thesis using checkChain_confirmed [of lib env c] by simp
  next
    case (Inr rows)
    then show ?thesis using checkChain_confirmed [of lib env c] Cons.IH
      by (cases "checkChains lib env cs") auto
  qed
qed simp

text \<open>
  The exit code that gates a deployment is 0 exactly if every chain with tokens is reachable and every token is
  confirmed there.  A chain without a configured node fails the run: the warning of the script for such entries
  is behind the exit.
\<close>

lemma registry_exit_iff: "registry_exit lib env = 0 \<longleftrightarrow> list_all (confirmed_chain lib env) REGISTRY_CHAINS"
  unfolding checkChains_confirmed [symmetric]
  by (cases "checkChains lib env REGISTRY_CHAINS") (auto simp: registry_exit_def filter_empty_conv list_all_iff Let_def)

text \<open>A contract that answers neither decimals nor a symbol is no token, and is confirmed all the same.\<close>

lemma any_contract_is_confirmed:
  "tl_isAddress lib (tk_address token) \<Longrightarrow> tl_read lib c (tk_address token) = Inr \<lparr>rl_code = ''0x60'', rl_decimals = ''0x'', rl_symbol = ''0x''\<rparr> \<Longrightarrow>
   confirmed_token lib c token"
  by (simp add: confirmed_token_def decodeSymbol_def)

end
