(* ===== verification/ProviderCheck.thy ===== *)
theory ProviderCheck
  imports Sentry Startup
begin

text \<open>
  The check of the configured providers (\<^verbatim>\<open>src/scripts/verify-providers.ts\<close>): the verdict of each check and the
  exit code.  The providers are the ones the program builds; the texts of the report are left out.
\<close>

section \<open>Verdicts\<close>

datatype verdict = VerdictPass | VerdictFail | VerdictSkip

type_synonym check_result = "string \<times> verdict"

definition verdict_of :: "bool \<Rightarrow> verdict" where
  "verdict_of ok = (if ok then VerdictPass else VerdictFail)"

definition wanted :: "string option \<Rightarrow> string \<Rightarrow> bool" where
  "wanted only name \<longleftrightarrow> (case only of None \<Rightarrow> True | Some o' \<Rightarrow> o' = [] \<or> o' = name)"

section \<open>Email\<close>

text \<open>The two messages of the check; \<open>now\<close> is the time in the subject.\<close>

definition probe_message :: "string \<Rightarrow> string \<Rightarrow> email_message" where
  "probe_message to_address now =
     \<lparr>ms_to = to_address, ms_subject = ''Ulmara provider verification '' @ now,
      ms_html = ''<p>Provider verification from <code>npm run verify:providers</code>. No action needed.</p>'',
      ms_text = ''Provider verification from npm run verify:providers. No action needed.''\<rparr>"

definition email_checks :: "email_lib \<Rightarrow> email_env \<Rightarrow> string option \<Rightarrow> string \<Rightarrow> check_result list" where
  "email_checks lib env verifyTo now =
     (if \<not> isEmailProviderConfigured lib env then [(''email'', VerdictSkip)]
      else if \<not> truthy verifyTo then [(''email'', VerdictSkip)]
      else (case then_do (getEmailProvider lib env) (\<lambda>provider. ep_send provider (probe_message (the verifyTo) now)) of
              Inl _ \<Rightarrow> [(''email'', VerdictFail)]
            | Inr result \<Rightarrow> [(''email'', verdict_of (4 \<le> length (mr_messageId result)))])) @
     (if isEmailProviderConfigured lib env \<and> truthy verifyTo
      then [(''email:trySendEmail (non-throwing path)'',
             verdict_of (trySendEmail lib env (the verifyTo) ''Ulmara fallback-path check'' ''<p>fallback path</p>'' ''fallback path''))]
      else [])"

section \<open>Error tracking\<close>

definition CANARY :: "(string \<times> string) list" where
  "CANARY =
     [(''event_id'', ''verify''), (''pin'', ''111111''), (''pinHash'', ''$2a$12$abcdefghijklmnopqrstuv''), (''password'', ''hunter2''),
      (''token'', ''eyJhbGciOiJIUzI1NiJ9.signature''), (''authorization'', ''Bearer abc''), (''apiKey'', ''re_live_secret''),
      (''databaseUrl'', ''postgres://user:pw@host/db''), (''safe'', ''keep-me'')]"

definition CANARY_SECRETS :: "string list" where
  "CANARY_SECRETS = [''pin'', ''pinHash'', ''password'', ''token'', ''authorization'', ''apiKey'', ''databaseUrl'']"

definition canary_event :: scrub_value where
  "canary_event = VObject (map (\<lambda>(key, s). (key, VString s)) CANARY)"

text \<open>\<open>stringify\<close> is \<open>JSON.stringify\<close>.\<close>

definition leaks :: "(scrub_value \<Rightarrow> string) \<Rightarrow> scrub_value \<Rightarrow> string list" where
  "leaks stringify event =
     filter (\<lambda>key. js_includes (stringify event) (nullish (map_of CANARY key) ''undefined'')) CANARY_SECRETS"

definition keeps_safe :: "scrub_value \<Rightarrow> bool" where
  "keeps_safe event = (case event of VObject entries \<Rightarrow> map_of entries ''safe'' = Some (VString ''keep-me'') | _ \<Rightarrow> False)"

text \<open>\<open>emitted\<close>: whether the capture and the flush return.\<close>

definition sentry_checks :: "(scrub_value \<Rightarrow> string) \<Rightarrow> string option \<Rightarrow> bool \<Rightarrow> check_result list" where
  "sentry_checks stringify dsn emitted =
     (let event = scrubSentryEvent canary_event
      in [(''sentry:scrubbing'',
           if 0 < length (leaks stringify event) then VerdictFail else if \<not> keeps_safe event then VerdictFail else VerdictPass),
          (''sentry:transport'',
           if \<not> truthy dsn then VerdictSkip else if \<not> isSentryEnabled dsn then VerdictFail else verdict_of emitted)])"

section \<open>Ramp provider\<close>

fun invalid_key :: "string \<Rightarrow> bool" where
  "invalid_key [] = False"
| "invalid_key (c # cs) \<longleftrightarrow>
     (startsWith (c # cs) ''invalid'' \<and> js_includes (takeWhile (\<lambda>d. code_of d \<noteq> 10 \<and> code_of d \<noteq> 13) (drop 7 (c # cs))) ''key'') \<or> invalid_key cs"

text \<open>\<open>/401|403|unauthor|invalid.*key|credential/i\<close>\<close>

definition auth_failure :: "string \<Rightarrow> bool" where
  "auth_failure text =
     (let m = toLowerCase text
      in js_includes m ''401'' \<or> js_includes m ''403'' \<or> js_includes m ''unauthor'' \<or> invalid_key m \<or> js_includes m ''credential'')"

text \<open>\<open>hmac\<close> is the provider's digest of a body under a secret, in its encoding.\<close>

definition signature_problems :: "(string \<Rightarrow> string \<Rightarrow> string) \<Rightarrow> ramp_provider \<Rightarrow> string \<Rightarrow> string \<Rightarrow> string list" where
  "signature_problems hmac provider secret body =
     (let good = hmac secret body
      in (if \<not> rp_verifyWebhookSignature provider body (Some good) then [''rejected a VALID signature''] else []) @
         (if rp_verifyWebhookSignature provider body None then [''accepted a MISSING signature''] else []) @
         (if rp_verifyWebhookSignature provider (body @ '' '') (Some good) then [''accepted a signature over TAMPERED body''] else []) @
         (if rp_verifyWebhookSignature provider body (Some (hmac ''wrong-secret'' body)) then [''accepted a FORGED signature''] else []))"

definition ramp_checks :: "(string \<Rightarrow> string \<Rightarrow> string) \<Rightarrow> ramp_config \<Rightarrow> string option \<Rightarrow> string \<Rightarrow> check_result list" where
  "ramp_checks hmac config secret body =
     (if \<not> isRampProviderConfigured config then [(''ramp'', VerdictSkip)]
      else (case getRampProvider config of
              Inl _ \<Rightarrow> [(''ramp'', VerdictFail)]
            | Inr provider \<Rightarrow>
                [(''ramp:signature'',
                  if \<not> truthy secret then VerdictSkip
                  else verdict_of (length (signature_problems hmac provider (the secret) body) = 0)),
                 (''ramp:api reachable'',
                  case rp_getStatus provider ''verify-nonexistent-reference-000000'' of
                    Inr _ \<Rightarrow> VerdictPass
                  | Inl e \<Rightarrow> if auth_failure (message_of e) then VerdictFail else VerdictPass)]))"

section \<open>Summary\<close>

record provider_checks =
  pv_mail :: email_lib
  pv_mailEnv :: email_env
  pv_verifyTo :: "string option"
  pv_now :: string
  pv_stringify :: "scrub_value \<Rightarrow> string"
  pv_dsn :: "string option"
  pv_emitted :: bool
  pv_hmac :: "string \<Rightarrow> string \<Rightarrow> string"
  pv_ramp :: ramp_config
  pv_secret :: "string option"
  pv_body :: string

definition provider_results :: "provider_checks \<Rightarrow> string option \<Rightarrow> check_result list" where
  "provider_results c only =
     (if wanted only ''email'' then email_checks (pv_mail c) (pv_mailEnv c) (pv_verifyTo c) (pv_now c) else []) @
     (if wanted only ''sentry'' then sentry_checks (pv_stringify c) (pv_dsn c) (pv_emitted c) else []) @
     (if wanted only ''ramp'' then ramp_checks (pv_hmac c) (pv_ramp c) (pv_secret c) (pv_body c) else [])"

definition provider_exit :: "bool \<Rightarrow> check_result list \<Rightarrow> nat" where
  "provider_exit requireAll results =
     (let failed = filter (\<lambda>r. snd r = VerdictFail) results; skipped = filter (\<lambda>r. snd r = VerdictSkip) results
      in if 0 < length failed \<or> requireAll \<and> 0 < length skipped then 1 else 0)"

section \<open>Lemmas\<close>

lemma provider_exit_require: "provider_exit True results = 0 \<longleftrightarrow> list_all (\<lambda>r. snd r = VerdictPass) results"
proof -
  have "snd r = VerdictPass \<longleftrightarrow> snd r \<noteq> VerdictFail \<and> snd r \<noteq> VerdictSkip" for r :: check_result
    by (cases "snd r") simp_all
  then show ?thesis by (auto simp: provider_exit_def Let_def filter_empty_conv list_all_iff)
qed

lemma provider_exit_opportunistic: "provider_exit False results = 0 \<longleftrightarrow> list_all (\<lambda>r. snd r \<noteq> VerdictFail) results"
  by (auto simp: provider_exit_def Let_def filter_empty_conv list_all_iff)

text \<open>The scrubbing redacts every secret of the canary and keeps the rest.\<close>

lemma canary_scrubbed:
  "scrubSentryEvent canary_event =
     VObject (map (\<lambda>(key, s). (key, VString (if key \<in> set CANARY_SECRETS then REDACTED else s))) CANARY)"
  by code_simp

lemma canary_keeps_safe: "keeps_safe (scrubSentryEvent canary_event)"
  unfolding canary_scrubbed by (simp add: keeps_safe_def CANARY_def CANARY_SECRETS_def)

text \<open>A provider that cannot be reached is recorded as reachable.\<close>

lemma unreachable_provider_passes:
  assumes "getRampProvider config = Inr provider" "rp_getStatus provider ''verify-nonexistent-reference-000000'' = Inl (PlainError ''fetch failed'')"
  shows "(''ramp:api reachable'', VerdictPass) \<in> set (ramp_checks hmac config secret body)"
proof -
  have "\<not> auth_failure ''fetch failed''" by code_simp
  then show ?thesis using assms by (simp add: ramp_checks_def isRampProviderConfigured_def)
qed

end
