(* ===== verification/Spec2Isabelle.thy ===== *)
theory Spec2Isabelle
  imports PinRace TxWorker RampOrders Lifecycle TokenCheck ProviderCheck
begin

text \<open>
  \<^bold>\<open>The program.\<close>  The repository is the backend of a wallet application: an HTTP and WebSocket API over
  Fastify, and a worker process that drains two BullMQ queues.  A request passes the pre-handlers of its route, a
  controller that parses it with a zod schema, and a service; the services keep their rows in Postgres through
  Prisma, their short-lived codes and counters in Redis, and talk to the chains through one adapter per chain and
  to a fiat ramp and an email provider through adapters of their own.  Accepted transfers and ramp orders become
  jobs; the worker polls the chain or the provider until the row has a final status and publishes events to the
  sockets of the user.

  \<^bold>\<open>How the model reads.\<close>  The database is the record \<open>world\<close> of \<open>Schema\<close>: a list of rows per table,
  with the constraints of \<^verbatim>\<open>src/prisma/schema.prisma\<close> as the failing branch of \<open>create_row\<close>.  An operation
  of a service takes the world and returns a sum -- \<open>Inl\<close> the thrown value, \<open>Inr\<close> the answer -- with the new
  world.  Where the code awaits between a read and a write and a claim depends on it, the operation has an argument
  \<open>mid\<close>, any change other requests make at that point; \<open>quiet\<close> is the one that changes nothing.  Errors are the
  constructors of \<open>thrown\<close> in \<open>ApiErrors\<close>.  Names follow the source.

  \<^bold>\<open>Theories and the code they model.\<close>
  \<^item> \<open>Prelude\<close>: JavaScript strings, decimal numerals, lists of rows, and the collections \<open>str_simps\<close>,
    \<open>row_simps\<close> and \<open>literal_eq\<close> the proofs use.
  \<^item> \<open>ApiErrors\<close>, \<open>Schema\<close>: error classes and replies (\<^verbatim>\<open>src/src/utils/apiResponse.ts\<close>, \<^verbatim>\<open>prismaError.ts\<close>,
    \<^verbatim>\<open>src/src/middleware/error.middleware.ts\<close>); the tables and their constraints.
  \<^item> \<open>Money\<close>, \<open>LedgerAmount\<close>: decimal amounts and base units (\<^verbatim>\<open>src/src/utils/money.ts\<close>), the amounts of
    ledger rows.
  \<^item> \<open>PinLockout\<close>, \<open>PinRace\<close>: the PIN gate, its counter and lock, and the compare-and-swap loop under every
    interleaving (\<^verbatim>\<open>src/src/services/auth/pinLockout.service.ts\<close>).
  \<^item> \<open>OtpStore\<close>: verification codes with their Redis script (\<^verbatim>\<open>verificationCodeStore.ts\<close>).
  \<^item> \<open>Jwt\<close>, \<open>Auth\<close>: session tokens with key rotation, the two gates, and the service
    (\<^verbatim>\<open>src/src/config/jwt.ts\<close>, \<^verbatim>\<open>auth.middleware.ts\<close>, \<^verbatim>\<open>auth.service.ts\<close>).
  \<^item> \<open>Sockets\<close>: rooms, the registration of sockets and the event bridge (\<^verbatim>\<open>src/src/websocket\<close>).
  \<^item> \<open>Accounts\<close>: account ids, settings, contacts and payment requests.
  \<^item> \<open>Tokens\<close>, \<open>Spl\<close>: the ERC-20 and SPL registries, and the byte layout of SPL instructions
    (\<^verbatim>\<open>src/src/chains/tokens\<close>, \<^verbatim>\<open>src/src/chains/solana\<close>).
  \<^item> \<open>Json\<close>, \<open>Chains\<close>, \<open>Adapters\<close>, \<open>Networks\<close>: JSON values, the EVM adapter and the address checks, the
    Solana, TON, TRON and Bitcoin adapters, and the network profiles (\<^verbatim>\<open>src/src/chains\<close>,
    \<^verbatim>\<open>src/src/blockchain\<close>).
  \<^item> \<open>Transactions\<close>, \<open>ExternalTransfer\<close>, \<open>ExternalSubmit\<close>, \<open>TxWorker\<close>: transfers between users, the
    prepared intents of on-device signing with the check of the signed bytes, their submission, and the worker
    (\<^verbatim>\<open>src/src/services/transaction\<close>, \<^verbatim>\<open>src/src/jobs/transaction.worker.ts\<close>).
  \<^item> \<open>RampTypes\<close>, \<open>Bitnob\<close>, \<open>YellowCard\<close>, \<open>RampService\<close>, \<open>RampWebhooks\<close>, \<open>RampOrders\<close>: the ramp, its
    two adapters, webhooks and reconciliation (\<^verbatim>\<open>src/src/services/ramp\<close>, \<^verbatim>\<open>src/src/jobs/ramp.worker.ts\<close>).
  \<^item> \<open>Wallets\<close>, \<open>RequestSchemas\<close>, \<open>Controllers\<close>, \<open>RateLimit\<close>, \<open>Routes\<close>: registered addresses and
    balances, the zod schemas of requests, the controllers, the limiters, and every route with its pre-handlers in
    order.
  \<^item> \<open>Email\<close>, \<open>Sentry\<close>, \<open>Health\<close>, \<open>Operations\<close>: the three email adapters with the AWS signature, the
    scrubbing of what is reported, readiness and queue depths, and the guarded snapshot of the configuration.
  \<^item> \<open>Startup\<close>, \<open>EnvSchema\<close>, \<open>OpenApi\<close>, \<open>Lifecycle\<close>: the checks at the start, the schema of the environment
    (\<^verbatim>\<open>src/src/config/env.ts\<close>), the generated document and its drift check (\<^verbatim>\<open>src/src/utils/openapi.ts\<close>), and
    the start and shutdown of both processes (\<^verbatim>\<open>src/src/server\<close>, \<^verbatim>\<open>src/src/worker/index.ts\<close>).
  \<^item> \<open>TokenCheck\<close>, \<open>ProviderCheck\<close>: the two operational checks with verdicts of their own
    (\<^verbatim>\<open>src/scripts/verify-token-registry.ts\<close>, \<^verbatim>\<open>src/scripts/verify-providers.ts\<close>).

  \<^bold>\<open>What the lemmas show.\<close>  Money moves only as prepared: a transfer needs an authorised PIN and a checked
  recipient, a signed transaction is accepted exactly if it is the prepared one, an intent is submitted at most once
  under every interleaving, a retry or a double tap adds no row, and the worker records one decision of the chain.
  Credentials hold: the PIN gate refines a counter-or-lock machine, also when attempts race; a code verifies once;
  both gates admit the same sessions; private routes answer 401 before anything else.  Data keeps its form: amounts
  and SPL encodings convert exactly, registrations are all or nothing, events stay in the room of their user, and
  the status of a ramp order is the greatest one a signed webhook reported.  The edges are whole: a loaded
  environment is within its bounds, a listening server is configured, the document describes the routes, snapshots
  and reports show no secret, and the worker drains before it closes its connections.  Where the code does
  something else than it says, the lemma states what it does; the manifest lists these findings.

  \<^bold>\<open>Interfaces.\<close>  Each locale is a contract a client relies on, interpreted on the model of its provider in the
  provider's theory: \<open>keyed_table\<close> (a table with a unique key, in \<open>Schema\<close>), \<open>unit_codec\<close> (the conversion of
  units, in \<open>Money\<close>), \<open>amount_column\<close> (the stored amounts, in \<open>LedgerAmount\<close>), \<open>address_format\<close> (the address test
  of each chain, in \<open>Chains\<close>), \<open>erc20_codec\<close> (the encoder of token calls, in \<open>ExternalTransfer\<close>) and
  \<open>ramp_contract\<close> (a ramp adapter, in \<open>RampTypes\<close>, interpreted in \<open>Bitnob\<close> and \<open>YellowCard\<close>).

  \<^bold>\<open>Bounds.\<close>  Loops of the source that are bounded are modelled with their bound: five pages of payouts in the search
  of the reconciliation, five draws of an account id, depth seven and fifty items of the scrubbing walk.  The
  compare-and-swap loop of the PIN counter has no bound; it is a \<open>partial_function\<close>, and it returns at the
  latest in the first turn nobody disturbs.  No definition runs on fuel.

  \<^bold>\<open>Parameters.\<close>  Code outside \<^verbatim>\<open>src/\<close> is an argument of the definitions that use it: bcrypt, the JWT library,
  digests, fetch, the chain SDKs, the format tests of zod, BullMQ, Fastify, and the clock and random sources.  What a
  proof needs of them is a hypothesis of the theorem or an assumption of a locale.

  \<^bold>\<open>Conventions.\<close>  A string is a list of bytes; case conversion and white space are the ASCII ones.  Objects looked up
  by a request's key are seen with their own keys only.  A rejected input carries no list of issues.  A value of the
  scrubbing walk is a finite tree.  The order of log lines is not modelled, nor is logging as such.

  \<^bold>\<open>Not modelled.\<close>  The HTML page of the documentation and the conversion of zod schemas to JSON Schema (output of a
  library); the options of the logger, of the Prisma client and of the queue connection (configuration of
  libraries); the Solana and Redis scripts under \<^verbatim>\<open>src/scripts\<close>, which drive live services step by step; the load
  tests, the unit tests and the linter configuration.
\<close>

end
